(* ===== verification/Prelude.thy ===== *)
theory Prelude
  imports Main "HOL-Library.Word" "HOL-Library.Sublist"
begin

text \<open>
  What every component shares: the outcome of a fallible Rust call (a value, an error or a
  panic), the error values the tools build with \<open>fail!\<close> and \<open>error!\<close>, effectful calls as
  functions on an explicit world, the combinators that stand for \<open>?\<close>, \<open>map_err\<close> and
  \<open>ok_or_else\<close>, and the lemma collections (\<open>run\<close> evaluates a chain of calls, \<open>ok_iff\<close>
  inverts a successful one) the component proofs are driven by.
\<close>

section \<open>Names for the model's types\<close>

type_synonym u8 = "8 word"
type_synonym u32 = "32 word"
type_synonym i32 = "32 word"
type_synonym u64 = "64 word"
type_synonym bytes = "8 word list"

named_theorems run "evaluation of a chain of calls"
named_theorems ok_iff "inversion of a call that returned a value"
named_theorems calm "outcomes and calls that are no panic"

section \<open>Outcomes\<close>

text \<open>
  \<open>Result\<close> of the source, with a third case for a panic (an \<open>unwrap\<close>, an \<open>expect\<close>, a slice
  out of range, an overflow with checks on), which unwinds through every caller.
\<close>

datatype ('a, 'e) result = Ok 'a | Err 'e | Panic string

text \<open>The kinds of \<open>std::num::ParseIntError\<close>.\<close>

datatype int_error = EmptyInt | InvalidDigit | PosOverflow | NegOverflow

text \<open>
  The errors of the tools. \<open>Msg\<close> is a literal message, \<open>Context\<close> a message wrapped around the
  error it reports, \<open>Lib\<close> an error made by a library and carried as the text it prints.
\<close>

datatype error =
    Msg string
  | Context string error
  | ParseInt int_error
  | SliceToArray
  | FromUtf8
  | Io string
  | Lib string
  | WrongHash string nat
  | WrongDowncast string
  | WrongResponse error
  | ErrorResponse

type_synonym 'a res = "('a, error) result"

definition is_ok :: "('a, 'e) result \<Rightarrow> bool" where
  "is_ok r = (case r of Ok _ \<Rightarrow> True | _ \<Rightarrow> False)"

definition is_panic :: "('a, 'e) result \<Rightarrow> bool" where
  "is_panic r = (case r of Panic _ \<Rightarrow> True | _ \<Rightarrow> False)"

definition and_then :: "('a, 'e) result \<Rightarrow> ('a \<Rightarrow> ('b, 'e) result) \<Rightarrow> ('b, 'e) result" where
  "and_then r f = (case r of Ok a \<Rightarrow> f a | Err e \<Rightarrow> Err e | Panic s \<Rightarrow> Panic s)"

definition map_err :: "('e \<Rightarrow> 'f) \<Rightarrow> ('a, 'e) result \<Rightarrow> ('a, 'f) result" where
  "map_err g r = (case r of Ok a \<Rightarrow> Ok a | Err e \<Rightarrow> Err (g e) | Panic s \<Rightarrow> Panic s)"

definition ok_or :: "'e \<Rightarrow> 'a option \<Rightarrow> ('a, 'e) result" where
  "ok_or e x = (case x of None \<Rightarrow> Err e | Some a \<Rightarrow> Ok a)"

definition require :: "bool \<Rightarrow> 'e \<Rightarrow> (unit, 'e) result" where
  "require b e = (if b then Ok () else Err e)"

lemma is_ok_simps [simp]:
  "is_ok (Ok a)" "\<not> is_ok (Err e)" "\<not> is_ok (Panic s)"
  by (simp_all add: is_ok_def)

lemma is_panic_simps [simp]:
  "\<not> is_panic (Ok a)" "\<not> is_panic (Err e)" "is_panic (Panic s)"
  by (simp_all add: is_panic_def)

lemma and_then_simps [simp]:
  "and_then (Ok a) f = f a"
  "and_then (Err e) f = Err e"
  "and_then (Panic s) f = Panic s"
  by (simp_all add: and_then_def)

lemma map_err_simps [simp]:
  "map_err g (Ok a) = Ok a"
  "map_err g (Err e) = Err (g e)"
  "map_err g (Panic s) = Panic s"
  by (simp_all add: map_err_def)

lemma ok_or_simps [simp]:
  "ok_or e None = Err e"
  "ok_or e (Some a) = Ok a"
  by (simp_all add: ok_or_def)

lemma require_simps [simp]:
  "require True e = Ok ()"
  "require False e = Err e"
  by (simp_all add: require_def)

lemma and_then_Ok_iff [ok_iff]:
  "and_then r f = Ok b \<longleftrightarrow> (\<exists>a. r = Ok a \<and> f a = Ok b)"
  by (cases r) auto

lemma map_err_Ok_iff [ok_iff]: "map_err g r = Ok a \<longleftrightarrow> r = Ok a"
  by (cases r) auto

lemma map_err_Err_iff: "map_err g r = Err f \<longleftrightarrow> (\<exists>e. r = Err e \<and> f = g e)"
  by (cases r) auto

lemma ok_or_Ok_iff [ok_iff]: "ok_or e x = Ok a \<longleftrightarrow> x = Some a"
  by (cases x) auto

lemma require_Ok_iff [ok_iff]: "require b e = Ok u \<longleftrightarrow> b"
  by (simp add: require_def)

lemma if_Err_Ok_iff [ok_iff]: "(if b then Err e else r) = Ok a \<longleftrightarrow> \<not> b \<and> r = Ok a"
  by simp

section \<open>Effectful calls\<close>

text \<open>
  An effectful call takes the world and returns an outcome with the world it leaves behind; the
  effects made before an error or a panic stay made.
\<close>

type_synonym ('w, 'a) io = "'w \<Rightarrow> 'a res \<times> 'w"

definition io_bind :: "('w, 'a) io \<Rightarrow> ('a \<Rightarrow> ('w, 'b) io) \<Rightarrow> ('w, 'b) io" where
  "io_bind m f w = (case m w of
     (Ok a, w') \<Rightarrow> f a w'
   | (Err e, w') \<Rightarrow> (Err e, w')
   | (Panic s, w') \<Rightarrow> (Panic s, w'))"

definition io_lift :: "'a res \<Rightarrow> ('w, 'a) io" where
  "io_lift r w = (r, w)"

definition io_map_err :: "(error \<Rightarrow> error) \<Rightarrow> ('w, 'a) io \<Rightarrow> ('w, 'a) io" where
  "io_map_err g m w = (case m w of (r, w') \<Rightarrow> (map_err g r, w'))"

text \<open>\<open>match\<close> on an outcome: both arms go on, a panic does not.\<close>

definition io_match ::
  "('w, 'a) io \<Rightarrow> ('a \<Rightarrow> ('w, 'b) io) \<Rightarrow> (error \<Rightarrow> ('w, 'b) io) \<Rightarrow> ('w, 'b) io" where
  "io_match m f g w = (case m w of
     (Ok a, w') \<Rightarrow> f a w'
   | (Err e, w') \<Rightarrow> g e w'
   | (Panic s, w') \<Rightarrow> (Panic s, w'))"

text \<open>\<open>expect\<close>: an error becomes a panic with the given message.\<close>

definition io_expect :: "string \<Rightarrow> ('w, 'a) io \<Rightarrow> ('w, 'a) io" where
  "io_expect msg m w = (case m w of
     (Err _, w') \<Rightarrow> (Panic msg, w')
   | other \<Rightarrow> other)"

abbreviation io_ok :: "'a \<Rightarrow> ('w, 'a) io" where
  "io_ok a \<equiv> io_lift (Ok a)"

abbreviation io_err :: "error \<Rightarrow> ('w, 'a) io" where
  "io_err e \<equiv> io_lift (Err e)"

lemma io_lift_run [run]: "io_lift r w = (r, w)"
  by (simp add: io_lift_def)

lemma io_bind_lift [run]:
  "io_bind (io_lift r) f w =
     (case r of Ok a \<Rightarrow> f a w | Err e \<Rightarrow> (Err e, w) | Panic s \<Rightarrow> (Panic s, w))"
  by (simp add: io_bind_def io_lift_def)

lemma io_bind_run:
  "m w = (Ok a, w') \<Longrightarrow> io_bind m f w = f a w'"
  "m w = (Err e, w') \<Longrightarrow> io_bind m f w = (Err e, w')"
  "m w = (Panic s, w') \<Longrightarrow> io_bind m f w = (Panic s, w')"
  by (simp_all add: io_bind_def)

lemma io_bind_Ok_iff [ok_iff]:
  "io_bind m f w = (Ok b, w'') \<longleftrightarrow> (\<exists>a w'. m w = (Ok a, w') \<and> f a w' = (Ok b, w''))"
  by (auto simp: io_bind_def split: prod.splits result.splits)

lemma io_lift_Ok_iff [ok_iff]: "io_lift r w = (Ok a, w') \<longleftrightarrow> r = Ok a \<and> w' = w"
  by (auto simp: io_lift_def)

lemma io_map_err_Ok_iff [ok_iff]: "io_map_err g m w = (Ok a, w') \<longleftrightarrow> m w = (Ok a, w')"
  by (auto simp: io_map_err_def ok_iff split: prod.splits)

lemma is_ok_run: "is_ok (fst r) \<Longrightarrow> \<exists>a w. r = (Ok a, w)"
  by (cases r; cases "fst r") auto

text \<open>The world a chain of calls leaves behind, whatever its outcome.\<close>

lemma snd_io_bind:
  "snd (io_bind m f w) =
     (case m w of (Ok a, w') \<Rightarrow> snd (f a w') | (_, w') \<Rightarrow> w')"
  by (simp add: io_bind_def split: prod.splits result.splits)

lemma snd_io_lift [simp]: "snd (io_lift r w) = w"
  by (simp add: io_lift_def)

lemma snd_io_map_err [simp]: "snd (io_map_err g m w) = snd (m w)"
  by (simp add: io_map_err_def split: prod.splits)

section \<open>Calls that do not panic\<close>

definition no_panic :: "('w, 'a) io \<Rightarrow> bool" where
  "no_panic m \<longleftrightarrow> (\<forall>w. \<not> is_panic (fst (m w)))"

lemma is_panic_and_then [calm]:
  "is_panic (and_then r f) \<longleftrightarrow> is_panic r \<or> (\<exists>a. r = Ok a \<and> is_panic (f a))"
  by (cases r) auto

lemma is_panic_map_err [calm]: "is_panic (map_err g r) = is_panic r"
  by (cases r) auto

lemma is_panic_ok_or [calm]: "\<not> is_panic (ok_or e x)"
  by (cases x) auto

lemma is_panic_fst_bind:
  "is_panic (fst (io_bind m f w)) \<longleftrightarrow>
     is_panic (fst (m w)) \<or> (\<exists>a w'. m w = (Ok a, w') \<and> is_panic (fst (f a w')))"
  by (auto simp: io_bind_def split: prod.splits result.splits)

lemma no_panic_lift [calm]: "no_panic (io_lift r) \<longleftrightarrow> \<not> is_panic r"
  by (simp add: no_panic_def io_lift_def)

lemma no_panic_bind: "no_panic m \<Longrightarrow> (\<And>a. no_panic (f a)) \<Longrightarrow> no_panic (io_bind m f)"
  by (simp add: no_panic_def is_panic_fst_bind)

lemma no_panic_map_err [calm]: "no_panic (io_map_err g m) = no_panic m"
  by (simp add: no_panic_def io_map_err_def is_panic_map_err case_prod_beta)

lemma no_panicD: "no_panic m \<Longrightarrow> m w = (r, w') \<Longrightarrow> \<not> is_panic r"
  by (metis no_panic_def fst_conv)

section \<open>Calls that keep a relation between the world before and after\<close>

text \<open>
  \<open>preserves R m\<close>: whatever \<open>m\<close> returns, the world it leaves is \<open>R\<close>-related to the one it was
  given. For a preorder the chains of calls inherit it; the components use it to show that the
  trace of visible effects only grows.
\<close>

definition preserves :: "('w \<Rightarrow> 'w \<Rightarrow> bool) \<Rightarrow> ('w, 'a) io \<Rightarrow> bool" where
  "preserves R m \<longleftrightarrow> (\<forall>w. R w (snd (m w)))"

text \<open>\<open>on_success R m\<close>: the same of the runs of \<open>m\<close> that return a value.\<close>

definition on_success :: "('w \<Rightarrow> 'w \<Rightarrow> bool) \<Rightarrow> ('w, 'a) io \<Rightarrow> bool" where
  "on_success R m \<longleftrightarrow> (\<forall>w a w'. m w = (Ok a, w') \<longrightarrow> R w w')"

locale world_order =
  fixes R :: "'w \<Rightarrow> 'w \<Rightarrow> bool"
  assumes order_refl: "R w w"
    and order_trans: "R u v \<Longrightarrow> R v w \<Longrightarrow> R u w"
begin

lemma lift_preserves: "preserves R (io_lift r)"
  by (simp add: preserves_def order_refl)

lemma map_err_preserves: "preserves R m \<Longrightarrow> preserves R (io_map_err g m)"
  by (simp add: preserves_def)

lemma bind_preserves:
  assumes "preserves R m" and "\<And>a. preserves R (f a)"
  shows "preserves R (io_bind m f)"
  unfolding preserves_def
proof
  fix w
  obtain r w' where m: "m w = (r, w')"
    by (cases "m w")
  with assms(1) have step: "R w w'"
    by (metis preserves_def snd_conv)
  show "R w (snd (io_bind m f w))"
    using m step assms(2) order_trans
    by (cases r) (auto simp: snd_io_bind preserves_def)
qed

lemma match_preserves:
  assumes "preserves R m" and "\<And>a. preserves R (f a)" and "\<And>e. preserves R (g e)"
  shows "preserves R (io_match m f g)"
  unfolding preserves_def
proof
  fix w
  obtain r w' where m: "m w = (r, w')"
    by (cases "m w")
  with assms(1) have step: "R w w'"
    by (metis preserves_def snd_conv)
  show "R w (snd (io_match m f g w))"
    using m step assms(2,3) order_trans
    by (cases r) (auto simp: io_match_def preserves_def)
qed

lemma expect_preserves: "preserves R m \<Longrightarrow> preserves R (io_expect msg m)"
  by (auto simp: preserves_def io_expect_def split: prod.splits result.splits) (metis snd_conv)+

lemma preservesD: "preserves R m \<Longrightarrow> m w = (r, w') \<Longrightarrow> R w w'"
  by (metis preserves_def snd_conv)

lemma preserves_on_success: "preserves R m \<Longrightarrow> on_success R m"
  using preservesD by (auto simp: on_success_def)

lemma lift_on_success: "on_success R (io_lift r)"
  by (rule preserves_on_success [OF lift_preserves])

lemma bind_on_success:
  "on_success R m \<Longrightarrow> (\<And>a. on_success R (f a)) \<Longrightarrow> on_success R (io_bind m f)"
  unfolding on_success_def io_bind_Ok_iff using order_trans by meson

lemma expect_on_success: "on_success R m \<Longrightarrow> on_success R (io_expect msg m)"
  by (auto simp: on_success_def io_expect_def split: prod.splits result.splits)

end

lemma on_successD: "on_success R m \<Longrightarrow> m w = (Ok a, w') \<Longrightarrow> R w w'"
  by (simp add: on_success_def)

section \<open>Iterators\<close>

text \<open>\<open>Iterator::next\<close> on the parameter list: the head, if any, and the rest.\<close>

fun next_param :: "'a list \<Rightarrow> 'a option \<times> 'a list" where
  "next_param [] = (None, [])"
| "next_param (x # xs) = (Some x, xs)"

lemma snd_next_param: "snd (next_param xs) = tl xs"
  by (cases xs) auto

end
