(* ===== verification/Rust_Std.thy ===== *)
theory Rust_Std
  imports Prelude
begin

text \<open>
  The parts of Rust's language and standard library the tools rely on. A Rust string is the list
  of its UTF-8 bytes, so \<open>len()\<close> is \<open>length\<close>; machine integers are words. Here are
  \<open>from_str\<close> and \<open>to_string\<close> of the integer types, \<open>trim_matches\<close>, \<open>trim_end\<close>,
  \<open>strip_prefix\<close>, \<open>String::from_utf8\<close>, \<open>to_be_bytes\<close>, \<open>as\<close> casts, subtraction with and
  without overflow checks, and the few operations on \<open>f32\<close>. The lemmas give the numerals
  \<open>from_str\<close> accepts, the round trips, and the two interfaces the components use:
  \<open>text_form\<close> (a value printed as text and read back) and \<open>fixed_codec\<close> (a value laid out in a
  fixed number of bytes).
\<close>

section \<open>Integers from text\<close>

definition to_digit :: "char \<Rightarrow> int option" where
  "to_digit c = (let n = of_char c in if 48 \<le> n \<and> n \<le> 57 then Some (n - 48) else None)"

text \<open>
  The loop of \<open>from_str_radix\<close>: the product is checked first, the digit next, then the product's
  overflow is reported, then the sum's.
\<close>

fun digits_loop :: "bool \<Rightarrow> int \<Rightarrow> int \<Rightarrow> int \<Rightarrow> string \<Rightarrow> (int, int_error) result" where
  "digits_loop pos lo hi acc [] = Ok acc"
| "digits_loop pos lo hi acc (c # cs) =
     (let over = (if pos then PosOverflow else NegOverflow) in
      case to_digit c of
        None \<Rightarrow> Err InvalidDigit
      | Some d \<Rightarrow>
          if acc * 10 < lo \<or> hi < acc * 10 then Err over
          else let v = (if pos then acc * 10 + d else acc * 10 - d) in
            if v < lo \<or> hi < v then Err over
            else digits_loop pos lo hi v cs)"

definition int_from_str :: "bool \<Rightarrow> int \<Rightarrow> int \<Rightarrow> string \<Rightarrow> (int, int_error) result" where
  "int_from_str sgnd lo hi s = (case s of
     [] \<Rightarrow> Err EmptyInt
   | c # cs \<Rightarrow>
       if (c = CHR ''+'' \<or> c = CHR ''-'') \<and> cs = [] then Err InvalidDigit
       else if c = CHR ''+'' then digits_loop True lo hi 0 cs
       else if c = CHR ''-'' \<and> sgnd then digits_loop False lo hi 0 cs
       else digits_loop True lo hi 0 s)"

definition i32_from_str :: "string \<Rightarrow> (i32, int_error) result" where
  "i32_from_str s = and_then (int_from_str True (- (2 ^ 31)) (2 ^ 31 - 1) s) (\<lambda>v. Ok (word_of_int v))"

definition i64_from_str :: "string \<Rightarrow> (64 word, int_error) result" where
  "i64_from_str s = and_then (int_from_str True (- (2 ^ 63)) (2 ^ 63 - 1) s) (\<lambda>v. Ok (word_of_int v))"

definition u32_from_str :: "string \<Rightarrow> (u32, int_error) result" where
  "u32_from_str s = and_then (int_from_str False 0 (2 ^ 32 - 1) s) (\<lambda>v. Ok (word_of_int v))"

definition u64_from_str :: "string \<Rightarrow> (u64, int_error) result" where
  "u64_from_str s = and_then (int_from_str False 0 (2 ^ 64 - 1) s) (\<lambda>v. Ok (word_of_int v))"

text \<open>What the loop computes, without the checks: the value of a string of digits.\<close>

definition all_digits :: "string \<Rightarrow> bool" where
  "all_digits s = list_all (\<lambda>c. to_digit c \<noteq> None) s"

fun digits_value :: "int \<Rightarrow> string \<Rightarrow> int" where
  "digits_value acc [] = acc"
| "digits_value acc (c # cs) = digits_value (acc * 10 + the (to_digit c)) cs"

text \<open>The numerals: an optional sign and at least one digit.\<close>

definition numeral_value :: "bool \<Rightarrow> string \<Rightarrow> int option" where
  "numeral_value sgnd s = (case s of
     [] \<Rightarrow> None
   | c # cs \<Rightarrow>
       if c = CHR ''+'' then (if cs \<noteq> [] \<and> all_digits cs then Some (digits_value 0 cs) else None)
       else if c = CHR ''-'' \<and> sgnd
         then (if cs \<noteq> [] \<and> all_digits cs then Some (- digits_value 0 cs) else None)
       else if all_digits s then Some (digits_value 0 s) else None)"

lemma to_digit_Some_iff: "to_digit c = Some d \<longleftrightarrow> 48 \<le> (of_char c :: int) \<and> of_char c \<le> (57::int) \<and> d = of_char c - 48"
  by (auto simp: to_digit_def Let_def)

lemma to_digit_range: "to_digit c = Some d \<Longrightarrow> 0 \<le> d \<and> d \<le> 9"
  by (auto simp: to_digit_Some_iff)

lemma to_digit_sign [simp]: "to_digit CHR ''+'' = None" "to_digit CHR ''-'' = None"
  by (simp_all add: to_digit_def)

lemma all_digits_simps [simp]:
  "all_digits []"
  "all_digits (c # cs) \<longleftrightarrow> to_digit c \<noteq> None \<and> all_digits cs"
  by (simp_all add: all_digits_def)

lemma digits_value_ge: "all_digits cs \<Longrightarrow> 0 \<le> acc \<Longrightarrow> acc \<le> digits_value acc cs"
proof (induction cs arbitrary: acc)
  case Nil
  then show ?case by simp
next
  case (Cons c cs)
  then obtain d where d: "to_digit c = Some d" "0 \<le> d"
    using to_digit_range by auto
  with Cons.prems have "acc \<le> acc * 10 + d" by simp
  also have "\<dots> \<le> digits_value (acc * 10 + d) cs"
    using Cons d by simp
  finally show ?case using d by simp
qed

text \<open>The checked loop returns exactly the values in range, in both directions.\<close>

lemma digits_loop_pos:
  assumes "lo \<le> 0" and "0 \<le> acc" and "acc \<le> hi"
  shows "digits_loop True lo hi acc cs = Ok v \<longleftrightarrow>
    all_digits cs \<and> v = digits_value acc cs \<and> v \<le> hi"
  using assms
proof (induction cs arbitrary: acc)
  case Nil
  then show ?case by auto
next
  case (Cons c cs)
  show ?case
  proof (cases "to_digit c")
    case None
    then show ?thesis by simp
  next
    case (Some d)
    then have d: "0 \<le> d" using to_digit_range by blast
    have ge: "all_digits cs \<Longrightarrow> acc * 10 + d \<le> digits_value (acc * 10 + d) cs"
      using Cons.prems d by (intro digits_value_ge) auto
    show ?thesis
    proof (cases "acc * 10 + d \<le> hi")
      case True
      then show ?thesis using Some Cons d by (simp add: Let_def)
    next
      case False
      then show ?thesis using Some d ge Cons.prems by (auto simp: Let_def)
    qed
  qed
qed

lemma digits_loop_neg:
  assumes "0 \<le> hi" and "0 \<le> acc" and "lo \<le> - acc"
  shows "digits_loop False lo hi (- acc) cs = Ok v \<longleftrightarrow>
    all_digits cs \<and> v = - digits_value acc cs \<and> lo \<le> v"
  using assms
proof (induction cs arbitrary: acc)
  case Nil
  then show ?case by auto
next
  case (Cons c cs)
  show ?case
  proof (cases "to_digit c")
    case None
    then show ?thesis by simp
  next
    case (Some d)
    then have d: "0 \<le> d" using to_digit_range by blast
    have ge: "all_digits cs \<Longrightarrow> acc * 10 + d \<le> digits_value (acc * 10 + d) cs"
      using Cons.prems d by (intro digits_value_ge) auto
    have IH: "lo \<le> - (acc * 10 + d) \<Longrightarrow> digits_loop False lo hi (- (acc * 10 + d)) cs = Ok v \<longleftrightarrow>
        all_digits cs \<and> v = - digits_value (acc * 10 + d) cs \<and> lo \<le> v"
      using Cons.IH [of "acc * 10 + d"] Cons.prems d by simp
    show ?thesis
    proof (cases "lo \<le> - (acc * 10 + d)")
      case True
      then show ?thesis using Some d IH Cons.prems by (auto simp: Let_def)
    next
      case False
      then show ?thesis using Some d ge Cons.prems by (auto simp: Let_def)
    qed
  qed
qed

lemma int_from_str_iff:
  assumes "lo \<le> 0" and "0 \<le> hi"
  shows "int_from_str sgnd lo hi s = Ok v \<longleftrightarrow>
    numeral_value sgnd s = Some v \<and> lo \<le> v \<and> v \<le> hi"
proof -
  have nonneg: "0 \<le> digits_value 0 cs" if "all_digits cs" for cs
    using digits_value_ge [OF that, of 0] by simp
  have pos: "digits_loop True lo hi 0 cs = Ok v \<longleftrightarrow>
      all_digits cs \<and> v = digits_value 0 cs \<and> v \<le> hi" for cs
    using digits_loop_pos [of lo 0 hi] assms by simp
  have neg: "digits_loop False lo hi 0 cs = Ok v \<longleftrightarrow>
      all_digits cs \<and> v = - digits_value 0 cs \<and> lo \<le> v" for cs
    using digits_loop_neg [of hi 0 lo] assms by simp
  show ?thesis
  proof (cases s)
    case Nil
    then show ?thesis by (simp add: int_from_str_def numeral_value_def)
  next
    case (Cons c cs)
    show ?thesis
      using assms nonneg [of cs] nonneg [of s] unfolding Cons
      by (auto simp: int_from_str_def numeral_value_def pos neg
          simp del: digits_loop.simps digits_value.simps)
  qed
qed

lemma i32_from_str_iff:
  "i32_from_str s = Ok w \<longleftrightarrow>
     (\<exists>v. numeral_value True s = Some v \<and> - (2 ^ 31) \<le> v \<and> v < 2 ^ 31 \<and> w = word_of_int v)"
  by (auto simp: i32_from_str_def ok_iff int_from_str_iff)

lemma u64_from_str_iff:
  "u64_from_str s = Ok w \<longleftrightarrow>
     (\<exists>v. numeral_value False s = Some v \<and> 0 \<le> v \<and> v < 2 ^ 64 \<and> w = word_of_int v)"
  by (auto simp: u64_from_str_def ok_iff int_from_str_iff)

lemma u32_from_str_iff:
  "u32_from_str s = Ok w \<longleftrightarrow>
     (\<exists>v. numeral_value False s = Some v \<and> 0 \<le> v \<and> v < 2 ^ 32 \<and> w = word_of_int v)"
  by (auto simp: u32_from_str_def ok_iff int_from_str_iff)

lemma i64_from_str_iff:
  "i64_from_str s = Ok w \<longleftrightarrow>
     (\<exists>v. numeral_value True s = Some v \<and> - (2 ^ 63) \<le> v \<and> v < 2 ^ 63 \<and> w = word_of_int v)"
  by (auto simp: i64_from_str_def ok_iff int_from_str_iff)

text \<open>Parsing an integer never panics.\<close>

lemma digits_loop_not_Panic: "\<not> is_panic (digits_loop pos lo hi acc cs)"
  by (induction cs arbitrary: acc) (auto simp: Let_def split: option.splits)

lemma int_from_str_not_Panic: "\<not> is_panic (int_from_str sgnd lo hi s)"
  by (simp add: int_from_str_def digits_loop_not_Panic del: digits_loop.simps split: list.splits)

lemma i32_from_str_not_Panic: "\<not> is_panic (i32_from_str s)"
  using int_from_str_not_Panic [of True "- (2 ^ 31)" "2 ^ 31 - 1" s]
  by (auto simp: i32_from_str_def and_then_def split: result.splits)

section \<open>Integers to text\<close>

definition digit_char :: "nat \<Rightarrow> char" where
  "digit_char d = char_of (48 + d)"

fun dec_digits :: "nat \<Rightarrow> string" where
  "dec_digits n = (if n < 10 then [digit_char n] else dec_digits (n div 10) @ [digit_char (n mod 10)])"

declare dec_digits.simps [simp del]

definition int_to_string :: "int \<Rightarrow> string" where
  "int_to_string v = (if v < 0 then CHR ''-'' # dec_digits (nat (- v)) else dec_digits (nat v))"

definition i32_to_string :: "i32 \<Rightarrow> string" where
  "i32_to_string w = int_to_string (sint w)"

definition nat_to_string :: "nat \<Rightarrow> string" where
  "nat_to_string n = dec_digits n"

text \<open>\<open>{:#x}\<close>: the prefix and the lower-case digits, without leading zeros.\<close>

fun hex_digits :: "nat \<Rightarrow> string" where
  "hex_digits n = (if n < 16 then [char_of (if n < 10 then 48 + n else 87 + n)]
     else hex_digits (n div 16) @ [char_of (if n mod 16 < 10 then 48 + n mod 16 else 87 + n mod 16)])"

declare hex_digits.simps [simp del]

definition nat_to_hex :: "nat \<Rightarrow> string" where
  "nat_to_hex n = ''0x'' @ hex_digits n"

lemma to_digit_digit_char [simp]: "d < 10 \<Longrightarrow> to_digit (digit_char d) = Some (int d)"
proof -
  assume "d < 10"
  then have "(of_char (digit_char d) :: nat) = 48 + d"
    by (simp add: digit_char_def)
  then have "(of_char (digit_char d) :: int) = 48 + int d"
    by (metis of_nat_of_char of_nat_add of_nat_numeral)
  with \<open>d < 10\<close> show ?thesis by (simp add: to_digit_def)
qed

lemma all_digits_append [simp]: "all_digits (xs @ ys) \<longleftrightarrow> all_digits xs \<and> all_digits ys"
  by (simp add: all_digits_def)

lemma digits_value_append: "digits_value acc (xs @ ys) = digits_value (digits_value acc xs) ys"
  by (induction xs arbitrary: acc) auto

lemma dec_digits_value: "all_digits (dec_digits n) \<and> digits_value 0 (dec_digits n) = int n"
proof (induction n rule: dec_digits.induct)
  case (1 n)
  show ?case
  proof (cases "n < 10")
    case True
    then show ?thesis by (simp add: dec_digits.simps [of n])
  next
    case False
    with 1 show ?thesis
      by (simp add: dec_digits.simps [of n] digits_value_append flip: of_nat_mod) presburger
  qed
qed

lemma dec_digits_nonempty: "dec_digits n \<noteq> []"
  by (subst dec_digits.simps) simp

lemma dec_digits_hd:
  obtains c cs where "dec_digits n = c # cs" and "c \<noteq> CHR ''+''" and "c \<noteq> CHR ''-''"
proof -
  obtain c cs where d: "dec_digits n = c # cs"
    using dec_digits_nonempty by (cases "dec_digits n") auto
  with dec_digits_value [of n] have "to_digit c \<noteq> None" by simp
  then have "c \<noteq> CHR ''+''" "c \<noteq> CHR ''-''" by auto
  with d show thesis by (rule that)
qed

lemma numeral_value_dec_digits: "numeral_value sgnd (dec_digits n) = Some (int n)"
  by (rule dec_digits_hd [of n]) (use dec_digits_value [of n] in \<open>simp add: numeral_value_def\<close>)

lemma numeral_value_int_to_string: "numeral_value True (int_to_string v) = Some v"
proof (cases "v < 0")
  case True
  then show ?thesis
    using dec_digits_value [of "nat (- v)"]
    by (simp add: int_to_string_def numeral_value_def dec_digits_nonempty)
next
  case False
  then show ?thesis by (simp add: int_to_string_def numeral_value_dec_digits)
qed

lemma i32_from_to_string: "i32_from_str (i32_to_string w) = Ok w"
proof -
  have "- (2 ^ 31) \<le> sint w" "sint w < 2 ^ 31"
    using sint_range_size [of w] by (simp_all add: word_size)
  then show ?thesis
    unfolding i32_from_str_iff i32_to_string_def numeral_value_int_to_string
    by (intro exI [of _ "sint w"]) simp
qed

section \<open>Strings\<close>

definition trim_matches :: "char \<Rightarrow> string \<Rightarrow> string" where
  "trim_matches q s = rev (dropWhile (\<lambda>c. c = q) (rev (dropWhile (\<lambda>c. c = q) s)))"

definition strip_prefix_str :: "string \<Rightarrow> string \<Rightarrow> string option" where
  "strip_prefix_str p s = (if take (length p) s = p then Some (drop (length p) s) else None)"

definition as_bytes :: "string \<Rightarrow> bytes" where
  "as_bytes s = map of_char s"

definition string_of_bytes :: "bytes \<Rightarrow> string" where
  "string_of_bytes bs = map (\<lambda>b. char_of (unat b)) bs"

lemma dropWhile_notin: "q \<notin> set s \<Longrightarrow> dropWhile (\<lambda>c. c = q) s = s"
  by (cases s) auto

lemma trim_matches_id: "q \<notin> set s \<Longrightarrow> trim_matches q s = s"
  by (simp add: trim_matches_def dropWhile_notin)

lemma trim_matches_quoted: "q \<notin> set s \<Longrightarrow> trim_matches q (q # s @ [q]) = s"
proof -
  assume q: "q \<notin> set s"
  then have "dropWhile (\<lambda>c. c = q) (s @ [q]) = (if s = [] then [] else s @ [q])"
    by (cases s) auto
  with q show ?thesis
    by (simp add: trim_matches_def dropWhile_notin)
qed

lemma strip_prefix_str_Some: "strip_prefix_str p s = Some t \<longleftrightarrow> s = p @ t"
  by (auto simp: strip_prefix_str_def) (metis append_take_drop_id)

lemma char_of_unat_of_char: "char_of (unat (of_char c :: 8 word)) = c"
proof -
  have "(of_char c :: 8 word) = of_nat (of_char c)"
    by (simp only: of_nat_of_char)
  moreover have "unat (of_nat (of_char c :: nat) :: 8 word) = of_char c"
    using nat_of_char_less_256 [of c] by (simp add: unat_of_nat)
  ultimately show ?thesis by simp
qed

lemma string_of_as_bytes [simp]: "string_of_bytes (as_bytes s) = s"
  by (simp add: string_of_bytes_def as_bytes_def comp_def char_of_unat_of_char del: of_nat_of_char)

text \<open>
  \<open>trim_end\<close> drops white space in the sense of Unicode; the byte lists are the UTF-8 forms of
  the white-space characters, read from the end.
\<close>

definition white_space :: "nat list list" where
  "white_space = [[9], [10], [11], [12], [13], [32], [194, 133], [194, 160], [225, 154, 128],
     [226, 128, 128], [226, 128, 129], [226, 128, 130], [226, 128, 131], [226, 128, 132],
     [226, 128, 133], [226, 128, 134], [226, 128, 135], [226, 128, 136], [226, 128, 137],
     [226, 128, 138], [226, 128, 168], [226, 128, 169], [226, 128, 175], [226, 129, 159],
     [227, 128, 128]]"

definition white_prefix :: "string \<Rightarrow> nat option" where
  "white_prefix s = map_option length
     (find (\<lambda>u. take (length u) (map of_char s) = rev u) white_space)"

lemma white_prefix_pos: "white_prefix s = Some n \<Longrightarrow> 0 < n \<and> n \<le> length s"
proof -
  assume "white_prefix s = Some n"
  then obtain u where u: "find (\<lambda>u. take (length u) (map of_char s) = rev u) white_space = Some u"
    and n: "n = length u"
    by (auto simp: white_prefix_def)
  from u have "u \<in> set white_space" and t: "take (length u) (map of_char s :: nat list) = rev u"
    by (auto simp: find_Some_iff)
  then have "u \<noteq> []" by (auto simp: white_space_def)
  moreover have "length u \<le> length s"
    using arg_cong [OF t, of length] by simp
  ultimately show ?thesis using n by simp
qed

function drop_white :: "string \<Rightarrow> string" where
  "drop_white s = (case white_prefix s of None \<Rightarrow> s | Some n \<Rightarrow> drop_white (drop n s))"
  by pat_completeness auto
termination
  by (relation "measure length") (auto dest!: white_prefix_pos)

declare drop_white.simps [simp del]

definition trim_end :: "string \<Rightarrow> string" where
  "trim_end s = rev (drop_white (rev s))"

section \<open>UTF-8\<close>

text \<open>\<open>String::from_utf8\<close>: the well-formed byte sequences of the Unicode standard.\<close>

definition is_cont :: "u8 \<Rightarrow> bool" where
  "is_cont b \<longleftrightarrow> 0x80 \<le> b \<and> b \<le> 0xBF"

fun valid_utf8 :: "bytes \<Rightarrow> bool" where
  "valid_utf8 [] = True"
| "valid_utf8 (b # bs) =
     (if b < 0x80 then valid_utf8 bs
      else case bs of
        [] \<Rightarrow> False
      | b1 # bs1 \<Rightarrow>
          if 0xC2 \<le> b \<and> b \<le> 0xDF then is_cont b1 \<and> valid_utf8 bs1
          else case bs1 of
            [] \<Rightarrow> False
          | b2 # bs2 \<Rightarrow>
              if 0xE0 \<le> b \<and> b \<le> 0xEF then
                is_cont b1 \<and> is_cont b2 \<and> (b = 0xE0 \<longrightarrow> 0xA0 \<le> b1) \<and> (b = 0xED \<longrightarrow> b1 \<le> 0x9F)
                \<and> valid_utf8 bs2
              else case bs2 of
                [] \<Rightarrow> False
              | b3 # bs3 \<Rightarrow>
                  0xF0 \<le> b \<and> b \<le> 0xF4 \<and> is_cont b1 \<and> is_cont b2 \<and> is_cont b3
                  \<and> (b = 0xF0 \<longrightarrow> 0x90 \<le> b1) \<and> (b = 0xF4 \<longrightarrow> b1 \<le> 0x8F) \<and> valid_utf8 bs3)"

definition string_from_utf8 :: "bytes \<Rightarrow> string res" where
  "string_from_utf8 bs = (if valid_utf8 bs then Ok (string_of_bytes bs) else Err FromUtf8)"

section \<open>Machine integers\<close>

text \<open>Big-endian bytes, and the number a byte list writes.\<close>

fun be_bytes :: "nat \<Rightarrow> 'a::len word \<Rightarrow> bytes" where
  "be_bytes 0 w = []"
| "be_bytes (Suc n) w = ucast (drop_bit (8 * n) w) # be_bytes n w"

definition u32_to_be_bytes :: "u32 \<Rightarrow> bytes" where
  "u32_to_be_bytes w = be_bytes 4 w"

definition u64_to_be_bytes :: "u64 \<Rightarrow> bytes" where
  "u64_to_be_bytes w = be_bytes 8 w"

definition be_value :: "bytes \<Rightarrow> nat" where
  "be_value bs = foldl (\<lambda>a b. 256 * a + unat b) 0 bs"

definition u32_from_be_bytes :: "bytes \<Rightarrow> u32" where
  "u32_from_be_bytes bs = word_of_nat (be_value bs)"

definition u64_from_be_bytes :: "bytes \<Rightarrow> u64" where
  "u64_from_be_bytes bs = word_of_nat (be_value bs)"

lemma length_be_bytes [simp]: "length (be_bytes n w) = n"
  by (induction n) auto

lemma unat_ucast_drop_bit:
  fixes w :: "'a::len word"
  shows "unat (ucast (drop_bit k w) :: 8 word) = (unat w div 2 ^ k) mod 256"
  by (simp add: unsigned_ucast_eq unsigned_drop_bit_eq)
    (simp add: drop_bit_eq_div take_bit_eq_mod)

lemma foldl_be_bytes:
  "foldl (\<lambda>a b. 256 * a + unat b) a (be_bytes n w) = 256 ^ n * a + unat w mod 256 ^ n"
proof (induction n arbitrary: a)
  case 0
  then show ?case by simp
next
  case (Suc n)
  have "unat w mod 256 ^ Suc n = 256 ^ n * (unat w div 256 ^ n mod 256) + unat w mod 256 ^ n"
    by (metis mod_mult2_eq power_Suc2)
  moreover have "(2::nat) ^ (8 * n) = 256 ^ n"
    by (simp add: power_mult)
  ultimately show ?case
    by (simp add: Suc.IH unat_ucast_drop_bit distrib_left mult.assoc mult.left_commute)
qed

lemma be_value_be_bytes: "be_value (be_bytes n w) = unat w mod 256 ^ n"
  by (simp add: be_value_def foldl_be_bytes)

lemma be_value_Cons: "be_value (b # bs) = unat b * 256 ^ length bs + be_value bs"
proof -
  have "foldl (\<lambda>a b. 256 * a + unat b) a bs = a * 256 ^ length bs + be_value bs" for a
  proof (induction bs arbitrary: a)
    case Nil
    then show ?case by (simp add: be_value_def)
  next
    case (Cons c cs)
    have "foldl (\<lambda>a b. 256 * a + unat b) a (c # cs) = (256 * a + unat c) * 256 ^ length cs + be_value cs"
      using Cons.IH [of "256 * a + unat c"] by simp
    moreover have "be_value (c # cs) = unat c * 256 ^ length cs + be_value cs"
      using Cons.IH [of "unat c"] by (simp add: be_value_def)
    ultimately show ?case by (simp add: algebra_simps)
  qed
  from this [of "unat b"] show ?thesis by (simp add: be_value_def)
qed

lemma be_value_less: "be_value bs < 256 ^ length bs"
proof (induction bs)
  case Nil
  then show ?case by (simp add: be_value_def)
next
  case (Cons b bs)
  have "unat b \<le> 255"
    using unsigned_less [of b, where ?'a = nat] by simp
  then have "unat b * 256 ^ length bs \<le> 255 * 256 ^ length bs"
    by (rule mult_le_mono1)
  then have "unat b * 256 ^ length bs + be_value bs < 255 * 256 ^ length bs + 256 ^ length bs"
    using Cons by (rule add_le_less_mono)
  then show ?case by (simp add: be_value_Cons)
qed

lemma be_value_inject:
  "length bs = length cs \<Longrightarrow> be_value bs = be_value cs \<Longrightarrow> bs = cs"
proof (induction bs cs rule: list_induct2)
  case Nil
  then show ?case by simp
next
  case (Cons b bs c cs)
  let ?p = "256 ^ length bs :: nat"
  have eq: "unat b * ?p + be_value bs = unat c * ?p + be_value cs"
    using Cons.prems Cons.hyps by (simp add: be_value_Cons)
  have "(unat b * ?p + be_value bs) div ?p = unat b" and "(unat c * ?p + be_value cs) div ?p = unat c"
    using be_value_less [of bs] be_value_less [of cs] Cons.hyps by simp_all
  then have "unat b = unat c" using eq by metis
  then have "b = c" by (rule unsigned_word_eqI)
  with eq Cons.IH show ?case by simp
qed

lemma be_bytes_of_value:
  assumes "length bs = n" and "8 * n \<le> LENGTH('a::len)"
  shows "be_bytes n (word_of_nat (be_value bs) :: 'a word) = bs"
proof (rule be_value_inject)
  have pow: "(256::nat) ^ n = 2 ^ (8 * n)"
    by (simp add: power_mult)
  also have "\<dots> \<le> 2 ^ LENGTH('a)"
    using assms(2) by (intro power_increasing) auto
  finally have "be_value bs < 2 ^ LENGTH('a)"
    using be_value_less [of bs] assms(1) by simp
  then have "unat (word_of_nat (be_value bs) :: 'a word) = be_value bs"
    by (simp add: unat_of_nat)
  then show "be_value (be_bytes n (word_of_nat (be_value bs) :: 'a word)) = be_value bs"
    using be_value_less [of bs] assms(1) by (simp add: be_value_be_bytes)
qed (simp add: assms)

lemma u32_be_roundtrip: "u32_from_be_bytes (u32_to_be_bytes w) = w"
proof -
  have "unat w mod 256 ^ 4 = unat w"
    using unsigned_less [of w, where ?'a = nat] by simp
  then show ?thesis
    by (simp add: u32_from_be_bytes_def u32_to_be_bytes_def be_value_be_bytes)
qed

lemma u64_be_roundtrip: "u64_from_be_bytes (u64_to_be_bytes w) = w"
proof -
  have "unat w mod 256 ^ 8 = unat w"
    using unsigned_less [of w, where ?'a = nat] by simp
  then show ?thesis
    by (simp add: u64_from_be_bytes_def u64_to_be_bytes_def be_value_be_bytes)
qed

text \<open>
  \<open>i32\<close> arithmetic: subtraction panics on overflow when the build has overflow checks on (a debug
  build) and wraps when it has not (a release build); \<open>u64 as i32\<close> keeps the low bits,
  \<open>i32 as u64\<close> extends the sign.
\<close>

definition sub_i32 :: "bool \<Rightarrow> i32 \<Rightarrow> i32 \<Rightarrow> i32 res" where
  "sub_i32 checks a b =
     (let d = sint a - sint b in
      if checks \<and> (d < - (2 ^ 31) \<or> 2 ^ 31 \<le> d) then Panic ''attempt to subtract with overflow''
      else Ok (a - b))"

definition i32_as_u64 :: "i32 \<Rightarrow> u64" where
  "i32_as_u64 w = scast w"

definition secs_as_i32 :: "int \<Rightarrow> i32" where
  "secs_as_i32 t = ucast (word_of_int t :: u64)"

lemma sub_i32_exact:
  "- (2 ^ 31) \<le> sint a - sint b \<Longrightarrow> sint a - sint b < 2 ^ 31 \<Longrightarrow>
     sub_i32 checks a b = Ok (a - b) \<and> sint (a - b) = sint a - sint b"
  by (simp add: sub_i32_def Let_def sint_word_diff signed_take_bit_int_eq_self)

lemma sub_i32_Ok: "sub_i32 checks a b = Ok d \<Longrightarrow> d = a - b"
  by (auto simp: sub_i32_def Let_def split: if_splits)

lemma sub_i32_not_Err: "sub_i32 checks a b \<noteq> Err e"
  by (simp add: sub_i32_def Let_def)

section \<open>Single-precision floats\<close>

text \<open>
  An \<open>f32\<close> is not a number, an infinity with its sign, or \<open>m * 2 ^ e\<close> for the integers of a
  finite value: a significand of 24 bits and an exponent of at least -149. The code compares one
  with small constants, multiplies it by 65536 (exact, or an infinity) and casts it to \<open>u32\<close>
  (truncating, saturating, 0 for not-a-number).
\<close>

datatype f32 = NaN | Inf bool | Fin int int

definition wf_f32 :: "f32 \<Rightarrow> bool" where
  "wf_f32 x = (case x of Fin m e \<Rightarrow> \<bar>m\<bar> < 2 ^ 24 \<and> - 149 \<le> e \<and> e \<le> 104 | _ \<Rightarrow> True)"

fun f32_less_int :: "f32 \<Rightarrow> int \<Rightarrow> bool" where
  "f32_less_int NaN c = False"
| "f32_less_int (Inf neg) c = neg"
| "f32_less_int (Fin m e) c =
     (if 0 \<le> e then m * 2 ^ nat e < c else m < c * 2 ^ nat (- e))"

fun f32_greater_int :: "f32 \<Rightarrow> int \<Rightarrow> bool" where
  "f32_greater_int NaN c = False"
| "f32_greater_int (Inf neg) c = (\<not> neg)"
| "f32_greater_int (Fin m e) c =
     (if 0 \<le> e then c < m * 2 ^ nat e else c * 2 ^ nat (- e) < m)"

fun f32_mul_65536 :: "f32 \<Rightarrow> f32" where
  "f32_mul_65536 NaN = NaN"
| "f32_mul_65536 (Inf neg) = Inf neg"
| "f32_mul_65536 (Fin m e) =
     (if 0 \<le> e + 16 \<and> 2 ^ 128 \<le> \<bar>m\<bar> * 2 ^ nat (e + 16) then Inf (m < 0) else Fin m (e + 16))"

fun f32_trunc :: "int \<Rightarrow> int \<Rightarrow> int" where
  "f32_trunc m e = (if 0 \<le> e then m * 2 ^ nat e else sgn m * (\<bar>m\<bar> div 2 ^ nat (- e)))"

fun f32_as_u32 :: "f32 \<Rightarrow> u32" where
  "f32_as_u32 NaN = 0"
| "f32_as_u32 (Inf neg) = (if neg then 0 else - 1)"
| "f32_as_u32 (Fin m e) =
     (let t = f32_trunc m e in
      if t < 0 then 0 else if 2 ^ 32 \<le> t then - 1 else word_of_int t)"

section \<open>Interfaces\<close>

text \<open>
  A value printed as text and read back. The readers of the console trim quotes from a parameter
  before they read it, so the printed form must carry none.
\<close>

locale text_form =
  fixes show_form :: "'a \<Rightarrow> string"
    and read_form :: "string \<Rightarrow> 'a res"
    and valid :: "'a \<Rightarrow> bool"
  assumes read_show: "valid x \<Longrightarrow> read_form (show_form x) = Ok x"
    and unquoted: "valid x \<Longrightarrow> CHR 0x22 \<notin> set (show_form x)"
begin

lemma trim_show: "valid x \<Longrightarrow> trim_matches CHR 0x22 (show_form x) = show_form x"
  by (simp add: trim_matches_id unquoted)

lemma read_trimmed: "valid x \<Longrightarrow> read_form (trim_matches CHR 0x22 (show_form x)) = Ok x"
  by (simp add: trim_show read_show)

lemma show_inject: "valid x \<Longrightarrow> valid y \<Longrightarrow> show_form x = show_form y \<longleftrightarrow> x = y"
  by (metis read_show result.inject(1))

end

text \<open>A value laid out in a fixed number of bytes, as a field of a message.\<close>

locale fixed_codec =
  fixes enc :: "'a \<Rightarrow> bytes"
    and dec :: "bytes \<Rightarrow> 'a"
    and width :: nat
  assumes enc_length: "length (enc x) = width"
    and dec_enc: "dec (enc x) = x"
begin

lemma field_value: "dec (take width (enc x @ rest)) = x"
  by (simp add: enc_length dec_enc)

lemma field_inject: "enc x @ r = enc y @ s \<longleftrightarrow> x = y \<and> r = s"
  by (metis append_eq_append_conv dec_enc enc_length)

end

lemma digit_not_quote: "all_digits s \<Longrightarrow> CHR 0x22 \<notin> set s"
  by (auto simp: all_digits_def list_all_iff to_digit_def Let_def dest!: bspec [where x = "CHR 0x22"])

lemma i32_to_string_unquoted: "CHR 0x22 \<notin> set (i32_to_string w)"
  using digit_not_quote dec_digits_value
  by (auto simp: i32_to_string_def int_to_string_def)

interpretation i32_text: text_form i32_to_string "\<lambda>s. map_err ParseInt (i32_from_str s)" "\<lambda>_. True"
  by unfold_locales (simp_all add: i32_from_to_string i32_to_string_unquoted)

interpretation u32_be: fixed_codec u32_to_be_bytes u32_from_be_bytes 4
  by unfold_locales (simp_all add: u32_be_roundtrip, simp add: u32_to_be_bytes_def)

interpretation u64_be: fixed_codec u64_to_be_bytes u64_from_be_bytes 8
  by unfold_locales (simp_all add: u64_be_roundtrip, simp add: u64_to_be_bytes_def)

end
