(* ===== verification/Console_World.thy ===== *)
theory Console_World
  imports Rust_Std
begin

text \<open>
  What the console talks to: the objects of the control protocol it builds and takes apart
  (\<open>request\<close>, \<open>answer\<close>), the libraries and the node it calls (the fields of \<open>env\<close>, parameters
  of the model), and the world its calls thread: the state of everything outside the process,
  the files, the lines waiting on standard input and the trace of visible effects. The lemmas
  show that the trace records every change of a file, and that no call prints or takes lines from
  standard input (\<open>grows\<close>), and make that relation a \<open>world_order\<close>, so that every chain of calls inherits
  it.
\<close>

section \<open>Objects of the control protocol\<close>

text \<open>
  \<open>UInt256\<close> of \<open>ton_types\<close>, a 32-byte array, is the 256-bit word the array writes: \<open>as_slice\<close> gives
  the bytes, \<open>with_array\<close> takes them.
\<close>

type_synonym uint256 = "256 word"

definition uint256_as_slice :: "uint256 \<Rightarrow> bytes" where
  "uint256_as_slice k = be_bytes 32 k"

definition uint256_with_array :: "bytes \<Rightarrow> uint256" where
  "uint256_with_array bs = word_of_nat (be_value bs)"

lemma uint256_roundtrip: "uint256_with_array (uint256_as_slice k) = k"
proof -
  have "unat k mod 256 ^ 32 = unat k"
    using unsigned_less [of k, where ?'a = nat] by simp
  then show ?thesis
    by (simp add: uint256_with_array_def uint256_as_slice_def be_value_be_bytes)
qed

interpretation uint256_array: fixed_codec uint256_as_slice uint256_with_array 32
  by unfold_locales (simp_all add: uint256_roundtrip, simp add: uint256_as_slice_def)

lemma uint256_of_array: "length bs = 32 \<Longrightarrow> uint256_as_slice (uint256_with_array bs) = bs"
  by (simp add: uint256_as_slice_def uint256_with_array_def be_bytes_of_value)

text \<open>The requests of \<open>ton_api\<close> the commands build; \<open>'b\<close> stands for \<open>BlockIdExt\<close>.\<close>

datatype 'b request =
    GetStatsReq
  | GetSelectedStatsReq string
  | GetSessionStatsReq
  | GenerateKeyPairReq
  | ExportPublicKeyReq uint256
  | SignReq uint256 bytes
  | AddValidatorPermanentKeyReq uint256 i32 i32
  | AddValidatorTempKeyReq uint256 uint256 i32
  | AddValidatorAdnlAddressReq uint256 uint256 i32
  | AddAdnlIdReq uint256 i32
  | GetBundleReq 'b
  | GetFutureBundleReq "'b list"
  | SendMessageReq bytes
  | GetConfigAllReq i32 'b
  | GetConfigParamsReq i32 'b "i32 list"
  | GetShardAccountStateReq string
  | SetStatesGcIntervalReq i32

record one_stat =
  stat_key :: string
  stat_value :: string

record session_stat =
  session_id :: string
  session_stats :: "one_stat list"

text \<open>
  The boxed objects a node answers with, by the type the receivers downcast to: a raw shard
  account state is present (with its bytes) or none; \<open>OtherAns\<close> is any type no receiver asks for.
\<close>

datatype answer =
    SuccessAns
  | StatsAns "one_stat list"
  | SessionStatsAns "session_stat list"
  | KeyHashAns uint256
  | PublicKeyAns "uint256 option"
  | SignatureAns bytes
  | ConfigInfoAns bytes
  | ShardAccountNoneAns
  | ShardAccountStateAns bytes
  | ControlQueryErrorAns
  | OtherAns

text \<open>
  A shard account as the accessors of \<open>ton_block\<close> show it: the result of \<open>read_account\<close>, the
  logical time, and the bag of cells of \<open>account_cell\<close>.
\<close>

datatype account_status = AccStateUninit | AccStateFrozen | AccStateActive | AccStateNonexist

record account =
  acc_status :: account_status
  acc_balance :: "128 word option"
  acc_last_paid :: u32

record shard_account =
  sa_account :: "account res"
  sa_last_trans_lt :: u64
  sa_account_boc :: "bytes res"

text \<open>Values of \<open>serde_json\<close>; an object is a finite map from keys to values.\<close>

datatype json =
    JNull
  | JBool bool
  | JInt int
  | JFloat u64
  | JString string
  | JArray "json list"
  | JObject "string \<Rightarrow> json option"

section \<open>Libraries and the node\<close>

record codecs =
  hex_decode :: "string \<Rightarrow> bytes res"
  hex_encode :: "bytes \<Rightarrow> string"
  hex_encode_upper :: "bytes \<Rightarrow> string"
  base64_decode :: "string \<Rightarrow> bytes res"
  base64_encode :: "bytes \<Rightarrow> string"

text \<open>How writing a file fails: at its opening, or after some of its bytes.\<close>

datatype fs_fault = CannotOpen string | CutOff string nat

text \<open>
  \<open>'n\<close> is the state of everything outside the process. \<open>adnl_query\<close> is one round trip to the
  node, \<open>system_time\<close> the seconds since the epoch, \<open>write_fault\<close> the paths the system fails to
  write (with its message), \<open>overflow_checks\<close> whether the build checks integer overflow.
\<close>

record ('b, 'n) env = codecs +
  overflow_checks :: bool
  blockid_from_str :: "string \<Rightarrow> 'b res"
  blockid_default :: 'b
  serialize_request :: "'b request \<Rightarrow> bytes res"
  serialize_answer :: "answer \<Rightarrow> bytes res"
  adnl_query :: "bytes \<Rightarrow> 'n \<Rightarrow> answer res \<times> 'n"
  system_time :: "'n \<Rightarrow> int \<times> 'n"
  shard_account_from_bytes :: "bytes \<Rightarrow> shard_account res"
  json_from_str :: "string \<Rightarrow> json option"
  json_pretty :: "json \<Rightarrow> string"
  shell_split :: "string \<Rightarrow> string list res"
  write_fault :: "string \<Rightarrow> fs_fault option"

section \<open>The world\<close>

datatype event =
    Queried bytes
  | WroteFile string bytes
  | CutFile string bytes
  | Println string
  | Print string
  | PrintlnErr string error
  | Slept u64

datatype stdin_line = Line string | BadLine

record 'n world =
  net :: 'n
  files :: "string \<Rightarrow> bytes option"
  stdin :: "stdin_line list"
  trace :: "event list"

definition emit :: "event \<Rightarrow> ('n world, unit) io" where
  "emit e w = (Ok (), w\<lparr>trace := trace w @ [e]\<rparr>)"

text \<open>
  \<open>std::fs::write\<close> opens and truncates the file and then writes: a file that cannot be opened stays as
  it was, one whose write is cut off keeps the head of the data.
\<close>

definition write_file :: "(string \<Rightarrow> fs_fault option) \<Rightarrow> string \<Rightarrow> bytes \<Rightarrow> ('n world, unit) io" where
  "write_file fault path data w = (case fault path of
     Some (CannotOpen msg) \<Rightarrow> (Err (Io msg), w)
   | Some (CutOff msg n) \<Rightarrow>
       (Err (Io msg), w\<lparr>files := (files w)(path \<mapsto> take n data), trace := trace w @ [CutFile path (take n data)]\<rparr>)
   | None \<Rightarrow> (Ok (), w\<lparr>files := (files w)(path \<mapsto> data), trace := trace w @ [WroteFile path data]\<rparr>))"

definition fs_write :: "('b, 'n, 'z) env_scheme \<Rightarrow> string \<Rightarrow> bytes \<Rightarrow> ('n world, unit) io" where
  "fs_write env path data = write_file (write_fault env) path data"

definition fs_read :: "string \<Rightarrow> ('n world, bytes) io" where
  "fs_read path w = (case files w path of
     None \<Rightarrow> (Err (Io ''No such file or directory''), w)
   | Some data \<Rightarrow> (Ok data, w))"

definition query_node :: "('b, 'n, 'z) env_scheme \<Rightarrow> bytes \<Rightarrow> ('n world, answer) io" where
  "query_node env data w = (case adnl_query env data (net w) of
     (r, n) \<Rightarrow> (r, w\<lparr>net := n, trace := trace w @ [Queried data]\<rparr>))"

text \<open>\<open>now\<close> truncates the seconds since the epoch to a signed 32-bit integer.\<close>

definition now :: "('b, 'n, 'z) env_scheme \<Rightarrow> ('n world, i32) io" where
  "now env w = (case system_time env (net w) of
     (t, n) \<Rightarrow> (if t < 0 then Panic ''SystemTimeError'' else Ok (secs_as_i32 t), w\<lparr>net := n\<rparr>))"

section \<open>The trace records every effect\<close>

fun file_effect :: "event \<Rightarrow> (string \<Rightarrow> bytes option) \<Rightarrow> (string \<Rightarrow> bytes option)" where
  "file_effect (WroteFile path data) fs = fs(path \<mapsto> data)"
| "file_effect (CutFile path data) fs = fs(path \<mapsto> data)"
| "file_effect _ fs = fs"

text \<open>A call on behalf of a command queries the node and writes files; it prints nothing.\<close>

fun quiet :: "event \<Rightarrow> bool" where
  "quiet (Queried _) = True"
| "quiet (WroteFile _ _) = True"
| "quiet (CutFile _ _) = True"
| "quiet _ = False"

definition grows :: "'n world \<Rightarrow> 'n world \<Rightarrow> bool" where
  "grows w w' \<longleftrightarrow>
     stdin w' = stdin w \<and>
     (\<exists>es. trace w' = trace w @ es \<and> list_all quiet es \<and> files w' = fold file_effect es (files w))"

lemma growsI:
  "trace w' = trace w @ es \<Longrightarrow> list_all quiet es \<Longrightarrow> files w' = fold file_effect es (files w) \<Longrightarrow>
     stdin w' = stdin w \<Longrightarrow> grows w w'"
  by (auto simp: grows_def)

lemma grows_refl: "grows w w"
  by (rule growsI [of _ _ "[]"]) simp_all

lemma grows_trans: "grows u v \<Longrightarrow> grows v w \<Longrightarrow> grows u w"
  by (auto simp: grows_def)

interpretation trace_order: world_order grows
  by unfold_locales (auto intro: grows_refl grows_trans)

lemma fs_write_grows: "preserves grows (fs_write env path data)"
  by (auto simp: preserves_def fs_write_def write_file_def grows_refl split: option.splits fs_fault.splits
      intro: growsI [of _ _ "[WroteFile path data]"] growsI [of _ _ "[CutFile path (take n data)]" for n])

lemma fs_read_grows: "preserves grows (fs_read path)"
  by (auto simp: preserves_def fs_read_def grows_refl split: option.splits)

lemma query_node_grows: "preserves grows (query_node env data)"
  by (auto simp: preserves_def query_node_def split: prod.splits
      intro: growsI [of _ _ "[Queried data]"])

lemma now_grows: "preserves grows (now env)"
  by (auto simp: preserves_def now_def split: prod.splits intro: growsI [of _ _ "[]"])

lemmas basic_grows =
  trace_order.lift_preserves trace_order.map_err_preserves fs_write_grows fs_read_grows
  query_node_grows now_grows

lemma world_calls_calm [calm]:
  "no_panic (emit e)" "no_panic (fs_write env path data)" "no_panic (fs_read path)"
  by (simp_all add: no_panic_def emit_def fs_write_def write_file_def fs_read_def
      split: option.splits fs_fault.splits)

text \<open>What a successful step leaves behind.\<close>

lemma emit_run [run]: "emit e w = (Ok (), w\<lparr>trace := trace w @ [e]\<rparr>)"
  by (simp add: emit_def)

lemma write_file_Ok_iff [ok_iff]:
  "write_file fault path data w = (Ok u, w') \<longleftrightarrow>
     fault path = None \<and>
     w' = w\<lparr>files := (files w)(path \<mapsto> data), trace := trace w @ [WroteFile path data]\<rparr>"
  by (auto simp: write_file_def split: option.splits fs_fault.splits)

lemma fs_write_Ok_iff [ok_iff]:
  "fs_write env path data w = (Ok u, w') \<longleftrightarrow>
     write_fault env path = None \<and>
     w' = w\<lparr>files := (files w)(path \<mapsto> data), trace := trace w @ [WroteFile path data]\<rparr>"
  by (simp add: fs_write_def ok_iff)

text \<open>A write that fails changes no other file, and this one only when it is cut off.\<close>

lemma write_file_Err:
  assumes "write_file fault path data w = (Err e, w')"
  shows "w' = w \<or> (\<exists>msg n. fault path = Some (CutOff msg n) \<and> e = Io msg \<and>
    files w' = (files w)(path \<mapsto> take n data) \<and> trace w' = trace w @ [CutFile path (take n data)])"
  using assms by (auto simp: write_file_def split: option.splits fs_fault.splits)

lemma fs_read_Ok_iff [ok_iff]:
  "fs_read path w = (Ok d, w') \<longleftrightarrow> files w path = Some d \<and> w' = w"
  by (auto simp: fs_read_def split: option.splits)

lemma query_node_Ok_iff [ok_iff]:
  "query_node env data w = (Ok a, w') \<longleftrightarrow>
     (\<exists>n. adnl_query env data (net w) = (Ok a, n) \<and>
        w' = w\<lparr>net := n, trace := trace w @ [Queried data]\<rparr>)"
  by (auto simp: query_node_def split: prod.splits)

lemma now_Ok_iff [ok_iff]:
  "now env w = (Ok t, w') \<longleftrightarrow>
     (\<exists>secs n. system_time env (net w) = (secs, n) \<and> 0 \<le> secs \<and> t = secs_as_i32 secs \<and>
        w' = w\<lparr>net := n\<rparr>)"
  by (auto simp: now_def split: prod.splits if_splits)

end
