(* ===== verification/Console_Params.thy ===== *)
theory Console_Params
  imports Console_World
begin

text \<open>
  The parameter readers of bin/console.rs: \<open>parse_any\<close> (a missing parameter is an error, quotes
  around a present one are dropped, every error says what was to be given) and its instances for
  bytes, 256-bit values, integers and block ids. The lemmas characterise what each reader
  accepts and show that a value printed by the console reads back through them.
\<close>

definition parse_any :: "string option \<Rightarrow> string \<Rightarrow> (string \<Rightarrow> 'a res) \<Rightarrow> 'a res" where
  "parse_any param_opt name parse_value =
     map_err (Context (''you must give '' @ name))
       (and_then (ok_or (Msg ''insufficient parameters'') param_opt)
          (\<lambda>value. parse_value (trim_matches CHR 0x22 value)))"

definition parse_data :: "'z codecs_scheme \<Rightarrow> string option \<Rightarrow> string \<Rightarrow> bytes res" where
  "parse_data cod param_opt name =
     parse_any param_opt (name @ '' in hex format'') (\<lambda>value. hex_decode cod value)"

text \<open>\<open>try_into\<close> from a slice to a 32-byte array.\<close>

definition to_array32 :: "bytes \<Rightarrow> bytes res" where
  "to_array32 bs = (if length bs = 32 then Ok bs else Err SliceToArray)"

definition parse_int256 :: "'z codecs_scheme \<Rightarrow> string option \<Rightarrow> string \<Rightarrow> uint256 res" where
  "parse_int256 cod param_opt name =
     parse_any param_opt (name @ '' in hex or base64 format'')
       (\<lambda>value. and_then
          (if length value = 44 then base64_decode cod value
           else if length value = 64 then hex_decode cod value
           else Err (WrongHash value (length value)))
          (\<lambda>value. and_then (to_array32 value) (\<lambda>array. Ok (uint256_with_array array))))"

definition parse_int :: "string option \<Rightarrow> string \<Rightarrow> i32 res" where
  "parse_int param_opt name =
     parse_any param_opt name (\<lambda>value. map_err ParseInt (i32_from_str value))"

definition parse_blockid :: "('b, 'n, 'z) env_scheme \<Rightarrow> string option \<Rightarrow> string \<Rightarrow> 'b res" where
  "parse_blockid env param_opt name = parse_any param_opt name (\<lambda>value. blockid_from_str env value)"

section \<open>What the readers accept\<close>

lemma parse_any_None:
  "parse_any None name f = Err (Context (''you must give '' @ name) (Msg ''insufficient parameters''))"
  by (simp add: parse_any_def)

lemma parse_any_Ok_iff:
  "parse_any p name f = Ok a \<longleftrightarrow> (\<exists>v. p = Some v \<and> f (trim_matches CHR 0x22 v) = Ok a)"
  by (simp add: parse_any_def ok_iff)

lemma parse_any_Err:
  "parse_any p name f = Err e \<Longrightarrow> \<exists>e'. e = Context (''you must give '' @ name) e'"
  by (auto simp: parse_any_def map_err_Err_iff)

lemma to_array32_Ok_iff [ok_iff]: "to_array32 bs = Ok k \<longleftrightarrow> length bs = 32 \<and> k = bs"
  by (auto simp: to_array32_def)

lemma parse_int256_Ok_iff:
  "parse_int256 cod p name = Ok k \<longleftrightarrow>
     (\<exists>v. p = Some v \<and>
        (let t = trim_matches CHR 0x22 v; bs = Ok (uint256_as_slice k) in
           length t = 44 \<and> base64_decode cod t = bs \<or> length t = 64 \<and> hex_decode cod t = bs))"
  by (auto simp: parse_int256_def parse_any_Ok_iff ok_iff Let_def uint256_of_array
      uint256_array.enc_length uint256_roundtrip split: if_splits
      dest: arg_cong [where f = uint256_as_slice])

lemma parse_int_Ok_iff:
  "parse_int p name = Ok w \<longleftrightarrow>
     (\<exists>s v. p = Some s \<and> numeral_value True (trim_matches CHR 0x22 s) = Some v \<and>
        - (2 ^ 31) \<le> v \<and> v < 2 ^ 31 \<and> w = word_of_int v)"
  by (auto simp: parse_int_def parse_any_Ok_iff ok_iff i32_from_str_iff)

lemma parse_int_sint:
  "parse_int (Some s) name = Ok w \<Longrightarrow>
     numeral_value True (trim_matches CHR 0x22 s) = Some (sint w)"
  by (auto simp: parse_int_Ok_iff signed_of_int signed_take_bit_int_eq_self)

section \<open>Printed values read back\<close>

context text_form
begin

lemma parse_any_show: "valid x \<Longrightarrow> parse_any (Some (show_form x)) name read_form = Ok x"
  by (simp add: parse_any_Ok_iff read_trimmed)

lemma parse_any_quoted:
  "valid x \<Longrightarrow>
     parse_any (Some (CHR 0x22 # show_form x @ [CHR 0x22])) name read_form = Ok x"
  by (simp add: parse_any_Ok_iff trim_matches_quoted unquoted read_show)

end

lemma parse_int_to_string [simp]: "parse_int (Some (i32_to_string w)) name = Ok w"
  using i32_text.parse_any_show [of w name] by (simp add: parse_int_def)

text \<open>
  The hex and base64 libraries as the console relies on them: decoding undoes each encoding,
  hex spends two characters on a byte, base64 spends 44 on a 32-byte key, and no encoding prints a
  quote. Each is a \<open>text_form\<close> for 32-byte keys.
\<close>

locale hex_library =
  fixes cod :: "'z codecs_scheme"
  assumes decode_upper: "hex_decode cod (hex_encode_upper cod bs) = Ok bs"
    and upper_length: "length (hex_encode_upper cod bs) = 2 * length bs"
    and upper_unquoted: "CHR 0x22 \<notin> set (hex_encode_upper cod bs)"
    and decode_lower: "hex_decode cod (hex_encode cod bs) = Ok bs"
    and lower_length: "length (hex_encode cod bs) = 2 * length bs"
    and lower_unquoted: "CHR 0x22 \<notin> set (hex_encode cod bs)"

sublocale hex_library \<subseteq> upper: text_form "hex_encode_upper cod" "hex_decode cod" "\<lambda>bs. True"
  by unfold_locales (simp_all add: decode_upper upper_unquoted)

sublocale hex_library \<subseteq> lower: text_form "hex_encode cod" "hex_decode cod" "\<lambda>bs. True"
  by unfold_locales (simp_all add: decode_lower lower_unquoted)

context hex_library begin

lemma parse_int256_upper:
  "parse_int256 cod (Some (hex_encode_upper cod (uint256_as_slice k))) name = Ok k"
  by (simp add: parse_int256_Ok_iff upper.trim_show upper_length decode_upper uint256_array.enc_length)

lemma parse_int256_lower:
  "parse_int256 cod (Some (hex_encode cod (uint256_as_slice k))) name = Ok k"
  by (simp add: parse_int256_Ok_iff lower.trim_show lower_length decode_lower uint256_array.enc_length)

lemma parse_data_upper: "parse_data cod (Some (hex_encode_upper cod bs)) name = Ok bs"
  by (simp add: parse_data_def upper.parse_any_show)

end

locale codec_library = hex_library +
  assumes decode_base64: "base64_decode cod (base64_encode cod bs) = Ok bs"
    and base64_length: "length bs = 32 \<Longrightarrow> length (base64_encode cod bs) = 44"
    and base64_unquoted: "CHR 0x22 \<notin> set (base64_encode cod bs)"

sublocale codec_library \<subseteq> b64: text_form "base64_encode cod" "base64_decode cod" "\<lambda>bs. True"
  by unfold_locales (simp_all add: decode_base64 base64_unquoted)

context codec_library begin

lemma parse_int256_base64:
  "parse_int256 cod (Some (base64_encode cod (uint256_as_slice k))) name = Ok k"
  by (simp add: parse_int256_Ok_iff b64.trim_show base64_length decode_base64 uint256_array.enc_length)

end

end
