(* ===== verification/Reference_Codecs.thy ===== *)
theory Reference_Codecs
  imports Console_Params
begin

text \<open>
  Hexadecimal and base64 as RFC 4648 lays them down, written out so that the laws the console
  relies on (\<open>codec_library\<close>) are seen to hold together: \<open>rfc4648\<close> is the record of libraries
  the examples evaluate with. The tools themselves are modelled over any record of libraries.
\<close>

section \<open>Hexadecimal\<close>

definition hex_digit :: "nat \<Rightarrow> nat \<Rightarrow> char" where
  "hex_digit letters n = char_of (if n < 10 then 48 + n else letters + n - 10)"

definition hex_value :: "char \<Rightarrow> nat option" where
  "hex_value c = (let n = of_char c in
     if 48 \<le> n \<and> n \<le> 57 then Some (n - 48)
     else if 65 \<le> n \<and> n \<le> 70 then Some (n - 55)
     else if 97 \<le> n \<and> n \<le> 102 then Some (n - 87)
     else None)"

definition hex_text :: "nat \<Rightarrow> bytes \<Rightarrow> string" where
  "hex_text letters bs =
     concat (map (\<lambda>b. [hex_digit letters (unat b div 16), hex_digit letters (unat b mod 16)]) bs)"

fun hex_read :: "string \<Rightarrow> bytes res" where
  "hex_read [] = Ok []"
| "hex_read [c] = Err (Lib ''Odd number of digits'')"
| "hex_read (c # d # cs) = (case (hex_value c, hex_value d) of
     (Some h, Some l) \<Rightarrow> and_then (hex_read cs) (\<lambda>bs. Ok (word_of_nat (16 * h + l) # bs))
   | _ \<Rightarrow> Err (Lib ''Invalid character''))"

lemma hex_value_digit:
  assumes "letters = 65 \<or> letters = 97" and "n < 16"
  shows "hex_value (hex_digit letters n) = Some n"
proof -
  have "(of_char (hex_digit letters n) :: nat) = (if n < 10 then 48 + n else letters + n - 10)"
    using assms by (auto simp: hex_digit_def)
  then show ?thesis using assms by (auto simp: hex_value_def Let_def)
qed

lemma hex_read_text: "letters = 65 \<or> letters = 97 \<Longrightarrow> hex_read (hex_text letters bs) = Ok bs"
proof (induction bs)
  case Nil
  then show ?case by (simp add: hex_text_def)
next
  case (Cons b bs)
  have "unat b div 16 < 16" and "unat b mod 16 < 16"
    using unsigned_less [of b, where ?'a = nat] by auto
  moreover have "word_of_nat (16 * (unat b div 16) + unat b mod 16) = b"
    by simp
  ultimately show ?case
    using Cons by (simp add: hex_text_def hex_value_digit del: unat_div unat_mod)
qed

lemma length_hex_text: "length (hex_text letters bs) = 2 * length bs"
  by (induction bs) (simp_all add: hex_text_def)

lemma hex_text_unquoted:
  assumes "letters = 65 \<or> letters = 97"
  shows "CHR 0x22 \<notin> set (hex_text letters bs)"
proof
  assume "CHR 0x22 \<in> set (hex_text letters bs)"
  then obtain n where "CHR 0x22 = hex_digit letters n" and "n < 16"
    unfolding hex_text_def using unsigned_less [where ?'a = nat and ?'b = 8]
    by (auto simp del: unat_div unat_mod simp: less_mult_imp_div_less)
  with hex_value_digit [OF assms, of n] show False
    by (auto simp: hex_value_def dest: sym)
qed

section \<open>Base64\<close>

definition b64_digit :: "nat \<Rightarrow> char" where
  "b64_digit n = char_of (if n < 26 then 65 + n else if n < 52 then 71 + n
     else if n < 62 then n - 4 else if n = 62 then 43 else 47)"

definition b64_value :: "char \<Rightarrow> nat option" where
  "b64_value c = (let n = of_char c in
     if 65 \<le> n \<and> n \<le> 90 then Some (n - 65)
     else if 97 \<le> n \<and> n \<le> 122 then Some (n - 71)
     else if 48 \<le> n \<and> n \<le> 57 then Some (n + 4)
     else if n = 43 then Some 62
     else if n = 47 then Some 63
     else None)"

text \<open>The four sextets of three bytes, and the bytes put together again.\<close>

definition sextet1 :: "u8 \<Rightarrow> nat" where
  "sextet1 a = unat a div 4"

definition sextet2 :: "u8 \<Rightarrow> u8 \<Rightarrow> nat" where
  "sextet2 a b = unat a mod 4 * 16 + unat b div 16"

definition sextet3 :: "u8 \<Rightarrow> u8 \<Rightarrow> nat" where
  "sextet3 b c = unat b mod 16 * 4 + unat c div 64"

definition sextet4 :: "u8 \<Rightarrow> nat" where
  "sextet4 c = unat c mod 64"

definition byte1 :: "nat \<Rightarrow> nat \<Rightarrow> u8" where
  "byte1 i j = word_of_nat (i * 4 + j div 16)"

definition byte2 :: "nat \<Rightarrow> nat \<Rightarrow> u8" where
  "byte2 j k = word_of_nat (j mod 16 * 16 + k div 4)"

definition byte3 :: "nat \<Rightarrow> nat \<Rightarrow> u8" where
  "byte3 k l = word_of_nat (k mod 4 * 64 + l)"

fun b64_text :: "bytes \<Rightarrow> string" where
  "b64_text [] = []"
| "b64_text [a] = [b64_digit (sextet1 a), b64_digit (sextet2 a 0), CHR ''='', CHR ''='']"
| "b64_text [a, b] =
     [b64_digit (sextet1 a), b64_digit (sextet2 a b), b64_digit (sextet3 b 0), CHR ''='']"
| "b64_text (a # b # c # bs) =
     b64_digit (sextet1 a) # b64_digit (sextet2 a b) # b64_digit (sextet3 b c) #
     b64_digit (sextet4 c) # b64_text bs"

fun b64_read :: "string \<Rightarrow> bytes res" where
  "b64_read [] = Ok []"
| "b64_read (p # q # r # s # cs) = (case (b64_value p, b64_value q, b64_value r, b64_value s) of
     (Some i, Some j, Some k, Some l) \<Rightarrow> and_then (b64_read cs)
       (\<lambda>bs. Ok (byte1 i j # byte2 j k # byte3 k l # bs))
   | (Some i, Some j, Some k, None) \<Rightarrow>
       if s = CHR ''='' \<and> cs = [] \<and> k mod 4 = 0 then Ok [byte1 i j, byte2 j k]
       else Err (Lib ''Invalid byte'')
   | (Some i, Some j, None, None) \<Rightarrow>
       if r = CHR ''='' \<and> s = CHR ''='' \<and> cs = [] \<and> j mod 16 = 0 then Ok [byte1 i j]
       else Err (Lib ''Invalid byte'')
   | _ \<Rightarrow> Err (Lib ''Invalid byte''))"
| "b64_read cs = Err (Lib ''Invalid length'')"

lemma b64_read_calm: "\<not> is_panic (b64_read cs)"
  by (induction cs rule: b64_read.induct) (auto simp: calm split: option.splits)

lemma b64_value_digit: "n < 64 \<Longrightarrow> b64_value (b64_digit n) = Some n"
proof -
  assume "n < 64"
  then have "(of_char (b64_digit n) :: nat) = (if n < 26 then 65 + n else if n < 52 then 71 + n
     else if n < 62 then n - 4 else if n = 62 then 43 else 47)"
    by (auto simp: b64_digit_def)
  with \<open>n < 64\<close> show ?thesis by (auto simp: b64_value_def Let_def)
qed

lemma b64_value_pad [simp]: "b64_value CHR ''='' = None"
  by (simp add: b64_value_def)

lemma byte_bound: "unat (a :: u8) < 256"
  using unsigned_less [of a, where ?'a = nat] by simp

lemma sextet_bounds:
  "sextet1 a < 64" "sextet2 a b < 64" "sextet3 a b < 64" "sextet4 a < 64"
  using byte_bound [of a] byte_bound [of b]
  by (auto simp: sextet1_def sextet2_def sextet3_def sextet4_def simp del: unat_div unat_mod)

lemma byte1_sextets: "byte1 (sextet1 a) (sextet2 a b) = a"
proof -
  have "unat b div 16 < 16" using byte_bound [of b] by simp
  then have "sextet1 a * 4 + sextet2 a b div 16 = unat a"
    by (simp add: sextet1_def sextet2_def del: unat_div unat_mod)
  then show ?thesis by (simp add: byte1_def)
qed

lemma byte2_sextets: "byte2 (sextet2 a b) (sextet3 b c) = b"
proof -
  have "unat b div 16 < 16" and "unat c div 64 < 4"
    using byte_bound [of b] byte_bound [of c] by simp_all
  then have "sextet2 a b mod 16 * 16 + sextet3 b c div 4 = unat b"
    by (simp add: sextet2_def sextet3_def del: unat_div unat_mod)
  then show ?thesis by (simp add: byte2_def)
qed

lemma byte3_sextets: "byte3 (sextet3 b c) (sextet4 c) = c"
proof -
  have "unat c div 64 < 4" using byte_bound [of c] by simp
  then have "sextet3 b c mod 4 = unat c div 64"
    by (simp add: sextet3_def del: unat_div unat_mod)
  then have "sextet3 b c mod 4 * 64 + sextet4 c = unat c"
    by (simp only: sextet4_def div_mult_mod_eq)
  then show ?thesis by (simp add: byte3_def del: unat_mod)
qed

lemma sextet_pads: "sextet2 a 0 mod 16 = 0" "sextet3 b 0 mod 4 = 0"
  by (simp_all add: sextet2_def sextet3_def)

lemmas sextets =
  b64_value_digit sextet_bounds byte1_sextets byte2_sextets byte3_sextets sextet_pads

lemma b64_read_text: "b64_read (b64_text bs) = Ok bs"
  by (induction bs rule: b64_text.induct) (simp_all add: sextets)

lemma length_b64_text: "length (b64_text bs) = 4 * ((length bs + 2) div 3)"
proof (induction bs rule: b64_text.induct)
  case (4 a b c bs)
  have "(length (a # b # c # bs) + 2) div 3 = (length bs + 2) div 3 + 1"
    using div_add_self2 [of 3 "length bs + 2"] by (simp add: algebra_simps)
  with 4 show ?case by simp
qed simp_all

lemma b64_digit_unquoted: "n < 64 \<Longrightarrow> CHR 0x22 \<noteq> b64_digit n"
proof
  assume "n < 64" and "CHR 0x22 = b64_digit n"
  then have "b64_value CHR 0x22 = Some n" using b64_value_digit by simp
  then show False by (simp add: b64_value_def)
qed

lemma b64_text_unquoted: "CHR 0x22 \<notin> set (b64_text bs)"
  by (induction bs rule: b64_text.induct) (simp_all add: b64_digit_unquoted sextet_bounds)

definition rfc4648 :: codecs where
  "rfc4648 = \<lparr>hex_decode = hex_read, hex_encode = hex_text 97, hex_encode_upper = hex_text 65,
     base64_decode = b64_read, base64_encode = b64_text\<rparr>"

interpretation rfc4648: codec_library rfc4648
  by unfold_locales
    (simp_all add: rfc4648_def hex_read_text length_hex_text hex_text_unquoted b64_read_text
      length_b64_text b64_text_unquoted)

end
