(* ===== verification/Console_Send.thy ===== *)
theory Console_Send
  imports Console_Commands
begin

text \<open>
  The \<open>send\<close> half of \<open>SendReceive\<close> in bin/console.rs: one definition per command, in the order of
  the file, reading the parameters one after the other with \<open>next_param\<close>, and \<open>command_send\<close>,
  which dispatches on the command's name. The lemmas say which parameters each command accepts
  and which request it builds from them.
\<close>

section \<open>The senders\<close>

definition send_GetStats :: "'b request res" where
  "send_GetStats = Ok GetStatsReq"

definition send_GetSelectedStats :: "'b request res" where
  "send_GetSelectedStats = Ok (GetSelectedStatsReq ''*'')"

definition send_GetSessionStats :: "'b request res" where
  "send_GetSessionStats = Ok GetSessionStatsReq"

definition send_NewKeypair :: "'b request res" where
  "send_NewKeypair = Ok GenerateKeyPairReq"

definition send_ExportPub :: "'z codecs_scheme \<Rightarrow> string list \<Rightarrow> 'b request res" where
  "send_ExportPub cod params =
     (let (p, _) = next_param params in
      and_then (parse_int256 cod p ''key_hash'') (\<lambda>key_hash.
      Ok (ExportPublicKeyReq key_hash)))"

definition send_Sign :: "'z codecs_scheme \<Rightarrow> string list \<Rightarrow> 'b request res" where
  "send_Sign cod params =
     (let (p, params) = next_param params in
      and_then (parse_int256 cod p ''key_hash'') (\<lambda>key_hash.
      let (p, _) = next_param params in
      and_then (parse_data cod p ''data'') (\<lambda>data.
      Ok (SignReq key_hash data))))"

definition send_AddValidatorPermKey ::
  "('b, 'n, 'z) env_scheme \<Rightarrow> string list \<Rightarrow> 'b request res" where
  "send_AddValidatorPermKey env params =
     (let (p, params) = next_param params in
      and_then (parse_int256 env p ''key_hash'') (\<lambda>key_hash.
      let (p, params) = next_param params in
      and_then (parse_int p ''election_date'') (\<lambda>election_date.
      let (p, _) = next_param params in
      and_then (parse_int p ''expire_at'') (\<lambda>expire_at.
      and_then (sub_i32 (overflow_checks env) expire_at election_date) (\<lambda>ttl.
      Ok (AddValidatorPermanentKeyReq key_hash election_date ttl))))))"

definition send_AddValidatorTempKey ::
  "('b, 'n, 'z) env_scheme \<Rightarrow> string list \<Rightarrow> ('n world, 'b request) io" where
  "send_AddValidatorTempKey env params =
     (let (p, params) = next_param params in
      io_bind (io_lift (parse_int256 env p ''permanent_key_hash'')) (\<lambda>permanent_key_hash.
      let (p, params) = next_param params in
      io_bind (io_lift (parse_int256 env p ''key_hash'')) (\<lambda>key_hash.
      let (p, _) = next_param params in
      io_bind (io_lift (parse_int p ''expire_at'')) (\<lambda>expire_at.
      io_bind (now env) (\<lambda>current.
      io_bind (io_lift (sub_i32 (overflow_checks env) expire_at current)) (\<lambda>ttl.
      io_ok (AddValidatorTempKeyReq permanent_key_hash key_hash ttl)))))))"

definition send_AddValidatorAdnlAddr ::
  "('b, 'n, 'z) env_scheme \<Rightarrow> string list \<Rightarrow> ('n world, 'b request) io" where
  "send_AddValidatorAdnlAddr env params =
     (let (p, params) = next_param params in
      io_bind (io_lift (parse_int256 env p ''permanent_key_hash'')) (\<lambda>permanent_key_hash.
      let (p, params) = next_param params in
      io_bind (io_lift (parse_int256 env p ''key_hash'')) (\<lambda>key_hash.
      let (p, _) = next_param params in
      io_bind (io_lift (parse_int p ''expire_at'')) (\<lambda>expire_at.
      io_bind (now env) (\<lambda>current.
      io_bind (io_lift (sub_i32 (overflow_checks env) expire_at current)) (\<lambda>ttl.
      io_ok (AddValidatorAdnlAddressReq permanent_key_hash key_hash ttl)))))))"

definition send_AddAdnlAddr :: "'z codecs_scheme \<Rightarrow> string list \<Rightarrow> 'b request res" where
  "send_AddAdnlAddr cod params =
     (let (p, params) = next_param params in
      and_then (parse_int256 cod p ''key_hash'') (\<lambda>key_hash.
      let (p, _) = next_param params in
      and_then (parse_int p ''category'') (\<lambda>category.
      if sint category < 0 \<or> 15 < sint category
      then Err (Msg ''category must be not negative and less than 16'')
      else Ok (AddAdnlIdReq key_hash category))))"

definition send_Bundle :: "('b, 'n, 'z) env_scheme \<Rightarrow> string list \<Rightarrow> 'b request res" where
  "send_Bundle env params =
     (let (p, _) = next_param params in
      and_then (parse_blockid env p ''block_id'') (\<lambda>block_id.
      Ok (GetBundleReq block_id)))"

text \<open>The second block id is optional: when it is missing or malformed it is left out.\<close>

definition send_FutureBundle :: "('b, 'n, 'z) env_scheme \<Rightarrow> string list \<Rightarrow> 'b request res" where
  "send_FutureBundle env params =
     (let (p, params) = next_param params in
      and_then (parse_blockid env p ''block_id'') (\<lambda>first.
      let (p, _) = next_param params in
      case parse_blockid env p ''block_id'' of
        Ok second \<Rightarrow> Ok (GetFutureBundleReq [first, second])
      | Err _ \<Rightarrow> Ok (GetFutureBundleReq [first])
      | Panic s \<Rightarrow> Panic s))"

definition send_SendMessage :: "string list \<Rightarrow> ('n world, 'b request) io" where
  "send_SendMessage params =
     (let (p, _) = next_param params in
      io_bind (io_lift (ok_or (Msg ''insufficient parameters'') p)) (\<lambda>filename.
      io_bind (io_map_err (Context (''Can't read file '' @ filename @ '' with message''))
        (fs_read filename)) (\<lambda>body.
      io_ok (SendMessageReq body))))"

definition send_GetBlockchainConfig :: "('b, 'n, 'z) env_scheme \<Rightarrow> 'b request res" where
  "send_GetBlockchainConfig env = Ok (GetConfigAllReq 0 (blockid_default env))"

definition send_GetConfig :: "('b, 'n, 'z) env_scheme \<Rightarrow> string list \<Rightarrow> 'b request res" where
  "send_GetConfig env params =
     (let (p, _) = next_param params in
      and_then (parse_int p ''paramnumber'') (\<lambda>param_number.
      Ok (GetConfigParamsReq 0 (blockid_default env) [param_number])))"

definition send_GetAccount :: "string list \<Rightarrow> 'b request res" where
  "send_GetAccount params =
     (let (p, _) = next_param params in
      and_then (ok_or (Msg ''insufficient parameters'') p) (\<lambda>account_address.
      Ok (GetShardAccountStateReq account_address)))"

definition send_GetAccountState :: "string list \<Rightarrow> 'b request res" where
  "send_GetAccountState params =
     (let (p, _) = next_param params in
      and_then (ok_or (Msg ''insufficient parameters'') p) (\<lambda>account_address.
      Ok (GetShardAccountStateReq account_address)))"

definition send_SetStatesGcInterval :: "string list \<Rightarrow> 'b request res" where
  "send_SetStatesGcInterval params =
     (let (p, _) = next_param params in
      and_then (ok_or (Msg ''insufficient parameters'') p) (\<lambda>interval_ms_str.
      and_then (map_err (\<lambda>e. Context ''can't parse <milliseconds>'' (ParseInt e))
        (i32_from_str interval_ms_str)) (\<lambda>interval_ms.
      Ok (SetStatesGcIntervalReq interval_ms))))"

fun send_of :: "('b, 'n, 'z) env_scheme \<Rightarrow> command \<Rightarrow> string list \<Rightarrow> ('n world, 'b request) io" where
  "send_of env AddAdnlAddr ps = io_lift (send_AddAdnlAddr env ps)"
| "send_of env AddValidatorAdnlAddr ps = send_AddValidatorAdnlAddr env ps"
| "send_of env AddValidatorPermKey ps = io_lift (send_AddValidatorPermKey env ps)"
| "send_of env AddValidatorTempKey ps = send_AddValidatorTempKey env ps"
| "send_of env Bundle ps = io_lift (send_Bundle env ps)"
| "send_of env ExportPub ps = io_lift (send_ExportPub env ps)"
| "send_of env FutureBundle ps = io_lift (send_FutureBundle env ps)"
| "send_of env GetAccount ps = io_lift (send_GetAccount ps)"
| "send_of env GetAccountState ps = io_lift (send_GetAccountState ps)"
| "send_of env GetBlockchainConfig ps = io_lift (send_GetBlockchainConfig env)"
| "send_of env GetConfig ps = io_lift (send_GetConfig env ps)"
| "send_of env GetSessionStats ps = io_lift send_GetSessionStats"
| "send_of env GetSelectedStats ps = io_lift send_GetSelectedStats"
| "send_of env GetStats ps = io_lift send_GetStats"
| "send_of env NewKeypair ps = io_lift send_NewKeypair"
| "send_of env SendMessage ps = send_SendMessage ps"
| "send_of env SetStatesGcInterval ps = io_lift (send_SetStatesGcInterval ps)"
| "send_of env Sign ps = io_lift (send_Sign env ps)"

definition command_send ::
  "('b, 'n, 'z) env_scheme \<Rightarrow> string \<Rightarrow> string list \<Rightarrow> ('n world, 'b request) io" where
  "command_send env name params = (case command_of_name name of
     Some c \<Rightarrow> send_of env c params
   | None \<Rightarrow> io_err (Msg (''command '' @ name @ '' not supported'')))"

lemma command_send_name [simp]: "command_send env (command_name c) ps = send_of env c ps"
  by (simp add: command_send_def)

section \<open>Sending builds a request and leaves no trace\<close>

lemma send_of_grows: "preserves grows (send_of env c ps)"
  by (cases c)
    (auto simp: send_AddValidatorAdnlAddr_def send_AddValidatorTempKey_def send_SendMessage_def Let_def
      split: prod.splits intro!: basic_grows trace_order.bind_preserves)

lemma command_send_grows: "preserves grows (command_send env name ps)"
  by (auto simp: command_send_def send_of_grows basic_grows split: option.splits)

end
