(* ===== verification/Console_Receive.thy ===== *)
theory Console_Receive
  imports Console_Send
begin

text \<open>
  The \<open>receive\<close> half of \<open>SendReceive\<close> in bin/console.rs: the node's answer is downcast to the
  type the command expects and turned into the text the console prints and the bytes its callers
  use; two commands also write a file. \<open>command_receive\<close> dispatches on the command's name.
\<close>

section \<open>Downcasts\<close>

text \<open>\<open>downcast\<close> keeps the object of the expected type and fails, naming the type, on any other.\<close>

definition downcast :: "string \<Rightarrow> (answer \<Rightarrow> 'a option) \<Rightarrow> answer \<Rightarrow> 'a res" where
  "downcast type_name select answer = ok_or (WrongDowncast type_name) (select answer)"

fun as_success :: "answer \<Rightarrow> unit option" where
  "as_success SuccessAns = Some ()" | "as_success _ = None"

fun as_stats :: "answer \<Rightarrow> one_stat list option" where
  "as_stats (StatsAns s) = Some s" | "as_stats _ = None"

fun as_session_stats :: "answer \<Rightarrow> session_stat list option" where
  "as_session_stats (SessionStatsAns s) = Some s" | "as_session_stats _ = None"

fun as_key_hash :: "answer \<Rightarrow> uint256 option" where
  "as_key_hash (KeyHashAns k) = Some k" | "as_key_hash _ = None"

fun as_public_key :: "answer \<Rightarrow> uint256 option option" where
  "as_public_key (PublicKeyAns k) = Some k" | "as_public_key _ = None"

fun as_signature :: "answer \<Rightarrow> bytes option" where
  "as_signature (SignatureAns s) = Some s" | "as_signature _ = None"

fun as_config_info :: "answer \<Rightarrow> bytes option" where
  "as_config_info (ConfigInfoAns p) = Some p" | "as_config_info _ = None"

text \<open>A shard account state: absent, or its bytes.\<close>

fun as_shard_account_state :: "answer \<Rightarrow> bytes option option" where
  "as_shard_account_state ShardAccountNoneAns = Some None"
| "as_shard_account_state (ShardAccountStateAns bs) = Some (Some bs)"
| "as_shard_account_state _ = None"

lemma downcast_Ok_iff [ok_iff]: "downcast t select a = Ok x \<longleftrightarrow> select a = Some x"
  by (simp add: downcast_def ok_iff)

lemma select_iffs [ok_iff]:
  "as_success a = Some u \<longleftrightarrow> a = SuccessAns"
  "as_stats a = Some s \<longleftrightarrow> a = StatsAns s"
  "as_session_stats a = Some ss \<longleftrightarrow> a = SessionStatsAns ss"
  "as_key_hash a = Some k \<longleftrightarrow> a = KeyHashAns k"
  "as_public_key a = Some pk \<longleftrightarrow> a = PublicKeyAns pk"
  "as_signature a = Some sg \<longleftrightarrow> a = SignatureAns sg"
  "as_config_info a = Some p \<longleftrightarrow> a = ConfigInfoAns p"
  by (cases a; auto)+

section \<open>The receivers\<close>

type_synonym reply = "string \<times> bytes"

definition receive_default :: "answer \<Rightarrow> reply res" where
  "receive_default answer =
     and_then (downcast ''ton_api::ton::engine::validator::Success'' as_success answer) (\<lambda>_.
     Ok (''success'', []))"

definition receive_GetStats :: "('b, 'n, 'z) env_scheme \<Rightarrow> answer \<Rightarrow> reply res" where
  "receive_GetStats env answer =
     and_then (serialize_answer env answer) (\<lambda>data.
     and_then (downcast ''ton_api::ton::engine::validator::Stats'' as_stats answer) (\<lambda>stats.
     Ok (json_pretty env (stats_to_json env stats), data)))"

definition receive_GetSelectedStats :: "('b, 'n, 'z) env_scheme \<Rightarrow> answer \<Rightarrow> reply res" where
  "receive_GetSelectedStats env answer =
     and_then (serialize_answer env answer) (\<lambda>data.
     and_then (downcast ''ton_api::ton::engine::validator::Stats'' as_stats answer) (\<lambda>stats.
     Ok (json_pretty env (stats_to_json env stats), data)))"

definition receive_GetSessionStats :: "('b, 'n, 'z) env_scheme \<Rightarrow> answer \<Rightarrow> reply res" where
  "receive_GetSessionStats env answer =
     and_then (serialize_answer env answer) (\<lambda>data.
     and_then (downcast ''ton_api::ton::engine::validator::SessionStats'' as_session_stats answer)
       (\<lambda>stats.
     Ok (json_pretty env (session_stats_to_json env stats), data)))"

definition receive_NewKeypair :: "'z codecs_scheme \<Rightarrow> answer \<Rightarrow> reply res" where
  "receive_NewKeypair cod answer =
     and_then (downcast ''ton_api::ton::engine::validator::KeyHash'' as_key_hash answer)
       (\<lambda>answer.
     let key_hash = uint256_as_slice answer in
     Ok (''received public key hash: '' @ hex_encode cod key_hash @ '' '' @ base64_encode cod key_hash,
         key_hash))"

definition receive_ExportPub :: "'z codecs_scheme \<Rightarrow> answer \<Rightarrow> reply res" where
  "receive_ExportPub cod answer =
     and_then (downcast ''ton_api::ton::PublicKey'' as_public_key answer) (\<lambda>key.
     and_then (ok_or (Msg ''Public key not found in answer!'') key) (\<lambda>key.
     let pub_key = uint256_as_slice key in
     Ok (''imported key: '' @ hex_encode cod pub_key @ '' '' @ base64_encode cod pub_key, pub_key)))"

definition receive_Sign :: "'z codecs_scheme \<Rightarrow> answer \<Rightarrow> reply res" where
  "receive_Sign cod answer =
     and_then (downcast ''ton_api::ton::engine::validator::Signature'' as_signature answer)
       (\<lambda>signature.
     Ok (''got signature: '' @ hex_encode cod signature @ '' '' @ base64_encode cod signature,
         signature))"

definition receive_GetBlockchainConfig :: "'z codecs_scheme \<Rightarrow> answer \<Rightarrow> reply res" where
  "receive_GetBlockchainConfig cod answer =
     and_then (downcast ''ton_api::ton::lite_server::ConfigInfo'' as_config_info answer)
       (\<lambda>config_proof.
     Ok (hex_encode cod config_proof, config_proof))"

definition receive_GetConfig :: "answer \<Rightarrow> reply res" where
  "receive_GetConfig answer =
     and_then (downcast ''ton_api::ton::lite_server::ConfigInfo'' as_config_info answer)
       (\<lambda>config_proof.
     and_then (string_from_utf8 config_proof) (\<lambda>config_param.
     Ok (config_param, config_proof)))"

text \<open>The account text: quotes, tabs and line ends as the code pushes them.\<close>

abbreviation (input) dq :: string where "dq \<equiv> [CHR 0x22]"
abbreviation (input) tab :: string where "tab \<equiv> [CHR 0x09]"
abbreviation (input) nl :: string where "nl \<equiv> [CHR 0x0A]"

fun account_type :: "account_status \<Rightarrow> string" where
  "account_type AccStateUninit = ''Uninit''"
| "account_type AccStateFrozen = ''Frozen''"
| "account_type AccStateActive = ''Active''"
| "account_type AccStateNonexist = ''Nonexist''"

definition account_fields ::
  "'z codecs_scheme \<Rightarrow> shard_account \<Rightarrow> account \<Rightarrow> bytes \<Rightarrow> string" where
  "account_fields cod shard_acc acc boc =
     account_type (acc_status acc) @ dq @ '','' @ nl @ dq @
     ''balance'' @ dq @ '':'' @ tab @
     nat_to_string (case acc_balance acc of None \<Rightarrow> 0 | Some grams \<Rightarrow> unat grams) @ '','' @ nl @ dq @
     ''last_paid'' @ dq @ '':'' @ tab @ nat_to_string (unat (acc_last_paid acc)) @ '','' @ nl @ dq @
     ''last_trans_lt'' @ dq @ '':'' @ tab @ dq @ nat_to_hex (unat (sa_last_trans_lt shard_acc)) @ dq @
     '','' @ nl @ dq @
     ''data(boc)'' @ dq @ '':'' @ tab @ dq @ hex_encode cod boc"

definition account_info :: "('b, 'n, 'z) env_scheme \<Rightarrow> bytes option \<Rightarrow> string res" where
  "account_info env state =
     (let open_text = ''{'' @ nl @ dq @ ''acc_type'' @ dq @ '':'' @ tab @ dq;
          close_text = dq @ nl @ ''}'' in
      case state of
        None \<Rightarrow> Ok (open_text @ ''Nonexist'' @ close_text)
      | Some raw \<Rightarrow>
          and_then (shard_account_from_bytes env raw) (\<lambda>shard_acc.
          and_then (sa_account shard_acc) (\<lambda>acc.
          and_then (sa_account_boc shard_acc) (\<lambda>boc.
          Ok (open_text @ account_fields env shard_acc acc boc @ close_text)))))"

definition receive_GetAccount ::
  "('b, 'n, 'z) env_scheme \<Rightarrow> answer \<Rightarrow> string list \<Rightarrow> ('n world, reply) io" where
  "receive_GetAccount env answer params =
     io_bind (io_lift (downcast ''ton_api::ton::raw::ShardAccountState'' as_shard_account_state answer))
       (\<lambda>state.
     io_bind (io_lift (account_info env state)) (\<lambda>info.
     let (_, params) = next_param params;
         account_data = as_bytes info;
         (boc_name, _) = next_param params in
     io_bind (case boc_name of
         Some name \<Rightarrow> io_map_err (Context ''Can`t create file'') (fs_write env name account_data)
       | None \<Rightarrow> io_ok ()) (\<lambda>_.
     io_ok (info, account_data))))"

definition receive_GetAccountState ::
  "('b, 'n, 'z) env_scheme \<Rightarrow> answer \<Rightarrow> string list \<Rightarrow> ('n world, reply) io" where
  "receive_GetAccountState env answer params =
     io_bind (io_lift (downcast ''ton_api::ton::raw::ShardAccountState'' as_shard_account_state answer))
       (\<lambda>state.
     let (_, params) = next_param params; (p, _) = next_param params in
     io_bind (io_lift (ok_or (Msg ''bad params (boc name not found)!'') p)) (\<lambda>boc_name.
     io_bind (io_lift (ok_or (Msg ''account not found!'') state)) (\<lambda>raw.
     io_bind (io_lift (shard_account_from_bytes env raw)) (\<lambda>shard_acc.
     io_bind (io_lift (sa_account_boc shard_acc)) (\<lambda>account_state.
     io_bind (io_map_err (Context ''Can`t create file'') (fs_write env boc_name account_state)) (\<lambda>_.
     io_ok (hex_encode env account_state @ '' '' @ base64_encode env account_state,
            account_state)))))))"

fun receive_of ::
  "('b, 'n, 'z) env_scheme \<Rightarrow> command \<Rightarrow> answer \<Rightarrow> string list \<Rightarrow> ('n world, reply) io" where
  "receive_of env AddAdnlAddr a ps = io_lift (receive_default a)"
| "receive_of env AddValidatorAdnlAddr a ps = io_lift (receive_default a)"
| "receive_of env AddValidatorPermKey a ps = io_lift (receive_default a)"
| "receive_of env AddValidatorTempKey a ps = io_lift (receive_default a)"
| "receive_of env Bundle a ps = io_lift (receive_default a)"
| "receive_of env ExportPub a ps = io_lift (receive_ExportPub env a)"
| "receive_of env FutureBundle a ps = io_lift (receive_default a)"
| "receive_of env GetAccount a ps = receive_GetAccount env a ps"
| "receive_of env GetAccountState a ps = receive_GetAccountState env a ps"
| "receive_of env GetBlockchainConfig a ps = io_lift (receive_GetBlockchainConfig env a)"
| "receive_of env GetConfig a ps = io_lift (receive_GetConfig a)"
| "receive_of env GetSessionStats a ps = io_lift (receive_GetSessionStats env a)"
| "receive_of env GetSelectedStats a ps = io_lift (receive_GetSelectedStats env a)"
| "receive_of env GetStats a ps = io_lift (receive_GetStats env a)"
| "receive_of env NewKeypair a ps = io_lift (receive_NewKeypair env a)"
| "receive_of env SendMessage a ps = io_lift (receive_default a)"
| "receive_of env SetStatesGcInterval a ps = io_lift (receive_default a)"
| "receive_of env Sign a ps = io_lift (receive_Sign env a)"

definition command_receive ::
  "('b, 'n, 'z) env_scheme \<Rightarrow> string \<Rightarrow> answer \<Rightarrow> string list \<Rightarrow> ('n world, reply) io" where
  "command_receive env name answer params = (case command_of_name name of
     Some c \<Rightarrow> receive_of env c answer params
   | None \<Rightarrow> io_err (Msg (''an error occured while receiving a response (command: '' @ name @ '')'')))"

section \<open>Receiving only adds to the trace\<close>

lemma receive_of_grows: "preserves grows (receive_of env c a ps)"
  by (cases c)
    (auto simp: receive_GetAccount_def receive_GetAccountState_def Let_def
      split: prod.splits option.splits intro!: basic_grows trace_order.bind_preserves)

lemma command_receive_grows: "preserves grows (command_receive env name a ps)"
  by (auto simp: command_receive_def receive_of_grows basic_grows split: option.splits)

end
