(* ===== verification/Console_Client.thy ===== *)
theory Console_Client
  imports Console_Receive
begin

text \<open>
  \<open>ControlClient\<close> of bin/console.rs: \<open>process_command\<close>, one round trip to the node, and
  \<open>process_recover_stake\<close>. The lemmas give what a successful round trip of each command asked the
  node and returned (\<open>asks\<close>), and that a round trip asks the node at most once.
\<close>

section \<open>One round trip\<close>

definition process_command ::
  "('b, 'n, 'z) env_scheme \<Rightarrow> string \<Rightarrow> string list \<Rightarrow> ('n world, reply) io" where
  "process_command env name params =
     io_bind (command_send env name params) (\<lambda>query.
     io_bind (io_lift (serialize_request env query)) (\<lambda>data.
     io_bind (io_map_err (Context ''Error receiving answer'') (query_node env data)) (\<lambda>answer.
     if answer = ControlQueryErrorAns then io_err ErrorResponse
     else io_map_err WrongResponse (command_receive env name answer params))))"

lemma process_command_grows: "preserves grows (process_command env name params)"
  unfolding process_command_def
  by (intro trace_order.bind_preserves trace_order.map_err_preserves command_send_grows
      command_receive_grows basic_grows)
    (simp add: basic_grows command_receive_grows)

lemma process_command_run:
  assumes "command_of_name name = Some c" and "send_of env c ps w = (Ok req, w1)"
    and "serialize_request env req = Ok d" and "adnl_query env d (net w1) = (Ok a, n)"
    and "a \<noteq> ControlQueryErrorAns"
    and "receive_of env c a ps (w1\<lparr>net := n, trace := trace w1 @ [Queried d]\<rparr>) = (Ok out, w2)"
  shows "process_command env name ps w = (Ok out, w2)"
  using assms
  by (simp add: process_command_def command_send_def command_receive_def io_bind_def io_lift_def
      query_node_def io_map_err_def)

text \<open>
  \<open>asks env reqs w w'\<close>: between \<open>w\<close> and \<open>w'\<close> the node was sent the serialised \<open>reqs\<close>, in this
  order, and nothing else happened that shows.
\<close>

definition asks :: "('b, 'n, 'z) env_scheme \<Rightarrow> 'b request list \<Rightarrow> 'n world \<Rightarrow> 'n world \<Rightarrow> bool" where
  "asks env reqs w w' \<longleftrightarrow>
     (\<exists>ds. list_all2 (\<lambda>r d. serialize_request env r = Ok d) reqs ds \<and>
        trace w' = trace w @ map Queried ds \<and> files w' = files w \<and> stdin w' = stdin w)"

lemma asks_append: "asks env rs u v \<Longrightarrow> asks env rs' v w \<Longrightarrow> asks env (rs @ rs') u w"
  unfolding asks_def
proof (elim exE conjE)
  fix ds ds'
  let ?sent = "list_all2 (\<lambda>r d. serialize_request env r = Ok d)"
  assume "?sent rs ds" and "?sent rs' ds'" and "trace v = trace u @ map Queried ds"
    and "trace w = trace v @ map Queried ds'" and "files v = files u" and "files w = files v"
    and "stdin v = stdin u" and "stdin w = stdin v"
  then show "\<exists>ds. ?sent (rs @ rs') ds \<and> trace w = trace u @ map Queried ds \<and> files w = files u \<and>
      stdin w = stdin u"
    by (intro exI [of _ "ds @ ds'"]) (simp add: list_all2_appendI)
qed

lemma asks_Cons: "asks env [r] u v \<Longrightarrow> asks env rs v w \<Longrightarrow> asks env (r # rs) u w"
  using asks_append [of env "[r]" u v rs w] by simp

text \<open>
  A command with a pure receiver asks the node for the request its sender built and returns what
  the receiver makes of the answer.
\<close>

lemma process_command_asks:
  assumes ok: "process_command env name ps w = (Ok out, w')"
    and name: "command_of_name name = Some c"
    and send: "\<And>req w1. send_of env c ps w = (Ok req, w1) \<Longrightarrow>
        P req \<and> trace w1 = trace w \<and> files w1 = files w \<and> stdin w1 = stdin w"
    and recv: "\<And>a. receive_of env c a ps = io_lift (f a)"
  shows "\<exists>req a. P req \<and> f a = Ok out \<and> asks env [req] w w'"
proof -
  from ok name recv obtain req w1 d a n where
    s: "send_of env c ps w = (Ok req, w1)" and d: "serialize_request env req = Ok d"
    and f: "f a = Ok out" and w': "w' = w1\<lparr>net := n, trace := trace w1 @ [Queried d]\<rparr>"
    by (auto simp: process_command_def command_send_def command_receive_def ok_iff
        split: if_splits)
  from send [OF s] d w' have "P req \<and> asks env [req] w w'"
    by (auto simp: asks_def intro!: exI [of _ "[d]"])
  with f show ?thesis by blast
qed

text \<open>A reading of the system clock, as \<open>now\<close> returns it.\<close>

definition clock_reading :: "('b, 'n, 'z) env_scheme \<Rightarrow> i32 \<Rightarrow> bool" where
  "clock_reading env t \<longleftrightarrow>
     (\<exists>n secs n'. system_time env n = (secs, n') \<and> 0 \<le> secs \<and> t = secs_as_i32 secs)"

lemma now_clock_reading:
  "now env w = (Ok t, w') \<Longrightarrow>
     clock_reading env t \<and> trace w' = trace w \<and> files w' = files w \<and> stdin w' = stdin w"
  by (auto simp: ok_iff clock_reading_def)

section \<open>The commands of an election bid\<close>

lemma newkey_Ok:
  assumes "process_command env ''newkey'' [] w = (Ok (s, k), w')"
  shows "\<exists>h. k = uint256_as_slice h \<and> asks env [GenerateKeyPairReq] w w'"
  using process_command_asks [OF assms, of NewKeypair "\<lambda>r. r = GenerateKeyPairReq" "receive_NewKeypair env"]
  by (auto simp: send_NewKeypair_def receive_NewKeypair_def ok_iff Let_def)

context hex_library begin

abbreviation (input) key_text :: "uint256 \<Rightarrow> string" where
  "key_text h \<equiv> hex_encode_upper cod (uint256_as_slice h)"

lemma send_ExportPub_key: "send_ExportPub cod [key_text h] = Ok (ExportPublicKeyReq h)"
  by (simp add: send_ExportPub_def parse_int256_upper)

lemma send_Sign_key:
  "send_Sign cod [key_text h, hex_encode_upper cod bs] = Ok (SignReq h bs)"
  by (simp add: send_Sign_def parse_int256_upper parse_data_upper)

lemma send_AddAdnlAddr_key:
  "send_AddAdnlAddr cod [key_text h, i32_to_string n] =
     (if sint n < 0 \<or> 15 < sint n then Err (Msg ''category must be not negative and less than 16'')
      else Ok (AddAdnlIdReq h n))"
  by (simp add: send_AddAdnlAddr_def parse_int256_upper)

end

lemma exportpub_Ok:
  assumes "hex_library env"
    and "process_command env ''exportpub'' [hex_encode_upper env (uint256_as_slice h)] w = (Ok (s, k), w')"
  shows "\<exists>q. k = uint256_as_slice q \<and> asks env [ExportPublicKeyReq h] w w'"
  using process_command_asks [OF assms(2), of ExportPub "\<lambda>r. r = ExportPublicKeyReq h" "receive_ExportPub env"]
  by (auto simp: hex_library.send_ExportPub_key [OF assms(1)] receive_ExportPub_def ok_iff Let_def)

lemma addpermkey_Ok:
  assumes "hex_library env"
    and "process_command env ''addpermkey''
      [hex_encode_upper env (uint256_as_slice h), i32_to_string e, i32_to_string x] w = (Ok out, w')"
  shows "asks env [AddValidatorPermanentKeyReq h e (x - e)] w w'"
  using process_command_asks [OF assms(2), of AddValidatorPermKey
      "\<lambda>r. r = AddValidatorPermanentKeyReq h e (x - e)" receive_default]
  by (auto simp: send_AddValidatorPermKey_def hex_library.parse_int256_upper [OF assms(1)] ok_iff
      dest!: sub_i32_Ok)

lemma addtempkey_Ok:
  assumes "hex_library env"
    and "process_command env ''addtempkey''
      [hex_encode_upper env (uint256_as_slice h), hex_encode_upper env (uint256_as_slice k),
       i32_to_string x] w = (Ok out, w')"
  shows "\<exists>t. clock_reading env t \<and> asks env [AddValidatorTempKeyReq h k (x - t)] w w'"
  using process_command_asks [OF assms(2), of AddValidatorTempKey
      "\<lambda>r. \<exists>t. clock_reading env t \<and> r = AddValidatorTempKeyReq h k (x - t)" receive_default]
  by (auto simp: send_AddValidatorTempKey_def hex_library.parse_int256_upper [OF assms(1)]
      io_bind_Ok_iff io_lift_Ok_iff dest!: sub_i32_Ok now_clock_reading)

lemma addvalidatoraddr_Ok:
  assumes "hex_library env"
    and "process_command env ''addvalidatoraddr''
      [hex_encode_upper env (uint256_as_slice h), hex_encode_upper env (uint256_as_slice k),
       i32_to_string x] w = (Ok out, w')"
  shows "\<exists>t. clock_reading env t \<and> asks env [AddValidatorAdnlAddressReq h k (x - t)] w w'"
  using process_command_asks [OF assms(2), of AddValidatorAdnlAddr
      "\<lambda>r. \<exists>t. clock_reading env t \<and> r = AddValidatorAdnlAddressReq h k (x - t)" receive_default]
  by (auto simp: send_AddValidatorAdnlAddr_def hex_library.parse_int256_upper [OF assms(1)]
      io_bind_Ok_iff io_lift_Ok_iff dest!: sub_i32_Ok now_clock_reading)

lemma i32_zero_text: "i32_to_string 0 = ''0''"
  by code_simp

lemma addadnl_Ok:
  assumes "hex_library env"
    and "process_command env ''addadnl'' [hex_encode_upper env (uint256_as_slice h), ''0''] w = (Ok out, w')"
  shows "asks env [AddAdnlIdReq h 0] w w'"
proof -
  have send: "send_AddAdnlAddr env [hex_encode_upper env (uint256_as_slice h), ''0''] = Ok (AddAdnlIdReq h 0)"
    using hex_library.send_AddAdnlAddr_key [OF assms(1), of h 0] by (simp add: i32_zero_text)
  show ?thesis
    using process_command_asks [OF assms(2), of AddAdnlAddr "\<lambda>r. r = AddAdnlIdReq h 0" receive_default]
    by (auto simp: send ok_iff)
qed

lemma sign_Ok:
  assumes "hex_library env"
    and "process_command env ''sign''
      [hex_encode_upper env (uint256_as_slice h), hex_encode_upper env bs] w = (Ok (s, sg), w')"
  shows "asks env [SignReq h bs] w w'"
  using process_command_asks [OF assms(2), of Sign "\<lambda>r. r = SignReq h bs" "receive_Sign env"]
  by (auto simp: hex_library.send_Sign_key [OF assms(1)] ok_iff)

section \<open>Recovering the stake\<close>

text \<open>
  The cell builder and the signature check of \<open>ton_types\<close>: \<open>'bl\<close> stands for \<open>BuilderData\<close>,
  \<open>'c\<close> for \<open>Cell\<close>.
\<close>

record ('bl, 'c) cells =
  with_raw :: "bytes \<Rightarrow> nat \<Rightarrow> 'bl res"
  append_reference :: "'bl \<Rightarrow> 'c \<Rightarrow> 'bl res"
  into_cell :: "'bl \<Rightarrow> 'c res"
  write_boc :: "'c \<Rightarrow> bytes res"
  ed25519_verify :: "bytes \<Rightarrow> bytes \<Rightarrow> bytes \<Rightarrow> unit res"

definition recover_body :: "u64 \<Rightarrow> bytes" where
  "recover_body query_id = u32_to_be_bytes 0x47657424 @ u64_to_be_bytes query_id"

text \<open>The end of both message commands: the file's name, the write, the text.\<close>

definition save_message ::
  "('b, 'n, 'z) env_scheme \<Rightarrow> string option \<Rightarrow> string \<Rightarrow> bytes \<Rightarrow> ('n world, reply) io" where
  "save_message env param default_path data =
     (let path = case_option default_path (\<lambda>p. p) param in
      io_bind (fs_write env path data) (\<lambda>_.
      io_ok (''Message body is '' @ base64_encode env data @ '' saved to path '' @ path, data)))"

definition process_recover_stake ::
  "('bl, 'c) cells \<Rightarrow> ('b, 'n, 'z) env_scheme \<Rightarrow> string list \<Rightarrow> ('n world, reply) io" where
  "process_recover_stake cl env params =
     io_bind (now env) (\<lambda>current.
     let query_id = i32_as_u64 current; data = recover_body query_id; len = length data * 8 in
     io_bind (io_lift (with_raw cl data len)) (\<lambda>body.
     io_bind (io_lift (into_cell cl body)) (\<lambda>body.
     io_bind (io_lift (write_boc cl body)) (\<lambda>data.
     let (path, _) = next_param params in
     save_message env path ''recover-query.boc'' data))))"

lemma save_message_grows: "preserves grows (save_message env param path data)"
  by (auto simp: save_message_def Let_def intro!: trace_order.bind_preserves basic_grows)

lemma process_recover_stake_grows: "preserves grows (process_recover_stake cl env params)"
  by (auto simp: process_recover_stake_def Let_def split: prod.splits
      intro!: trace_order.bind_preserves basic_grows save_message_grows)

lemma save_message_Ok_iff [ok_iff]:
  "save_message env param path0 data w = (Ok out, w') \<longleftrightarrow>
     (let path = case_option path0 (\<lambda>p. p) param in
        write_fault env path = None \<and>
        w' = w\<lparr>files := (files w)(path \<mapsto> data), trace := trace w @ [WroteFile path data]\<rparr> \<and>
        out = (''Message body is '' @ base64_encode env data @ '' saved to path '' @ path, data))"
  by (auto simp: save_message_def ok_iff Let_def)

text \<open>The recover message is the tag and the query id, which read back from its bytes.\<close>

lemma recover_body_layout:
  "length (recover_body q) = 12"
  "u32_from_be_bytes (take 4 (recover_body q)) = 0x47657424"
  "u64_from_be_bytes (drop 4 (recover_body q)) = q"
  by (simp_all add: recover_body_def u32_be.enc_length u64_be.enc_length u32_be.field_value
      u32_be.dec_enc u64_be.dec_enc)

end
