(* ===== verification/Console_Election.thy ===== *)
theory Console_Election
  imports Console_Client
begin

text \<open>
  The election bid of bin/console.rs (\<open>process_election_bid\<close>): the checks of the configuration and
  the parameters, the seven commands that make and register the validator's keys, the bytes that
  are signed, and the message that is written to a file. The pieces are named after the code's
  blocks and composed in its order. The lemmas say when the checks pass, which requests the node
  is sent and how the two byte layouts read back.
\<close>

record console_config =
  wallet_id :: "string option"
  max_factor :: "f32 option"

record bid =
  bid_wallet :: bytes
  bid_elect :: i32
  bid_expire :: i32
  bid_factor :: u32

section \<open>The checks\<close>

definition parse_wallet :: "'z codecs_scheme \<Rightarrow> console_config \<Rightarrow> bytes res" where
  "parse_wallet cod cfg =
     parse_any (wallet_id cfg) ''wallet_id'' (\<lambda>value.
       case strip_prefix_str ''-1:'' value of
         Some stripped \<Rightarrow> hex_decode cod stripped
       | None \<Rightarrow> Err (Msg ''use masterchain wallet''))"

definition bid_args :: "'z codecs_scheme \<Rightarrow> console_config \<Rightarrow> string list \<Rightarrow> (bid \<times> string list) res" where
  "bid_args cod cfg params =
     and_then (parse_wallet cod cfg) (\<lambda>wallet.
     let (p, params) = next_param params in
     and_then (parse_int p ''elect_time'') (\<lambda>elect_time.
     if sint elect_time \<le> 0 then Err (Msg ''<elect-utime> must be a positive integer'')
     else let (p, params) = next_param params in
     and_then (parse_int p ''expire_time'') (\<lambda>expire_time.
     if sint expire_time \<le> sint elect_time
     then Err (Msg ''<expire-utime> must be a grater than elect_time'')
     else
     and_then (ok_or (Msg ''you must give max_factor as real'') (max_factor cfg)) (\<lambda>factor.
     if f32_less_int factor 1 \<or> f32_greater_int factor 100
     then Err (Msg ''<max-factor> must be a real number 1..100'')
     else Ok (\<lparr>bid_wallet = wallet, bid_elect = elect_time, bid_expire = expire_time,
               bid_factor = f32_as_u32 (f32_mul_65536 factor)\<rparr>, params)))))"

section \<open>The keys\<close>

text \<open>The bytes of the permanent key's hash, the public key and the ADNL key's hash.\<close>

definition bid_commands ::
  "('b, 'n, 'z) env_scheme \<Rightarrow> bid \<Rightarrow> ('n world, bytes \<times> bytes \<times> bytes) io" where
  "bid_commands env b =
     (let elect_time_str = i32_to_string (bid_elect b);
          expire_time_str = i32_to_string (bid_expire b) in
      io_bind (process_command env ''newkey'' []) (\<lambda>(_, perm).
      let perm_str = hex_encode_upper env perm in
      io_bind (process_command env ''exportpub'' [perm_str]) (\<lambda>(_, pub_key).
      io_bind (process_command env ''addpermkey'' [perm_str, elect_time_str, expire_time_str]) (\<lambda>_.
      io_bind (process_command env ''addtempkey'' [perm_str, perm_str, expire_time_str]) (\<lambda>_.
      io_bind (process_command env ''newkey'' []) (\<lambda>(_, adnl).
      let adnl_str = hex_encode_upper env adnl in
      io_bind (process_command env ''addadnl'' [adnl_str, ''0'']) (\<lambda>_.
      io_bind (process_command env ''addvalidatoraddr'' [perm_str, adnl_str, elect_time_str]) (\<lambda>_.
      io_ok (perm, pub_key, adnl)))))))))"

section \<open>The signed request and the message\<close>

definition elect_req :: "bid \<Rightarrow> bytes \<Rightarrow> bytes" where
  "elect_req b adnl =
     u32_to_be_bytes 0x654C5074 @ u32_to_be_bytes (bid_elect b) @ u32_to_be_bytes (bid_factor b) @
     bid_wallet b @ adnl"

definition bid_sign ::
  "('bl, 'c) cells \<Rightarrow> ('b, 'n, 'z) env_scheme \<Rightarrow> bid \<Rightarrow> bytes \<Rightarrow> bytes \<Rightarrow> bytes
     \<Rightarrow> ('n world, bytes) io" where
  "bid_sign cl env b perm pub_key adnl =
     (let data = elect_req b adnl;
          perm_str = hex_encode_upper env perm;
          data_str = hex_encode_upper env data in
      io_bind (process_command env ''sign'' [perm_str, data_str]) (\<lambda>(_, signature).
      io_bind (io_lift (to_array32 pub_key)) (\<lambda>key.
      io_bind (io_lift (ed25519_verify cl key data signature)) (\<lambda>_.
      io_ok signature))))"

definition elect_signed :: "u64 \<Rightarrow> bytes \<Rightarrow> bid \<Rightarrow> bytes \<Rightarrow> bytes" where
  "elect_signed query_id pub_key b adnl =
     u32_to_be_bytes 0x4E73744B @ u64_to_be_bytes query_id @ pub_key @
     u32_to_be_bytes (bid_elect b) @ u32_to_be_bytes (bid_factor b) @ adnl"

definition signed_boc :: "('bl, 'c) cells \<Rightarrow> bytes \<Rightarrow> bytes \<Rightarrow> bytes res" where
  "signed_boc cl data signature =
     (let len = length data * 8 in
      and_then (with_raw cl data len) (\<lambda>body.
      let len = length signature * 8 in
      and_then (with_raw cl signature len) (\<lambda>builder.
      and_then (into_cell cl builder) (\<lambda>cell.
      and_then (append_reference cl body cell) (\<lambda>body.
      and_then (into_cell cl body) (\<lambda>body.
      write_boc cl body))))))"

definition process_election_bid ::
  "('bl, 'c) cells \<Rightarrow> ('b, 'n, 'z) env_scheme \<Rightarrow> console_config \<Rightarrow> string list
     \<Rightarrow> ('n world, reply) io" where
  "process_election_bid cl env cfg params =
     io_bind (io_lift (bid_args env cfg params)) (\<lambda>(b, params).
     io_bind (bid_commands env b) (\<lambda>(perm, pub_key, adnl).
     io_bind (bid_sign cl env b perm pub_key adnl) (\<lambda>signature.
     io_bind (now env) (\<lambda>current.
     let query_id = i32_as_u64 current; data = elect_signed query_id pub_key b adnl in
     io_bind (io_lift (signed_boc cl data signature)) (\<lambda>data.
     let (path, _) = next_param params in
     save_message env path ''validator-query.boc'' data)))))"

section \<open>The checks pass exactly on a masterchain wallet and ordered times\<close>

lemma parse_wallet_Ok_iff:
  "parse_wallet cod cfg = Ok wallet \<longleftrightarrow>
     (\<exists>s t. wallet_id cfg = Some s \<and> trim_matches CHR 0x22 s = ''-1:'' @ t \<and>
        hex_decode cod t = Ok wallet)"
  by (auto simp: parse_wallet_def parse_any_Ok_iff strip_prefix_str_Some split: option.splits)

lemma bid_args_Ok_iff:
  "bid_args cod cfg params = Ok (b, rest) \<longleftrightarrow>
     (\<exists>factor.
        parse_wallet cod cfg = Ok (bid_wallet b) \<and>
        parse_int (fst (next_param params)) ''elect_time'' = Ok (bid_elect b) \<and>
        parse_int (fst (next_param (tl params))) ''expire_time'' = Ok (bid_expire b) \<and>
        0 < sint (bid_elect b) \<and> sint (bid_elect b) < sint (bid_expire b) \<and>
        max_factor cfg = Some factor \<and>
        \<not> f32_less_int factor 1 \<and> \<not> f32_greater_int factor 100 \<and>
        bid_factor b = f32_as_u32 (f32_mul_65536 factor) \<and> rest = tl (tl params))"
  by (cases b)
    (auto simp: bid_args_def ok_iff case_prod_beta snd_next_param Let_def not_le not_less)

section \<open>The layouts\<close>

lemma elect_req_layout:
  "length (elect_req b adnl) = 12 + length (bid_wallet b) + length adnl"
  "u32_from_be_bytes (take 4 (elect_req b adnl)) = 0x654C5074"
  "u32_from_be_bytes (take 4 (drop 4 (elect_req b adnl))) = bid_elect b"
  "u32_from_be_bytes (take 4 (drop 8 (elect_req b adnl))) = bid_factor b"
  "drop 12 (elect_req b adnl) = bid_wallet b @ adnl"
  by (simp_all add: elect_req_def u32_be.enc_length u32_be.dec_enc)

lemma elect_signed_layout:
  assumes "length pub_key = 32"
  shows "length (elect_signed q pub_key b adnl) = 52 + length adnl"
    "u32_from_be_bytes (take 4 (elect_signed q pub_key b adnl)) = 0x4E73744B"
    "u64_from_be_bytes (take 8 (drop 4 (elect_signed q pub_key b adnl))) = q"
    "take 32 (drop 12 (elect_signed q pub_key b adnl)) = pub_key"
    "u32_from_be_bytes (take 4 (drop 44 (elect_signed q pub_key b adnl))) = bid_elect b"
    "u32_from_be_bytes (take 4 (drop 48 (elect_signed q pub_key b adnl))) = bid_factor b"
    "drop 52 (elect_signed q pub_key b adnl) = adnl"
  using assms
  by (simp_all add: elect_signed_def u32_be.enc_length u32_be.dec_enc u64_be.enc_length u64_be.dec_enc)

section \<open>What a successful bid asked of the node\<close>

definition key_requests ::
  "bid \<Rightarrow> uint256 \<Rightarrow> uint256 \<Rightarrow> i32 \<Rightarrow> i32 \<Rightarrow> 'b request list" where
  "key_requests b perm adnl t1 t2 =
     [GenerateKeyPairReq,
      ExportPublicKeyReq perm,
      AddValidatorPermanentKeyReq perm (bid_elect b) (bid_expire b - bid_elect b),
      AddValidatorTempKeyReq perm perm (bid_expire b - t1),
      GenerateKeyPairReq,
      AddAdnlIdReq adnl 0,
      AddValidatorAdnlAddressReq perm adnl (bid_elect b - t2)]"

lemma bid_commands_Ok:
  assumes hex: "hex_library env"
    and ok: "bid_commands env b w = (Ok (perm, pub_key, adnl), w')"
  shows "\<exists>h q k t1 t2. perm = uint256_as_slice h \<and> pub_key = uint256_as_slice q \<and>
    adnl = uint256_as_slice k \<and> clock_reading env t1 \<and> clock_reading env t2 \<and>
    asks env (key_requests b h k t1 t2) w w'"
proof -
  let ?elect = "i32_to_string (bid_elect b)" and ?expire = "i32_to_string (bid_expire b)"
  let ?perm = "hex_encode_upper env perm" and ?adnl = "hex_encode_upper env adnl"
  from ok obtain s1 s2 o3 o4 s5 o6 o7 w1 w2 w3 w4 w5 w6 where
    1: "process_command env ''newkey'' [] w = (Ok (s1, perm), w1)" and
    2: "process_command env ''exportpub'' [?perm] w1 = (Ok (s2, pub_key), w2)" and
    3: "process_command env ''addpermkey'' [?perm, ?elect, ?expire] w2 = (Ok o3, w3)" and
    4: "process_command env ''addtempkey'' [?perm, ?perm, ?expire] w3 = (Ok o4, w4)" and
    5: "process_command env ''newkey'' [] w4 = (Ok (s5, adnl), w5)" and
    6: "process_command env ''addadnl'' [?adnl, ''0''] w5 = (Ok o6, w6)" and
    7: "process_command env ''addvalidatoraddr'' [?perm, ?adnl, ?elect] w6 = (Ok o7, w')"
    by (auto simp: bid_commands_def ok_iff Let_def)
  from newkey_Ok [OF 1] obtain h where h: "perm = uint256_as_slice h"
    and a1: "asks env [GenerateKeyPairReq] w w1" by blast
  from exportpub_Ok [OF hex 2 [unfolded h]] obtain q where q: "pub_key = uint256_as_slice q"
    and a2: "asks env [ExportPublicKeyReq h] w1 w2" by blast
  note a3 = addpermkey_Ok [OF hex 3 [unfolded h]]
  from addtempkey_Ok [OF hex 4 [unfolded h]] obtain t1 where t1: "clock_reading env t1"
    and a4: "asks env [AddValidatorTempKeyReq h h (bid_expire b - t1)] w3 w4" by blast
  from newkey_Ok [OF 5] obtain k where k: "adnl = uint256_as_slice k"
    and a5: "asks env [GenerateKeyPairReq] w4 w5" by blast
  note a6 = addadnl_Ok [OF hex 6 [unfolded k]]
  from addvalidatoraddr_Ok [OF hex 7 [unfolded h k]] obtain t2 where t2: "clock_reading env t2"
    and a7: "asks env [AddValidatorAdnlAddressReq h k (bid_elect b - t2)] w6 w'" by blast
  have "asks env (key_requests b h k t1 t2) w w'"
    unfolding key_requests_def
    by (rule asks_Cons [OF a1 asks_Cons [OF a2 asks_Cons [OF a3 asks_Cons [OF a4 asks_Cons [OF a5
        asks_Cons [OF a6 a7]]]]]])
  with h q k t1 t2 show ?thesis by blast
qed

lemma bid_sign_Ok:
  assumes hex: "hex_library env"
    and ok: "bid_sign cl env b (uint256_as_slice h) pub_key adnl w = (Ok sg, w')"
  shows "ed25519_verify cl pub_key (elect_req b adnl) sg = Ok () \<and>
    asks env [SignReq h (elect_req b adnl)] w w'"
proof -
  from ok obtain s where
    "process_command env ''sign'' [hex_encode_upper env (uint256_as_slice h),
       hex_encode_upper env (elect_req b adnl)] w = (Ok (s, sg), w')"
    and "ed25519_verify cl pub_key (elect_req b adnl) sg = Ok ()"
    by (auto simp: bid_sign_def ok_iff Let_def)
  with sign_Ok [OF hex] show ?thesis by blast
qed

section \<open>A bid that fails writes nothing\<close>

definition same_files :: "'n world \<Rightarrow> 'n world \<Rightarrow> bool" where
  "same_files w w' \<longleftrightarrow> files w' = files w"

interpretation files_order: world_order same_files
  by unfold_locales (auto simp: same_files_def)

lemma query_node_same_files: "preserves same_files (query_node env data)"
  by (auto simp: preserves_def same_files_def query_node_def split: prod.splits)

lemma now_same_files: "preserves same_files (now env)"
  by (auto simp: preserves_def same_files_def now_def split: prod.splits)

lemma fs_read_same_files: "preserves same_files (fs_read path)"
  by (auto simp: preserves_def same_files_def fs_read_def split: option.splits)

lemmas basic_same_files =
  files_order.lift_preserves files_order.map_err_preserves query_node_same_files now_same_files
  fs_read_same_files

lemma send_of_same_files: "preserves same_files (send_of env c ps)"
  by (cases c)
    (auto simp: send_AddValidatorAdnlAddr_def send_AddValidatorTempKey_def send_SendMessage_def Let_def
      split: prod.splits intro!: basic_same_files files_order.bind_preserves)

lemma receive_of_same_files:
  "c \<noteq> GetAccount \<Longrightarrow> c \<noteq> GetAccountState \<Longrightarrow> preserves same_files (receive_of env c a ps)"
  by (cases c) (auto intro!: basic_same_files)

lemma process_command_same_files:
  assumes "command_of_name name = Some c" and "c \<noteq> GetAccount" and "c \<noteq> GetAccountState"
  shows "preserves same_files (process_command env name ps)"
  using assms unfolding process_command_def command_send_def command_receive_def
  by (auto intro!: basic_same_files files_order.bind_preserves send_of_same_files receive_of_same_files)

lemma bid_commands_same_files: "preserves same_files (bid_commands env b)"
  unfolding bid_commands_def Let_def
  by (intro files_order.bind_preserves files_order.lift_preserves
      process_command_same_files [where c = NewKeypair] process_command_same_files [where c = ExportPub]
      process_command_same_files [where c = AddValidatorPermKey]
      process_command_same_files [where c = AddValidatorTempKey]
      process_command_same_files [where c = AddAdnlAddr]
      process_command_same_files [where c = AddValidatorAdnlAddr]
      | simp add: case_prod_beta)+

lemma bid_sign_same_files: "preserves same_files (bid_sign cl env b perm pub_key adnl)"
  unfolding bid_sign_def Let_def
  by (auto intro!: files_order.bind_preserves basic_same_files
      process_command_same_files [where c = Sign])

end
