(* ===== verification/Console_Main.thy ===== *)
theory Console_Main
  imports Console_Election
begin

text \<open>
  The rest of bin/console.rs: \<open>process_config_param\<close>, the dispatch of a command line
  (\<open>ControlClient::command\<close>), the batch loop, the interactive loop and \<open>main\<close>. The interactive
  loop need not end, so it is a partial function: \<open>None\<close> is a loop that runs for ever.
\<close>

section \<open>A configuration parameter of a zerostate\<close>

text \<open>
  The parsers of \<open>serde_json\<close>, \<open>ton_block_json\<close> and \<open>ton_block\<close>, by what the code asks of their
  results: the slice of a parameter is what \<open>reference_opt(0)\<close> finds in it, the extra of a
  masterchain state is its lookup of parameter slices, a state is the result of \<open>read_custom\<close>.
\<close>

type_synonym 'c param_slice = "'c option"
type_synonym ('k, 'c) mc_extra = "'k \<Rightarrow> 'c param_slice option res"
type_synonym ('k, 'c) mc_state = "('k, 'c) mc_extra option res"

record ('m, 'k, 'c) zerostates =
  json_map_from_str :: "string \<Rightarrow> 'm res"
  parse_state :: "'m \<Rightarrow> ('k, 'c) mc_state res"
  config_key :: "i32 \<Rightarrow> 'k res"

definition read_to_string :: "string \<Rightarrow> ('n world, string) io" where
  "read_to_string path = io_bind (fs_read path) (\<lambda>bs. io_lift (string_from_utf8 bs))"

definition config_param_cell ::
  "('m, 'k, 'c) zerostates \<Rightarrow> i32 \<Rightarrow> string \<Rightarrow> 'c res" where
  "config_param_cell zl index text =
     and_then (map_err (Context ''Can't parse read zerostate json file'') (json_map_from_str zl text)) (\<lambda>m.
     and_then (map_err (Context ''Can't parse read zerostate json file'') (parse_state zl m)) (\<lambda>zerostate.
     and_then (config_key zl index) (\<lambda>key.
     and_then (map_err (Context ''Can't read McStateExtra from zerostate'') zerostate) (\<lambda>custom.
     and_then (ok_or (Msg ''Can't find McStateExtra in zerostate'') custom) (\<lambda>extra.
     and_then (map_err (Context (''Can't read config param '' @ i32_to_string index @ '' from zerostate'')) (extra key)) (\<lambda>param.
     and_then (ok_or (Msg (''Can't find config param '' @ i32_to_string index @ '' in zerostate'')) param) (\<lambda>slice.
     ok_or (Msg (''Can't parse config param '' @ i32_to_string index @ '': wrong format - no reference'')) slice)))))))"

definition process_config_param ::
  "('bl, 'c) cells \<Rightarrow> ('m, 'k, 'c) zerostates \<Rightarrow> ('b, 'n, 'z) env_scheme \<Rightarrow> string list
     \<Rightarrow> ('n world, reply) io" where
  "process_config_param cl zl env params =
     (let (p, params) = next_param params in
      io_bind (io_lift (parse_int p ''index'')) (\<lambda>index.
      if sint index < 0 then io_err (Msg ''<index> must not be a negative integer'')
      else let (p, params) = next_param params in
      io_bind (io_lift (parse_any p ''zerostate.json'' (\<lambda>value. Ok value))) (\<lambda>zerostate.
      let (p, _) = next_param params; path = case_option ''config-param.boc'' (\<lambda>p. p) p in
      io_bind (io_map_err (Context (''Can't read zerostate json file '' @ zerostate))
        (read_to_string zerostate)) (\<lambda>text.
      io_bind (io_lift (config_param_cell zl index text)) (\<lambda>cell.
      io_bind (io_lift (map_err (Context (''Can't serialize config param '' @ i32_to_string index))
        (write_boc cl cell))) (\<lambda>data.
      io_bind (io_map_err (Context (''Can't write config param '' @ i32_to_string index @ '' to file '' @ path))
        (fs_write env path data)) (\<lambda>_.
      io_ok (''Config param '' @ i32_to_string index @ '' saved to path '' @ path, data))))))))"

section \<open>A command line\<close>

definition run_command ::
  "('bl, 'c) cells \<Rightarrow> ('m, 'k, 'c) zerostates \<Rightarrow> ('b, 'n, 'z) env_scheme \<Rightarrow> console_config \<Rightarrow> string
     \<Rightarrow> ('n world, reply) io" where
  "run_command cl zl env cfg cmd =
     io_bind (io_lift (shell_split env cmd)) (\<lambda>words.
     let (first, params) = next_param words in
     case first of
       None \<Rightarrow> io_lift (Panic ''takes_value set for COMMANDS'')
     | Some name \<Rightarrow>
         if name = ''recover_stake'' then process_recover_stake cl env params
         else if name = ''ebid'' \<or> name = ''election-bid'' \<or> name = ''election_bid''
         then process_election_bid cl env cfg params
         else if name = ''config_param'' \<or> name = ''cparam''
         then process_config_param cl zl env params
         else process_command env name params)"

section \<open>Batch mode\<close>

text \<open>One command of the batch: its result or its error is printed, then the program sleeps.\<close>

definition batch_step ::
  "('bl, 'c) cells \<Rightarrow> ('m, 'k, 'c) zerostates \<Rightarrow> ('b, 'n, 'z) env_scheme \<Rightarrow> console_config \<Rightarrow> u64
     \<Rightarrow> string \<Rightarrow> ('n world, unit) io" where
  "batch_step cl zl env cfg timeout command =
     io_bind (io_match (run_command cl zl env cfg (trim_matches CHR 0x22 command))
       (\<lambda>(result, _). emit (Println result))
       (\<lambda>err. emit (PrintlnErr ''Error executing command: '' err))) (\<lambda>_.
     emit (Slept timeout))"

fun run_batch ::
  "('bl, 'c) cells \<Rightarrow> ('m, 'k, 'c) zerostates \<Rightarrow> ('b, 'n, 'z) env_scheme \<Rightarrow> console_config \<Rightarrow> u64
     \<Rightarrow> string list \<Rightarrow> ('n world, unit) io" where
  "run_batch cl zl env cfg timeout [] = io_ok ()"
| "run_batch cl zl env cfg timeout (command # commands) =
     io_bind (batch_step cl zl env cfg timeout command) (\<lambda>_.
     run_batch cl zl env cfg timeout commands)"

section \<open>Interactive mode\<close>

text \<open>At the end of the input \<open>read_line\<close> returns the empty string, again and again.\<close>

definition read_line :: "('n world, string) io" where
  "read_line w = (case stdin w of
     [] \<Rightarrow> (Ok [], w)
   | Line s # rest \<Rightarrow> (Ok s, w\<lparr>stdin := rest\<rparr>)
   | BadLine # rest \<Rightarrow> (Panic ''Can't read line from stdin'', w\<lparr>stdin := rest\<rparr>))"

definition interactive_step ::
  "('bl, 'c) cells \<Rightarrow> ('m, 'k, 'c) zerostates \<Rightarrow> ('b, 'n, 'z) env_scheme \<Rightarrow> console_config \<Rightarrow> string
     \<Rightarrow> ('n world, unit) io" where
  "interactive_step cl zl env cfg command =
     io_match (run_command cl zl env cfg command)
       (\<lambda>(result, _). emit (Println result))
       (\<lambda>err. emit (PrintlnErr [] err))"

partial_function (option) interactive ::
  "('bl, 'c) cells \<Rightarrow> ('m, 'k, 'c) zerostates \<Rightarrow> ('b, 'n, 'z) env_scheme \<Rightarrow> console_config \<Rightarrow> 'n world
     \<Rightarrow> (unit res \<times> 'n world) option" where
  "interactive cl zl env cfg w = (case read_line w of
     (Ok line, w) \<Rightarrow>
       let command = trim_end line in
       if command = [] then interactive cl zl env cfg w
       else if command = ''quit'' then Some (Ok (), w)
       else (case interactive_step cl zl env cfg command w of
           (Ok _, w) \<Rightarrow> interactive cl zl env cfg w
         | (Err e, w) \<Rightarrow> Some (Err e, w)
         | (Panic s, w) \<Rightarrow> Some (Panic s, w))
   | (Err e, w) \<Rightarrow> Some (Err e, w)
   | (Panic s, w) \<Rightarrow> Some (Panic s, w))"

section \<open>The program\<close>

text \<open>
  What \<open>clap\<close> hands to \<open>main\<close>, the configuration file as \<open>serde_json\<close> reads it, and the ADNL
  client: \<open>'a\<close> stands for its configuration in JSON, \<open>'d\<close> for the parsed one.
\<close>

record cli =
  cli_config :: string
  cli_commands :: "string list option"
  cli_timeout :: "string option"
  cli_json :: bool

record 'a console_json = console_config +
  adnl_section :: "'a option"

record ('a, 'd, 'n) adnl =
  banner :: string
  console_json_from_str :: "string \<Rightarrow> 'a console_json res"
  adnl_from_json :: "'a \<Rightarrow> 'd res"
  adnl_connect :: "'d \<Rightarrow> 'n \<Rightarrow> unit res \<times> 'n"
  adnl_shutdown :: "'n \<Rightarrow> 'n"

definition connect :: "('a, 'd, 'n) adnl \<Rightarrow> 'a console_json \<Rightarrow> ('n world, console_config) io" where
  "connect ad config =
     io_bind (io_lift (ok_or (Msg (''config must contain '' @ [CHR 0x22] @ ''config'' @ [CHR 0x22] @ '' section'')) (adnl_section config))) (\<lambda>section.
     io_bind (io_lift (adnl_from_json ad section)) (\<lambda>adnl_config.
     io_bind (\<lambda>w. case adnl_connect ad adnl_config (net w) of (r, n) \<Rightarrow> (r, w\<lparr>net := n\<rparr>)) (\<lambda>_.
     io_ok (console_config.truncate config))))"

definition console_start :: "('a, 'd, 'n) adnl \<Rightarrow> cli \<Rightarrow> ('n world, console_config \<times> u64) io" where
  "console_start ad args =
     io_bind (if cli_json args then io_ok () else emit (Println (banner ad))) (\<lambda>_.
     io_bind (io_expect ''Can't read config file'' (read_to_string (cli_config args))) (\<lambda>text.
     io_bind (io_expect ''Can't parse config'' (io_lift (console_json_from_str ad text))) (\<lambda>config.
     io_bind (io_expect ''timeout must be set in microseconds''
       (case cli_timeout args of
          Some timeout \<Rightarrow> io_lift (map_err ParseInt (u64_from_str timeout))
        | None \<Rightarrow> io_ok 0)) (\<lambda>timeout.
     io_bind (io_expect ''Can't create client'' (connect ad config)) (\<lambda>client.
     io_ok (client, timeout))))))"

definition console_main ::
  "('a, 'd, 'n) adnl \<Rightarrow> ('bl, 'c) cells \<Rightarrow> ('m, 'k, 'c) zerostates \<Rightarrow> ('b, 'n, 'z) env_scheme \<Rightarrow> cli
     \<Rightarrow> 'n world \<Rightarrow> (unit res \<times> 'n world) option" where
  "console_main ad cl zl env args w = (case console_start ad args w of
     (Ok (cfg, timeout), w) \<Rightarrow>
       map_option (\<lambda>(r, w). (r, if is_panic r then w else w\<lparr>net := adnl_shutdown ad (net w)\<rparr>))
         (case cli_commands args of
            Some commands \<Rightarrow> Some (run_batch cl zl env cfg timeout commands w)
          | None \<Rightarrow> interactive cl zl env cfg w)
   | (Err e, w) \<Rightarrow> Some (Err e, w)
   | (Panic s, w) \<Rightarrow> Some (Panic s, w))"

section \<open>Every command line only adds to the trace\<close>

lemma read_to_string_grows: "preserves grows (read_to_string path)"
  by (auto simp: read_to_string_def intro!: trace_order.bind_preserves basic_grows)

lemma bid_commands_grows: "preserves grows (bid_commands env b)"
  by (auto simp: bid_commands_def Let_def
      intro!: trace_order.bind_preserves basic_grows process_command_grows)

lemma bid_sign_grows: "preserves grows (bid_sign cl env b perm pub_key adnl)"
  by (auto simp: bid_sign_def Let_def
      intro!: trace_order.bind_preserves basic_grows process_command_grows)

lemma process_election_bid_grows: "preserves grows (process_election_bid cl env cfg params)"
  by (auto simp: process_election_bid_def Let_def split: prod.splits
      intro!: trace_order.bind_preserves basic_grows bid_commands_grows bid_sign_grows
        save_message_grows)

lemma process_config_param_grows: "preserves grows (process_config_param cl zl env params)"
  by (auto simp: process_config_param_def Let_def split: prod.splits
      intro!: trace_order.bind_preserves basic_grows read_to_string_grows)

lemma run_command_grows: "preserves grows (run_command cl zl env cfg cmd)"
  by (auto simp: run_command_def Let_def split: prod.splits option.splits
      intro!: trace_order.bind_preserves basic_grows process_recover_stake_grows
        process_election_bid_grows process_config_param_grows process_command_grows)

end
