(* ===== verification/Console_Demo.thy ===== *)
theory Console_Demo
  imports Reference_Codecs Console_Main
begin

text \<open>
  A concrete environment the console's properties are instantiated at: the hexadecimal and base64
  of RFC 4648, a node that plays a script of answers, a clock that stands still, cells that are
  byte strings. Its values are small, so that the commands evaluate in the kernel.
\<close>

type_synonym demo_node = "answer res list \<times> int"

definition demo_query :: "bytes \<Rightarrow> demo_node \<Rightarrow> answer res \<times> demo_node" where
  "demo_query data n = (case n of
     ([], t) \<Rightarrow> (Err (Lib ''connection closed''), n)
   | (a # script, t) \<Rightarrow> (a, (script, t)))"

fun demo_serialize :: "string request \<Rightarrow> bytes res" where
  "demo_serialize GenerateKeyPairReq = Ok [1]"
| "demo_serialize (ExportPublicKeyReq k) = Ok [2, ucast k]"
| "demo_serialize (SignReq k bs) = Ok (3 # ucast k # bs)"
| "demo_serialize (AddValidatorPermanentKeyReq k e t) = Ok (4 # ucast k # u32_to_be_bytes e @ u32_to_be_bytes t)"
| "demo_serialize (AddValidatorTempKeyReq k k' t) = Ok (5 # ucast k # ucast k' # u32_to_be_bytes t)"
| "demo_serialize (AddValidatorAdnlAddressReq k k' t) = Ok (6 # ucast k # ucast k' # u32_to_be_bytes t)"
| "demo_serialize (AddAdnlIdReq k c) = Ok (7 # ucast k # u32_to_be_bytes c)"
| "demo_serialize GetStatsReq = Ok [8]"
| "demo_serialize (GetShardAccountStateReq a) = Ok (9 # as_bytes a)"
| "demo_serialize (GetConfigParamsReq m b ps) = Ok (10 # concat (map u32_to_be_bytes ps))"
| "demo_serialize _ = Err (Lib ''not scripted'')"

text \<open>Words are separated by single spaces; the interactive reader's lines carry no quotes.\<close>

fun demo_words :: "string \<Rightarrow> string \<Rightarrow> string list" where
  "demo_words word [] = (if word = [] then [] else [rev word])"
| "demo_words word (c # cs) =
     (if c = CHR '' '' then (if word = [] then [] else [rev word]) @ demo_words [] cs
      else demo_words (c # word) cs)"

definition demo_account :: shard_account where
  "demo_account = \<lparr>sa_account = Ok \<lparr>acc_status = AccStateActive, acc_balance = Some 5, acc_last_paid = 7\<rparr>,
     sa_last_trans_lt = 255, sa_account_boc = Ok [0xB5, 0xEE]\<rparr>"

definition demo_env :: "(string, demo_node) env" where
  "demo_env = codecs.extend rfc4648
     \<lparr>overflow_checks = True,
      blockid_from_str = (\<lambda>s. if s = [] then Err (Lib ''bad block id'') else Ok s),
      blockid_default = ''default'',
      serialize_request = demo_serialize,
      serialize_answer = (\<lambda>a. Ok []),
      adnl_query = demo_query,
      system_time = (\<lambda>n. (snd n, n)),
      shard_account_from_bytes = (\<lambda>bs. if bs = [] then Err (Lib ''empty'') else Ok demo_account),
      json_from_str = (\<lambda>s. if s = ''true'' then Some (JBool True) else None),
      json_pretty = (\<lambda>j. ''{}''),
      shell_split = (\<lambda>s. Ok (demo_words [] s)),
      write_fault = (\<lambda>path. if path = ''/'' then Some (CannotOpen ''Is a directory'') else None)\<rparr>"

definition demo_cells :: "(bytes, bytes) cells" where
  "demo_cells =
     \<lparr>with_raw = (\<lambda>bs n. if n \<le> 1023 then Ok bs else Err (Lib ''cell overflow'')),
      append_reference = (\<lambda>b c. Ok (b @ c)),
      into_cell = Ok,
      write_boc = (\<lambda>c. Ok (0xB5 # c)),
      ed25519_verify = (\<lambda>key data sg. if sg = rev key then Ok () else Err (Lib ''bad signature''))\<rparr>"

definition demo_zl :: "(string, i32, bytes) zerostates" where
  "demo_zl = \<lparr>json_map_from_str = Ok, parse_state = (\<lambda>m. Ok (Ok (Some (\<lambda>k. Ok (Some (Some [1, 2])))))),
     config_key = Ok\<rparr>"

definition demo_config :: console_config where
  "demo_config = \<lparr>wallet_id = Some ''-1:ab'', max_factor = Some (Fin 3 0)\<rparr>"

definition demo_world :: "answer res list \<Rightarrow> stdin_line list \<Rightarrow> demo_node world" where
  "demo_world script ls =
     \<lparr>net = (script, 1600000000), files = (\<lambda>path. None), stdin = ls, trace = []\<rparr>"

definition demo_bid_script :: "answer res list" where
  "demo_bid_script =
     [Ok (KeyHashAns 7), Ok (PublicKeyAns (Some 1)), Ok SuccessAns, Ok SuccessAns,
      Ok (KeyHashAns 9), Ok SuccessAns, Ok SuccessAns, Ok (SignatureAns (rev (uint256_as_slice 1)))]"

lemma demo_env_codecs:
  "hex_decode demo_env = hex_read" "hex_encode demo_env = hex_text 97"
  "hex_encode_upper demo_env = hex_text 65"
  "base64_decode demo_env = b64_read" "base64_encode demo_env = b64_text"
  by (simp_all add: demo_env_def codecs.defs rfc4648_def)

interpretation demo: codec_library demo_env
  by unfold_locales
    (simp_all add: demo_env_codecs hex_read_text length_hex_text hex_text_unquoted b64_read_text length_b64_text
      b64_text_unquoted)

lemma demo_env_fields [simp]:
  "overflow_checks demo_env = True"
  "serialize_request demo_env = demo_serialize"
  "serialize_answer demo_env = (\<lambda>a. Ok [])"
  "adnl_query demo_env = demo_query"
  "system_time demo_env = (\<lambda>n. (snd n, n))"
  "shell_split demo_env = (\<lambda>s. Ok (demo_words [] s))"
  "shard_account_from_bytes demo_env [1] = Ok demo_account"
  "write_fault demo_env = (\<lambda>path. if path = ''/'' then Some (CannotOpen ''Is a directory'') else None)"
  by (simp_all add: demo_env_def codecs.defs)

lemma demo_query_simps [simp]:
  "demo_query data ([], t) = (Err (Lib ''connection closed''), [], t)"
  "demo_query data (a # script, t) = (a, script, t)"
  by (simp_all add: demo_query_def)

text \<open>What it takes to run a command on the scripted node.\<close>

lemma demo_key: "parse_int256 demo_env (Some (hex_encode_upper demo_env (uint256_as_slice k))) name = Ok k"
  by (rule demo.parse_int256_upper)

lemma parse_int_zero: "parse_int (Some ''0'') name = Ok 0"
  using parse_int_to_string [of 0] by (simp add: i32_zero_text)

lemma demo_ttls:
  "sub_i32 True 20 10 = Ok 10" "sub_i32 True 10 1600000000 = Ok (- 1599999990)"
  "sub_i32 True 20 1600000000 = Ok (- 1599999980)"
  "secs_as_i32 1600000000 = 1600000000"
  by code_simp+

lemmas demo_run =
  run io_bind_run process_command_run demo_world_def downcast_def ok_or_def now_def Let_def
  fs_write_def write_file_def query_node_def io_map_err_def
  send_NewKeypair_def receive_NewKeypair_def send_ExportPub_def receive_ExportPub_def
  send_AddValidatorPermKey_def send_AddValidatorTempKey_def send_AddValidatorAdnlAddr_def
  send_AddAdnlAddr_def send_Sign_def receive_Sign_def receive_default_def
  demo_key demo.parse_data_upper to_array32_def parse_int_zero demo_ttls
  uint256_array.enc_length u32_be.enc_length u64_be.enc_length

lemma demo_bid_args:
  "bid_args demo_env demo_config [''10'', ''20'', ''out.boc''] =
     Ok (\<lparr>bid_wallet = [0xAB], bid_elect = 10, bid_expire = 20, bid_factor = 196608\<rparr>, [''out.boc''])"
  by (simp add: demo_env_codecs bid_args_def parse_wallet_def demo_config_def) code_simp

lemma demo_bid:
  "is_ok (fst (process_election_bid demo_cells demo_env demo_config [''10'', ''20'', ''out.boc'']
     (demo_world demo_bid_script [])))"
  by (simp add: process_election_bid_def demo_bid_args demo_run bid_commands_def demo_bid_script_def
      bid_sign_def demo_cells_def elect_req_def elect_signed_def save_message_def signed_boc_def)

end
