(* ===== verification/Float_Facts.thy ===== *)
theory Float_Facts
  imports Rust_Std Complex_Main
begin

text \<open>
  The \<open>f32\<close> operations of the model against the real numbers they stand for: the comparisons
  compare the reals, the multiplication by 65536 is exact on the values the console lets through,
  and the cast takes the integer part. Together they say what fixed-point number the maximal
  stake factor becomes.
\<close>

fun f32_real :: "f32 \<Rightarrow> real" where
  "f32_real (Fin m e) = of_int m * 2 powi e"
| "f32_real _ = 0"

lemma powi_nonneg: "0 \<le> e \<Longrightarrow> (2::real) powi e = of_int (2 ^ nat e)"
  by (simp add: power_int_def)

lemma powi_neg: "e < 0 \<Longrightarrow> (2::real) powi e = 1 / of_int (2 ^ nat (- e))"
  by (simp add: power_int_def field_simps)

lemma f32_less_int_real: "f32_less_int (Fin m e) c \<longleftrightarrow> f32_real (Fin m e) < of_int c"
proof (cases "0 \<le> e")
  case True
  then have "f32_real (Fin m e) = of_int (m * 2 ^ nat e)"
    by (simp add: powi_nonneg)
  with True show ?thesis by (simp only: of_int_less_iff f32_less_int.simps if_True)
next
  case False
  then have "f32_real (Fin m e) < of_int c \<longleftrightarrow> real_of_int m < of_int (c * 2 ^ nat (- e))"
    by (simp add: powi_neg divide_less_eq)
  with False show ?thesis by (simp only: of_int_less_iff f32_less_int.simps if_False)
qed

lemma f32_greater_int_real: "f32_greater_int (Fin m e) c \<longleftrightarrow> of_int c < f32_real (Fin m e)"
proof (cases "0 \<le> e")
  case True
  then have "f32_real (Fin m e) = of_int (m * 2 ^ nat e)"
    by (simp add: powi_nonneg)
  with True show ?thesis by (simp only: of_int_less_iff f32_greater_int.simps if_True)
next
  case False
  then have "of_int c < f32_real (Fin m e) \<longleftrightarrow> of_int (c * 2 ^ nat (- e)) < real_of_int m"
    by (simp add: powi_neg less_divide_eq)
  with False show ?thesis by (simp only: of_int_less_iff f32_greater_int.simps if_False)
qed

lemma f32_trunc_floor: "0 \<le> m \<Longrightarrow> f32_trunc m e = \<lfloor>f32_real (Fin m e)\<rfloor>"
proof (cases "0 \<le> e")
  case True
  then have "f32_real (Fin m e) = of_int (m * 2 ^ nat e)"
    by (simp add: powi_nonneg)
  with True show ?thesis by (simp only: floor_of_int f32_trunc.simps if_True)
next
  case False
  assume m: "0 \<le> m"
  have "f32_real (Fin m e) = of_int m / of_int (2 ^ nat (- e))"
    using False by (simp add: powi_neg)
  then have "\<lfloor>f32_real (Fin m e)\<rfloor> = m div 2 ^ nat (- e)"
    by (simp only: floor_divide_of_int_eq)
  with m False show ?thesis by (cases "m = 0") (simp_all add: sgn_if)
qed

lemma f32_real_scaled: "f32_real (Fin m (e + 16)) = 65536 * f32_real (Fin m e)"
  by (simp add: power_int_add)

lemma f32_real_bounds:
  assumes "\<not> f32_less_int (Fin m e) 1" and "\<not> f32_greater_int (Fin m e) 100"
  shows "1 \<le> f32_real (Fin m e)" and "f32_real (Fin m e) \<le> 100" and "0 < m"
proof -
  show 1: "1 \<le> f32_real (Fin m e)" and "f32_real (Fin m e) \<le> 100"
    using assms unfolding f32_less_int_real f32_greater_int_real by simp_all
  then have "0 < of_int m * (2::real) powi e" by simp
  then have "0 < real_of_int m" by (rule zero_less_mult_pos2) simp
  then show "0 < m" by simp
qed

text \<open>The factor in 16.16 fixed point, between 1 and 100.\<close>

lemma factor_fixed_point:
  assumes "\<not> f32_less_int (Fin m e) 1" and "\<not> f32_greater_int (Fin m e) 100"
  shows "uint (f32_as_u32 (f32_mul_65536 (Fin m e))) = \<lfloor>65536 * f32_real (Fin m e)\<rfloor>"
    and "65536 \<le> uint (f32_as_u32 (f32_mul_65536 (Fin m e)))"
    and "uint (f32_as_u32 (f32_mul_65536 (Fin m e))) \<le> 6553600"
proof -
  note bounds = f32_real_bounds [OF assms]
  let ?t = "\<lfloor>65536 * f32_real (Fin m e)\<rfloor>"
  have t: "65536 \<le> ?t" "?t \<le> 6553600"
    using bounds by linarith+
  have "\<not> (0 \<le> e + 16 \<and> 2 ^ 128 \<le> \<bar>m\<bar> * 2 ^ nat (e + 16))"
  proof
    assume big: "0 \<le> e + 16 \<and> 2 ^ 128 \<le> \<bar>m\<bar> * 2 ^ nat (e + 16)"
    then have "f32_real (Fin m (e + 16)) = of_int (\<bar>m\<bar> * 2 ^ nat (e + 16))"
      using bounds by (simp add: powi_nonneg)
    then have "of_int (2 ^ 128) \<le> f32_real (Fin m (e + 16))"
      using big by (simp only: of_int_le_iff)
    then show False using bounds f32_real_scaled [of m e] by simp
  qed
  then have "f32_mul_65536 (Fin m e) = Fin m (e + 16)" by simp
  moreover have "f32_trunc m (e + 16) = ?t"
    using f32_trunc_floor [of m "e + 16"] bounds(3) by (simp only: f32_real_scaled less_imp_le)
  ultimately have "f32_as_u32 (f32_mul_65536 (Fin m e)) = word_of_int ?t"
    using t by (simp add: Let_def del: f32_trunc.simps f32_real.simps)
  then show "uint (f32_as_u32 (f32_mul_65536 (Fin m e))) = ?t"
    using t by (simp add: uint_word_of_int)
  then show "65536 \<le> uint (f32_as_u32 (f32_mul_65536 (Fin m e)))"
    and "uint (f32_as_u32 (f32_mul_65536 (Fin m e))) \<le> 6553600"
    using t by simp_all
qed

end
