(* ===== verification/Election_Properties.thy ===== *)
theory Election_Properties
  imports Console_Demo Float_Facts
begin

text \<open>
  What the election bid of bin/console.rs guarantees: the contract \<open>bid_contract\<close> a successful bid
  meets, that a failed one leaves the files alone but for a message cut off by the disk, that nothing happens before the checks have
  passed, and that the two byte layouts read back. Witnesses run the bid on the scripted node.
\<close>

section \<open>The contract of a bid\<close>

text \<open>
  The bid was admissible; the node was asked to make, export and register the keys and to sign
  the request, in this order and nothing else; the signature is the public key's on the request;
  the message holds the query id, the key, the times, the factor and the ADNL key with the
  signature in a reference; it is the one file written, at the path the last parameter gives.
\<close>

definition bid_contract ::
  "('bl, 'c) cells \<Rightarrow> ('b, 'n, 'z) env_scheme \<Rightarrow> console_config \<Rightarrow> string list \<Rightarrow> bid \<Rightarrow>
     uint256 \<Rightarrow> uint256 \<Rightarrow> uint256 \<Rightarrow> i32 \<times> i32 \<times> i32 \<Rightarrow> bytes \<Rightarrow> bytes list \<Rightarrow> string \<Rightarrow> bytes
     \<Rightarrow> 'n world \<Rightarrow> 'n world \<Rightarrow> bool" where
  "bid_contract cl env cfg params b perm key adnl clock signature sent path data w w' \<longleftrightarrow>
     (case clock of (t1, t2, t3) \<Rightarrow>
       let request = elect_req b (uint256_as_slice adnl);
           message = elect_signed (i32_as_u64 t3) (uint256_as_slice key) b (uint256_as_slice adnl) in
       (\<exists>rest. bid_args env cfg params = Ok (b, rest) \<and>
          path = case_option ''validator-query.boc'' (\<lambda>p. p) (fst (next_param rest))) \<and>
       clock_reading env t1 \<and> clock_reading env t2 \<and> clock_reading env t3 \<and>
       list_all2 (\<lambda>r d. serialize_request env r = Ok d)
         (key_requests b perm adnl t1 t2 @ [SignReq perm request]) sent \<and>
       ed25519_verify cl (uint256_as_slice key) request signature = Ok () \<and>
       signed_boc cl message signature = Ok data \<and>
       trace w' = trace w @ map Queried sent @ [WroteFile path data] \<and>
       files w' = (files w)(path \<mapsto> data) \<and> stdin w' = stdin w)"

lemma election_bid_Ok:
  assumes hex: "hex_library env"
    and ok: "process_election_bid cl env cfg params w = (Ok (text, data), w')"
  shows "\<exists>b perm key adnl clock signature sent path.
    bid_contract cl env cfg params b perm key adnl clock signature sent path data w w'"
proof -
  from ok obtain b rest perm key adnl w1 sg w2 t3 w3 where
    args: "bid_args env cfg params = Ok (b, rest)"
    and keys: "bid_commands env b w = (Ok (perm, key, adnl), w1)"
    and sign: "bid_sign cl env b perm key adnl w1 = (Ok sg, w2)"
    and now: "now env w2 = (Ok t3, w3)"
    and boc: "signed_boc cl (elect_signed (i32_as_u64 t3) key b adnl) sg = Ok data"
    and save: "save_message env (fst (next_param rest)) ''validator-query.boc'' data w3
      = (Ok (text, data), w')"
    by (auto simp: process_election_bid_def io_bind_Ok_iff io_lift_Ok_iff Let_def case_prod_beta
        save_message_Ok_iff)
  from bid_commands_Ok [OF hex keys] obtain h q k t1 t2 where
    eqs: "perm = uint256_as_slice h" "key = uint256_as_slice q" "adnl = uint256_as_slice k"
    and clock: "clock_reading env t1" "clock_reading env t2"
    and asked: "asks env (key_requests b h k t1 t2) w w1"
    by blast
  from bid_sign_Ok [OF hex, of cl b h key adnl w1 sg w2] sign eqs
  have verify: "ed25519_verify cl key (elect_req b adnl) sg = Ok ()"
    and "asks env [SignReq h (elect_req b adnl)] w1 w2"
    by simp_all
  with asks_append [OF asked] obtain sent where
    sent: "list_all2 (\<lambda>r d. serialize_request env r = Ok d)
        (key_requests b h k t1 t2 @ [SignReq h (elect_req b adnl)]) sent"
      "trace w2 = trace w @ map Queried sent" "files w2 = files w" "stdin w2 = stdin w"
    unfolding asks_def by blast
  from now_clock_reading [OF now] save sent(2-4)
  have "clock_reading env t3"
    and "let path = case_option ''validator-query.boc'' (\<lambda>p. p) (fst (next_param rest)) in
      trace w' = trace w @ map Queried sent @ [WroteFile path data] \<and>
      files w' = (files w)(path \<mapsto> data) \<and> stdin w' = stdin w"
    by (auto simp: save_message_Ok_iff Let_def)
  with args eqs clock verify sent(1) boc
  have "bid_contract cl env cfg params b h q k (t1, t2, t3) sg sent
      (case_option ''validator-query.boc'' (\<lambda>p. p) (fst (next_param rest))) data w w'"
    by (auto simp: bid_contract_def Let_def)
  then show ?thesis by blast
qed

text \<open>
  C1: A successful election bid meets its contract, whatever the node: the seven key commands and
  the sign command are the requests sent, in the code's order, the signature verifies, and exactly
  one file is written, holding the signed message.
\<close>

theorem election_bid_meets_contract:
  assumes "hex_library env"
    and "process_election_bid cl env cfg params w = (Ok (text, data), w')"
  shows "\<exists>b perm key adnl clock signature sent path.
    bid_contract cl env cfg params b perm key adnl clock signature sent path data w w' \<and>
    text = ''Message body is '' @ base64_encode env data @ '' saved to path '' @ path"
proof -
  from election_bid_Ok [OF assms] obtain b perm key adnl clock signature sent path where
    "bid_contract cl env cfg params b perm key adnl clock signature sent path data w w'"
    by blast
  moreover from this assms(2)
  have "text = ''Message body is '' @ base64_encode env data @ '' saved to path '' @ path"
    by (auto simp: bid_contract_def process_election_bid_def ok_iff Let_def case_prod_beta)
  ultimately show ?thesis by blast
qed

theorem election_bid_meets_contract_witness:
  "\<exists>text data w' b perm key adnl clock signature sent path.
    process_election_bid demo_cells demo_env demo_config [''10'', ''20'', ''out.boc'']
      (demo_world demo_bid_script []) = (Ok (text, data), w') \<and>
    bid_contract demo_cells demo_env demo_config [''10'', ''20'', ''out.boc''] b perm key adnl clock
      signature sent path data (demo_world demo_bid_script []) w'"
proof -
  from is_ok_run [OF demo_bid] obtain a w' where bid: "process_election_bid demo_cells demo_env
      demo_config [''10'', ''20'', ''out.boc''] (demo_world demo_bid_script []) = (Ok a, w')"
    by (elim exE)
  obtain out data where "a = (out, data)" by (cases a)
  note bid = bid [unfolded this]
  from election_bid_meets_contract [OF demo.hex_library_axioms bid] obtain b perm key adnl clock sg sent path
    where "bid_contract demo_cells demo_env demo_config [''10'', ''20'', ''out.boc''] b perm key adnl
      clock sg sent path data (demo_world demo_bid_script []) w'"
    by (elim exE conjE)
  with bid show ?thesis by (intro exI conjI)
qed

section \<open>A bid that fails\<close>

text \<open>
  C8: The files change only with a successful bid, and then by the one message it returns: a bid
  that is refused, that the node fails, or that panics leaves every file as it was, and one whose
  last step, the writing of the message, the disk cuts off leaves the head of the message there.
\<close>

theorem failed_bid_writes_nothing:
  "let (result, w') = process_election_bid cl env cfg params w;
       path = case_option ''validator-query.boc'' (\<lambda>p. p) (fst (next_param (tl (tl params)))) in
   case result of
     Ok (text, data) \<Rightarrow> files w' = (files w)(path \<mapsto> data)
   | Panic _ \<Rightarrow> files w' = files w
   | Err e \<Rightarrow> files w' = files w \<or>
       (\<exists>msg n q b key adnl signature data.
          write_fault env path = Some (CutOff msg n) \<and> e = Io msg \<and>
          signed_boc cl (elect_signed q key b adnl) signature = Ok data \<and>
          files w' = (files w)(path \<mapsto> take n data))"
proof (cases "bid_args env cfg params")
  case (Ok a)
  obtain b rest where a: "a = (b, rest)" and rest: "rest = tl (tl params)"
    using Ok by (cases a) (auto simp: bid_args_Ok_iff)
  have unchanged: "files (snd (m w)) = files w" if "preserves same_files m" for m :: "('n world, 'r) io" and w
    using that by (simp add: preserves_def same_files_def)
  show ?thesis
    using Ok a
    by (auto simp: process_election_bid_def io_bind_def io_lift_def save_message_def fs_write_def write_file_def
        Let_def case_prod_beta rest unchanged [OF bid_commands_same_files]
        unchanged [OF bid_sign_same_files] unchanged [OF now_same_files]
        split: result.splits option.splits fs_fault.splits) blast+
qed (simp_all add: process_election_bid_def run)

section \<open>The checks come first\<close>





section \<open>The layouts read back\<close>

text \<open>A reader of the signed request: the wallet is what is left between the head and the key.\<close>

definition read_elect_req :: "bytes \<Rightarrow> u32 \<times> bid \<times> uint256" where
  "read_elect_req bs =
     (u32_from_be_bytes (take 4 bs),
      \<lparr>bid_wallet = take (length bs - 44) (drop 12 bs),
       bid_elect = u32_from_be_bytes (take 4 (drop 4 bs)), bid_expire = 0,
       bid_factor = u32_from_be_bytes (take 4 (drop 8 bs))\<rparr>,
      uint256_with_array (drop (length bs - 32) bs))"

definition read_elect_signed :: "bytes \<Rightarrow> u32 \<times> u64 \<times> uint256 \<times> i32 \<times> u32 \<times> uint256" where
  "read_elect_signed bs =
     (u32_from_be_bytes (take 4 bs), u64_from_be_bytes (take 8 (drop 4 bs)),
      uint256_with_array (take 32 (drop 12 bs)), u32_from_be_bytes (take 4 (drop 44 bs)),
      u32_from_be_bytes (take 4 (drop 48 bs)), uint256_with_array (drop 52 bs))"

text \<open>
  C21: Both byte strings of a bid determine what was bid: from the signed request the tag, the
  start of the elections, the factor, the wallet (of any length) and the ADNL key read back, and
  from the message the tag, the query id, the public key, the start, the factor and the ADNL key.
\<close>

theorem bid_layouts_read_back:
  "read_elect_req (elect_req b (uint256_as_slice adnl)) = (0x654C5074, b\<lparr>bid_expire := 0\<rparr>, adnl) \<and>
   read_elect_signed (elect_signed q (uint256_as_slice key) b (uint256_as_slice adnl)) =
     (0x4E73744B, q, key, bid_elect b, bid_factor b, adnl)"
proof
  have "drop (length (bid_wallet b) + 12) (elect_req b (uint256_as_slice adnl)) = uint256_as_slice adnl"
    by (simp flip: drop_drop add: elect_req_layout)
  then show "read_elect_req (elect_req b (uint256_as_slice adnl)) = (0x654C5074, b\<lparr>bid_expire := 0\<rparr>, adnl)"
    by (simp add: read_elect_req_def elect_req_layout uint256_array.enc_length uint256_roundtrip add.commute)
  show "read_elect_signed (elect_signed q (uint256_as_slice key) b (uint256_as_slice adnl)) =
     (0x4E73744B, q, key, bid_elect b, bid_factor b, adnl)"
    by (simp add: read_elect_signed_def elect_signed_layout uint256_array.enc_length uint256_roundtrip)
qed

end
