(* ===== verification/Console_Properties.thy ===== *)
theory Console_Properties
  imports Console_Demo
begin

text \<open>
  What the commands of bin/console.rs guarantee: which parameters they accept, that a key the
  console prints is a key it reads, that a round trip asks the node once, what the statistics,
  account and recovery commands produce. Witnesses run the commands on the scripted node.
\<close>

section \<open>Parameters\<close>

lemma parse_int256_quoted:
  "CHR 0x22 \<notin> set s \<Longrightarrow>
     parse_int256 cod (Some (CHR 0x22 # s @ [CHR 0x22])) name = parse_int256 cod (Some s) name"
  by (simp add: parse_int256_def parse_any_def trim_matches_quoted trim_matches_id)

text \<open>
  C23: A 32-byte key reads back through \<open>parse_int256\<close> from each of its spellings (capital hex,
  small hex, base64), and from each of them between double quotes.
\<close>

theorem key_spellings_read_back:
  assumes "codec_library cod"
    and "text \<in> {hex_encode_upper cod (uint256_as_slice k), hex_encode cod (uint256_as_slice k),
      base64_encode cod (uint256_as_slice k)}"
  shows "parse_int256 cod (Some text) name = Ok k \<and>
    parse_int256 cod (Some (CHR 0x22 # text @ [CHR 0x22])) name = Ok k"
proof
  note lib = assms(1) and hex = codec_library.axioms(1) [OF assms(1)]
  from assms(2) show 1: "parse_int256 cod (Some text) name = Ok k"
    by (auto simp: hex_library.parse_int256_upper [OF hex] hex_library.parse_int256_lower [OF hex]
        codec_library.parse_int256_base64 [OF lib])
  from assms(2) have "CHR 0x22 \<notin> set text"
    by (auto simp: hex_library.upper_unquoted [OF hex] hex_library.lower_unquoted [OF hex]
        codec_library.base64_unquoted [OF lib])
  with 1 show "parse_int256 cod (Some (CHR 0x22 # text @ [CHR 0x22])) name = Ok k"
    by (simp add: parse_int256_quoted)
qed

theorem key_spellings_read_back_witness:
  "parse_int256 demo_env (Some (hex_text 97 (uint256_as_slice 7))) ''key_hash'' = Ok 7 \<and>
   parse_int256 demo_env (Some (CHR 0x22 # b64_text (uint256_as_slice 7) @ [CHR 0x22])) ''key_hash'' = Ok 7"
  using key_spellings_read_back [OF demo.codec_library_axioms, of "hex_text 97 (uint256_as_slice 7)"]
    key_spellings_read_back [OF demo.codec_library_axioms, of "b64_text (uint256_as_slice 7)"]
  by (simp add: demo_env_codecs)

text \<open>
  C24: An integer parameter is accepted exactly when, without the quotes around it, it is a decimal
  numeral with an optional sign whose value a signed 32-bit integer holds, and it is that value.
\<close>

theorem int_parameter_is_numeral:
  "parse_int (Some s) name = Ok w \<longleftrightarrow>
     numeral_value True (trim_matches CHR 0x22 s) = Some (sint w)"
proof
  assume "numeral_value True (trim_matches CHR 0x22 s) = Some (sint w)"
  then show "parse_int (Some s) name = Ok w"
    using sint_greater_eq [of w] sint_less [of w] by (simp add: parse_int_Ok_iff)
qed (rule parse_int_sint)

text \<open>
  C36: With overflow checks the permanent key is registered with the time to live that is the
  exact difference of the two parameters; the sender fails or panics when it does not fit.
\<close>

theorem permanent_key_ttl_exact:
  assumes "overflow_checks env" and "send_AddValidatorPermKey env params = Ok req"
  shows "\<exists>h e ttl. req = AddValidatorPermanentKeyReq h e ttl \<and>
    parse_int256 env (Some (params ! 0)) ''key_hash'' = Ok h \<and>
    numeral_value True (trim_matches CHR 0x22 (params ! 1)) = Some (sint e) \<and>
    numeral_value True (trim_matches CHR 0x22 (params ! 2)) = Some (sint e + sint ttl)"
proof -
  from assms(2) obtain h e x ttl where
    parts: "parse_int256 env (fst (next_param params)) ''key_hash'' = Ok h"
      "parse_int (fst (next_param (tl params))) ''election_date'' = Ok e"
      "parse_int (fst (next_param (tl (tl params)))) ''expire_at'' = Ok x"
      "sub_i32 (overflow_checks env) x e = Ok ttl" "req = AddValidatorPermanentKeyReq h e ttl"
    by (auto simp: send_AddValidatorPermKey_def ok_iff Let_def case_prod_beta snd_next_param)
  then obtain p0 p1 p2 ps where params: "params = p0 # p1 # p2 # ps"
    by (cases params; cases "tl params"; cases "tl (tl params)")
      (auto simp: parse_int256_Ok_iff parse_int_Ok_iff)
  from parts(4) assms(1) have "sint x = sint e + sint ttl"
    by (auto simp: sub_i32_def Let_def sint_word_diff signed_take_bit_int_eq_self split: if_splits)
  with parts params parse_int_sint show ?thesis by (metis list.sel(1,3) next_param.simps(2) fst_conv
        nth_Cons_0 nth_Cons_Suc One_nat_def numeral_2_eq_2)
qed

theorem permanent_key_ttl_exact_witness:
  "\<exists>h e ttl. AddValidatorPermanentKeyReq 7 10 10 = (AddValidatorPermanentKeyReq h e ttl :: string request) \<and>
    numeral_value True (trim_matches CHR 0x22 ''10'') = Some (sint e)"
proof -
  have "i32_to_string 10 = ''10''" and "i32_to_string 20 = ''20''" by code_simp+
  then have "parse_int (Some ''10'') n = Ok 10" and "parse_int (Some ''20'') n = Ok 20" for n
    using parse_int_to_string [of 10 n] parse_int_to_string [of 20 n] by simp_all
  then have "send_AddValidatorPermKey demo_env
      [hex_encode_upper demo_env (uint256_as_slice 7), ''10'', ''20''] = Ok (AddValidatorPermanentKeyReq 7 10 10)"
    by (simp add: send_AddValidatorPermKey_def demo_key demo_ttls)
  from permanent_key_ttl_exact [OF _ this] show ?thesis by auto
qed

text \<open>
  The node is asked to add an ADNL key only in one of the categories 0 to 15, the one the
  second parameter writes.
\<close>

lemma adnl_category_bounds:
  assumes "send_AddAdnlAddr cod params = Ok req"
  shows "\<exists>h c. req = AddAdnlIdReq h c \<and> 0 \<le> sint c \<and> sint c < 16 \<and>
    parse_int256 cod (Some (params ! 0)) ''key_hash'' = Ok h \<and>
    numeral_value True (trim_matches CHR 0x22 (params ! 1)) = Some (sint c)"
proof -
  from assms obtain h c where
    parts: "parse_int256 cod (fst (next_param params)) ''key_hash'' = Ok h"
      "parse_int (fst (next_param (tl params))) ''category'' = Ok c"
      "req = AddAdnlIdReq h c" "0 \<le> sint c" "sint c < 16"
    by (auto simp: send_AddAdnlAddr_def ok_iff Let_def case_prod_beta snd_next_param)
  then obtain p0 p1 ps where params: "params = p0 # p1 # ps"
    by (cases params; cases "tl params") (auto simp: parse_int256_Ok_iff parse_int_Ok_iff)
  with parts parse_int_sint show ?thesis by auto
qed

section \<open>Round trips\<close>

text \<open>A name that is not a command's is refused without a query, and no two commands share one.\<close>

lemma unknown_command_refused:
  "inj command_name \<and>
   (name \<in> range command_name \<or>
    process_command env name params w = (Err (Msg (''command '' @ name @ '' not supported'')), w))"
proof
  show "inj command_name"
    by (rule injI) (simp add: command_name_inject)
  show "name \<in> range command_name \<or>
    process_command env name params w = (Err (Msg (''command '' @ name @ '' not supported'')), w)"
    by (cases "command_of_name name")
      (auto simp: process_command_def command_send_def run command_of_name_Some_iff)
qed

text \<open>The world right after a query, for a command that wrote no file before it.\<close>

lemma send_of_silent:
  "send_of env c ps w = (r, w1) \<Longrightarrow> trace w1 = trace w \<and> files w1 = files w \<and> stdin w1 = stdin w"
  by (cases c)
    (auto simp: send_AddValidatorAdnlAddr_def send_AddValidatorTempKey_def send_SendMessage_def Let_def
      io_bind_def io_lift_def now_def fs_read_def io_map_err_def
      split: prod.splits result.splits option.splits if_splits)

lemma receive_of_trace:
  "receive_of env c a ps w = (Ok out, w') \<Longrightarrow>
     trace w' = trace w @ (if c = GetAccount \<and> length ps < 2 then []
       else if c = GetAccount \<or> c = GetAccountState then [WroteFile (ps ! 1) (snd out)] else [])"
  by (cases c; cases ps; cases "tl ps")
    (auto simp: receive_GetAccount_def receive_GetAccountState_def ok_iff Let_def)

text \<open>
  C7: A command that succeeds asked the node exactly once, the bytes of the request its sender
  built, and afterwards wrote at most the file its second parameter names, with the returned
  bytes; only the two account commands write one.
\<close>

theorem successful_command_asks_once:
  assumes "process_command env name ps w = (Ok out, w')"
  shows "\<exists>c req w1 d.
    command_of_name name = Some c \<and> send_of env c ps w = (Ok req, w1) \<and>
    serialize_request env req = Ok d \<and>
    trace w' = trace w @ Queried d #
      (if c = GetAccount \<and> length ps < 2 then []
       else if c = GetAccount \<or> c = GetAccountState then [WroteFile (ps ! 1) (snd out)] else [])"
proof -
  from assms obtain c req w1 d a n where
    c: "command_of_name name = Some c" and s: "send_of env c ps w = (Ok req, w1)"
    and d: "serialize_request env req = Ok d"
    and r: "receive_of env c a ps (w1\<lparr>net := n, trace := trace w1 @ [Queried d]\<rparr>) = (Ok out, w')"
    by (auto simp: process_command_def command_send_def command_receive_def ok_iff
        split: if_splits option.splits)
  from receive_of_trace [OF r] send_of_silent [OF s] c s d show ?thesis
    by (intro exI [of _ c] exI [of _ req] exI [of _ w1] exI [of _ d]) simp
qed

lemma demo_newkey:
  "process_command demo_env ''newkey'' [] (demo_world [Ok (KeyHashAns 7)] []) =
     (Ok (''received public key hash: '' @ hex_text 97 (uint256_as_slice 7) @ '' '' @
          b64_text (uint256_as_slice 7), uint256_as_slice 7),
      \<lparr>net = ([], 1600000000), files = (\<lambda>path. None), stdin = [], trace = [Queried [1]]\<rparr>)"
  by (simp add: demo_run demo_env_codecs)

theorem successful_command_asks_once_witness:
  "\<exists>c req w1 d. command_of_name ''newkey'' = Some c \<and>
     send_of demo_env c [] (demo_world [Ok (KeyHashAns 7)] []) = (Ok req, w1) \<and>
     demo_serialize req = Ok d \<and> [Queried [1]] = [Queried d]"
  using successful_command_asks_once [OF demo_newkey] by (auto simp: demo_world_def)

text \<open>
  C25: The key hash \<open>newkey\<close> prints, in small hex and in base64, reads back through \<open>parse_int256\<close>
  as the hash the node answered with, the one returned to the caller.
\<close>

theorem newkey_text_reads_back:
  assumes "codec_library env" and "process_command env ''newkey'' ps w = (Ok (text, key), w')"
  shows "\<exists>d h n hx b64. serialize_request env GenerateKeyPairReq = Ok d \<and>
    adnl_query env d (net w) = (Ok (KeyHashAns h), n) \<and> key = uint256_as_slice h \<and>
    text = ''received public key hash: '' @ hx @ '' '' @ b64 \<and>
    parse_int256 env (Some hx) name = Ok h \<and> parse_int256 env (Some b64) name = Ok h"
proof -
  note hex = codec_library.axioms(1) [OF assms(1)]
  from assms(2) obtain d h n where "serialize_request env GenerateKeyPairReq = Ok d"
    "adnl_query env d (net w) = (Ok (KeyHashAns h), n)" "key = uint256_as_slice h"
    "text = ''received public key hash: '' @ hex_encode env (uint256_as_slice h) @ '' '' @
       base64_encode env (uint256_as_slice h)"
    by (auto simp: process_command_def command_send_def command_receive_def send_NewKeypair_def
        receive_NewKeypair_def Let_def ok_iff split: if_splits)
  with hex_library.parse_int256_lower [OF hex] codec_library.parse_int256_base64 [OF assms(1)]
  show ?thesis by blast
qed

theorem newkey_text_reads_back_witness:
  "\<exists>d h n hx. demo_query d ([Ok (KeyHashAns 7)], 1600000000) = (Ok (KeyHashAns h), n) \<and>
     uint256_as_slice 7 = uint256_as_slice h \<and> parse_int256 demo_env (Some hx) ''key_hash'' = Ok h"
  using newkey_text_reads_back [OF demo.codec_library_axioms demo_newkey, where name = "''key_hash''"]
  by (elim exE conjE) (intro exI conjI; simp add: demo_world_def)

section \<open>Statistics\<close>

text \<open>
  C32: The statistics become a JSON object with exactly the reported keys, each mapped to the last
  value reported under it; and a value is typed by its text: empty is the string "null", a decimal
  numeral that 64 bits hold is that number, any other text that is JSON is that value, and the
  rest is a string without the quotes around it.
\<close>

theorem stats_object:
  "\<exists>m. stats_to_json env stats = JObject m \<and> dom m = stat_key ` set stats \<and>
     (\<forall>k. m k = map_option (stat_to_json env) (find (\<lambda>s. stat_key s = k) (rev stats))) \<and>
     (\<forall>k v. stat_to_json env \<lparr>stat_key = k, stat_value = v\<rparr> =
        (if v = [] then JString ''null''
         else if \<exists>i. numeral_value True v = Some i \<and> - (2 ^ 63) \<le> i \<and> i < 2 ^ 63
           then JInt (the (numeral_value True v))
         else case json_from_str env v of
           Some j \<Rightarrow> j
         | None \<Rightarrow> JString (trim_matches CHR 0x22 v)))"
proof (intro exI conjI allI)
  let ?m = "insert_all (map (\<lambda>s. (stat_key s, stat_to_json env s)) stats) Map.empty"
  show json: "stats_to_json env stats = JObject ?m"
    by (simp add: stats_to_json_def)
  show "dom ?m = stat_key ` set stats"
    by (simp add: dom_insert_all image_image)
  show "?m k = map_option (stat_to_json env) (find (\<lambda>s. stat_key s = k) (rev stats))" for k
    by (rule stats_to_json_lookup [OF json])
  show "stat_to_json env \<lparr>stat_key = k, stat_value = v\<rparr> =
      (if v = [] then JString ''null''
       else if \<exists>i. numeral_value True v = Some i \<and> - (2 ^ 63) \<le> i \<and> i < 2 ^ 63
         then JInt (the (numeral_value True v))
       else case json_from_str env v of Some j \<Rightarrow> j | None \<Rightarrow> JString (trim_matches CHR 0x22 v))" for k v
  proof (cases "\<exists>i. numeral_value True v = Some i \<and> - (2 ^ 63) \<le> i \<and> i < 2 ^ 63")
    case True
    then obtain i where i: "numeral_value True v = Some i" "- (2 ^ 63) \<le> i" "i < 2 ^ 63" by blast
    then have "i64_from_str v = Ok (word_of_int i)" and "sint (word_of_int i :: u64) = i"
      by (auto simp: i64_from_str_iff signed_of_int signed_take_bit_int_eq_self)
    with i show ?thesis by (simp add: stat_to_json_def)
  next
    case False
    then have "i64_from_str v \<noteq> Ok n" for n by (auto simp: i64_from_str_iff)
    with False show ?thesis
      by (cases "i64_from_str v") (auto simp: stat_to_json_def split: option.splits)
  qed
qed

section \<open>Accounts\<close>

text \<open>
  \<open>getaccount\<close> returns a text and its bytes, writes exactly these bytes to the path that is
  given and no file when none is, and answers an absent account with the type Nonexist.
\<close>

lemma getaccount_file:
  assumes "process_command env ''getaccount'' params w = (Ok (text, data), w')"
  shows "data = as_bytes text \<and>
    files w' = (case params of _ # path # _ \<Rightarrow> (files w)(path \<mapsto> data) | _ \<Rightarrow> files w) \<and>
    (\<exists>state. account_info env state = Ok text) \<and>
    account_info env None = Ok (''{'' @ [CHR 0x0A] @ [CHR 0x22] @ ''acc_type'' @ [CHR 0x22] @ '':'' @ [CHR 0x09] @
      [CHR 0x22] @ ''Nonexist'' @ [CHR 0x22] @ [CHR 0x0A] @ ''}'')"
proof -
  from assms obtain req w1 d a n where
    s: "send_of env GetAccount params w = (Ok req, w1)"
    and r: "receive_GetAccount env a params (w1\<lparr>net := n, trace := trace w1 @ [Queried d]\<rparr>) = (Ok (text, data), w')"
    by (auto simp: process_command_def command_send_def command_receive_def ok_iff split: if_splits)
  from send_of_silent [OF s] r show ?thesis
    by (cases params; cases "tl params")
      (auto simp: receive_GetAccount_def account_info_def ok_iff Let_def)
qed

text \<open>
  C31: \<open>getaccountstate\<close> succeeds only with a path and when the node answers with the state of an
  account that exists; it writes the bag of cells of this account to the path, and returns it with
  its hex and base64 text.
\<close>

theorem getaccountstate_file:
  assumes "process_command env ''getaccountstate'' params w = (Ok (text, boc), w')"
  shows "\<exists>d raw n acc. serialize_request env (GetShardAccountStateReq (params ! 0)) = Ok d \<and>
    adnl_query env d (net w) = (Ok (ShardAccountStateAns raw), n) \<and>
    shard_account_from_bytes env raw = Ok acc \<and> sa_account_boc acc = Ok boc \<and>
    2 \<le> length params \<and> files w' = (files w)(params ! 1 \<mapsto> boc) \<and>
    text = hex_encode env boc @ '' '' @ base64_encode env boc"
proof -
  from assms obtain d a n where
    s: "send_GetAccountState params = Ok (GetShardAccountStateReq (params ! 0))"
      "serialize_request env (GetShardAccountStateReq (params ! 0)) = Ok d"
    and q: "adnl_query env d (net w) = (Ok a, n)"
    and r: "receive_GetAccountState env a params (w\<lparr>net := n, trace := trace w @ [Queried d]\<rparr>) = (Ok (text, boc), w')"
    by (cases params)
      (auto simp: process_command_def command_send_def command_receive_def send_GetAccountState_def ok_iff
        split: if_splits)
  from r obtain raw where "as_shard_account_state a = Some (Some raw)"
    by (auto simp: receive_GetAccountState_def ok_iff Let_def case_prod_beta)
  then have "a = ShardAccountStateAns raw" by (cases a) auto
  with s q r show ?thesis
    by (cases params; cases "tl params")
      (auto simp: receive_GetAccountState_def ok_iff Let_def)
qed

lemma demo_getaccountstate:
  "process_command demo_env ''getaccountstate'' [''0:ab'', ''a.boc''] (demo_world [Ok (ShardAccountStateAns [1])] []) =
     (Ok (hex_text 97 [0xB5, 0xEE] @ '' '' @ b64_text [0xB5, 0xEE], [0xB5, 0xEE]),
      \<lparr>net = ([], 1600000000), files = [''a.boc'' \<mapsto> [0xB5, 0xEE]], stdin = [],
       trace = [Queried (9 # as_bytes ''0:ab''), WroteFile ''a.boc'' [0xB5, 0xEE]]\<rparr>)"
  by (simp add: demo_run demo_env_codecs send_GetAccountState_def receive_GetAccountState_def
      demo_account_def del: b64_text.simps)

theorem getaccountstate_file_witness:
  "\<exists>d raw n acc. demo_query d ([Ok (ShardAccountStateAns [1])], 1600000000) = (Ok (ShardAccountStateAns raw), n) \<and>
     shard_account_from_bytes demo_env raw = Ok acc \<and> sa_account_boc acc = Ok [0xB5, 0xEE]"
  using getaccountstate_file [OF demo_getaccountstate]
  by (elim exE conjE) (intro exI conjI; simp add: demo_world_def)

end
