(* ===== verification/Main_Properties.thy ===== *)
theory Main_Properties
  imports Console_Demo
begin

text \<open>
  What the loops of bin/console.rs guarantee: the batch reports every command in order and sleeps
  after each, the interactive loop is a fold over the lines of standard input that ends at "quit"
  only, and what the commands that write a message or a parameter leave behind.
\<close>

section \<open>The recovery message\<close>

text \<open>A clock reading goes through a signed 32-bit integer on its way into the query id.\<close>

lemma uint_i32_as_u64:
  assumes "0 \<le> secs" and "secs < 2 ^ 32"
  shows "uint (i32_as_u64 (secs_as_i32 secs)) = (if secs < 2 ^ 31 then secs else 2 ^ 64 - 2 ^ 32 + secs)"
proof -
  have word: "secs_as_i32 secs = word_of_int secs"
    using assms by (simp add: secs_as_i32_def ucast_eq uint_word_of_int)
  have "sint (word_of_int secs :: i32) = (secs + 2 ^ 31) mod 2 ^ 32 - 2 ^ 31"
    by (simp add: signed_of_int signed_take_bit_eq_take_bit_shift take_bit_eq_mod)
  also have "\<dots> = (if secs < 2 ^ 31 then secs else secs - 2 ^ 32)"
  proof (cases "secs < 2 ^ 31")
    case False
    then have "(secs + 2 ^ 31) mod 2 ^ 32 = (secs + 2 ^ 31 - 2 ^ 32) mod 2 ^ 32"
      by (intro mod_pos_geq) simp_all
    with False assms show ?thesis by (simp add: mod_pos_pos_trivial)
  qed (use assms in \<open>simp add: mod_pos_pos_trivial\<close>)
  finally have "sint (word_of_int secs :: i32) = (if secs < 2 ^ 31 then secs else secs - 2 ^ 32)" .
  moreover have "(secs - 2 ^ 32) mod 2 ^ 64 = 2 ^ 64 - 2 ^ 32 + secs" if "\<not> secs < 2 ^ 31"
    using that assms mod_add_self2 [of "secs - 2 ^ 32" "2 ^ 64"] by (simp add: mod_pos_pos_trivial)
  ultimately show ?thesis
    using assms by (auto simp: i32_as_u64_def scast_eq word unsigned_of_int take_bit_eq_mod)
qed

text \<open>
  C22: The recovery message is the tag 0x47657424 and the query id; until 2038 the id is the number
  of seconds since the epoch, from then on the sign of the 32-bit reading fills its upper half.
  The message's bag of cells is the one file written.
\<close>

theorem recover_stake_message:
  assumes "process_recover_stake cl env params w = (Ok (text, data), w')"
    and "system_time env (net w) = (secs, n)" and "secs < 2 ^ 32"
  shows "\<exists>body builder cell.
    with_raw cl body 96 = Ok builder \<and> into_cell cl builder = Ok cell \<and> write_boc cl cell = Ok data \<and>
    u32_from_be_bytes (take 4 body) = 0x47657424 \<and>
    uint (u64_from_be_bytes (drop 4 body)) = (if secs < 2 ^ 31 then secs else 2 ^ 64 - 2 ^ 32 + secs) \<and>
    (let path = case_option ''recover-query.boc'' (\<lambda>p. p) (fst (next_param params)) in
       trace w' = trace w @ [WroteFile path data] \<and> files w' = (files w)(path \<mapsto> data))"
proof -
  let ?body = "recover_body (i32_as_u64 (secs_as_i32 secs))"
  from assms(1,2) obtain builder cell where "0 \<le> secs" and
    "with_raw cl ?body (length ?body * 8) = Ok builder" "into_cell cl builder = Ok cell"
    "write_boc cl cell = Ok data"
    and save: "save_message env (fst (next_param params)) ''recover-query.boc'' data (w\<lparr>net := n\<rparr>)
      = (Ok (text, data), w')"
    by (auto simp: process_recover_stake_def io_bind_Ok_iff io_lift_Ok_iff now_Ok_iff Let_def
        case_prod_beta save_message_Ok_iff)
  with assms(3) uint_i32_as_u64 [of secs] show ?thesis
    by (intro exI [of _ ?body] exI [of _ builder] exI [of _ cell])
      (auto simp: recover_body_layout save_message_Ok_iff Let_def)
qed

lemma demo_recover:
  "\<exists>text data w'. process_recover_stake demo_cells demo_env [] (demo_world [] []) = (Ok (text, data), w')"
  by (simp add: process_recover_stake_def demo_run demo_cells_def save_message_def recover_body_layout)

theorem recover_stake_message_witness:
  "\<exists>body. u32_from_be_bytes (take 4 body) = 0x47657424 \<and>
     uint (u64_from_be_bytes (drop 4 body)) = 1600000000"
proof -
  obtain out data w' where
    "process_recover_stake demo_cells demo_env [] (demo_world [] []) = (Ok (out, data), w')"
    using demo_recover by (elim exE)
  from recover_stake_message [OF this, of 1600000000 "([], 1600000000)"] show ?thesis
    by (auto simp: demo_world_def)
qed

section \<open>The batch\<close>

text \<open>
  The events of one command of the batch: those of the command itself, which are all queries and
  file writes, then one line with its result or its error, then the sleep.
\<close>

fun report :: "reply res \<Rightarrow> event" where
  "report (Ok (result, _)) = Println result"
| "report (Err err) = PrintlnErr ''Error executing command: '' err"
| "report (Panic s) = PrintlnErr s ErrorResponse"

definition batch_block ::
  "('bl, 'c) cells \<Rightarrow> ('m, 'k, 'c) zerostates \<Rightarrow> ('b, 'n, 'z) env_scheme \<Rightarrow> console_config \<Rightarrow> u64
     \<Rightarrow> string \<Rightarrow> event list \<Rightarrow> bool" where
  "batch_block cl zl env cfg timeout command es \<longleftrightarrow>
     (\<exists>w0 w1 result body.
        run_command cl zl env cfg (trim_matches CHR 0x22 command) w0 = (result, w1) \<and>
        \<not> is_panic result \<and> trace w1 = trace w0 @ body \<and> list_all quiet body \<and>
        es = body @ [report result, Slept timeout])"

lemma batch_step_block:
  assumes "batch_step cl zl env cfg timeout command w = (r, w')"
  shows "(case r of Ok _ \<Rightarrow> \<exists>es. batch_block cl zl env cfg timeout command es \<and> trace w' = trace w @ es
    | Err _ \<Rightarrow> False
    | Panic s \<Rightarrow> run_command cl zl env cfg (trim_matches CHR 0x22 command) w = (Panic s, w'))"
proof -
  obtain result w1 where run: "run_command cl zl env cfg (trim_matches CHR 0x22 command) w = (result, w1)"
    by (cases "run_command cl zl env cfg (trim_matches CHR 0x22 command) w")
  from trace_order.preservesD [OF run_command_grows run] obtain body where
    body: "trace w1 = trace w @ body" "list_all quiet body"
    by (auto simp: grows_def)
  show ?thesis
  proof (cases "is_panic result")
    case False
    then have "r = Ok () \<and> trace w' = trace w @ body @ [report result, Slept timeout]"
      using assms run body
      by (cases result) (auto simp: batch_step_def io_bind_def io_match_def emit_def)
    moreover have "batch_block cl zl env cfg timeout command (body @ [report result, Slept timeout])"
      using run body False by (auto simp: batch_block_def)
    ultimately show ?thesis by auto
  next
    case True
    then show ?thesis
      using assms run by (cases result) (auto simp: batch_step_def io_bind_def io_match_def)
  qed
qed

lemma run_batch_blocks:
  "run_batch cl zl env cfg timeout commands w = (Ok u, w') \<Longrightarrow>
     \<exists>blocks. list_all2 (batch_block cl zl env cfg timeout) commands blocks \<and>
       trace w' = trace w @ concat blocks"
proof (induction commands arbitrary: w)
  case (Cons command commands)
  then obtain v w1 where step: "batch_step cl zl env cfg timeout command w = (Ok v, w1)"
    and rest: "run_batch cl zl env cfg timeout commands w1 = (Ok u, w')"
    by (auto simp: ok_iff)
  from batch_step_block [OF step] obtain es where
    es: "batch_block cl zl env cfg timeout command es" "trace w1 = trace w @ es" by auto
  from Cons.IH [OF rest] obtain blocks where
    "list_all2 (batch_block cl zl env cfg timeout) commands blocks" "trace w' = trace w1 @ concat blocks" by blast
  with es show ?case by (intro exI [of _ "es # blocks"]) simp
qed (simp add: run)

lemma run_batch_stops:
  "run_batch cl zl env cfg timeout commands w = (r, w') \<Longrightarrow> \<not> is_ok r \<Longrightarrow>
     \<exists>before command rest s w1. commands = before @ command # rest \<and> r = Panic s \<and>
       run_batch cl zl env cfg timeout before w = (Ok (), w1) \<and>
       run_command cl zl env cfg (trim_matches CHR 0x22 command) w1 = (Panic s, w')"
proof (induction commands arbitrary: w)
  case (Cons command commands)
  obtain q w1 where step: "batch_step cl zl env cfg timeout command w = (q, w1)"
    by (cases "batch_step cl zl env cfg timeout command w")
  show ?case
  proof (cases q)
    case (Ok v)
    with step Cons.prems have "run_batch cl zl env cfg timeout commands w1 = (r, w')"
      by (simp add: io_bind_def)
    from Cons.IH [OF this Cons.prems(2)] obtain earlier cmd rest s w2 where
      "commands = earlier @ cmd # rest" "r = Panic s" "run_batch cl zl env cfg timeout earlier w1 = (Ok (), w2)"
      "run_command cl zl env cfg (trim_matches CHR 0x22 cmd) w2 = (Panic s, w')" by blast
    with step Ok show ?thesis
      by - (rule exI [of _ "command # earlier"], rule exI [of _ cmd], simp add: io_bind_def)
  next
    case (Panic s)
    with batch_step_block [OF step] step Cons.prems show ?thesis
      by - (rule exI [of _ "[]"], rule exI [of _ command], simp add: io_bind_def run)
  qed (use batch_step_block [OF step] in simp)
qed (auto simp: run)

text \<open>
  C13: The batch never fails: an error of a command is reported and the next command runs. When
  it returns, every command has run, in order, and left its own events, one report and one
  sleep; and it does not return only when a command itself panics, after all commands before it
  have run so.
\<close>

theorem batch_reports_every_command:
  "case run_batch cl zl env cfg timeout commands w of
     (Ok _, w') \<Rightarrow> \<exists>blocks. list_all2 (batch_block cl zl env cfg timeout) commands blocks \<and>
        trace w' = trace w @ concat blocks
   | (Err _, _) \<Rightarrow> False
   | (Panic s, w') \<Rightarrow> \<exists>before command rest blocks w1.
        commands = before @ command # rest \<and>
        list_all2 (batch_block cl zl env cfg timeout) before blocks \<and> trace w1 = trace w @ concat blocks \<and>
        run_command cl zl env cfg (trim_matches CHR 0x22 command) w1 = (Panic s, w')"
proof (cases "run_batch cl zl env cfg timeout commands w")
  case (Pair r w')
  show ?thesis
  proof (cases r)
    case (Ok u)
    with Pair run_batch_blocks [of cl zl env cfg timeout commands w u w'] show ?thesis by simp
  next
    case (Err e)
    with run_batch_stops [OF Pair] show ?thesis by auto
  next
    case (Panic s)
    with run_batch_stops [OF Pair] obtain before command rest w1 where
      "commands = before @ command # rest" "run_batch cl zl env cfg timeout before w = (Ok (), w1)"
      "run_command cl zl env cfg (trim_matches CHR 0x22 command) w1 = (Panic s, w')" by auto
    with run_batch_blocks [of cl zl env cfg timeout before w "()" w1] Pair Panic show ?thesis by auto
  qed
qed

section \<open>The interactive loop\<close>

text \<open>The loop as a fold over the lines of standard input; \<open>None\<close> is a loop that never ends.\<close>

fun session ::
  "('bl, 'c) cells \<Rightarrow> ('m, 'k, 'c) zerostates \<Rightarrow> ('b, 'n, 'z) env_scheme \<Rightarrow> console_config \<Rightarrow>
     stdin_line list \<Rightarrow> 'n world \<Rightarrow> (unit res \<times> 'n world) option" where
  "session cl zl env cfg [] w = None"
| "session cl zl env cfg (BadLine # ls) w =
     Some (Panic ''Can't read line from stdin'', w\<lparr>stdin := ls\<rparr>)"
| "session cl zl env cfg (Line s # ls) w =
     (let command = trim_end s; w = w\<lparr>stdin := ls\<rparr> in
      if command = [] then session cl zl env cfg ls w
      else if command = ''quit'' then Some (Ok (), w)
      else (case interactive_step cl zl env cfg command w of
          (Ok _, w) \<Rightarrow> session cl zl env cfg ls w
        | other \<Rightarrow> Some other))"

lemma interactive_step_stdin:
  "interactive_step cl zl env cfg command w = (r, w') \<Longrightarrow> stdin w' = stdin w"
  using trace_order.preservesD [OF run_command_grows, of cl zl env cfg command w]
  by (auto simp: interactive_step_def io_match_def emit_def grows_def split: prod.splits result.splits)

lemma interactive_reads:
  fixes cl :: "('bl, 'c) cells" and zl :: "('m, 'k, 'c) zerostates" and env :: "('b, 'n, 'z) env_scheme"
    and cfg :: console_config and w :: "'n world"
  assumes "interactive cl zl env cfg w = Some r"
  shows "stdin w \<noteq> []"
proof (rule interactive.raw_induct [OF _ assms])
  fix interactive :: "('bl, 'c) cells \<Rightarrow> ('m, 'k, 'c) zerostates \<Rightarrow> ('b, 'n, 'z) env_scheme \<Rightarrow>
    console_config \<Rightarrow> 'n world \<Rightarrow> (unit res \<times> 'n world) option" and cl zl env cfg w r
  assume ind: "\<And>cl zl env cfg w r. interactive cl zl env cfg w = Some r \<Longrightarrow> stdin w \<noteq> []"
    and step: "(case read_line w of
      (Ok line, w) \<Rightarrow>
        let command = trim_end line
        in if command = [] then interactive cl zl env cfg w
           else if command = ''quit'' then Some (Ok (), w)
                else case interactive_step cl zl env cfg command w of
                     (Ok x, w) \<Rightarrow> interactive cl zl env cfg w
                     | (Err e, w) \<Rightarrow> Some (Err e, w)
                     | (Panic s, w) \<Rightarrow> Some (Panic s, w)
      | (Err e, w) \<Rightarrow> Some (Err e, w) | (Panic s, w) \<Rightarrow> Some (Panic s, w)) = Some r"
  have "trim_end [] = []" by code_simp
  with ind [of cl zl env cfg w r] step show "stdin w \<noteq> []"
    by (auto simp: read_line_def)
qed

lemma interactive_eof: "stdin w = [] \<Longrightarrow> interactive cl zl env cfg w = None"
  using interactive_reads by (cases "interactive cl zl env cfg w") blast+

lemma interactive_session: "interactive cl zl env cfg w = session cl zl env cfg (stdin w) w"
proof -
  have "interactive cl zl env cfg w = session cl zl env cfg ls w" if "stdin w = ls" for ls
    using that
  proof (induction ls arbitrary: w)
    case Nil
    then show ?case by (simp add: interactive_eof)
  next
    case (Cons l ls)
    show ?case
    proof (cases l)
      case BadLine
      with Cons.prems show ?thesis by (subst interactive.simps) (simp add: read_line_def)
    next
      case (Line s)
      with Cons.prems Cons.IH show ?thesis
        by (subst interactive.simps)
          (auto simp: read_line_def Let_def interactive_step_stdin split: prod.splits result.splits)
    qed
  qed
  then show ?thesis by simp
qed

text \<open>
  C2: The interactive loop is the fold of its step over the lines of standard input: blank lines
  are skipped, every other line is run and reported, the line "quit" ends it, an unreadable line
  panics; and when the lines run out it neither returns nor fails, but loops for ever.
\<close>

theorem interactive_is_session:
  "interactive cl zl env cfg w = session cl zl env cfg (stdin w) w"
  by (rule interactive_session)

section \<open>A configuration parameter\<close>

text \<open>
  C30: \<open>config_param\<close> writes the parameter's cell, found in the zerostate the second parameter
  names under the index the first one writes, a number that is not negative.
\<close>

theorem config_param_file:
  assumes "process_config_param cl zl env params w = (Ok (text, data), w')"
  shows "\<exists>index contents m extra key cell.
    numeral_value True (trim_matches CHR 0x22 (params ! 0)) = Some (sint index) \<and> 0 \<le> sint index \<and>
    files w (trim_matches CHR 0x22 (params ! 1)) = Some contents \<and>
    and_then (string_from_utf8 contents) (json_map_from_str zl) = Ok m \<and>
    parse_state zl m = Ok (Ok (Some extra)) \<and> config_key zl index = Ok key \<and>
    extra key = Ok (Some (Some cell)) \<and> write_boc cl cell = Ok data \<and>
    files w' = (files w)((if 2 < length params then params ! 2 else ''config-param.boc'') \<mapsto> data)"
proof -
  let ?p0 = "fst (next_param params)" and ?p1 = "fst (next_param (tl params))"
    and ?p2 = "fst (next_param (tl (tl params)))"
  from assms obtain index name s cell where
    index: "parse_int ?p0 ''index'' = Ok index" "0 \<le> sint index"
    and name: "parse_any ?p1 ''zerostate.json'' Ok = Ok name"
    and s: "read_to_string name w = (Ok s, w)" and cell: "config_param_cell zl index s = Ok cell"
    and data: "write_boc cl cell = Ok data"
    and wrote: "fs_write env (case_option ''config-param.boc'' (\<lambda>p. p) ?p2) data w = (Ok (), w')"
    by (auto simp: process_config_param_def io_bind_Ok_iff io_lift_Ok_iff io_map_err_Ok_iff
        map_err_Ok_iff Let_def case_prod_beta snd_next_param read_to_string_def fs_read_Ok_iff
        split: if_splits)
  from index(1) name obtain p0 p1 ps where params: "params = p0 # p1 # ps"
    by (cases params; cases "tl params") (auto simp: parse_int_Ok_iff parse_any_Ok_iff)
  from s obtain contents where contents: "files w name = Some contents" "string_from_utf8 contents = Ok s"
    by (auto simp: read_to_string_def ok_iff)
  from cell obtain m extra key where "json_map_from_str zl s = Ok m"
    "parse_state zl m = Ok (Ok (Some extra))" "config_key zl index = Ok key" "extra key = Ok (Some (Some cell))"
    by (auto simp: config_param_cell_def ok_iff)
  with index name contents data wrote params show ?thesis
    by (intro exI [of _ index] exI [of _ contents] exI [of _ m] exI [of _ extra] exI [of _ key] exI [of _ cell])
      (cases ps; auto simp: parse_any_Ok_iff fs_write_Ok_iff dest: parse_int_sint)
qed

lemma demo_config_param:
  "\<exists>text data w'. process_config_param demo_cells demo_zl demo_env [''0'', ''z.json'']
     ((demo_world [] [])\<lparr>files := [''z.json'' \<mapsto> as_bytes ''{}'']\<rparr>) = (Ok (text, data), w')"
proof -
  have "string_from_utf8 (as_bytes ''{}'') = Ok ''{}''" by code_simp
  moreover have "trim_matches CHR 0x22 ''z.json'' = ''z.json''" by code_simp
  ultimately show ?thesis
    by (simp add: process_config_param_def demo_run demo_cells_def demo_zl_def parse_any_def
        read_to_string_def fs_read_def config_param_cell_def)
qed

theorem config_param_file_witness:
  "\<exists>data (w' :: demo_node world) index.
     numeral_value True (trim_matches CHR 0x22 ''0'') = Some (sint (index :: i32)) \<and>
     files w' = [''z.json'' \<mapsto> as_bytes ''{}'', ''config-param.boc'' \<mapsto> data]"
proof -
  obtain out data w' where run: "process_config_param demo_cells demo_zl demo_env [''0'', ''z.json'']
     ((demo_world [] [])\<lparr>files := [''z.json'' \<mapsto> as_bytes ''{}'']\<rparr>) = (Ok (out, data), w')"
    using demo_config_param by (elim exE)
  from config_param_file [OF run] show ?thesis
    by (elim exE conjE) (auto simp: demo_world_def)
qed

section \<open>A run of the whole program\<close>

definition demo_adnl :: "(unit, unit, demo_node) adnl" where
  "demo_adnl = \<lparr>banner = ''console'',
     console_json_from_str = (\<lambda>_. Ok (console_config.extend demo_config \<lparr>adnl_section = Some ()\<rparr>)),
     adnl_from_json = Ok, adnl_connect = (\<lambda>_ n. (Ok (), n)), adnl_shutdown = (\<lambda>n. n)\<rparr>"

definition demo_cli :: cli where
  "demo_cli = \<lparr>cli_config = ''c'', cli_commands = Some [''cparam 0 z''], cli_timeout = None, cli_json = True\<rparr>"

end
