(* ===== verification/Console_Panics.thy ===== *)
theory Console_Panics
  imports Console_Demo
begin

text \<open>
  Where the console can panic. The libraries are taken not to (\<open>calm_env\<close>), the clock to be past
  the epoch and the build to wrap on overflow; then every sender, receiver and command is a call
  that does not panic, and what is left is the command line without a word.
\<close>

section \<open>The environment\<close>

definition calm_env :: "('b, 'n, 'z) env_scheme \<Rightarrow> bool" where
  "calm_env env \<longleftrightarrow>
     \<not> overflow_checks env \<and> (\<forall>n. 0 \<le> fst (system_time env n)) \<and>
     (\<forall>s. \<not> is_panic (hex_decode env s)) \<and> (\<forall>s. \<not> is_panic (base64_decode env s)) \<and>
     (\<forall>s. \<not> is_panic (blockid_from_str env s)) \<and> (\<forall>r. \<not> is_panic (serialize_request env r)) \<and>
     (\<forall>a. \<not> is_panic (serialize_answer env a)) \<and> (\<forall>d n. \<not> is_panic (fst (adnl_query env d n))) \<and>
     (\<forall>bs. case shard_account_from_bytes env bs of
        Ok acc \<Rightarrow> \<not> is_panic (sa_account acc) \<and> \<not> is_panic (sa_account_boc acc)
      | Err _ \<Rightarrow> True | Panic _ \<Rightarrow> False) \<and>
     (\<forall>s. \<not> is_panic (shell_split env s))"

definition calm_cells :: "('bl, 'c) cells \<Rightarrow> bool" where
  "calm_cells cl \<longleftrightarrow>
     (\<forall>bs n. \<not> is_panic (with_raw cl bs n)) \<and> (\<forall>b c. \<not> is_panic (append_reference cl b c)) \<and>
     (\<forall>b. \<not> is_panic (into_cell cl b)) \<and> (\<forall>c. \<not> is_panic (write_boc cl c)) \<and>
     (\<forall>k d s. \<not> is_panic (ed25519_verify cl k d s))"

definition calm_zerostates :: "('m, 'k, 'c) zerostates \<Rightarrow> bool" where
  "calm_zerostates zl \<longleftrightarrow>
     (\<forall>s. \<not> is_panic (json_map_from_str zl s)) \<and> (\<forall>i. \<not> is_panic (config_key zl i)) \<and>
     (\<forall>m. \<not> is_panic (parse_state zl m)) \<and>
     (\<forall>m custom extra k. parse_state zl m = Ok custom \<longrightarrow> \<not> is_panic custom \<and>
        (custom = Ok (Some extra) \<longrightarrow> \<not> is_panic (extra k)))"

section \<open>The parts that do not depend on the libraries\<close>

lemma string_from_utf8_calm [calm]: "\<not> is_panic (string_from_utf8 bs)"
  by (simp add: string_from_utf8_def)

lemma to_array32_calm [calm]: "\<not> is_panic (to_array32 bs)"
  by (simp add: to_array32_def)

lemma sub_i32_calm [calm]: "\<not> is_panic (sub_i32 False a b)"
  by (simp add: sub_i32_def Let_def)

lemma downcast_calm [calm]: "\<not> is_panic (downcast t select a)"
  by (simp add: downcast_def calm)

lemma parse_any_calm: "(\<And>v. \<not> is_panic (f v)) \<Longrightarrow> \<not> is_panic (parse_any p name f)"
  by (simp add: parse_any_def calm)

lemma parse_int_calm [calm]: "\<not> is_panic (parse_int p name)"
  unfolding parse_int_def by (rule parse_any_calm) (simp add: calm i32_from_str_not_Panic)

lemma read_to_string_calm [calm]: "no_panic (read_to_string path)"
  unfolding read_to_string_def by (rule no_panic_bind) (simp_all add: calm)

lemma save_message_calm [calm]: "no_panic (save_message env p path data)"
  unfolding save_message_def Let_def by (rule no_panic_bind) (simp_all add: calm)

section \<open>Senders and receivers\<close>

lemma calm_env_calls [calm]:
  assumes "calm_env env"
  shows "\<not> is_panic (hex_decode env s)" "\<not> is_panic (base64_decode env s)"
    "\<not> is_panic (blockid_from_str env s)" "\<not> is_panic (serialize_request env r)"
    "\<not> is_panic (serialize_answer env a)" "\<not> is_panic (shell_split env s)"
    "no_panic (query_node env d)" "no_panic (now env)" "\<not> overflow_checks env"
proof -
  show "no_panic (query_node env d)" "no_panic (now env)"
    using assms
    by (simp_all add: calm_env_def no_panic_def query_node_def now_def case_prod_beta not_less)
qed (use assms in \<open>simp_all add: calm_env_def\<close>)

lemma calm_parsers [calm]:
  assumes "calm_env env"
  shows "\<not> is_panic (parse_int256 env p name)" "\<not> is_panic (parse_data env p name)"
    "\<not> is_panic (parse_blockid env p name)"
  unfolding parse_int256_def parse_data_def parse_blockid_def
  by (rule parse_any_calm; simp add: calm assms)+

lemma send_of_calm:
  assumes "calm_env env"
  shows "no_panic (send_of env c ps)"
proof (cases c)
  case AddValidatorTempKey
  then show ?thesis
    by (auto simp: send_AddValidatorTempKey_def Let_def case_prod_beta calm assms intro!: no_panic_bind)
next
  case AddValidatorAdnlAddr
  then show ?thesis
    by (auto simp: send_AddValidatorAdnlAddr_def Let_def case_prod_beta calm assms intro!: no_panic_bind)
next
  case SendMessage
  then show ?thesis
    by (auto simp: send_SendMessage_def Let_def case_prod_beta calm intro!: no_panic_bind)
next
  case FutureBundle
  have "\<not> is_panic (send_FutureBundle env ps)"
    using calm_parsers(3) [OF assms]
    by (auto simp: send_FutureBundle_def Let_def case_prod_beta calm split: result.splits)
      (metis is_panic_simps(3))
  with FutureBundle show ?thesis by (simp add: calm)
qed (auto simp: calm assms Let_def case_prod_beta i32_from_str_not_Panic
    send_AddAdnlAddr_def send_AddValidatorPermKey_def send_Bundle_def send_ExportPub_def send_GetAccount_def
    send_GetAccountState_def send_GetBlockchainConfig_def send_GetConfig_def send_GetSessionStats_def
    send_GetSelectedStats_def send_GetStats_def send_NewKeypair_def send_SetStatesGcInterval_def send_Sign_def)

lemma calm_account:
  assumes "calm_env env" 
  shows "\<not> is_panic (shard_account_from_bytes env bs)"
    "shard_account_from_bytes env bs = Ok acc \<Longrightarrow> \<not> is_panic (sa_account acc) \<and> \<not> is_panic (sa_account_boc acc)"
proof -
  from assms have "case shard_account_from_bytes env bs of
        Ok acc \<Rightarrow> \<not> is_panic (sa_account acc) \<and> \<not> is_panic (sa_account_boc acc)
      | Err _ \<Rightarrow> True | Panic _ \<Rightarrow> False" by (simp add: calm_env_def)
  then show "\<not> is_panic (shard_account_from_bytes env bs)"
    "shard_account_from_bytes env bs = Ok acc \<Longrightarrow> \<not> is_panic (sa_account acc) \<and> \<not> is_panic (sa_account_boc acc)"
    by (cases "shard_account_from_bytes env bs"; simp)+
qed

lemma account_info_calm:
  assumes "calm_env env"
  shows "\<not> is_panic (account_info env state)"
  using calm_account [OF assms]
  by (cases state) (auto simp: account_info_def Let_def calm)

lemma receive_GetAccountState_calm:
  assumes "calm_env env"
  shows "no_panic (receive_GetAccountState env a ps)"
  unfolding no_panic_def
proof
  fix w
  have "\<not> is_panic (fst (io_map_err g (fs_write env p d) w))" for g p d
    using world_calls_calm(2) [of env p d] no_panic_map_err by (metis no_panic_def)
  with calm_account [OF assms] show "\<not> is_panic (fst (receive_GetAccountState env a ps w))"
    by (auto simp: receive_GetAccountState_def Let_def case_prod_beta is_panic_fst_bind io_lift_def calm)
qed

lemma receive_of_calm:
  assumes "calm_env env"
  shows "no_panic (receive_of env c a ps)"
proof (cases c)
  case GetAccount
  have "no_panic (case p of
      Some name \<Rightarrow> io_map_err g (fs_write env name data) | None \<Rightarrow> io_ok ())" for g p data
    by (cases p) (simp_all add: calm)
  with GetAccount account_info_calm [OF assms] show ?thesis
    by (auto simp: receive_GetAccount_def Let_def case_prod_beta calm intro!: no_panic_bind)
next
  case GetAccountState
  with receive_GetAccountState_calm [OF assms] show ?thesis by simp
qed (auto simp: calm assms Let_def receive_default_def receive_ExportPub_def receive_GetBlockchainConfig_def
    receive_GetConfig_def receive_GetSessionStats_def receive_GetSelectedStats_def receive_GetStats_def
    receive_NewKeypair_def receive_Sign_def)

lemma process_command_calm [calm]:
  assumes "calm_env env"
  shows "no_panic (process_command env name ps)"
proof -
  have "no_panic (command_send env name ps)"
    by (simp add: command_send_def send_of_calm [OF assms] calm split: option.splits)
  moreover have "no_panic (command_receive env name a ps)" for a
    by (simp add: command_receive_def receive_of_calm [OF assms] calm split: option.splits)
  ultimately show ?thesis
    unfolding process_command_def by (auto simp: calm assms intro!: no_panic_bind)
qed

section \<open>The commands the console composes\<close>

lemma calm_cells_calls [calm]:
  assumes "calm_cells cl"
  shows "\<not> is_panic (with_raw cl bs n)" "\<not> is_panic (append_reference cl b c)"
    "\<not> is_panic (into_cell cl b)" "\<not> is_panic (write_boc cl c)" "\<not> is_panic (ed25519_verify cl k d s)"
  using assms by (simp_all add: calm_cells_def)

lemma process_recover_stake_calm:
  assumes "calm_env env" and "calm_cells cl"
  shows "no_panic (process_recover_stake cl env ps)"
  by (auto simp: process_recover_stake_def Let_def case_prod_beta calm assms intro!: no_panic_bind)

lemma process_election_bid_calm:
  assumes "calm_env env" and "calm_cells cl"
  shows "no_panic (process_election_bid cl env cfg ps)"
proof -
  have "\<not> is_panic (parse_wallet env cfg)"
    unfolding parse_wallet_def by (rule parse_any_calm) (simp add: calm assms(1) split: option.splits)
  then have "no_panic (io_lift (bid_args env cfg ps))"
    by (auto simp: bid_args_def Let_def case_prod_beta calm)
  moreover have "no_panic (bid_commands env b)" for b
    by (auto simp: bid_commands_def Let_def case_prod_beta calm assms(1) intro!: no_panic_bind)
  moreover have "no_panic (bid_sign cl env b perm key adnl)" for b perm key adnl
    by (auto simp: bid_sign_def Let_def case_prod_beta calm assms intro!: no_panic_bind)
  moreover have "no_panic (io_lift (signed_boc cl data sg))" for data sg
    by (auto simp: signed_boc_def Let_def calm assms(2))
  ultimately show ?thesis
    by (auto simp: process_election_bid_def Let_def case_prod_beta calm assms(1) intro!: no_panic_bind)
qed

lemma process_config_param_calm:
  assumes "calm_cells cl" and "calm_zerostates zl"
  shows "no_panic (process_config_param cl zl env ps)"
proof -
  have "\<not> is_panic (config_param_cell zl index text)" for index "text"
    using assms(2) by (auto simp: config_param_cell_def calm_zerostates_def calm map_err_Ok_iff ok_or_Ok_iff)
  moreover have "\<not> is_panic (parse_any p name (\<lambda>value. Ok value))" for p name
    by (rule parse_any_calm) simp
  ultimately show ?thesis
    by (auto simp: process_config_param_def Let_def case_prod_beta calm assms(1) intro!: no_panic_bind)
qed

lemma run_command_panics_iff:
  assumes "calm_env env" and "calm_cells cl" and "calm_zerostates zl"
  shows "is_panic (fst (run_command cl zl env cfg cmd w)) \<longleftrightarrow> shell_split env cmd = Ok []"
proof (cases "shell_split env cmd")
  case (Ok ws)
  show ?thesis
  proof (cases ws)
    case (Cons name ps)
    have "\<not> is_panic (fst (process_recover_stake cl env ps w))" "\<not> is_panic (fst (process_election_bid cl env cfg ps w))"
      "\<not> is_panic (fst (process_config_param cl zl env ps w))" "\<not> is_panic (fst (process_command env name ps w))"
      using process_recover_stake_calm [OF assms(1,2)] process_election_bid_calm [OF assms(1,2)]
        process_config_param_calm [OF assms(2,3)] process_command_calm [OF assms(1)]
      unfolding no_panic_def by blast+
    with Ok Cons show ?thesis by (simp add: run_command_def io_bind_def io_lift_def)
  qed (use Ok in \<open>simp add: run_command_def io_bind_def io_lift_def\<close>)
qed (use calm_env_calls(6) [OF assms(1), of cmd] in \<open>auto simp: run_command_def io_bind_def io_lift_def\<close>)

lemma batch_step_panics_iff:
  "is_panic (fst (batch_step cl zl env cfg timeout command w)) \<longleftrightarrow>
     is_panic (fst (run_command cl zl env cfg (trim_matches CHR 0x22 command) w))"
  by (auto simp: batch_step_def io_bind_def io_match_def emit_def split: prod.splits result.splits)

text \<open>
  C3: When the libraries do not panic, the clock is past the epoch and the build wraps on overflow,
  a command makes the console panic exactly when it has no word in it, as an empty one or a comment
  has none; and the batch panics exactly when it holds such a command.
\<close>

theorem panics_exactly_on_blank_command:
  assumes "calm_env env" and "calm_cells cl" and "calm_zerostates zl"
  shows "is_panic (fst (run_command cl zl env cfg cmd w)) = (shell_split env cmd = Ok []) \<and>
    is_panic (fst (run_batch cl zl env cfg timeout commands w)) =
      list_ex (\<lambda>command. shell_split env (trim_matches CHR 0x22 command) = Ok []) commands"
proof
  note iff = run_command_panics_iff [OF assms]
  show "is_panic (fst (run_command cl zl env cfg cmd w)) = (shell_split env cmd = Ok [])"
    by (rule iff)
  have err: "\<not> (\<exists>e w'. batch_step cl zl env cfg timeout command w = (Err e, w'))" for command w
    by (auto simp: batch_step_def io_bind_def io_match_def emit_def split: prod.splits result.splits)
  show "is_panic (fst (run_batch cl zl env cfg timeout commands w)) =
      list_ex (\<lambda>command. shell_split env (trim_matches CHR 0x22 command) = Ok []) commands"
  proof (induction commands arbitrary: w)
    case (Cons command commands)
    obtain r w1 where step: "batch_step cl zl env cfg timeout command w = (r, w1)"
      by (cases "batch_step cl zl env cfg timeout command w")
    have "is_panic r = (shell_split env (trim_matches CHR 0x22 command) = Ok [])"
      using batch_step_panics_iff [of cl zl env cfg timeout command w] step iff by simp
    with Cons step err [of command w] show ?case
      by (cases r) (auto simp: io_bind_def)
  qed (simp add: io_lift_def)
qed

definition wrapping_env :: "(string, demo_node) env" where
  "wrapping_env = demo_env\<lparr>overflow_checks := False, system_time := (\<lambda>n. (1600000000, n)),
     hex_decode := (\<lambda>s. Ok []), base64_decode := (\<lambda>s. Ok []),
     serialize_request := (\<lambda>r. Ok []), adnl_query := (\<lambda>d n. (Ok SuccessAns, n))\<rparr>"

theorem panics_exactly_on_blank_command_witness:
  "is_panic (fst (run_batch demo_cells demo_zl wrapping_env demo_config 0 [''newkey'', []] (demo_world [] [])))"
proof -
  have "calm_env wrapping_env"
    by (auto simp: calm_env_def wrapping_env_def demo_env_def codecs.defs demo_account_def)
  moreover have "calm_cells demo_cells"
    by (simp add: calm_cells_def demo_cells_def)
  moreover have "calm_zerostates demo_zl"
    by (simp add: calm_zerostates_def demo_zl_def)
  moreover have "shell_split wrapping_env (trim_matches CHR 0x22 []) = Ok []"
    by (simp add: wrapping_env_def trim_matches_def)
  ultimately show ?thesis
    using panics_exactly_on_blank_command [of wrapping_env demo_cells demo_zl demo_config "[]"
        "demo_world [] []" 0 "[''newkey'', []]"]
    by simp
qed

end
