(* ===== verification/Console_Text.thy ===== *)
theory Console_Text
  imports Main_Properties
begin

text \<open>
  The type of Rust's strings, as an invariant of the console: a \<open>String\<close> is well-formed UTF-8
  (\<open>rust_string\<close>), and so is every result the console prints. UTF-8 synchronises itself: a
  well-formed tail leaves a well-formed head, which is why trimming keeps the invariant.
\<close>

section \<open>Well-formed UTF-8, by its units\<close>

text \<open>The encodings of one character: one to four bytes.\<close>

fun utf8_unit :: "bytes \<Rightarrow> bool" where
  "utf8_unit [b] = (b < 0x80)"
| "utf8_unit [b, b1] = (0xC2 \<le> b \<and> b \<le> 0xDF \<and> is_cont b1)"
| "utf8_unit [b, b1, b2] = (0xE0 \<le> b \<and> b \<le> 0xEF \<and> is_cont b1 \<and> is_cont b2 \<and>
     (b = 0xE0 \<longrightarrow> 0xA0 \<le> b1) \<and> (b = 0xED \<longrightarrow> b1 \<le> 0x9F))"
| "utf8_unit [b, b1, b2, b3] = (0xF0 \<le> b \<and> b \<le> 0xF4 \<and> is_cont b1 \<and> is_cont b2 \<and> is_cont b3 \<and>
     (b = 0xF0 \<longrightarrow> 0x90 \<le> b1) \<and> (b = 0xF4 \<longrightarrow> b1 \<le> 0x8F))"
| "utf8_unit _ = False"

text \<open>Which of the four lengths a first byte starts; the byte 0x80 to 0xC1 starts none.\<close>

lemma first_byte:
  fixes b :: u8
  shows "b < 0x80 \<Longrightarrow> \<not> 0xC2 \<le> b \<and> \<not> 0xE0 \<le> b \<and> \<not> 0xF0 \<le> b"
    "0xC2 \<le> b \<Longrightarrow> \<not> b < 0x80"
    "0xE0 \<le> b \<Longrightarrow> \<not> b < 0x80 \<and> \<not> b \<le> 0xDF"
    "0xF0 \<le> b \<Longrightarrow> \<not> b < 0x80 \<and> \<not> b \<le> 0xDF \<and> \<not> b \<le> 0xEF"
  by (auto simp: word_less_nat_alt word_le_nat_alt)

lemma valid_utf8_unit: "utf8_unit u \<Longrightarrow> valid_utf8 (u @ bs) = valid_utf8 bs"
proof (cases u rule: utf8_unit.cases)
  case (2 b b1)
  assume "utf8_unit u"
  with 2 first_byte(2) [of b] show ?thesis by simp
next
  case (3 b b1 b2)
  assume "utf8_unit u"
  with 3 first_byte(3) [of b] show ?thesis by simp
next
  case (4 b b1 b2 b3)
  assume "utf8_unit u"
  with 4 first_byte(4) [of b] show ?thesis by simp
qed simp_all

lemma valid_utf8_first: "valid_utf8 bs \<Longrightarrow> bs \<noteq> [] \<Longrightarrow> \<exists>u rest. bs = u @ rest \<and> utf8_unit u"
proof (cases bs)
  case (Cons b bs1)
  assume v: "valid_utf8 bs"
  show ?thesis
  proof (cases "b < 0x80")
    case True
    with Cons show ?thesis by (intro exI [of _ "[b]"] exI [of _ bs1]) simp
  next
    case ge: False
    with v Cons obtain b1 bs2 where bs1: "bs1 = b1 # bs2" by (cases bs1) auto
    show ?thesis
    proof (cases "0xC2 \<le> b \<and> b \<le> 0xDF")
      case True
      with v Cons bs1 ge show ?thesis by (intro exI [of _ "[b, b1]"] exI [of _ bs2]) simp
    next
      case no2: False
      with v Cons bs1 ge obtain b2 bs3 where bs2: "bs2 = b2 # bs3" by (cases bs2) auto
      show ?thesis
      proof (cases "0xE0 \<le> b \<and> b \<le> 0xEF")
        case True
        with v Cons bs1 bs2 ge no2 show ?thesis
          by (intro exI [of _ "[b, b1, b2]"] exI [of _ bs3]) simp
      next
        case no3: False
        with v Cons bs1 bs2 ge no2 obtain b3 bs4 where bs3: "bs3 = b3 # bs4" by (cases bs3) auto
        with v Cons bs1 bs2 ge no2 no3 show ?thesis
          by (intro exI [of _ "[b, b1, b2, b3]"] exI [of _ bs4]) simp
      qed
    qed
  qed
qed simp

text \<open>The reference definition: a sequence of units.\<close>

inductive utf8_text :: "bytes \<Rightarrow> bool" where
  utf8_empty: "utf8_text []"
| utf8_char: "utf8_unit u \<Longrightarrow> utf8_text bs \<Longrightarrow> utf8_text (u @ bs)"

lemma utf8_unit_nonempty: "utf8_unit u \<Longrightarrow> u \<noteq> []"
  by auto

lemma valid_utf8_iff: "valid_utf8 bs \<longleftrightarrow> utf8_text bs"
proof
  show "valid_utf8 bs \<Longrightarrow> utf8_text bs"
  proof (induction bs rule: length_induct)
    case (1 bs)
    show ?case
    proof (cases "bs = []")
      case False
      with 1 valid_utf8_first obtain u rest where u: "bs = u @ rest" "utf8_unit u" by blast
      with 1 show ?thesis
        using utf8_unit_nonempty [OF u(2)] valid_utf8_unit [OF u(2), of rest] by (auto intro: utf8_char)
    qed (simp add: utf8_empty)
  qed
  show "utf8_text bs \<Longrightarrow> valid_utf8 bs"
    by (induction rule: utf8_text.induct) (simp_all add: valid_utf8_unit)
qed

lemma valid_utf8_append: "valid_utf8 xs \<Longrightarrow> valid_utf8 (xs @ ys) = valid_utf8 ys"
  unfolding valid_utf8_iff [of xs]
  by (induction rule: utf8_text.induct) (simp_all add: valid_utf8_unit)

text \<open>No unit starts with a continuation byte, so a unit is no proper prefix of a text's first one.\<close>

lemma utf8_unit_head: "utf8_unit (y # ys) \<Longrightarrow> \<not> is_cont y"
  by (cases "y # ys" rule: utf8_unit.cases) (auto simp: is_cont_def word_less_nat_alt word_le_nat_alt)

lemma utf8_unit_tail: "utf8_unit (x # xs) \<Longrightarrow> y \<in> set xs \<Longrightarrow> is_cont y"
  by (cases "x # xs" rule: utf8_unit.cases) auto

lemma valid_utf8_strip_tail:
  assumes "valid_utf8 (xs @ ys)" and "valid_utf8 ys"
  shows "valid_utf8 xs"
  using assms(1)
proof (induction xs rule: length_induct)
  case (1 xs)
  show ?case
  proof (cases "xs = []")
    case False
    with 1 valid_utf8_first [of "xs @ ys"] obtain u rest where
      u: "xs @ ys = u @ rest" "utf8_unit u" by auto
    show ?thesis
    proof (cases "length u \<le> length xs")
      case True
      with u(1) obtain xs' where xs: "xs = u @ xs'" "rest = xs' @ ys"
        by (auto simp: append_eq_append_conv2)
      with 1 valid_utf8_unit [OF u(2)] utf8_unit_nonempty [OF u(2)] show ?thesis by auto
    next
      case False
      with u(1) obtain y ys' where y: "u = xs @ y # ys'" "hd ys = y" "ys \<noteq> []"
        by (cases "drop (length xs) u") (auto simp: append_eq_append_conv2)
      from \<open>xs \<noteq> []\<close> y(1) u(2) have "is_cont y"
        by (cases xs) (auto intro: utf8_unit_tail)
      moreover from assms(2) y(3) valid_utf8_first obtain v rest' where
        "ys = v @ rest'" "utf8_unit v" by blast
      with y(2) utf8_unit_nonempty have "\<not> is_cont y"
        by (cases v) (auto dest: utf8_unit_head)
      ultimately show ?thesis by blast
    qed
  qed simp
qed

section \<open>Strings\<close>

definition rust_string :: "string \<Rightarrow> bool" where
  "rust_string s \<longleftrightarrow> valid_utf8 (as_bytes s)"

lemma rust_string_Nil [simp]: "rust_string []"
  by (simp add: rust_string_def as_bytes_def)

lemma rust_string_append [simp]: "rust_string s \<Longrightarrow> rust_string (s @ t) = rust_string t"
  by (simp add: rust_string_def as_bytes_def valid_utf8_append)

lemma rust_string_strip: "rust_string (s @ t) \<Longrightarrow> rust_string t \<Longrightarrow> rust_string s"
  by (simp add: rust_string_def as_bytes_def) (rule valid_utf8_strip_tail)

lemma char_byte: "(of_char (char_of (unat b)) :: u8) = b"
proof -
  have "(of_char (char_of (unat b)) :: nat) = unat b"
    using unsigned_less [of b, where ?'a = nat] by simp
  then have "(of_char (char_of (unat b)) :: u8) = of_nat (unat b)"
    by (metis of_nat_of_char)
  then show ?thesis by simp
qed

lemma rust_string_of_bytes: "rust_string (string_of_bytes bs) = valid_utf8 bs"
  by (simp add: rust_string_def as_bytes_def string_of_bytes_def comp_def char_byte)

section \<open>ASCII, trimming\<close>

lemma rust_string_Cons [simp]: "(of_char c :: u8) < 0x80 \<Longrightarrow> rust_string (c # s) = rust_string s"
  by (simp add: rust_string_def as_bytes_def)

lemma rust_string_ascii: "list_all (\<lambda>c. (of_char c :: nat) < 128) s \<Longrightarrow> rust_string s"
proof (induction s)
  case (Cons c s)
  then have "(of_char c :: nat) < 128" by simp
  then have "(of_nat (of_char c) :: u8) < 0x80"
    by (simp add: word_less_nat_alt unat_of_nat)
  then have "(of_char c :: u8) < 0x80" by (simp only: of_nat_of_char)
  with Cons show ?case by simp
qed simp

lemma dec_digits_text: "rust_string (dec_digits n)"
proof (rule rust_string_ascii)
  have "to_digit c \<noteq> None \<Longrightarrow> (of_char c :: nat) < 128" for c
  proof -
    assume "to_digit c \<noteq> None"
    then have "(of_char c :: int) \<le> 57" by (auto simp: to_digit_def Let_def split: if_splits)
    then have "int (of_char c) \<le> 57" by (simp only: of_nat_of_char)
    then show ?thesis by simp
  qed
  with dec_digits_value [of n] show "list_all (\<lambda>c. (of_char c :: nat) < 128) (dec_digits n)"
    by (auto simp: all_digits_def list_all_iff)
qed

lemma hex_digits_text: "rust_string (hex_digits n)"
proof (rule rust_string_ascii, induction n rule: hex_digits.induct)
  case (1 n)
  have "n mod 16 < 16" by simp
  with 1 show ?case by (subst hex_digits.simps) (auto simp: list_all_iff)
qed

lemma number_texts [simp]:
  "rust_string (nat_to_string n)" "rust_string (i32_to_string i)" "rust_string (nat_to_hex n)"
  by (simp_all add: nat_to_string_def i32_to_string_def int_to_string_def nat_to_hex_def dec_digits_text
      hex_digits_text)

lemma quotes_text: "set s \<subseteq> {CHR 0x22} \<Longrightarrow> rust_string s"
  by (rule rust_string_ascii) (auto simp: list_all_iff)

lemma rust_string_trim_matches: "rust_string s \<Longrightarrow> rust_string (trim_matches CHR 0x22 s)"
proof -
  assume s: "rust_string s"
  let ?q = "\<lambda>c. c = CHR 0x22" and ?t = "dropWhile (\<lambda>c. c = CHR 0x22) s"
  have quotes: "rust_string (takeWhile ?q x)" "rust_string (rev (takeWhile ?q x))" for x
    by (rule quotes_text; auto dest: set_takeWhileD)+
  have "rust_string (takeWhile ?q s @ ?t)" using s by simp
  then have "rust_string ?t" using quotes(1) [of s] by (simp del: takeWhile_dropWhile_id)
  moreover have "?t = rev (dropWhile ?q (rev ?t)) @ rev (takeWhile ?q (rev ?t))"
    by (metis rev_append rev_rev_ident takeWhile_dropWhile_id)
  ultimately have "rust_string (rev (dropWhile ?q (rev ?t)) @ rev (takeWhile ?q (rev ?t)))" by metis
  from rust_string_strip [OF this quotes(2)] show ?thesis by (simp only: trim_matches_def)
qed

lemma white_space_text: "u \<in> set white_space \<Longrightarrow> valid_utf8 (map of_nat u)"
proof -
  have "list_all (\<lambda>u. valid_utf8 (map of_nat u)) white_space"
    by (simp add: white_space_def is_cont_def)
  then show "u \<in> set white_space \<Longrightarrow> valid_utf8 (map of_nat u)" by (simp add: list_all_iff)
qed

lemma white_prefix_text:
  assumes "white_prefix r = Some n"
  shows "rust_string (rev (take n r))"
proof -
  from assms obtain u where "find (\<lambda>u. take (length u) (map of_char r) = rev u) white_space = Some u"
    and n: "n = length u" by (auto simp: white_prefix_def)
  then have u: "u \<in> set white_space" "map of_char (take n r) = rev u"
    by (auto simp: find_Some_iff take_map)
  have "as_bytes (rev (take n r)) = map of_nat (rev (map of_char (take n r)))"
    by (simp only: as_bytes_def rev_map map_map comp_def of_nat_of_char)
  with u white_space_text show ?thesis by (simp add: rust_string_def)
qed

lemma rust_string_trim_end: "rust_string s \<Longrightarrow> rust_string (trim_end s)"
proof -
  have "rust_string (rev r) \<Longrightarrow> rust_string (rev (drop_white r))" for r
  proof (induction r rule: drop_white.induct)
    case (1 r)
    show ?case
    proof (cases "white_prefix r")
      case (Some n)
      have "rust_string (rev (drop n r) @ rev (take n r))"
        using 1(2) by (simp flip: rev_append)
      from rust_string_strip [OF this white_prefix_text [OF Some]] 1(1) [OF Some] Some show ?thesis
        by (simp add: drop_white.simps [of r])
    qed (use 1(2) in \<open>simp add: drop_white.simps [of r]\<close>)
  qed
  from this [of "rev s"] show "rust_string s \<Longrightarrow> rust_string (trim_end s)" by (simp add: trim_end_def)
qed

section \<open>The replies of the commands\<close>

text \<open>The libraries return strings, and splitting a command line gives strings.\<close>

definition text_env :: "('b, 'n, 'z) env_scheme \<Rightarrow> bool" where
  "text_env env \<longleftrightarrow>
     (\<forall>bs. rust_string (hex_encode env bs)) \<and> (\<forall>bs. rust_string (base64_encode env bs)) \<and>
     (\<forall>j. rust_string (json_pretty env j)) \<and>
     (\<forall>s ws. rust_string s \<longrightarrow> shell_split env s = Ok ws \<longrightarrow> list_all rust_string ws)"

lemma text_envD [simp]:
  assumes "text_env env"
  shows "rust_string (hex_encode env bs)" "rust_string (base64_encode env bs)"
    "rust_string (json_pretty env j)"
  using assms by (simp_all add: text_env_def)

lemma text_env_words:
  "text_env env \<Longrightarrow> rust_string s \<Longrightarrow> shell_split env s = Ok ws \<Longrightarrow> list_all rust_string ws"
  unfolding text_env_def by blast

lemma account_info_text:
  assumes "text_env env" and "account_info env state = Ok text"
  shows "rust_string text"
proof -
  have "rust_string (account_type st)" for st by (cases st) simp_all
  with assms show ?thesis
    by (cases state) (auto simp: account_info_def account_fields_def ok_iff Let_def)
qed

lemma receive_of_text:
  assumes "text_env env" and "receive_of env c a ps w = (Ok (text, data), w')"
  shows "rust_string text"
  using assms
  by (cases c)
    (auto simp: ok_iff Let_def case_prod_beta receive_default_def receive_ExportPub_def
      receive_GetBlockchainConfig_def receive_GetConfig_def receive_GetSessionStats_def
      receive_GetSelectedStats_def receive_GetStats_def receive_NewKeypair_def receive_Sign_def
      receive_GetAccount_def receive_GetAccountState_def string_from_utf8_def rust_string_of_bytes
      split: if_splits intro: account_info_text)

lemma process_command_text:
  assumes "text_env env" and "process_command env name ps w = (Ok (text, data), w')"
  shows "rust_string text"
  using assms receive_of_text [OF assms(1)]
  by (auto simp: process_command_def command_receive_def ok_iff split: if_splits option.splits)

lemma save_message_text:
  assumes "text_env env" and "\<And>s. p = Some s \<Longrightarrow> rust_string s" and "rust_string path0"
    and "save_message env p path0 d w = (Ok (text, data), w')"
  shows "rust_string text"
  using assms by (cases p) (auto simp: save_message_Ok_iff Let_def)

lemma next_param_text: "list_all rust_string ps \<Longrightarrow> fst (next_param ps) = Some s \<Longrightarrow> rust_string s"
  by (cases ps) auto

lemma list_all_tl: "list_all P xs \<Longrightarrow> list_all P (tl xs)"
  by (cases xs) auto

lemma process_config_param_text:
  assumes "list_all rust_string ps" and "process_config_param cl zl env ps w = (Ok (text, data), w')"
  shows "rust_string text"
proof -
  from assms(2) obtain index path where t: "text = ''Config param '' @ i32_to_string index @ '' saved to path '' @ path"
    and path: "path = case_option ''config-param.boc'' (\<lambda>p. p) (fst (next_param (tl (tl ps))))"
    by (auto simp: process_config_param_def io_bind_Ok_iff io_lift_Ok_iff Let_def case_prod_beta
        snd_next_param split: if_splits)
  have "rust_string path"
    unfolding path using next_param_text [OF list_all_tl [OF list_all_tl [OF assms(1)]]]
    by (auto split: option.splits)
  with t show ?thesis by simp
qed

lemma dispatch_cases:
  assumes "(if a then f else if b then g else if c then h else k) w = r"
    and "f w = r \<Longrightarrow> P" and "g w = r \<Longrightarrow> P" and "h w = r \<Longrightarrow> P" and "k w = r \<Longrightarrow> P"
  shows P
  using assms by (simp split: if_splits)

lemma run_command_text:
  assumes "text_env env" and "rust_string cmd" and "run_command cl zl env cfg cmd w = (Ok (text, data), w')"
  shows "rust_string text"
proof -
  from assms(3) obtain ws where split: "shell_split env cmd = Ok ws"
    by (auto simp: run_command_def io_bind_Ok_iff io_lift_Ok_iff)
  with assms(3) obtain name ps where ws: "ws = name # ps"
    by (cases ws) (auto simp: run_command_def io_bind_lift io_lift_Ok_iff)
  with assms(3) split have run: "(if name = ''recover_stake'' then process_recover_stake cl env ps
       else if name = ''ebid'' \<or> name = ''election-bid'' \<or> name = ''election_bid''
       then process_election_bid cl env cfg ps
       else if name = ''config_param'' \<or> name = ''cparam'' then process_config_param cl zl env ps
       else process_command env name ps) w = (Ok (text, data), w')"
    by (simp only: run_command_def io_bind_lift result.case next_param.simps Let_def prod.case option.case)
  from text_env_words [OF assms(1,2) split] ws have ps: "list_all rust_string ps" by simp
  have bid: "rust_string text" if "process_election_bid cl env cfg ps w = (Ok (text, data), w')"
  proof -
    from that obtain b rest d w1 where "bid_args env cfg ps = Ok (b, rest)"
      and save: "save_message env (fst (next_param rest)) ''validator-query.boc'' d w1 = (Ok (text, data), w')"
      by (auto simp: process_election_bid_def io_bind_Ok_iff io_lift_Ok_iff Let_def case_prod_beta)
    then have "rest = tl (tl ps)" by (auto simp: bid_args_Ok_iff)
    with ps have "list_all rust_string rest" by (simp add: list_all_tl)
    from save_message_text [OF assms(1) next_param_text [OF this] _ save] show ?thesis by simp
  qed
  have recover: "rust_string text" if "process_recover_stake cl env ps w = (Ok (text, data), w')"
  proof -
    from that obtain d w1 where
      "save_message env (fst (next_param ps)) ''recover-query.boc'' d w1 = (Ok (text, data), w')"
      by (auto simp: process_recover_stake_def io_bind_Ok_iff io_lift_Ok_iff Let_def case_prod_beta)
    from save_message_text [OF assms(1) next_param_text [OF ps] _ this] show ?thesis by simp
  qed
  show ?thesis
    by (rule dispatch_cases [OF run recover bid process_config_param_text [OF ps]
          process_command_text [OF assms(1)]])
qed

section \<open>What the console prints\<close>

text \<open>An event prints strings; a line of standard input that is one reads as \<open>Line\<close>.\<close>

fun prints_string :: "event \<Rightarrow> bool" where
  "prints_string (Println s) = rust_string s"
| "prints_string (Print s) = rust_string s"
| "prints_string _ = True"

fun line_text :: "stdin_line \<Rightarrow> bool" where
  "line_text (Line s) = rust_string s"
| "line_text BadLine = True"

definition printed :: "'n world \<Rightarrow> bool" where
  "printed w \<longleftrightarrow> list_all prints_string (trace w)"

lemma grows_printed:
  assumes "preserves grows m" and "m w = (r, w')" and "printed w"
  shows "printed w'"
proof -
  have "quiet e \<Longrightarrow> prints_string e" for e by (cases e) simp_all
  then show ?thesis
    using trace_order.preservesD [OF assms(1,2)] assms(3)
    by (auto simp: grows_def printed_def list_all_iff)
qed

lemma reported_printed:
  assumes "text_env env" and "rust_string cmd" and "printed w"
    and "io_match (run_command cl zl env cfg cmd) (\<lambda>(result, _). emit (Println result))
      (\<lambda>err. emit (PrintlnErr msg err)) w = (r, w')"
  shows "printed w'"
proof -
  obtain reply w1 where run: "run_command cl zl env cfg cmd w = (reply, w1)"
    by (cases "run_command cl zl env cfg cmd w")
  have "printed w1" by (rule grows_printed [OF run_command_grows run assms(3)])
  moreover have "rust_string text" if "reply = Ok (text, data)" for "text" data
    using run_command_text [OF assms(1,2), of cl zl cfg w "text" data w1] run that by simp
  ultimately show ?thesis
    using assms(4) run by (cases reply) (auto simp: io_match_def emit_def printed_def)
qed

lemma batch_step_printed:
  assumes "text_env env" and "rust_string command" and "printed w"
    and "batch_step cl zl env cfg timeout command w = (r, w')"
  shows "printed w'"
proof -
  obtain r1 w1 where m: "io_match (run_command cl zl env cfg (trim_matches CHR 0x22 command))
       (\<lambda>(result, _). emit (Println result))
       (\<lambda>err. emit (PrintlnErr ''Error executing command: '' err)) w = (r1, w1)"
    by (metis surj_pair)
  from reported_printed [OF assms(1) rust_string_trim_matches [OF assms(2)] assms(3) m]
  have "printed w1" .
  with assms(4) m show ?thesis
    by (cases r1) (auto simp: batch_step_def io_bind_def emit_def printed_def)
qed

lemma run_batch_printed:
  "text_env env \<Longrightarrow> list_all rust_string commands \<Longrightarrow> printed w \<Longrightarrow>
     run_batch cl zl env cfg timeout commands w = (r, w') \<Longrightarrow> printed w'"
proof (induction commands arbitrary: w)
  case (Cons command commands)
  obtain r1 w1 where step: "batch_step cl zl env cfg timeout command w = (r1, w1)"
    by (metis surj_pair)
  have "printed w1" by (rule batch_step_printed [OF _ _ _ step]) (use Cons.prems in simp_all)
  with Cons step show ?case by (cases r1) (auto simp: io_bind_def)
qed (simp add: io_lift_def)

lemma session_printed:
  "text_env env \<Longrightarrow> list_all line_text ls \<Longrightarrow> printed w \<Longrightarrow>
     session cl zl env cfg ls w = Some (r, w') \<Longrightarrow> printed w'"
proof (induction ls arbitrary: w)
  case (Cons l ls)
  have pop: "printed (w\<lparr>stdin := ls\<rparr>)" using Cons.prems(3) by (simp add: printed_def)
  show ?case
  proof (cases l)
    case (Line s)
    let ?cmd = "trim_end s"
    obtain r1 w1 where step: "interactive_step cl zl env cfg ?cmd (w\<lparr>stdin := ls\<rparr>) = (r1, w1)"
      by (metis surj_pair)
    have "rust_string ?cmd" using Cons.prems(2) Line by (simp add: rust_string_trim_end)
    from reported_printed [OF Cons.prems(1) this pop step [unfolded interactive_step_def]]
    have "printed w1" .
    with Cons Line pop step show ?thesis
      by (cases r1) (auto simp: Let_def split: if_splits)
  next
    case BadLine
    with Cons.prems pop show ?thesis by auto
  qed
qed simp

text \<open>Starting the console prints its banner at most and leaves the input alone.\<close>

definition same_output :: "'n world \<Rightarrow> 'n world \<Rightarrow> bool" where
  "same_output w w' \<longleftrightarrow> trace w' = trace w \<and> stdin w' = stdin w"

interpretation output_order: world_order same_output
  by unfold_locales (auto simp: same_output_def)

lemma read_to_string_same_output: "preserves same_output (read_to_string path)"
  unfolding read_to_string_def
  by (intro output_order.bind_preserves output_order.lift_preserves)
    (auto simp: preserves_def same_output_def fs_read_def split: option.splits)

lemma connect_same_output: "preserves same_output (connect ad config)"
  unfolding connect_def
  by (intro output_order.bind_preserves output_order.lift_preserves)
    (simp add: preserves_def same_output_def case_prod_beta)

lemma console_start_printed:
  assumes "rust_string (banner ad)" and "printed w" and "console_start ad args w = (r, w')"
  shows "printed w' \<and> stdin w' = stdin w"
proof -
  define rest where "rest = io_bind (io_expect ''Can't read config file'' (read_to_string (cli_config args))) (\<lambda>text.
     io_bind (io_expect ''Can't parse config'' (io_lift (console_json_from_str ad text))) (\<lambda>config.
     io_bind (io_expect ''timeout must be set in microseconds''
       (case cli_timeout args of
          Some timeout \<Rightarrow> io_lift (map_err ParseInt (u64_from_str timeout))
        | None \<Rightarrow> io_ok 0)) (\<lambda>timeout.
     io_bind (io_expect ''Can't create client'' (connect ad config)) (\<lambda>client.
     io_ok (client, timeout)))))"
  let ?w1 = "if cli_json args then w else w\<lparr>trace := trace w @ [Println (banner ad)]\<rparr>"
  have "preserves same_output rest"
    unfolding rest_def
    by (intro output_order.bind_preserves output_order.expect_preserves output_order.lift_preserves
        read_to_string_same_output connect_same_output) (simp add: output_order.lift_preserves split: option.splits)
  moreover have "rest ?w1 = (r, w')"
    using assms(3) by (simp add: console_start_def rest_def io_bind_def [of "emit e" for e] io_bind_lift emit_def
        split: if_splits)
  ultimately have "same_output ?w1 w'" by (rule output_order.preservesD)
  with assms(1,2) show ?thesis by (auto simp: same_output_def printed_def split: if_splits)
qed

text \<open>
  C4: Every result the console prints is a Rust string, well-formed UTF-8, in the batch and in the
  interactive mode, however the run ends: what it reads, splits, trims and puts together keeps the
  type, when the libraries' texts have it.
\<close>

theorem console_prints_strings:
  assumes "text_env env" and "rust_string (banner ad)"
    and "list_all rust_string (case_option [] (\<lambda>commands. commands) (cli_commands args))"
    and "list_all line_text (stdin w)" and "list_all prints_string (trace w)"
    and "console_main ad cl zl env args w = Some (r, w')"
  shows "list_all prints_string (trace w')"
proof -
  obtain s w1 where start: "console_start ad args w = (s, w1)" by (metis surj_pair)
  from console_start_printed [OF assms(2) _ start] assms(5)
  have w1: "printed w1" "stdin w1 = stdin w" by (simp_all add: printed_def)
  show ?thesis
  proof (cases s)
    case (Ok a)
    obtain cfg timeout where a: "a = (cfg, timeout)" by (cases a)
    from assms(6) start Ok a obtain r2 w2 where
      loop: "(case cli_commands args of
          Some commands \<Rightarrow> Some (run_batch cl zl env cfg timeout commands w1)
        | None \<Rightarrow> interactive cl zl env cfg w1) = Some (r2, w2)"
      and w': "trace w' = trace w2"
      by (auto simp: console_main_def)
    have "printed w2"
    proof (cases "cli_commands args")
      case (Some commands)
      with assms(3) have "list_all rust_string commands" by simp
      from run_batch_printed [OF assms(1) this w1(1)] loop Some show ?thesis by auto
    next
      case None
      from session_printed [OF assms(1) assms(4) w1(1)] loop None w1(2) show ?thesis
        by (auto simp: interactive_session)
    qed
    with w' show ?thesis by (simp add: printed_def)
  qed (use assms(6) start w1 in \<open>auto simp: console_main_def printed_def\<close>)
qed

definition text_demo :: "(string, demo_node) env" where
  "text_demo = demo_env\<lparr>hex_encode := (\<lambda>_. ''00''), base64_encode := (\<lambda>_. ''AA''),
     shell_split := (\<lambda>s. Ok [''newkey''])\<rparr>"

theorem console_prints_strings_witness:
  "\<exists>r w'. console_main demo_adnl demo_cells demo_zl text_demo demo_cli
      ((demo_world [Ok (KeyHashAns 7)] [])\<lparr>files := [''c'' \<mapsto> []]\<rparr>) = Some (r, w') \<and>
    list_all prints_string (trace w')"
proof -
  let ?w = "(demo_world [Ok (KeyHashAns 7)] [])\<lparr>files := [''c'' \<mapsto> []]\<rparr>"
  have env: "text_env text_demo"
    by (simp add: text_env_def text_demo_def demo_env_def codecs.defs)
  have "string_from_utf8 [] = Ok []" by code_simp
  then have "\<exists>r w'. console_main demo_adnl demo_cells demo_zl text_demo demo_cli ?w = Some (r, w')"
    by (simp add: console_main_def console_start_def demo_cli_def demo_adnl_def read_to_string_def fs_read_def
        connect_def console_config.defs demo_world_def io_bind_def io_lift_def io_expect_def)
  then obtain r w' where run: "console_main demo_adnl demo_cells demo_zl text_demo demo_cli ?w = Some (r, w')"
    by (elim exE)
  have "rust_string (banner demo_adnl)" by (simp add: demo_adnl_def)
  moreover have "list_all rust_string (case_option [] (\<lambda>commands. commands) (cli_commands demo_cli))"
    by (simp add: demo_cli_def)
  ultimately have "list_all prints_string (trace w')"
    using console_prints_strings [OF env _ _ _ _ run] by (simp add: demo_world_def)
  with run show ?thesis by blast
qed

end
