(* ===== verification/Loops.thy ===== *)
theory Loops
  imports Prelude
begin

text \<open>
  Rust's \<open>loop\<close> with effects: \<open>io_loop step s\<close> runs \<open>step\<close> from the state \<open>s\<close> of the loop's local
  variables until it breaks with a value (\<open>Inr\<close>), fails or panics; \<open>None\<close> is a loop that runs for
  ever. \<open>turns\<close> is the same loop as a step relation. The locales are the three ways the components reason about it: an invariant
  that the last turn satisfies, a measure that bounds the number of turns, and an invariant under
  which no turn is the last.
\<close>

partial_function (option) io_loop ::
  "('s \<Rightarrow> ('w, 's + 'a) io) \<Rightarrow> 's \<Rightarrow> 'w \<Rightarrow> ('a res \<times> 'w) option" where
  "io_loop step s w = (case step s w of
     (Ok (Inl s'), w') \<Rightarrow> io_loop step s' w'
   | (Ok (Inr a), w') \<Rightarrow> Some (Ok a, w')
   | (Err e, w') \<Rightarrow> Some (Err e, w')
   | (Panic p, w') \<Rightarrow> Some (Panic p, w'))"

text \<open>The outcome of a turn that is the last.\<close>

fun last_turn :: "('s + 'a) res \<Rightarrow> 'a res option" where
  "last_turn (Ok (Inl s)) = None"
| "last_turn (Ok (Inr a)) = Some (Ok a)"
| "last_turn (Err e) = Some (Err e)"
| "last_turn (Panic p) = Some (Panic p)"

lemma io_loop_go: "step s w = (Ok (Inl s'), w') \<Longrightarrow> io_loop step s w = io_loop step s' w'"
  by (subst io_loop.simps) simp

lemma io_loop_last:
  "step s w = (r, w') \<Longrightarrow> last_turn r = Some a \<Longrightarrow> io_loop step s w = Some (a, w')"
  by (subst io_loop.simps) (cases r rule: last_turn.cases; simp)

lemma last_turn_None_iff: "last_turn r = None \<longleftrightarrow> (\<exists>s. r = Ok (Inl s))"
  by (cases r rule: last_turn.cases) auto

section \<open>The turns as a step relation\<close>

text \<open>\<open>turns step s w s' w'\<close>: some turns that go on lead from the first pair to the second.\<close>

inductive turns :: "('s \<Rightarrow> ('w, 's + 'a) io) \<Rightarrow> 's \<Rightarrow> 'w \<Rightarrow> 's \<Rightarrow> 'w \<Rightarrow> bool"
  for step :: "'s \<Rightarrow> ('w, 's + 'a) io" where
  turns_none: "turns step s w s w"
| turns_more: "step s w = (Ok (Inl s1), w1) \<Longrightarrow> turns step s1 w1 s2 w2 \<Longrightarrow> turns step s w s2 w2"

inductive_cases turns_E: "turns step s w s' w'"

lemma turns_one: "step s w = (Ok (Inl s1), w1) \<Longrightarrow> turns step s w s1 w1"
  by (rule turns_more, assumption, rule turns_none)

lemma turns_invariant:
  assumes "turns step s w s' w'" and "I s w"
    and "\<And>s w s' w'. I s w \<Longrightarrow> step s w = (Ok (Inl s'), w') \<Longrightarrow> I s' w'"
  shows "I s' w'"
  using assms by (induction rule: turns.induct) blast+

lemma turns_io_loop: "turns step s w s' w' \<Longrightarrow> io_loop step s w = io_loop step s' w'"
  by (induction rule: turns.induct) (simp_all add: io_loop_go)

text \<open>The loop returns exactly what the last turn of a finite run of turns returns.\<close>

lemma io_loop_reaches:
  fixes step :: "'s \<Rightarrow> ('w, 's + 'a) io"
  assumes "io_loop step s w = Some (r, w')"
  shows "\<exists>s1 w1 t. turns step s w s1 w1 \<and> step s1 w1 = (t, w') \<and> last_turn t = Some r"
proof -
  define Q where "Q st s w y \<longleftrightarrow>
    (\<exists>s1 w1 t. turns st s w s1 w1 \<and> st s1 w1 = (t, snd y) \<and> last_turn t = Some (fst y))"
    for st :: "'s \<Rightarrow> ('w, 's + 'a) io" and s w and y :: "'a res \<times> 'w"
  have "Q step s w (r, w')"
  proof (rule io_loop.raw_induct [OF _ assms])
    fix loop :: "('s \<Rightarrow> ('w, 's + 'a) io) \<Rightarrow> 's \<Rightarrow> 'w \<Rightarrow> ('a res \<times> 'w) option" and st s w y
    assume ind: "\<And>st s w y. loop st s w = Some y \<Longrightarrow> Q st s w y"
      and turn: "(case st s w of
         (Ok (Inl s'), w') \<Rightarrow> loop st s' w'
       | (Ok (Inr a), w') \<Rightarrow> Some (Ok a, w')
       | (Err e, w') \<Rightarrow> Some (Err e, w')
       | (Panic p, w') \<Rightarrow> Some (Panic p, w')) = Some y"
    obtain t w1 where t: "st s w = (t, w1)" by (cases "st s w")
    show "Q st s w y"
    proof (cases "last_turn t")
      case None
      then obtain s' where s': "t = Ok (Inl s')" by (auto simp: last_turn_None_iff)
      with turn t ind [of st s' w1 y] have "Q st s' w1 y" by simp
      with t s' show ?thesis unfolding Q_def by (blast intro: turns_more)
    next
      case (Some r)
      with turn t have "y = (r, w1)"
        by (cases t rule: last_turn.cases) auto
      with t Some show ?thesis unfolding Q_def by (auto intro: turns_none)
    qed
  qed
  then show ?thesis by (simp add: Q_def)
qed

lemma io_loop_Some_iff:
  "io_loop step s w = Some (r, w') \<longleftrightarrow>
     (\<exists>s1 w1 t. turns step s w s1 w1 \<and> step s1 w1 = (t, w') \<and> last_turn t = Some r)"
  using io_loop_reaches io_loop_last turns_io_loop by metis

section \<open>Invariants\<close>

locale loop_invariant =
  fixes step :: "'s \<Rightarrow> ('w, 's + 'a) io" and I :: "'s \<Rightarrow> 'w \<Rightarrow> bool"
  assumes step_keeps: "I s w \<Longrightarrow> step s w = (Ok (Inl s'), w') \<Longrightarrow> I s' w'"
begin

lemma turns_keep: "turns step s w s' w' \<Longrightarrow> I s w \<Longrightarrow> I s' w'"
  by (rule turns_invariant [where I = I]) (auto intro: step_keeps)

lemma last_turn_holds:
  assumes "I s w" and "io_loop step s w = Some (r, w')"
  obtains s1 w1 t where "I s1 w1" "step s1 w1 = (t, w')" "last_turn t = Some r"
  using io_loop_reaches [OF assms(2)] turns_keep assms(1) by blast

end

section \<open>Loops that end\<close>

locale loop_measure = loop_invariant +
  fixes m :: "'s \<Rightarrow> 'w \<Rightarrow> nat \<times> nat"
  assumes step_decreases:
    "I s w \<Longrightarrow> step s w = (Ok (Inl s'), w') \<Longrightarrow> (m s' w', m s w) \<in> less_than <*lex*> less_than"
begin

lemma loop_ends: "I s w \<Longrightarrow> \<exists>r w'. io_loop step s w = Some (r, w')"
proof (induction "m s w" arbitrary: s w rule: wf_induct_rule [OF wf_lex_prod [OF wf_less_than wf_less_than]])
  case 1
  obtain t w1 where t: "step s w = (t, w1)" by (cases "step s w")
  show ?case
  proof (cases "last_turn t")
    case None
    then obtain s' where s': "step s w = (Ok (Inl s'), w1)"
      using t by (auto simp: last_turn_None_iff)
    from 1(1) [OF step_decreases [OF 1(2) s'] step_keeps [OF 1(2) s']] io_loop_go [of step, OF s']
    show ?thesis by simp
  next
    case (Some r)
    with io_loop_last [of step, OF t] show ?thesis by blast
  qed
qed

end

section \<open>Loops that do not\<close>

locale loop_forever =
  fixes step :: "'s \<Rightarrow> ('w, 's + 'a) io" and I :: "'s \<Rightarrow> 'w \<Rightarrow> bool"
  assumes always_goes: "I s w \<Longrightarrow> \<exists>s' w'. step s w = (Ok (Inl s'), w') \<and> I s' w'"

sublocale loop_forever \<subseteq> loop_invariant step I
proof unfold_locales
  fix s w s' w'
  assume "I s w" and "step s w = (Ok (Inl s'), w')"
  with always_goes [of s w] show "I s' w'" by auto
qed

context loop_forever begin

lemma never_ends: "I s w \<Longrightarrow> io_loop step s w = None"
proof (rule ccontr)
  assume "I s w" and "io_loop step s w \<noteq> None"
  then obtain r w' where "io_loop step s w = Some (r, w')" by auto
  from last_turn_holds [OF \<open>I s w\<close> this] obtain s1 w1 t where
    "I s1 w1" "step s1 w1 = (t, w')" "last_turn t = Some r" .
  with always_goes [of s1 w1] show False by auto
qed

end

end
