(* ===== verification/Tools_World.thy ===== *)
theory Tools_World
  imports Console_World Loops
begin

text \<open>
  What the small tools share: calls of the network libraries as functions on the state outside
  the process, printed lines, configuration files, and the record of the ADNL and DHT libraries
  (parameters of the model). \<open>init_log\<close> of common/src/test.rs, which the tools include from a
  submodule, sets up logging and is not modelled.
\<close>

section \<open>Calls and output\<close>

definition call :: "('n \<Rightarrow> 'a res \<times> 'n) \<Rightarrow> ('n world, 'a) io" where
  "call f w = (case f (net w) of (r, n) \<Rightarrow> (r, w\<lparr>net := n\<rparr>))"

abbreviation println :: "string \<Rightarrow> ('n world, unit) io" where
  "println s \<equiv> emit (Println s)"

text \<open>\<open>main\<close> of most tools prints the error of the work it does and returns.\<close>

definition report_error :: "string \<Rightarrow> ('n world, unit) io \<Rightarrow> ('n world, unit) io" where
  "report_error msg m = io_match m io_ok (\<lambda>e. emit (PrintlnErr msg e))"

text \<open>\<open>serde_json::from_reader\<close> over an opened file; only the parser's error names the file.\<close>

definition read_config :: "(bytes \<Rightarrow> 'g res) \<Rightarrow> string \<Rightarrow> string \<Rightarrow> ('n world, 'g) io" where
  "read_config from_reader msg cfgfile =
     io_bind (fs_read cfgfile) (\<lambda>contents.
     io_lift (map_err (Context (msg @ cfgfile)) (from_reader contents)))"

text \<open>\<open>for x in xs\<close> with a body that may fail, and the one that collects what it returns.\<close>

fun for_each :: "('a \<Rightarrow> ('w, unit) io) \<Rightarrow> 'a list \<Rightarrow> ('w, unit) io" where
  "for_each f [] = io_ok ()"
| "for_each f (x # xs) = io_bind (f x) (\<lambda>_. for_each f xs)"

fun collect :: "('a \<Rightarrow> ('w, 'b list) io) \<Rightarrow> 'a list \<Rightarrow> ('w, 'b list) io" where
  "collect f [] = io_ok []"
| "collect f (x # xs) = io_bind (f x) (\<lambda>ys. io_bind (collect f xs) (\<lambda>zs. io_ok (ys @ zs)))"

section \<open>The ADNL and DHT libraries\<close>

text \<open>
  \<open>'g\<close> is the global configuration, \<open>'ac\<close> an \<open>AdnlNodeConfig\<close>, \<open>'p\<close> a DHT node record, \<open>'k\<close> a key
  id, \<open>'c\<close> the context a search goes on from. The node objects live in the state \<open>'n\<close>.
\<close>

record ('g, 'ac, 'n) adnl_lib =
  global_config_from :: "bytes \<Rightarrow> 'g res"
  node_config :: "string \<Rightarrow> nat list \<Rightarrow> 'ac res"
  adnl_with_config :: "'ac \<Rightarrow> 'n \<Rightarrow> unit res \<times> 'n"
  adnl_start :: "'n \<Rightarrow> unit res \<times> 'n"

record ('g, 'ac, 'p, 'k, 'c, 'n) dht_lib = "('g, 'ac, 'n) adnl_lib" +
  dht_nodes_configs :: "'g \<Rightarrow> 'p list res"
  dht_with_adnl_node :: "nat \<Rightarrow> 'n \<Rightarrow> unit res \<times> 'n"
  add_peer :: "'p \<Rightarrow> 'n \<Rightarrow> 'k option res \<times> 'n"
  get_known_nodes :: "nat \<Rightarrow> 'n \<Rightarrow> 'p list res \<times> 'n"
  find_dht_nodes :: "'k \<Rightarrow> 'n \<Rightarrow> bool res \<times> 'n"
  find_address :: "'k \<Rightarrow> 'c option \<Rightarrow> 'n \<Rightarrow> ((string \<times> 'k) option res \<times> 'c option) \<times> 'n"
  key_from_data :: "bytes \<Rightarrow> 'k"
  show_key :: "'k \<Rightarrow> string"
  show_peer :: "'p \<Rightarrow> string"

text \<open>\<open>expect\<close> and \<open>unwrap\<close> of a result: an error becomes a panic.\<close>

definition expect :: "string \<Rightarrow> 'a res \<Rightarrow> 'a res" where
  "expect msg r = (case r of Err _ \<Rightarrow> Panic msg | other \<Rightarrow> other)"

definition unwrap_msg :: string where
  "unwrap_msg = ''called `Result::unwrap()` on an `Err` value''"

definition node_ip :: string where
  "node_ip = ''0.0.0.0:4191''"

text \<open>Adding the peers of the configuration: a peer the library does not take is an error.\<close>

definition add_config_peer :: "('g, 'ac, 'p, 'k, 'c, 'n, 'z) dht_lib_scheme \<Rightarrow> 'p \<Rightarrow> ('n world, 'k list) io" where
  "add_config_peer lib dht_node =
     io_bind (call (add_peer lib dht_node)) (\<lambda>key.
     case key of
       Some key \<Rightarrow> io_ok [key]
     | None \<Rightarrow> io_err (Msg (''Invalid DHT peer '' @ show_peer lib dht_node)))"

lemma call_Ok_iff [ok_iff]:
  "call f w = (Ok a, w') \<longleftrightarrow> (\<exists>n. f (net w) = (Ok a, n) \<and> w' = w\<lparr>net := n\<rparr>)"
  by (auto simp: call_def split: prod.splits)

lemma expect_Ok_iff [ok_iff]: "expect msg r = Ok a \<longleftrightarrow> r = Ok a"
  by (cases r) (auto simp: expect_def)

lemma io_expect_Ok_iff [ok_iff]: "io_expect msg m w = (Ok a, w') \<longleftrightarrow> m w = (Ok a, w')"
  by (auto simp: io_expect_def split: prod.splits result.splits)

lemma for_each_Ok_Cons [ok_iff]:
  "for_each f (x # xs) w = (Ok u, w') \<longleftrightarrow> (\<exists>v w1. f x w = (Ok v, w1) \<and> for_each f xs w1 = (Ok u, w'))"
  by (auto simp: ok_iff)

section \<open>Calls that do not panic\<close>

lemma no_panic_call [calm]: "(\<And>n. \<not> is_panic (fst (f n))) \<Longrightarrow> no_panic (call f)"
  by (simp add: no_panic_def call_def case_prod_beta)

lemma no_panic_read_config: "(\<And>bs. \<not> is_panic (f bs)) \<Longrightarrow> no_panic (read_config f msg cfgfile)"
  unfolding read_config_def by (rule no_panic_bind) (simp_all add: calm)

lemma no_panic_collect: "(\<And>x. no_panic (f x)) \<Longrightarrow> no_panic (collect f xs)"
  by (induction xs) (auto simp: calm intro!: no_panic_bind)

section \<open>Calls keep the trace\<close>

text \<open>\<open>traced w w'\<close>: nothing that was printed or written is taken back.\<close>

definition traced :: "'n world \<Rightarrow> 'n world \<Rightarrow> bool" where
  "traced w w' \<longleftrightarrow> prefix (trace w) (trace w')"

interpretation traced_order: world_order traced
  by unfold_locales (auto simp: traced_def)

lemma call_traced: "preserves traced (call f)"
  by (auto simp: preserves_def traced_def call_def split: prod.splits)

lemma emit_traced: "preserves traced (emit e)"
  by (auto simp: preserves_def traced_def emit_def)

lemma fs_read_traced: "preserves traced (fs_read path)"
  by (auto simp: preserves_def traced_def fs_read_def split: option.splits)

lemmas basic_traced =
  traced_order.lift_preserves call_traced emit_traced fs_read_traced traced_order.bind_preserves
  traced_order.map_err_preserves

end
