(* ===== verification/Adnl_Resolve.thy ===== *)
theory Adnl_Resolve
  imports Tools_World Console_Params
begin

text \<open>
  bin/adnl_resolve.rs: the search of an ADNL address in the DHT. The loop of \<open>scan\<close> is \<open>io_loop\<close>
  over its local variables: the nodes to ask, those that did not answer, the position and the
  search context. The lemmas give its invariant, the nets on which it ends and those on which it
  never does.
\<close>

record ('k, 'c) search =
  nodes :: "'k list"
  bad_nodes :: "'k list"
  index :: nat
  context_of :: "'c option"

text \<open>Rust's slice \<open>[..32]\<close> panics on a shorter vector.\<close>

definition slice32 :: "bytes \<Rightarrow> bytes res" where
  "slice32 bs = (if 32 \<le> length bs then Ok (take 32 bs)
     else Panic ''range end index 32 out of range for slice'')"

text \<open>Filling the list again with the known nodes that are not bad.\<close>

definition add_known_node ::
  "('g, 'ac, 'p, 'k, 'c, 'n, 'z) dht_lib_scheme \<Rightarrow> 'k list \<Rightarrow> 'p \<Rightarrow> ('n world, 'k list) io" where
  "add_known_node lib bad dht_node =
     io_bind (call (add_peer lib dht_node)) (\<lambda>key.
     io_ok (case key of
       Some key \<Rightarrow> if key \<in> set bad then [] else [key]
     | None \<Rightarrow> []))"

definition refill ::
  "('g, 'ac, 'p, 'k, 'c, 'n, 'z) dht_lib_scheme \<Rightarrow> ('k, 'c) search \<Rightarrow> ('n world, ('k, 'c) search) io" where
  "refill lib st =
     (if length (nodes st) \<le> index st then
        io_bind (call (get_known_nodes lib 10000)) (\<lambda>known.
        io_bind (collect (add_known_node lib (bad_nodes st)) known) (\<lambda>fresh.
        if fresh = [] then io_err (Msg ''No good DHT peers'')
        else io_ok (st\<lparr>nodes := fresh, index := 0\<rparr>)))
      else io_ok st)"

text \<open>\<open>nodes[index]\<close> panics out of range.\<close>

definition node_at :: "('k, 'c) search \<Rightarrow> 'k res" where
  "node_at st = (if index st < length (nodes st) then Ok (nodes st ! index st)
     else Panic ''index out of bounds'')"

definition remove_at :: "nat \<Rightarrow> 'a list \<Rightarrow> 'a list" where
  "remove_at i xs = take i xs @ drop (Suc i) xs"

definition ask_node ::
  "('g, 'ac, 'p, 'k, 'c, 'n, 'z) dht_lib_scheme \<Rightarrow> ('k, 'c) search \<Rightarrow> ('n world, ('k, 'c) search) io" where
  "ask_node lib st =
     io_bind (io_lift (node_at st)) (\<lambda>node.
     io_bind (println (''Not found yet, scanning more DHT nodes from '' @ show_key lib node @ '' ('' @
       nat_to_string (index st) @ '' of '' @ nat_to_string (length (nodes st)) @ '') ...'')) (\<lambda>_.
     io_bind (call (find_dht_nodes lib node)) (\<lambda>alive.
     if \<not> alive then
       io_bind (println (''DHT node '' @ show_key lib node @ '' is non-responsive'')) (\<lambda>_.
       io_ok (st\<lparr>bad_nodes := bad_nodes st @ [node], nodes := remove_at (index st) (nodes st)\<rparr>))
     else io_ok (st\<lparr>index := index st + 1\<rparr>))))"

text \<open>A turn: an answer ends the search; an error of the lookup is ignored like no answer.\<close>

definition resolve_step ::
  "('g, 'ac, 'p, 'k, 'c, 'n, 'z) dht_lib_scheme \<Rightarrow> 'k \<Rightarrow> ('k, 'c) search
     \<Rightarrow> ('n world, ('k, 'c) search + unit) io" where
  "resolve_step lib keyid st w =
     (case find_address lib keyid (context_of st) (net w) of ((found, ctx), n) \<Rightarrow>
       let w = w\<lparr>net := n\<rparr>; st = st\<lparr>context_of := ctx\<rparr> in
       case found of
         Panic s \<Rightarrow> (Panic s, w)
       | Ok (Some (ip, key)) \<Rightarrow>
           io_bind (println (''Found '' @ ip @ '' / '' @ show_key lib key)) (\<lambda>_. io_ok (Inr ())) w
       | _ \<Rightarrow>
           io_bind (refill lib st) (\<lambda>st.
           io_bind (ask_node lib st) (\<lambda>st. io_ok (Inl st))) w)"

text \<open>The first part of \<open>scan\<close>: the node is started and the peers of the configuration are added.\<close>

definition resolve_peers ::
  "('g, 'ac, 'p, 'k, 'c, 'n, 'z) dht_lib_scheme \<Rightarrow> string \<Rightarrow> ('n world, 'k list) io" where
  "resolve_peers lib cfgfile =
     io_bind (read_config (global_config_from lib) ''Cannot read config from file '' cfgfile) (\<lambda>config.
     io_bind (io_lift (dht_nodes_configs lib config)) (\<lambda>dht_nodes.
     io_bind (io_lift (node_config lib node_ip [1])) (\<lambda>config.
     io_bind (call (adnl_with_config lib config)) (\<lambda>_.
     io_bind (call (dht_with_adnl_node lib 1)) (\<lambda>_.
     io_bind (call (adnl_start lib)) (\<lambda>_.
     collect (add_config_peer lib) dht_nodes))))))"

definition resolve_setup ::
  "('g, 'ac, 'p, 'k, 'c, 'n, 'z) dht_lib_scheme \<Rightarrow> 'y codecs_scheme \<Rightarrow> string \<Rightarrow> string
     \<Rightarrow> ('n world, 'k \<times> ('k, 'c) search) io" where
  "resolve_setup lib cod adnlid cfgfile =
     io_bind (resolve_peers lib cfgfile) (\<lambda>nodes.
     io_bind (io_lift (and_then (base64_decode cod adnlid) slice32)) (\<lambda>data.
     let keyid = key_from_data lib data in
     io_bind (println (''Searching DHT for '' @ show_key lib keyid @ ''...'')) (\<lambda>_.
     io_ok (keyid, \<lparr>nodes = nodes, bad_nodes = [], index = 0, context_of = None\<rparr>))))"

definition resolve_scan ::
  "('g, 'ac, 'p, 'k, 'c, 'n, 'z) dht_lib_scheme \<Rightarrow> 'y codecs_scheme \<Rightarrow> string \<Rightarrow> string \<Rightarrow> 'n world
     \<Rightarrow> (unit res \<times> 'n world) option" where
  "resolve_scan lib cod adnlid cfgfile w = (case resolve_setup lib cod adnlid cfgfile w of
     (Ok (keyid, st), w) \<Rightarrow> io_loop (resolve_step lib keyid) st w
   | (Err e, w) \<Rightarrow> Some (Err e, w)
   | (Panic s, w) \<Rightarrow> Some (Panic s, w))"

definition resolve_main ::
  "('g, 'ac, 'p, 'k, 'c, 'n, 'z) dht_lib_scheme \<Rightarrow> 'y codecs_scheme \<Rightarrow> string list \<Rightarrow> 'n world
     \<Rightarrow> (unit res \<times> 'n world) option" where
  "resolve_main lib cod args w =
     (if length args \<noteq> 3 then
        Some (println ''Usage: adnl_resolve <adnl-id> <path-to-global-config>'' w)
      else map_option (\<lambda>outcome. report_error ''ADNL resolving error: '' (\<lambda>_. outcome) w)
        (resolve_scan lib cod (args ! 1) (args ! 2) w))"

section \<open>What a turn does\<close>

lemma length_remove_at [simp]: "i < length xs \<Longrightarrow> length (remove_at i xs) = length xs - 1"
  by (simp add: remove_at_def)

lemma collect_known_fresh:
  "collect (add_known_node lib bad) ps w = (Ok ks, w') \<Longrightarrow>
     set ks \<inter> set bad = {} \<and>
     set ks \<subseteq> {k. \<exists>p\<in>set ps. \<exists>n n'. add_peer lib p n = (Ok (Some k), n')} \<and> trace w' = trace w"
  by (induction ps arbitrary: w ks)
    (fastforce simp: add_known_node_def ok_iff split: option.splits if_splits)+

text \<open>\<open>peer_keys lib\<close>: the keys the library may give for the nodes it knows.\<close>

definition known_keys :: "('g, 'ac, 'p, 'k, 'c, 'n, 'z) dht_lib_scheme \<Rightarrow> 'k set" where
  "known_keys lib = {k. \<exists>known m m' p n n'. get_known_nodes lib 10000 m = (Ok known, m') \<and> p \<in> set known \<and>
     add_peer lib p n = (Ok (Some k), n')}"

lemma refill_Ok:
  assumes "refill lib st w = (Ok st1, w1)"
  shows "index st1 < length (nodes st1) \<and> bad_nodes st1 = bad_nodes st \<and> trace w1 = trace w \<and>
    (st1 = st \<or> length (nodes st) \<le> index st \<and> index st1 = 0 \<and>
      set (nodes st1) \<inter> set (bad_nodes st) = {} \<and> set (nodes st1) \<subseteq> known_keys lib)"
proof (cases "length (nodes st) \<le> index st")
  case True
  with assms obtain known n fresh where
    known: "get_known_nodes lib 10000 (net w) = (Ok known, n)"
    and fresh: "collect (add_known_node lib (bad_nodes st)) known (w\<lparr>net := n\<rparr>) = (Ok fresh, w1)" "fresh \<noteq> []"
    and st1: "st1 = st\<lparr>nodes := fresh, index := 0\<rparr>"
    by (auto simp: refill_def ok_iff split: if_splits)
  from collect_known_fresh [OF fresh(1)] known have "set fresh \<subseteq> known_keys lib"
    unfolding known_keys_def by blast
  with True collect_known_fresh [OF fresh(1)] fresh(2) st1 show ?thesis by simp
qed (use assms in \<open>simp add: refill_def io_lift_def\<close>)

lemma ask_node_Ok:
  assumes "ask_node lib st w = (Ok st1, w1)"
  shows "index st < length (nodes st) \<and> set (trace w) \<subseteq> set (trace w1) \<and>
    (st1 = st\<lparr>index := index st + 1\<rparr> \<or>
     st1 = st\<lparr>bad_nodes := bad_nodes st @ [nodes st ! index st], nodes := remove_at (index st) (nodes st)\<rparr> \<and>
       Println (''DHT node '' @ show_key lib (nodes st ! index st) @ '' is non-responsive'') \<in> set (trace w1) \<and>
       (\<exists>n n'. find_dht_nodes lib (nodes st ! index st) n = (Ok False, n')))"
  using assms by (auto simp: ask_node_def node_at_def ok_iff run split: if_splits) blast+

lemma resolve_step_go:
  assumes "resolve_step lib keyid st w = (Ok (Inl st2), w2)"
  obtains found ctx n st1 w1 where
    "find_address lib keyid (context_of st) (net w) = ((found, ctx), n)"
    "found = Ok None \<or> (\<exists>e. found = Err e)"
    "refill lib (st\<lparr>context_of := ctx\<rparr>) (w\<lparr>net := n\<rparr>) = (Ok st1, w1)"
    "ask_node lib st1 w1 = (Ok st2, w2)"
  using assms by (auto simp: resolve_step_def ok_iff run Let_def split: prod.splits result.splits option.splits)

section \<open>Bad nodes did not answer\<close>

definition bad_nodes_logged ::
  "('g, 'ac, 'p, 'k, 'c, 'n, 'z) dht_lib_scheme \<Rightarrow> ('k, 'c) search \<Rightarrow> 'n world \<Rightarrow> bool" where
  "bad_nodes_logged lib st w \<longleftrightarrow>
     (\<forall>k\<in>set (bad_nodes st).
        Println (''DHT node '' @ show_key lib k @ '' is non-responsive'') \<in> set (trace w))"

definition search_inv ::
  "('g, 'ac, 'p, 'k, 'c, 'n, 'z) dht_lib_scheme \<Rightarrow> ('k, 'c) search \<Rightarrow> 'n world \<Rightarrow> bool" where
  "search_inv lib st w \<longleftrightarrow> bad_nodes_logged lib st w \<and> index st \<le> length (nodes st) \<and>
     (\<forall>k\<in>set (bad_nodes st). \<exists>n n'. find_dht_nodes lib k n = (Ok False, n'))"

lemma resolve_step_inv:
  assumes "search_inv lib st w" and "resolve_step lib keyid st w = (Ok (Inl st2), w2)"
  shows "search_inv lib st2 w2"
proof -
  obtain found ctx n st1 w1 where
    r: "refill lib (st\<lparr>context_of := ctx\<rparr>) (w\<lparr>net := n\<rparr>) = (Ok st1, w1)"
    and a: "ask_node lib st1 w1 = (Ok st2, w2)"
    using assms(2) by (rule resolve_step_go)
  from refill_Ok [OF r] assms(1) have "search_inv lib st1 w1"
    by (auto simp: search_inv_def bad_nodes_logged_def)
  with ask_node_Ok [OF a] show ?thesis by (auto simp: search_inv_def bad_nodes_logged_def) blast
qed

interpretation resolve: loop_invariant "resolve_step lib keyid" "search_inv lib" for lib keyid
  by unfold_locales (rule resolve_step_inv)

section \<open>Where a search can panic\<close>

text \<open>The libraries do not panic.\<close>

definition calm_dht :: "('g, 'ac, 'p, 'k, 'c, 'n, 'z) dht_lib_scheme \<Rightarrow> bool" where
  "calm_dht lib \<longleftrightarrow>
     (\<forall>bs. \<not> is_panic (global_config_from lib bs)) \<and> (\<forall>ip tags. \<not> is_panic (node_config lib ip tags)) \<and>
     (\<forall>ac n. \<not> is_panic (fst (adnl_with_config lib ac n))) \<and> (\<forall>n. \<not> is_panic (fst (adnl_start lib n))) \<and>
     (\<forall>g. \<not> is_panic (dht_nodes_configs lib g)) \<and> (\<forall>t n. \<not> is_panic (fst (dht_with_adnl_node lib t n))) \<and>
     (\<forall>p n. \<not> is_panic (fst (add_peer lib p n))) \<and> (\<forall>m n. \<not> is_panic (fst (get_known_nodes lib m n))) \<and>
     (\<forall>k n. \<not> is_panic (fst (find_dht_nodes lib k n))) \<and>
     (\<forall>k c n. \<not> is_panic (fst (fst (find_address lib k c n))))"

lemma refill_calm:
  assumes "calm_dht lib"
  shows "no_panic (refill lib st)"
proof -
  have "no_panic (add_known_node lib bad p)" for bad p
    unfolding add_known_node_def using assms by (intro no_panic_bind) (simp_all add: calm_dht_def calm)
  then show ?thesis
    unfolding refill_def using assms
    by (auto simp: calm_dht_def calm intro!: no_panic_bind no_panic_collect)
qed

lemma ask_node_calm:
  assumes "calm_dht lib" and "index st < length (nodes st)"
  shows "no_panic (ask_node lib st)"
proof -
  have "no_panic (io_lift (node_at st))" using assms(2) by (simp add: calm node_at_def)
  with assms(1) show ?thesis
    unfolding ask_node_def by (auto simp: calm_dht_def calm intro!: no_panic_bind)
qed

text \<open>A turn never panics, from any state: the list it reads has just been filled when it was used up.\<close>

lemma resolve_step_calm:
  assumes "calm_dht lib"
  shows "\<not> is_panic (fst (resolve_step lib keyid st w))"
proof -
  obtain found ctx n where find: "find_address lib keyid (context_of st) (net w) = ((found, ctx), n)"
    by (metis surj_pair)
  have "\<not> is_panic (fst (fst (find_address lib keyid (context_of st) (net w))))"
    using assms by (simp add: calm_dht_def)
  with find have found: "\<not> is_panic found" by simp
  have go: "\<not> is_panic (fst (io_bind (refill lib st') (\<lambda>st. io_bind (ask_node lib st) (\<lambda>st. io_ok (Inl st))) w'))"
    for st' w'
  proof -
    have "\<not> is_panic (fst (ask_node lib st1 w1))" if "refill lib st' w' = (Ok st1, w1)" for st1 w1
      using ask_node_calm [OF assms, of st1] refill_Ok [OF that] by (simp add: no_panic_def)
    with refill_calm [OF assms] show ?thesis
      by (auto simp: is_panic_fst_bind no_panic_def io_lift_def)
  qed
  show ?thesis
  proof (cases found)
    case (Ok answer)
    with find go show ?thesis
      by (cases answer) (auto simp: resolve_step_def Let_def is_panic_fst_bind io_lift_def emit_def)
  qed (use find go found in \<open>simp_all add: resolve_step_def Let_def\<close>)
qed

section \<open>A net that does not answer\<close>

text \<open>No node answers, and the nodes the library ever knows have finitely many keys.\<close>

definition dead_net :: "('g, 'ac, 'p, 'k, 'c, 'n, 'z) dht_lib_scheme \<Rightarrow> bool" where
  "dead_net lib \<longleftrightarrow> finite (known_keys lib) \<and> (\<forall>k n. fst (find_dht_nodes lib k n) \<noteq> Ok True)"

abbreviation resolve_measure ::
  "('g, 'ac, 'p, 'k, 'c, 'n, 'z) dht_lib_scheme \<Rightarrow> ('k, 'c) search \<Rightarrow> 'n world \<Rightarrow> nat \<times> nat" where
  "resolve_measure lib st w \<equiv> (card (known_keys lib - set (bad_nodes st)), length (nodes st))"

lemma dead_ask_node:
  assumes "dead_net lib" and "ask_node lib st w = (Ok st1, w1)"
  shows "index st < length (nodes st) \<and>
    st1 = st\<lparr>bad_nodes := bad_nodes st @ [nodes st ! index st], nodes := remove_at (index st) (nodes st)\<rparr>"
proof -
  have "fst (find_dht_nodes lib k n) \<noteq> Ok True" for k n
    using assms(1) by (simp add: dead_net_def)
  then have "find_dht_nodes lib k n \<noteq> (Ok True, n')" for k n n'
    by (metis fst_conv)
  with assms(2) show ?thesis
    by (auto simp: ask_node_def node_at_def ok_iff run split: if_splits)
qed

lemma resolve_step_measure:
  assumes "dead_net lib" and "resolve_step lib keyid st w = (Ok (Inl st2), w2)"
  shows "(resolve_measure lib st2 w2, resolve_measure lib st w) \<in> less_than <*lex*> less_than"
proof -
  let ?rest = "\<lambda>st. known_keys lib - set (bad_nodes st)"
  obtain found ctx n st1 w1 where
    r: "refill lib (st\<lparr>context_of := ctx\<rparr>) (w\<lparr>net := n\<rparr>) = (Ok st1, w1)"
    and a: "ask_node lib st1 w1 = (Ok st2, w2)"
    using assms(2) by (rule resolve_step_go)
  note st1 = refill_Ok [OF r] and st2 = dead_ask_node [OF assms(1) a]
  let ?k = "nodes st1 ! index st1"
  from st1 st2 have rest: "?rest st2 = ?rest st - {?k}" by auto
  have fin: "finite (?rest st)" using assms(1) by (simp add: dead_net_def)
  show ?thesis
  proof (cases "st1 = st\<lparr>context_of := ctx\<rparr>")
    case True
    with st2 have "length (nodes st2) < length (nodes st)" by auto
    moreover have "card (?rest st2) \<le> card (?rest st)"
      using fin by (auto simp: rest intro: card_mono)
    ultimately show ?thesis by auto
  next
    case False
    from st1 have "?k \<in> set (nodes st1)" by simp
    with False st1 have "?k \<in> ?rest st" by auto
    with fin have "card (?rest st2) < card (?rest st)"
      unfolding rest by (rule card_Diff1_less)
    then show ?thesis by simp
  qed
qed

interpretation dead_resolve:
  loop_measure "resolve_step lib keyid" "\<lambda>st w. dead_net lib" "resolve_measure lib" for lib keyid
  by unfold_locales (auto dest: resolve_step_measure)

section \<open>A net that answers without the address\<close>

definition busy_net :: "('g, 'ac, 'p, 'k, 'c, 'n, 'z) dht_lib_scheme \<Rightarrow> 'k \<Rightarrow> bool" where
  "busy_net lib keyid \<longleftrightarrow>
     (\<forall>c n. \<exists>found c' n'. find_address lib keyid c n = ((found, c'), n') \<and> (found = Ok None \<or> (\<exists>e. found = Err e))) \<and>
     (\<forall>k n. \<exists>n'. find_dht_nodes lib k n = (Ok True, n')) \<and>
     (\<forall>n. \<exists>p ps n'. get_known_nodes lib 10000 n = (Ok (p # ps), n')) \<and>
     (\<forall>p n. \<exists>k n'. add_peer lib p n = (Ok (Some k), n'))"

lemma busy_collect:
  assumes "busy_net lib keyid"
  shows "\<exists>ks w'. collect (add_known_node lib []) ps w = (Ok ks, w') \<and> length ks = length ps"
proof (induction ps arbitrary: w)
  case (Cons p ps)
  obtain k n' where "add_peer lib p (net w) = (Ok (Some k), n')"
    using assms unfolding busy_net_def by metis
  with Cons [of "w\<lparr>net := n'\<rparr>"] show ?case
    by (auto simp: add_known_node_def io_bind_def io_lift_def call_def)
qed (simp add: run)

lemma busy_refill:
  assumes "busy_net lib keyid" and "bad_nodes st = []"
  shows "\<exists>st1 w1. refill lib st w = (Ok st1, w1) \<and> bad_nodes st1 = []"
proof (cases "length (nodes st) \<le> index st")
  case True
  obtain p ps n' where known: "get_known_nodes lib 10000 (net w) = (Ok (p # ps), n')"
    using assms(1) unfolding busy_net_def by metis
  from busy_collect [OF assms(1), of "p # ps" "w\<lparr>net := n'\<rparr>"] obtain ks w1 where
    "collect (add_known_node lib []) (p # ps) (w\<lparr>net := n'\<rparr>) = (Ok ks, w1)" "ks \<noteq> []"
    by (metis length_0_conv list.distinct(1))
  with True known assms(2) show ?thesis
    by (simp add: refill_def io_bind_def call_def io_lift_def del: collect.simps)
qed (simp add: refill_def io_lift_def assms(2))

lemma busy_resolve_step:
  assumes "busy_net lib keyid" and "bad_nodes st = []"
  shows "\<exists>st2 w2. resolve_step lib keyid st w = (Ok (Inl st2), w2) \<and> bad_nodes st2 = []"
proof -
  obtain found ctx n where found: "find_address lib keyid (context_of st) (net w) = ((found, ctx), n)"
    "found = Ok None \<or> (\<exists>e. found = Err e)"
    using assms(1) unfolding busy_net_def by metis
  obtain st1 w1 where r: "refill lib (st\<lparr>context_of := ctx\<rparr>) (w\<lparr>net := n\<rparr>) = (Ok st1, w1)"
    "bad_nodes st1 = []"
    using busy_refill [OF assms(1), of "st\<lparr>context_of := ctx\<rparr>" "w\<lparr>net := n\<rparr>"] assms(2) by auto
  obtain m where "find_dht_nodes lib (nodes st1 ! index st1) (net w1) = (Ok True, m)"
    using assms(1) unfolding busy_net_def by metis
  then have "\<exists>w2. ask_node lib st1 w1 = (Ok (st1\<lparr>index := index st1 + 1\<rparr>), w2)"
    using refill_Ok [OF r(1)]
    by (simp add: ask_node_def node_at_def io_bind_def io_lift_def emit_def call_def)
  with found r show ?thesis
    by (auto simp: resolve_step_def Let_def io_bind_def io_lift_def)
qed

interpretation busy_resolve:
  loop_forever "resolve_step lib keyid" "\<lambda>st w. busy_net lib keyid \<and> bad_nodes st = []"
  for lib :: "('g, 'ac, 'p, 'k, 'c, 'n, 'z) dht_lib_scheme" and keyid
proof unfold_locales
  fix st :: "('k, 'c) search" and w :: "'n world"
  assume "busy_net lib keyid \<and> bad_nodes st = []"
  then show "\<exists>st2 w2. resolve_step lib keyid st w = (Ok (Inl st2), w2) \<and> busy_net lib keyid \<and>
      bad_nodes st2 = []"
    using busy_resolve_step [of lib keyid st w] by auto
qed

end
