(* ===== verification/Resolve_Properties.thy ===== *)
theory Resolve_Properties
  imports Adnl_Resolve Reference_Codecs
begin

text \<open>
  What bin/adnl_resolve.rs guarantees: what a search that ends has printed, which states it reaches,
  that only a short id makes it panic, when the search ends and when it cannot. The example net counts
  its lookups; its parameters say which nodes answer and at which lookup the address is found.
\<close>

section \<open>An example net\<close>

definition demo_dht :: "bool \<Rightarrow> nat option \<Rightarrow> (unit, unit, nat, nat, unit, nat) dht_lib" where
  "demo_dht alive found_at =
     \<lparr>global_config_from = (\<lambda>_. Ok ()), node_config = (\<lambda>_ _. Ok ()),
      adnl_with_config = (\<lambda>_ n. (Ok (), n)), adnl_start = (\<lambda>n. (Ok (), n)),
      dht_nodes_configs = (\<lambda>_. Ok [1, 2]), dht_with_adnl_node = (\<lambda>_ n. (Ok (), n)),
      add_peer = (\<lambda>p n. (Ok (Some p), n)), get_known_nodes = (\<lambda>_ n. (Ok [1, 2, 3], n)),
      find_dht_nodes = (\<lambda>_ n. (Ok alive, n)),
      find_address = (\<lambda>k c n. (if found_at = Some n then (Ok (Some (''10.0.0.1:1'', k)), c) else (Ok None, c), Suc n)),
      key_from_data = (\<lambda>bs. length bs), show_key = (\<lambda>k. ''key''), show_peer = (\<lambda>p. ''peer'')\<rparr>"

definition demo_tool_world :: "nat world" where
  "demo_tool_world = \<lparr>net = 0, files = [''global.json'' \<mapsto> []], stdin = [], trace = []\<rparr>"

definition demo_search :: "(nat, unit) search" where
  "demo_search = \<lparr>nodes = [1, 2], bad_nodes = [], index = 0, context_of = None\<rparr>"

lemma demo_setup:
  "resolve_setup (demo_dht alive found_at) rfc4648 (b64_text (replicate 32 0)) ''global.json'' demo_tool_world =
      (Ok (32, demo_search), demo_tool_world\<lparr>trace := [Println ''Searching DHT for key...'']\<rparr>)"
  by (simp add: resolve_setup_def resolve_peers_def demo_dht_def demo_search_def demo_tool_world_def read_config_def
      fs_read_def call_def io_bind_def io_lift_def add_config_peer_def rfc4648_def b64_read_text
      slice32_def Let_def emit_def)

section \<open>The loop\<close>

text \<open>
  C28: A search that returns without an error has just printed the address and key that the DHT
  lookup answered with for the id that was asked for.
\<close>

theorem resolve_prints_what_it_found:
  assumes "resolve_scan lib cod adnlid cfgfile w = Some (Ok (), w')"
  shows "\<exists>bs c n ip key c' n'. base64_decode cod adnlid = Ok bs \<and> 32 \<le> length bs \<and>
    find_address lib (key_from_data lib (take 32 bs)) c n = ((Ok (Some (ip, key)), c'), n') \<and>
    last (trace w') = Println (''Found '' @ ip @ '' / '' @ show_key lib key)"
proof -
  from assms obtain keyid st w0 where
    start: "resolve_setup lib cod adnlid cfgfile w = (Ok (keyid, st), w0)"
    and loop: "io_loop (resolve_step lib keyid) st w0 = Some (Ok (), w')"
    by (auto simp: resolve_scan_def split: prod.splits result.splits)
  from start obtain bs where bs: "base64_decode cod adnlid = Ok bs" "32 \<le> length bs"
    "keyid = key_from_data lib (take 32 bs)" and "bad_nodes st = []"
    by (auto simp: resolve_setup_def slice32_def ok_iff emit_run Let_def split: if_splits)
  with start have "search_inv lib st w0"
    by (auto simp: search_inv_def bad_nodes_logged_def resolve_setup_def ok_iff Let_def)
  from resolve.last_turn_holds [OF this loop] obtain st1 w1 t where
    "resolve_step lib keyid st1 w1 = (t, w')" and "last_turn t = Some (Ok ())"
    by blast
  then have "resolve_step lib keyid st1 w1 = (Ok (Inr ()), w')"
    by (cases t rule: last_turn.cases) auto
  then obtain ip key c' n' where
    "find_address lib keyid (context_of st1) (net w1) = ((Ok (Some (ip, key)), c'), n')"
    "last (trace w') = Println (''Found '' @ ip @ '' / '' @ show_key lib key)"
    by (auto simp: resolve_step_def Let_def ok_iff run split: prod.splits result.splits option.splits)
  with bs show ?thesis by blast
qed

text \<open>
  C20: In every state the search can come to from its start, the nodes marked bad are nodes that
  were asked and answered that they found nothing, each reported as non-responsive, and the position
  stands in the list or right behind it.
\<close>

theorem marked_nodes_were_silent:
  assumes "resolve_setup lib cod adnlid cfgfile w = (Ok (keyid, start), w0)"
    and "turns (resolve_step lib keyid) start w0 st w'"
  shows "index st \<le> length (nodes st) \<and>
    (\<forall>k\<in>set (bad_nodes st). (\<exists>n n'. find_dht_nodes lib k n = (Ok False, n')) \<and>
       Println (''DHT node '' @ show_key lib k @ '' is non-responsive'') \<in> set (trace w'))"
proof -
  from assms(1) have "search_inv lib start w0"
    by (auto simp: resolve_setup_def ok_iff Let_def search_inv_def bad_nodes_logged_def)
  with resolve.turns_keep [OF assms(2)] show ?thesis
    by (auto simp: search_inv_def bad_nodes_logged_def)
qed

theorem marked_nodes_were_silent_witness:
  "\<exists>st w'. turns (resolve_step (demo_dht False None) 32) demo_search
      (demo_tool_world\<lparr>trace := [Println ''Searching DHT for key...'']\<rparr>) st w' \<and> bad_nodes st = [1] \<and>
    (\<exists>n n'. find_dht_nodes (demo_dht False None) 1 n = (Ok False, n')) \<and>
    Println ''DHT node key is non-responsive'' \<in> set (trace w')"
proof -
  let ?w0 = "demo_tool_world\<lparr>trace := [Println ''Searching DHT for key...'']\<rparr>"
  have "\<exists>st w'. resolve_step (demo_dht False None) 32 demo_search ?w0 = (Ok (Inl st), w') \<and> bad_nodes st = [1]"
    by (simp add: resolve_step_def demo_dht_def demo_search_def demo_tool_world_def refill_def ask_node_def
        node_at_def io_bind_def io_lift_def emit_def call_def Let_def)
  then obtain st w' where st: "resolve_step (demo_dht False None) 32 demo_search ?w0 = (Ok (Inl st), w')"
    "bad_nodes st = [1]" by (elim exE conjE)
  have run: "turns (resolve_step (demo_dht False None) 32) demo_search ?w0 st w'"
    by (rule turns_one [where step = "resolve_step (demo_dht False None) 32" and s = demo_search and w = ?w0])
      (rule st(1))
  from marked_nodes_were_silent [OF demo_setup run] run st(2) show ?thesis
    by (auto simp: demo_dht_def)
qed

text \<open>
  C9: On a net where no node answers and finitely many keys are ever known, the search ends,
  whatever the lookups return: every node that was asked is marked bad and not listed again.
\<close>

theorem resolve_ends_on_dead_net:
  assumes "dead_net lib"
  shows "\<exists>result w'. resolve_scan lib cod adnlid cfgfile w = Some (result, w')"
proof (cases "resolve_setup lib cod adnlid cfgfile w")
  case (Pair r w1)
  then show ?thesis
    using dead_resolve.loop_ends [OF assms]
    by (cases r) (auto simp: resolve_scan_def)
qed

theorem resolve_ends_on_dead_net_witness:
  "\<exists>result w'. resolve_scan (demo_dht False None) rfc4648 (b64_text (replicate 32 0)) ''global.json''
     demo_tool_world = Some (result, w')"
proof (rule resolve_ends_on_dead_net)
  have "known_keys (demo_dht False None) \<subseteq> {1, 2, 3}"
    by (auto simp: known_keys_def demo_dht_def)
  then have "finite (known_keys (demo_dht False None))"
    by (rule finite_subset) simp
  then show "dead_net (demo_dht False None)"
    by (simp add: dead_net_def demo_dht_def)
qed

text \<open>
  C27: On a net whose nodes all answer but none of them knows the address, a search that starts
  never ends: there is no bound on the number of rounds.
\<close>

theorem resolve_never_gives_up:
  assumes "busy_net lib keyid" and "resolve_setup lib cod adnlid cfgfile w = (Ok (keyid, start), w1)"
  shows "resolve_scan lib cod adnlid cfgfile w = None"
proof -
  from assms(2) have "bad_nodes start = []"
    by (auto simp: resolve_setup_def ok_iff Let_def)
  with assms(1) have "io_loop (resolve_step lib keyid) start w1 = None"
    by (intro busy_resolve.never_ends) simp
  with assms(2) show ?thesis by (simp add: resolve_scan_def)
qed

theorem resolve_never_gives_up_witness:
  "resolve_scan (demo_dht True None) rfc4648 (b64_text (replicate 32 0)) ''global.json'' demo_tool_world = None"
  by (rule resolve_never_gives_up [OF _ demo_setup]) (simp add: busy_net_def demo_dht_def)

section \<open>The arguments\<close>

lemma resolve_setup_run:
  assumes "base64_decode cod adnlid = Ok bs"
  shows "resolve_setup lib cod adnlid cfgfile w = (case resolve_peers lib cfgfile w of
      (Ok peers, w1) \<Rightarrow>
        if length bs < 32 then (Panic ''range end index 32 out of range for slice'', w1)
        else let keyid = key_from_data lib (take 32 bs) in
          (Ok (keyid, \<lparr>nodes = peers, bad_nodes = [], index = 0, context_of = None\<rparr>),
           w1\<lparr>trace := trace w1 @ [Println (''Searching DHT for '' @ show_key lib keyid @ ''...'')]\<rparr>)
    | (Err e, w1) \<Rightarrow> (Err e, w1)
    | (Panic s, w1) \<Rightarrow> (Panic s, w1))"
  using assms
  by (simp add: resolve_setup_def slice32_def io_bind_def io_lift_def emit_def Let_def
      split: prod.splits result.splits)

lemma resolve_peers_calm: "calm_dht lib \<Longrightarrow> no_panic (resolve_peers lib cfgfile)"
proof -
  assume lib: "calm_dht lib"
  have "no_panic (add_config_peer lib p)" for p
    unfolding add_config_peer_def using lib
    by (intro no_panic_bind) (auto simp: calm_dht_def calm split: option.splits)
  with lib show ?thesis
    unfolding resolve_peers_def
    by (intro no_panic_bind no_panic_collect no_panic_read_config) (simp_all add: calm_dht_def calm)
qed

lemma resolve_loop_calm:
  assumes "calm_dht lib" and "io_loop (resolve_step lib keyid) st w = Some (r, w')"
  shows "\<not> is_panic r"
proof -
  from io_loop_reaches [OF assms(2)] obtain st1 w1 t where
    "resolve_step lib keyid st1 w1 = (t, w')" "last_turn t = Some r" by blast
  with resolve_step_calm [OF assms(1), of keyid st1 w1] show ?thesis
    by (cases t rule: last_turn.cases) auto
qed

text \<open>
  C19: When the libraries do not panic, the search panics exactly on an id that decodes to fewer than
  32 bytes, and then as soon as the setup gets to the id: the configuration was read and its peers
  added. An id that does not decode is an error.
\<close>

theorem resolve_panics_only_on_short_id:
  assumes "calm_dht lib" and "\<And>s. \<not> is_panic (base64_decode cod s)"
    and "resolve_scan lib cod adnlid cfgfile w = Some (r, w')"
  shows "is_panic r = (is_ok (fst (resolve_peers lib cfgfile w)) \<and>
    (\<exists>bs. base64_decode cod adnlid = Ok bs \<and> length bs < 32))"
proof (cases "resolve_peers lib cfgfile w")
  case (Pair s w1)
  have calm: "\<not> is_panic s" by (rule no_panicD [OF resolve_peers_calm [OF assms(1)] Pair])
  show ?thesis
  proof (cases "base64_decode cod adnlid")
    case (Ok bs)
    with Pair calm assms(3) resolve_loop_calm [OF assms(1)] show ?thesis
      by (cases s) (auto simp: resolve_scan_def resolve_setup_run Let_def split: if_splits)
  next
    case (Err e)
    with Pair calm assms(3) show ?thesis
      by (cases s) (auto simp: resolve_scan_def resolve_setup_def io_bind_def io_lift_def)
  next
    case (Panic p)
    with assms(2) [of adnlid] show ?thesis by simp
  qed
qed

theorem resolve_panics_only_on_short_id_witness:
  "\<exists>p w2. resolve_scan (demo_dht False None) rfc4648 ''AA=='' ''global.json'' demo_tool_world = Some (Panic p, w2)"
proof -
  have short: "base64_decode rfc4648 ''AA=='' = Ok [0]"
    by (simp add: rfc4648_def b64_value_def byte1_def)
  have calm: "calm_dht (demo_dht False None)"
    by (simp add: calm_dht_def demo_dht_def)
  have peers: "resolve_peers (demo_dht False None) ''global.json'' demo_tool_world = (Ok [1, 2], demo_tool_world)"
    by (simp add: resolve_peers_def demo_dht_def demo_tool_world_def read_config_def fs_read_def call_def
        io_bind_def io_lift_def add_config_peer_def)
  obtain r w2 where run: "resolve_scan (demo_dht False None) rfc4648 ''AA=='' ''global.json'' demo_tool_world = Some (r, w2)"
    by (simp add: resolve_scan_def resolve_setup_run [OF short] peers)
  have "\<not> is_panic (base64_decode rfc4648 s)" for s
    by (simp add: rfc4648_def b64_read_calm)
  from resolve_panics_only_on_short_id [OF calm this run] short have "is_panic r"
    by (simp add: peers)
  with run show ?thesis by (cases r) auto
qed

theorem resolve_prints_what_it_found_witness:
  "\<exists>w'. resolve_scan (demo_dht True (Some 1)) rfc4648 (b64_text (replicate 32 0)) ''global.json'' demo_tool_world
     = Some (Ok (), w') \<and> (\<exists>ip key. last (trace w') = Println (''Found '' @ ip @ '' / '' @ show_key (demo_dht True (Some 1)) key))"
proof -
  let ?lib = "demo_dht True (Some 1)" and ?id = "b64_text (replicate 32 0)"
  note demo_setup [of True "Some 1"]
  then have "\<exists>w'. resolve_scan ?lib rfc4648 ?id ''global.json'' demo_tool_world = Some (Ok (), w')"
    by (simp add: resolve_scan_def io_loop.simps resolve_step_def demo_dht_def demo_search_def
        demo_tool_world_def refill_def ask_node_def node_at_def io_bind_def io_lift_def emit_def call_def Let_def)
  then obtain w' where "resolve_scan ?lib rfc4648 ?id ''global.json'' demo_tool_world = Some (Ok (), w')" ..
  with resolve_prints_what_it_found [OF this] show ?thesis by blast
qed

end
