(* ===== verification/Dht_Json.thy ===== *)
theory Dht_Json
  imports Tools_World Console_Stats
begin

text \<open>
  The JSON record of a DHT node that bin/dhtscan.rs and bin/gendht.rs print, with the objects of
  \<open>ton_api\<close> and \<open>ton_types\<close> it is made from. The lemmas read the fields back from the record.
\<close>

text \<open>
  A signed DHT node, by the fields the tools read; \<open>'i\<close> is its public key object, \<open>'l\<close> its list
  of addresses. A \<open>KeyOption\<close> is what its accessors \<open>id\<close> and \<open>pub_key\<close> return.
\<close>

record ('i, 'l) dht_node =
  node_id :: 'i
  addr_list :: 'l
  list_version :: i32
  list_reinit_date :: i32
  list_priority :: i32
  list_expire_at :: i32
  node_version :: i32
  node_signature :: bytes

record 'k key_option =
  key_id :: 'k
  pub_key :: "bytes res"

record udp =
  udp_ip :: i32
  udp_port :: i32

record ('i, 'l, 'k) node_lib = codecs +
  key_of_id :: "'i \<Rightarrow> 'k key_option res"
  parse_address_list :: "'l \<Rightarrow> udp option res"
  show_addr_list :: "'l \<Rightarrow> string"
  json_to_string :: "json \<Rightarrow> string res"
  json_to_string_pretty :: "json \<Rightarrow> string res"

definition json_object :: "(string \<times> json) list \<Rightarrow> json" where
  "json_object kvs = JObject (insert_all kvs Map.empty)"

definition json_i32 :: "i32 \<Rightarrow> json" where
  "json_i32 w = JInt (sint w)"

definition dht_node_json :: "'z codecs_scheme \<Rightarrow> ('i, 'l) dht_node \<Rightarrow> bytes \<Rightarrow> udp \<Rightarrow> json" where
  "dht_node_json cod node pub adr =
     json_object [
       (''@type'', JString ''dht.node''),
       (''id'', json_object [
          (''@type'', JString ''pub.ed25519''),
          (''key'', JString (base64_encode cod pub))]),
       (''addr_list'', json_object [
          (''@type'', JString ''adnl.addressList''),
          (''addrs'', JArray [json_object [
             (''@type'', JString ''adnl.address.udp''),
             (''ip'', json_i32 (udp_ip adr)),
             (''port'', json_i32 (udp_port adr))]]),
          (''version'', json_i32 (list_version node)),
          (''reinit_date'', json_i32 (list_reinit_date node)),
          (''priority'', json_i32 (list_priority node)),
          (''expire_at'', json_i32 (list_expire_at node))]),
       (''version'', json_i32 (node_version node)),
       (''signature'', JString (base64_encode cod (node_signature node)))]"

text \<open>Reading a field of an object, and the fields of a node's record back.\<close>

fun json_field :: "string \<Rightarrow> json \<Rightarrow> json option" where
  "json_field k (JObject m) = m k"
| "json_field k _ = None"

fun json_path :: "string list \<Rightarrow> json \<Rightarrow> json option" where
  "json_path [] j = Some j"
| "json_path (k # ks) j = (case json_field k j of None \<Rightarrow> None | Some j' \<Rightarrow> json_path ks j')"

lemma json_field_object [simp]: "json_field k (json_object kvs) = map_of (rev kvs) k"
  by (simp add: json_object_def insert_all_map_add)

lemma dht_node_json_fields:
  "json_path [''id'', ''key''] (dht_node_json cod node pub adr) = Some (JString (base64_encode cod pub))"
  "json_path [''signature''] (dht_node_json cod node pub adr) = Some (JString (base64_encode cod (node_signature node)))"
  "json_path [''version''] (dht_node_json cod node pub adr) = Some (json_i32 (node_version node))"
  "json_path [''addr_list'', ''addrs''] (dht_node_json cod node pub adr) = Some (JArray [json_object [(''@type'', JString ''adnl.address.udp''),
     (''ip'', json_i32 (udp_ip adr)), (''port'', json_i32 (udp_port adr))]])"
  "json_path [''addr_list'', ''version''] (dht_node_json cod node pub adr) = Some (json_i32 (list_version node))"
  "json_path [''addr_list'', ''reinit_date''] (dht_node_json cod node pub adr) = Some (json_i32 (list_reinit_date node))"
  "json_path [''addr_list'', ''priority''] (dht_node_json cod node pub adr) = Some (json_i32 (list_priority node))"
  "json_path [''addr_list'', ''expire_at''] (dht_node_json cod node pub adr) = Some (json_i32 (list_expire_at node))"
  by (simp_all add: dht_node_json_def)

text \<open>The key, the address and the record of a node, as both tools compute them.\<close>

definition node_record ::
  "('i, 'l, 'k, 'z) node_lib_scheme \<Rightarrow> 'k key_option \<Rightarrow> ('i, 'l) dht_node \<Rightarrow> json res" where
  "node_record lib key node =
     and_then (parse_address_list lib (addr_list node)) (\<lambda>adr.
     and_then (ok_or (Msg (''Cannot parse address list '' @ show_addr_list lib (addr_list node))) adr) (\<lambda>adr.
     and_then (pub_key key) (\<lambda>pub.
     Ok (dht_node_json lib node pub adr))))"

lemma node_record_Ok_iff [ok_iff]:
  "node_record lib key node = Ok j \<longleftrightarrow>
     (\<exists>adr pub. parse_address_list lib (addr_list node) = Ok (Some adr) \<and> pub_key key = Ok pub \<and>
        j = dht_node_json lib node pub adr)"
  by (auto simp: node_record_def ok_iff)

end
