(* ===== verification/Dhtscan.thy ===== *)
theory Dhtscan
  imports Dht_Json "HOL-Library.AList"
begin

text \<open>
  bin/dhtscan.rs: the arguments, the overlay loop (\<open>scan_overlay\<close>), which gathers the overlay's
  nodes by key until the library has no more, and the report of the DHT nodes found. A node is
  reported unless the configuration has it, it does not answer a ping, or its record fails.
\<close>

section \<open>The libraries\<close>

text \<open>
  \<open>'o\<close> is the overlay's short id, \<open>'t\<close> the iterator of a search, \<open>'v\<close> an overlay node record. The
  order in which a hash map is walked is \<open>hash_order\<close>.
\<close>

record ('o, 't, 'v, 'g, 'k, 'n) overlay_lib =
  zero_state_hash :: "'g \<Rightarrow> bytes res"
  runtime_new :: "'n \<Rightarrow> unit res \<times> 'n"
  overlay_with_zero_state :: "bytes \<Rightarrow> nat \<Rightarrow> 'n \<Rightarrow> unit res \<times> 'n"
  calc_overlay_short_id :: "i32 \<Rightarrow> u64 \<Rightarrow> 'n \<Rightarrow> 'o res \<times> 'n"
  find_overlay_nodes :: "'o \<Rightarrow> 't option \<Rightarrow> 'n \<Rightarrow> ((string \<times> 'v) list res \<times> 't option) \<times> 'n"
  overlay_node_key :: "'v \<Rightarrow> 'k key_option res"
  hash_order :: "('k \<times> string \<times> 'v) list \<Rightarrow> ('k \<times> string \<times> 'v) list"
  ping :: "'k \<Rightarrow> 'n \<Rightarrow> bool res \<times> 'n"
  show_overlay_id :: "'o \<Rightarrow> string"
  show_overlay_node :: "'v \<Rightarrow> string"
  usize_checks :: bool

type_synonym ('g, 'ac, 'i, 'l, 'k, 'c, 'n) scan_dht = "('g, 'ac, ('i, 'l) dht_node, 'k, 'c, 'n) dht_lib"

section \<open>The arguments\<close>

record scan_args =
  arg_config :: "string option"
  arg_jsonl :: bool
  arg_overlay :: bool
  arg_workchain0 :: bool

fun scan_arg :: "string \<Rightarrow> scan_args \<Rightarrow> scan_args" where
  "scan_arg arg args =
     (if arg = ''--jsonl'' then args\<lparr>arg_jsonl := True\<rparr>
      else if arg = ''--overlay'' then args\<lparr>arg_overlay := True\<rparr>
      else if arg = ''--workchain0'' then args\<lparr>arg_workchain0 := True\<rparr>
      else args\<lparr>arg_config := Some arg\<rparr>)"

definition scan_arguments :: "string list \<Rightarrow> scan_args" where
  "scan_arguments args = fold scan_arg (drop 1 args)
     \<lparr>arg_config = None, arg_jsonl = False, arg_overlay = False, arg_workchain0 = False\<rparr>"

section \<open>The overlay\<close>

text \<open>Subtraction of machine sizes, with and without overflow checks.\<close>

definition sub_usize :: "bool \<Rightarrow> nat \<Rightarrow> nat \<Rightarrow> nat res" where
  "sub_usize checks a b =
     (if b \<le> a then Ok (a - b)
      else if checks then Panic ''attempt to subtract with overflow''
      else Ok (2 ^ 64 + a - b))"

text \<open>\<open>overlays.insert\<close> of every node found, by its key id; a bad key ends the scan.\<close>

fun insert_overlays ::
  "('v \<Rightarrow> 'k key_option res) \<Rightarrow> (string \<times> 'v) list \<Rightarrow> ('k \<times> string \<times> 'v) list
     \<Rightarrow> ('k \<times> string \<times> 'v) list res" where
  "insert_overlays key_of [] overlays = Ok overlays"
| "insert_overlays key_of ((ip, node) # found) overlays =
     and_then (key_of node) (\<lambda>key.
     insert_overlays key_of found (AList.update (key_id key) (ip, node) overlays))"

definition overlay_step ::
  "('g, 'ac, 'p, 'k, 'c, 'n, 'z) dht_lib_scheme \<Rightarrow> ('o, 't, 'v, 'g, 'k, 'n) overlay_lib \<Rightarrow> nat \<Rightarrow> bool
     \<Rightarrow> i32 \<Rightarrow> 'o \<Rightarrow> 't option \<times> ('k \<times> string \<times> 'v) list
     \<Rightarrow> ('n world, ('t option \<times> ('k \<times> string \<times> 'v) list) + ('k \<times> string \<times> 'v) list) io" where
  "overlay_step lib ov dht_presets search_overlay workchain overlay_id st w =
     (case st of (iter, overlays) \<Rightarrow>
      case find_overlay_nodes ov overlay_id iter (net w) of ((res, iter), n) \<Rightarrow>
        io_bind (io_lift res) (\<lambda>res.
        let count = length overlays in
        io_bind (io_lift (insert_overlays (overlay_node_key ov) res overlays)) (\<lambda>overlays.
        io_bind (if search_overlay
          then io_bind (io_lift (sub_usize (usize_checks ov) (length overlays) count)) (\<lambda>new.
            println (''Found '' @ nat_to_string new @ '' new OVERLAY nodes in '' @
              show_overlay_id ov overlay_id @ ''('' @ i32_to_string workchain @ ''), searching more...''))
          else io_bind (call (get_known_nodes lib 5000)) (\<lambda>known.
            io_bind (io_lift (sub_usize (usize_checks ov) (length known) dht_presets)) (\<lambda>new.
            println (''Found '' @ nat_to_string new @ '' new DHT nodes, searching more...'')))) (\<lambda>_.
        io_ok (if iter = None then Inr overlays else Inl (iter, overlays))))) (w\<lparr>net := n\<rparr>))"

fun overlay_line :: "('o, 't, 'v, 'g, 'k, 'n) overlay_lib \<Rightarrow> 'k \<times> string \<times> 'v \<Rightarrow> string" where
  "overlay_line ov (k, ip, node) = ''IP '' @ ip @ '': '' @ show_overlay_node ov node"

definition print_overlays ::
  "('o, 't, 'v, 'g, 'k, 'n) overlay_lib \<Rightarrow> i32 \<Rightarrow> 'o \<Rightarrow> ('k \<times> string \<times> 'v) list \<Rightarrow> ('n world, unit) io" where
  "print_overlays ov workchain overlay_id overlays =
     io_bind (println (''---- Found OVERLAY nodes in '' @ show_overlay_id ov overlay_id @ ''('' @
       i32_to_string workchain @ ''):'')) (\<lambda>_.
     io_bind (for_each (\<lambda>entry. println (overlay_line ov entry)) (hash_order ov overlays)) (\<lambda>_.
     println (''---- Found '' @ nat_to_string (length overlays) @ '' OVERLAY nodes totally'')))"

definition scan_overlay ::
  "('g, 'ac, 'p, 'k, 'c, 'n, 'z) dht_lib_scheme \<Rightarrow> ('o, 't, 'v, 'g, 'k, 'n) overlay_lib \<Rightarrow> nat \<Rightarrow> bool
     \<Rightarrow> i32 \<Rightarrow> 'n world \<Rightarrow> (unit res \<times> 'n world) option" where
  "scan_overlay lib ov dht_presets search_overlay workchain w =
     (case call (calc_overlay_short_id ov workchain 0x8000000000000000) w of
        (Ok overlay_id, w) \<Rightarrow>
          (case io_loop (overlay_step lib ov dht_presets search_overlay workchain overlay_id) (None, []) w of
             Some (Ok overlays, w) \<Rightarrow>
               Some (if search_overlay then print_overlays ov workchain overlay_id overlays w else (Ok (), w))
           | Some (Err e, w) \<Rightarrow> Some (Err e, w)
           | Some (Panic s, w) \<Rightarrow> Some (Panic s, w)
           | None \<Rightarrow> None)
      | (Err e, w) \<Rightarrow> Some (Err e, w)
      | (Panic s, w) \<Rightarrow> Some (Panic s, w))"

section \<open>The report\<close>

text \<open>One node: whether it was reported.\<close>

definition report_node ::
  "('i, 'l, 'k, 'y) node_lib_scheme \<Rightarrow> ('o, 't, 'v, 'g, 'k, 'n) overlay_lib \<Rightarrow> bool
     \<Rightarrow> ('i, 'l) dht_node list \<Rightarrow> ('i, 'l) dht_node \<Rightarrow> ('n world, bool) io" where
  "report_node nl ov jsonl dht_nodes node =
     (if list_ex (\<lambda>dht_node. node_id dht_node = node_id node) dht_nodes then io_ok False
      else
        io_bind (io_lift (key_of_id nl (node_id node))) (\<lambda>key.
        io_bind (io_match (call (ping ov (key_id key))) io_ok (\<lambda>_. io_ok False)) (\<lambda>alive.
        if \<not> alive then io_ok False
        else
          io_bind (io_lift (node_record nl key node)) (\<lambda>json.
          io_bind (io_lift (if jsonl then json_to_string nl json else json_to_string_pretty nl json)) (\<lambda>text.
          io_bind (println (text @ '','')) (\<lambda>_.
          io_ok True))))))"

fun report_nodes ::
  "('i, 'l, 'k, 'y) node_lib_scheme \<Rightarrow> ('o, 't, 'v, 'g, 'k, 'n) overlay_lib \<Rightarrow> bool
     \<Rightarrow> ('i, 'l) dht_node list \<Rightarrow> ('i, 'l) dht_node list \<Rightarrow> nat \<Rightarrow> ('n world, nat) io" where
  "report_nodes nl ov jsonl dht_nodes [] count = io_ok count"
| "report_nodes nl ov jsonl dht_nodes (node # nodes) count =
     io_bind (report_node nl ov jsonl dht_nodes node) (\<lambda>reported.
     report_nodes nl ov jsonl dht_nodes nodes (if reported then count + 1 else count))"

definition report_scan ::
  "('g, 'ac, 'i, 'l, 'k, 'c, 'n) scan_dht \<Rightarrow> ('i, 'l, 'k, 'y) node_lib_scheme
     \<Rightarrow> ('o, 't, 'v, 'g, 'k, 'n) overlay_lib \<Rightarrow> bool \<Rightarrow> ('i, 'l) dht_node list \<Rightarrow> ('n world, unit) io" where
  "report_scan lib nl ov jsonl dht_nodes =
     io_bind (call (get_known_nodes lib 5000)) (\<lambda>nodes.
     if length dht_nodes < length nodes then
       io_bind (println ''---- Found DHT nodes:'') (\<lambda>_.
       io_bind (report_nodes nl ov jsonl dht_nodes nodes 0) (\<lambda>count.
       println (''Total: '' @ nat_to_string count @ '' DHT nodes'')))
     else println ''---- No DHT nodes found'')"

section \<open>The scan\<close>

definition scan_setup ::
  "('g, 'ac, 'i, 'l, 'k, 'c, 'n) scan_dht \<Rightarrow> ('o, 't, 'v, 'g, 'k, 'n) overlay_lib \<Rightarrow> string
     \<Rightarrow> ('n world, ('i, 'l) dht_node list \<times> nat) io" where
  "scan_setup lib ov cfgfile =
     io_bind (read_config (global_config_from lib) ''Cannot read config from file '' cfgfile) (\<lambda>config.
     io_bind (io_lift (zero_state_hash ov config)) (\<lambda>zero_state.
     io_bind (io_lift (dht_nodes_configs lib config)) (\<lambda>dht_nodes.
     io_bind (call (runtime_new ov)) (\<lambda>_.
     io_bind (io_lift (node_config lib node_ip [1])) (\<lambda>config.
     io_bind (call (adnl_with_config lib config)) (\<lambda>_.
     io_bind (call (dht_with_adnl_node lib 1)) (\<lambda>_.
     io_bind (call (overlay_with_zero_state ov zero_state 1)) (\<lambda>_.
     io_bind (call (adnl_start lib)) (\<lambda>_.
     io_bind (collect (add_config_peer lib) dht_nodes) (\<lambda>preset_nodes.
     io_bind (println ''Scanning DHT...'') (\<lambda>_.
     io_bind (for_each (\<lambda>node. io_bind (call (find_dht_nodes lib node)) (\<lambda>_. io_ok ())) preset_nodes) (\<lambda>_.
     io_ok (dht_nodes, length preset_nodes)))))))))))))"

definition dht_scan ::
  "('g, 'ac, 'i, 'l, 'k, 'c, 'n) scan_dht \<Rightarrow> ('i, 'l, 'k, 'y) node_lib_scheme
     \<Rightarrow> ('o, 't, 'v, 'g, 'k, 'n) overlay_lib \<Rightarrow> string \<Rightarrow> bool \<Rightarrow> bool \<Rightarrow> bool \<Rightarrow> 'n world
     \<Rightarrow> (unit res \<times> 'n world) option" where
  "dht_scan lib nl ov cfgfile jsonl search_overlay use_workchain0 w =
     (case scan_setup lib ov cfgfile w of
        (Ok (dht_nodes, presets), w) \<Rightarrow>
          (case scan_overlay lib ov presets search_overlay (- 1) w of
             Some (Ok _, w) \<Rightarrow>
               (case (if use_workchain0 then scan_overlay lib ov presets search_overlay 0 w else Some (Ok (), w)) of
                  Some (Ok _, w) \<Rightarrow>
                    Some (if search_overlay then (Ok (), w) else report_scan lib nl ov jsonl dht_nodes w)
                | other \<Rightarrow> other)
           | other \<Rightarrow> other)
      | (Err e, w) \<Rightarrow> Some (Err e, w)
      | (Panic s, w) \<Rightarrow> Some (Panic s, w))"

definition dhtscan_main ::
  "('g, 'ac, 'i, 'l, 'k, 'c, 'n) scan_dht \<Rightarrow> ('i, 'l, 'k, 'y) node_lib_scheme
     \<Rightarrow> ('o, 't, 'v, 'g, 'k, 'n) overlay_lib \<Rightarrow> string list \<Rightarrow> 'n world \<Rightarrow> (unit res \<times> 'n world) option" where
  "dhtscan_main lib nl ov argv w =
     (let args = scan_arguments argv in
      case arg_config args of
        None \<Rightarrow> Some (println ''Usage: dhtscan [--jsonl] [--overlay] [--workchain0] <path-to-global-config>'' w)
      | Some config \<Rightarrow>
          map_option (\<lambda>outcome. report_error ''DHT scanning error: '' (\<lambda>_. outcome) w)
            (dht_scan lib nl ov config (arg_jsonl args) (arg_overlay args) (arg_workchain0 args) w))"

end
