(* ===== verification/Dhtscan_Properties.thy ===== *)
theory Dhtscan_Properties
  imports Dhtscan "HOL-Library.Multiset"
begin

text \<open>
  What bin/dhtscan.rs guarantees: the meaning of its arguments, that the overlay loop gathers the
  nodes of every round of the library's search (\<open>searched\<close>), each key once and with its newest node,
  that it ends exactly with this search, what the report lists and counts, and where its size
  arithmetic runs below zero.
\<close>

section \<open>The arguments\<close>

definition scan_flags :: "string set" where
  "scan_flags = {''--jsonl'', ''--overlay'', ''--workchain0''}"

lemma scan_arg_fold:
  "fold scan_arg as args =
     \<lparr>arg_config = (case rev (filter (\<lambda>a. a \<notin> scan_flags) as) of [] \<Rightarrow> arg_config args | c # _ \<Rightarrow> Some c),
      arg_jsonl = (arg_jsonl args \<or> ''--jsonl'' \<in> set as),
      arg_overlay = (arg_overlay args \<or> ''--overlay'' \<in> set as),
      arg_workchain0 = (arg_workchain0 args \<or> ''--workchain0'' \<in> set as)\<rparr>"
  by (induction as rule: rev_induct) (auto simp: scan_flags_def)

text \<open>
  C37: The three flags of dhtscan may stand anywhere among the arguments, and the configuration is
  the last argument that is not a flag.
\<close>

theorem scan_arguments_meaning:
  "scan_arguments (program # as) =
     \<lparr>arg_config = (case rev (filter (\<lambda>a. a \<notin> scan_flags) as) of [] \<Rightarrow> None | c # _ \<Rightarrow> Some c),
      arg_jsonl = (''--jsonl'' \<in> set as), arg_overlay = (''--overlay'' \<in> set as),
      arg_workchain0 = (''--workchain0'' \<in> set as)\<rparr>"
  by (simp add: scan_arguments_def scan_arg_fold split: list.split)

section \<open>The overlay\<close>

text \<open>
  The rounds of the library's search: \<open>searched ov oid it n rounds n'\<close> when the lookups from the
  iterator \<open>it\<close> on find \<open>rounds\<close>, the last of them giving no iterator to go on from.
\<close>

inductive searched ::
  "('o, 't, 'v, 'g, 'k, 'n) overlay_lib \<Rightarrow> 'o \<Rightarrow> 't option \<Rightarrow> 'n \<Rightarrow> (string \<times> 'v) list list \<Rightarrow> 'n \<Rightarrow> bool"
  for ov :: "('o, 't, 'v, 'g, 'k, 'n) overlay_lib" and oid :: 'o where
  searched_last: "find_overlay_nodes ov oid it n = ((Ok found, None), n') \<Longrightarrow> searched ov oid it n [found] n'"
| searched_more: "find_overlay_nodes ov oid it n = ((Ok found, Some t), n1) \<Longrightarrow>
    searched ov oid (Some t) n1 rounds n' \<Longrightarrow> searched ov oid it n (found # rounds) n'"

text \<open>The key of a node, the keys of some nodes, and the last node with a key.\<close>

definition node_key :: "('o, 't, 'v, 'g, 'k, 'n) overlay_lib \<Rightarrow> 'v \<Rightarrow> 'k option" where
  "node_key ov node = (case overlay_node_key ov node of Ok key \<Rightarrow> Some (key_id key) | _ \<Rightarrow> None)"

definition keys_of :: "('o, 't, 'v, 'g, 'k, 'n) overlay_lib \<Rightarrow> (string \<times> 'v) list \<Rightarrow> 'k set" where
  "keys_of ov found = {k. \<exists>(ip, node) \<in> set found. node_key ov node = Some k}"

definition newest ::
  "('o, 't, 'v, 'g, 'k, 'n) overlay_lib \<Rightarrow> (string \<times> 'v) list \<Rightarrow> 'k \<Rightarrow> (string \<times> 'v) option" where
  "newest ov found k = find (\<lambda>(ip, node). node_key ov node = Some k) (rev found)"

text \<open>The lines of the rounds: each counts the keys that no round before it had found.\<close>

fun round_lines ::
  "('o, 't, 'v, 'g, 'k, 'n) overlay_lib \<Rightarrow> 'o \<Rightarrow> i32 \<Rightarrow> 'k set \<Rightarrow> (string \<times> 'v) list list \<Rightarrow> event list" where
  "round_lines ov oid wc old [] = []"
| "round_lines ov oid wc old (found # rounds) =
     Println (''Found '' @ nat_to_string (card (keys_of ov found - old)) @ '' new OVERLAY nodes in '' @
       show_overlay_id ov oid @ ''('' @ i32_to_string wc @ ''), searching more...'') #
     round_lines ov oid wc (old \<union> keys_of ov found) rounds"

text \<open>\<open>gathered ov old found new\<close>: the map \<open>new\<close> is \<open>old\<close> with the nodes \<open>found\<close> put in.\<close>

definition gathered ::
  "('o, 't, 'v, 'g, 'k, 'n) overlay_lib \<Rightarrow> ('k \<times> string \<times> 'v) list \<Rightarrow> (string \<times> 'v) list
     \<Rightarrow> ('k \<times> string \<times> 'v) list \<Rightarrow> bool" where
  "gathered ov old found new \<longleftrightarrow>
     distinct (map fst new) \<and> map_of new = map_of old ++ newest ov found \<and>
     fst ` set new = fst ` set old \<union> keys_of ov found \<and>
     list_all (\<lambda>(ip, node). is_ok (overlay_node_key ov node)) found"

lemma newest_Nil [simp]: "newest ov [] = Map.empty"
  by (rule ext) (simp add: newest_def)

lemma gathered_none: "distinct (map fst old) \<Longrightarrow> gathered ov old [] old"
  by (auto simp: gathered_def keys_of_def)

lemma keys_of_append: "keys_of ov (xs @ ys) = keys_of ov xs \<union> keys_of ov ys"
  by (auto simp: keys_of_def)

lemma find_append: "find P (xs @ ys) = (case find P xs of None \<Rightarrow> find P ys | Some x \<Rightarrow> Some x)"
  by (induction xs) simp_all

lemma newest_append: "newest ov (xs @ ys) = newest ov xs ++ newest ov ys"
  by (rule ext) (simp add: newest_def map_add_def find_append split: option.split)

lemma gathered_append:
  "gathered ov old xs mid \<Longrightarrow> gathered ov mid ys new \<Longrightarrow> gathered ov old (xs @ ys) new"
  by (auto simp: gathered_def keys_of_append newest_append)

lemma insert_overlays_gathered:
  "insert_overlays (overlay_node_key ov) found old = Ok new \<Longrightarrow> distinct (map fst old) \<Longrightarrow>
     gathered ov old found new"
proof (induction found arbitrary: old)
  case (Cons x found)
  obtain ip node where x: "x = (ip, node)" by (cases x)
  with Cons.prems(1) obtain key where key: "overlay_node_key ov node = Ok key"
    and rest: "insert_overlays (overlay_node_key ov) found (AList.update (key_id key) (ip, node) old) = Ok new"
    by (auto simp: ok_iff)
  have "gathered ov old [x] (AList.update (key_id key) (ip, node) old)"
    using Cons.prems(2) key x
    by (auto simp: gathered_def distinct_update update_conv dom_update newest_def keys_of_def node_key_def
        map_add_def fun_eq_iff)
  from gathered_append [OF this Cons.IH [OF rest]] Cons.prems(2) show ?case by (simp add: distinct_update)
qed (simp add: gathered_none)

lemma insert_overlays_Ok_iff:
  "is_ok (insert_overlays key_of found old) \<longleftrightarrow> (\<forall>(ip, node) \<in> set found. is_ok (key_of node))"
proof (induction found arbitrary: old)
  case (Cons x found)
  then show ?case by (cases x; cases "key_of (snd x)") auto
qed simp

text \<open>The number of new nodes of a round never runs below zero.\<close>

lemma gathered_count:
  assumes "gathered ov old found new" and "distinct (map fst old)"
  shows "sub_usize checks (length new) (length old) = Ok (card (keys_of ov found - fst ` set old))"
proof -
  let ?old = "fst ` set old" and ?new = "keys_of ov found"
  have len: "length new = card (fst ` set new)" "length old = card ?old"
    using assms distinct_card by (fastforce simp: gathered_def)+
  have all: "fst ` set new = ?old \<union> (?new - ?old)"
    using assms(1) by (auto simp: gathered_def)
  then have "finite (?new - ?old)" by (metis finite_Un finite_imageI finite_set)
  then have "length new = length old + card (?new - ?old)"
    unfolding len all by (intro card_Un_disjoint) auto
  then show ?thesis by (simp add: sub_usize_def)
qed

text \<open>A round with \<open>--overlay\<close> that succeeds.\<close>

lemma overlay_step_Ok:
  assumes "overlay_step lib ov presets True wc oid (it, old) w = (Ok t, w')" and "distinct (map fst old)"
  obtains found it' n' new where
    "find_overlay_nodes ov oid it (net w) = ((Ok found, it'), n')"
    "insert_overlays (overlay_node_key ov) found old = Ok new" "gathered ov old found new"
    "t = (if it' = None then Inr new else Inl (it', new))"
    "w' = w\<lparr>net := n', trace := trace w @ round_lines ov oid wc (fst ` set old) [found]\<rparr>"
proof -
  obtain res it' n' where call: "find_overlay_nodes ov oid it (net w) = ((res, it'), n')"
    by (metis surj_pair)
  from assms(1) obtain found new count where res: "res = Ok found"
    and ins: "insert_overlays (overlay_node_key ov) found old = Ok new"
    and count: "sub_usize (usize_checks ov) (length new) (length old) = Ok count"
    and t: "t = (if it' = None then Inr new else Inl (it', new))"
    and w': "w' = w\<lparr>net := n', trace := trace w @ [Println (''Found '' @ nat_to_string count @
      '' new OVERLAY nodes in '' @ show_overlay_id ov oid @ ''('' @ i32_to_string wc @ ''), searching more...'')]\<rparr>"
    by (auto simp: overlay_step_def call io_bind_Ok_iff io_lift_Ok_iff emit_run Let_def)
  note find = call [unfolded res]
  note g = insert_overlays_gathered [OF ins assms(2)]
  from count have "count = card (keys_of ov found - fst ` set old)"
    by (simp add: gathered_count [OF g assms(2)])
  then show thesis by (intro that [OF find ins g t]) (simp add: w')
qed

lemma overlay_turns:
  assumes "turns (overlay_step lib ov presets True wc oid) st w st' w'" and "distinct (map fst (snd st))"
  shows "\<exists>rounds. gathered ov (snd st) (concat rounds) (snd st') \<and>
    trace w' = trace w @ round_lines ov oid wc (fst ` set (snd st)) rounds \<and>
    (\<forall>more n. searched ov oid (fst st') (net w') more n \<longrightarrow> searched ov oid (fst st) (net w) (rounds @ more) n) \<and>
    (\<forall>more. round_lines ov oid wc (fst ` set (snd st)) (rounds @ more) =
       round_lines ov oid wc (fst ` set (snd st)) rounds @ round_lines ov oid wc (fst ` set (snd st')) more)"
  using assms
proof (induction rule: turns.induct)
  case (turns_none st w)
  then show ?case by (intro exI [of _ "[]"]) (simp add: gathered_none)
next
  case (turns_more st w st1 w1 st2 w2)
  obtain it old where st: "st = (it, old)" by (cases st)
  from turns_more.prems st have d: "distinct (map fst old)" by simp
  from turns_more.hyps(1) obtain found it' n' new where
    r: "find_overlay_nodes ov oid it (net w) = ((Ok found, it'), n')" "gathered ov old found new"
      "it' \<noteq> None" "st1 = (it', new)"
      "w1 = w\<lparr>net := n', trace := trace w @ round_lines ov oid wc (fst ` set old) [found]\<rparr>"
    unfolding st by (rule overlay_step_Ok [OF _ d]) (auto split: if_splits)
  from r(2) have "distinct (map fst new)" and keys: "fst ` set new = fst ` set old \<union> keys_of ov found"
    by (simp_all add: gathered_def)
  with turns_more.IH r(4) obtain rounds where
    ind: "gathered ov new (concat rounds) (snd st2)"
      "trace w2 = trace w1 @ round_lines ov oid wc (fst ` set new) rounds"
      "\<forall>more n. searched ov oid (fst st2) (net w2) more n \<longrightarrow> searched ov oid it' n' (rounds @ more) n"
      "\<forall>more. round_lines ov oid wc (fst ` set new) (rounds @ more) =
        round_lines ov oid wc (fst ` set new) rounds @ round_lines ov oid wc (fst ` set (snd st2)) more"
    by (auto simp: r(5))
  from gathered_append [OF r(2) ind(1)] ind(2-4) r keys st show ?case
    by (intro exI [of _ "found # rounds"]) (auto intro: searched_more)
qed

text \<open>A loop that ends has gone through the rounds of a search that ends, and so has every such search.\<close>

lemma overlay_loop_gathers:
  assumes "io_loop (overlay_step lib ov presets True wc oid) (None, []) w = Some (Ok overlays, w')"
  shows "\<exists>rounds. searched ov oid None (net w) rounds (net w') \<and> gathered ov [] (concat rounds) overlays \<and>
    trace w' = trace w @ round_lines ov oid wc {} rounds"
proof -
  from io_loop_reaches [OF assms] obtain it old w1 t where
    turns: "turns (overlay_step lib ov presets True wc oid) (None, []) w (it, old) w1"
    and last: "overlay_step lib ov presets True wc oid (it, old) w1 = (t, w')" "last_turn t = Some (Ok overlays)"
    by auto
  from last(2) have "t = Ok (Inr overlays)" by (cases t rule: last_turn.cases) auto
  note last = last(1) [unfolded this]
  from overlay_turns [OF turns] obtain rounds where
    g: "gathered ov [] (concat rounds) old" and tr: "trace w1 = trace w @ round_lines ov oid wc {} rounds"
    and s: "\<forall>more n. searched ov oid it (net w1) more n \<longrightarrow> searched ov oid None (net w) (rounds @ more) n"
    and l: "\<forall>more. round_lines ov oid wc {} (rounds @ more) =
      round_lines ov oid wc {} rounds @ round_lines ov oid wc (fst ` set old) more"
    by auto
  from g have "distinct (map fst old)" by (simp add: gathered_def)
  then obtain found it' n' new where
    find: "find_overlay_nodes ov oid it (net w1) = ((Ok found, it'), n')" and new: "gathered ov old found new"
    and t: "Inr overlays = (if it' = None then Inr new else Inl (it', new))"
    and w': "w' = w1\<lparr>net := n', trace := trace w1 @ round_lines ov oid wc (fst ` set old) [found]\<rparr>"
    by (rule overlay_step_Ok [OF last])
  from t have it': "it' = None" "overlays = new" by (simp_all split: if_splits)
  from find it' have "searched ov oid it (net w1) [found] n'" by (simp add: searched_last)
  with s have "searched ov oid None (net w) (rounds @ [found]) n'" by blast
  moreover from gathered_append [OF g new] it' have "gathered ov [] (concat (rounds @ [found])) overlays" by simp
  moreover from l have "round_lines ov oid wc {} (rounds @ [found]) =
    round_lines ov oid wc {} rounds @ round_lines ov oid wc (fst ` set old) [found]" by blast
  ultimately show ?thesis unfolding w'
    by (intro exI [of _ "rounds @ [found]"]) (simp add: tr del: round_lines.simps)
qed

lemma overlay_loop_ends:
  assumes "searched ov oid it n rounds n'"
  shows "net w = n \<Longrightarrow> distinct (map fst old) \<Longrightarrow>
    (\<forall>(ip, node) \<in> set (concat rounds). is_ok (overlay_node_key ov node)) \<Longrightarrow>
    \<exists>overlays w'. io_loop (overlay_step lib ov presets True wc oid) (it, old) w = Some (Ok overlays, w')"
  using assms
proof (induction arbitrary: w old rule: searched.induct)
  case (searched_last it n found n')
  then obtain new where ins: "insert_overlays (overlay_node_key ov) found old = Ok new"
    using insert_overlays_Ok_iff [of "overlay_node_key ov" found old]
    by (cases "insert_overlays (overlay_node_key ov) found old") auto
  have "\<exists>w'. overlay_step lib ov presets True wc oid (it, old) w = (Ok (Inr new), w')"
    using searched_last ins gathered_count [OF insert_overlays_gathered [OF ins]]
    by (simp add: overlay_step_def io_bind_def io_lift_def emit_def Let_def)
  then show ?case using io_loop_last by fastforce
next
  case (searched_more it n found t n1 rounds n')
  then obtain new where ins: "insert_overlays (overlay_node_key ov) found old = Ok new"
    using insert_overlays_Ok_iff [of "overlay_node_key ov" found old]
    by (cases "insert_overlays (overlay_node_key ov) found old") auto
  note g = insert_overlays_gathered [OF ins searched_more.prems(2)]
  have "\<exists>w'. overlay_step lib ov presets True wc oid (it, old) w = (Ok (Inl (Some t, new)), w') \<and> net w' = n1"
    using searched_more ins gathered_count [OF g]
    by (simp add: overlay_step_def io_bind_def io_lift_def emit_def Let_def)
  then obtain w1 where w1: "overlay_step lib ov presets True wc oid (it, old) w = (Ok (Inl (Some t, new)), w1)"
    "net w1 = n1" by blast
  from g have "distinct (map fst new)" by (simp add: gathered_def)
  with searched_more.IH [of w1 new] searched_more.prems w1 show ?case
    by (subst io_loop_go [of _ _ _ "(Some t, new)" w1]) auto
qed

lemma for_each_println:
  "for_each (\<lambda>x. println (f x)) xs w = (Ok (), w\<lparr>trace := trace w @ map (\<lambda>x. Println (f x)) xs\<rparr>)"
  by (induction xs arbitrary: w) (simp_all add: run io_bind_def)

lemma print_overlays_run:
  "print_overlays ov wc oid overlays w = (Ok (), w\<lparr>trace := trace w @
      Println (''---- Found OVERLAY nodes in '' @ show_overlay_id ov oid @ ''('' @ i32_to_string wc @ ''):'') #
      map (\<lambda>entry. Println (overlay_line ov entry)) (hash_order ov overlays) @
      [Println (''---- Found '' @ nat_to_string (length overlays) @ '' OVERLAY nodes totally'')]\<rparr>)"
  by (simp add: print_overlays_def io_bind_def emit_def for_each_println)

lemma scan_overlay_gathers:
  assumes "scan_overlay lib ov presets True wc w = Some (Ok (), w')"
  obtains oid n1 rounds overlays where
    "calc_overlay_short_id ov wc 0x8000000000000000 (net w) = (Ok oid, n1)"
    "searched ov oid None n1 rounds (net w')" "gathered ov [] (concat rounds) overlays"
    "trace w' = trace w @ round_lines ov oid wc {} rounds @
       Println (''---- Found OVERLAY nodes in '' @ show_overlay_id ov oid @ ''('' @ i32_to_string wc @ ''):'') #
       map (\<lambda>entry. Println (overlay_line ov entry)) (hash_order ov overlays) @
       [Println (''---- Found '' @ nat_to_string (length overlays) @ '' OVERLAY nodes totally'')]"
proof -
  from assms obtain oid n1 overlays w2 where
    id: "calc_overlay_short_id ov wc 0x8000000000000000 (net w) = (Ok oid, n1)"
    and loop: "io_loop (overlay_step lib ov presets True wc oid) (None, []) (w\<lparr>net := n1\<rparr>) = Some (Ok overlays, w2)"
    and out: "print_overlays ov wc oid overlays w2 = (Ok (), w')"
    by (auto simp: scan_overlay_def call_def split: prod.splits result.splits option.splits)
  from overlay_loop_gathers [OF loop] that [OF id] out show thesis
    by (auto simp: print_overlays_run)
qed

text \<open>
  C17: With \<open>--overlay\<close> a scan lists every key that some round of the library's search has found, once,
  with the last node found under it, one line each in the order the hash map is walked.
\<close>

theorem overlay_list_printed:
  assumes "scan_overlay lib ov presets True wc w = Some (Ok (), w')"
    and "\<And>xs. mset (hash_order ov xs) = mset xs"
  shows "\<exists>oid n1 rounds listed before.
    calc_overlay_short_id ov wc 0x8000000000000000 (net w) = (Ok oid, n1) \<and>
    searched ov oid None n1 rounds (net w') \<and>
    distinct (map fst listed) \<and> fst ` set listed = keys_of ov (concat rounds) \<and>
    map_of listed = newest ov (concat rounds) \<and>
    trace w' = before @
      Println (''---- Found OVERLAY nodes in '' @ show_overlay_id ov oid @ ''('' @ i32_to_string wc @ ''):'') #
      map (\<lambda>entry. Println (overlay_line ov entry)) listed @
      [Println (''---- Found '' @ nat_to_string (length listed) @ '' OVERLAY nodes totally'')]"
proof -
  from assms(1) obtain oid n1 rounds overlays where
    run: "calc_overlay_short_id ov wc 0x8000000000000000 (net w) = (Ok oid, n1)"
      "searched ov oid None n1 rounds (net w')" and g: "gathered ov [] (concat rounds) overlays"
    and tr: "trace w' = trace w @ round_lines ov oid wc {} rounds @
       Println (''---- Found OVERLAY nodes in '' @ show_overlay_id ov oid @ ''('' @ i32_to_string wc @ ''):'') #
       map (\<lambda>entry. Println (overlay_line ov entry)) (hash_order ov overlays) @
       [Println (''---- Found '' @ nat_to_string (length overlays) @ '' OVERLAY nodes totally'')]"
    by (rule scan_overlay_gathers)
  let ?listed = "hash_order ov overlays"
  have mset: "mset ?listed = mset overlays" by (rule assms(2))
  then have same: "set ?listed = set overlays" "length ?listed = length overlays"
    by (auto dest: mset_eq_setD mset_eq_length)
  from mset have "mset (map fst ?listed) = mset (map fst overlays)" by (simp add: mset_map)
  with g have d: "distinct (map fst ?listed)" unfolding gathered_def by (metis mset_eq_imp_distinct_iff)
  with g same(1) have "map_of ?listed = map_of overlays"
    unfolding gathered_def by (subst map_of_inject_set) auto
  with g same d run tr show ?thesis
    by (intro exI [of _ oid] exI [of _ n1] exI [of _ rounds] exI [of _ ?listed]
        exI [of _ "trace w @ round_lines ov oid wc {} rounds"])
      (simp add: gathered_def)
qed

text \<open>
  C29: The rounds of a scan with \<open>--overlay\<close> each report the number of keys that no round before has
  found, however often the library returns one - a number that never runs below zero - and the
  total at the end is the number of keys of all rounds.
\<close>

theorem new_overlays_counted:
  assumes "scan_overlay lib ov presets True wc w = Some (Ok (), w')"
  shows "\<exists>oid n1 rounds list.
    calc_overlay_short_id ov wc 0x8000000000000000 (net w) = (Ok oid, n1) \<and>
    searched ov oid None n1 rounds (net w') \<and>
    trace w' = trace w @ round_lines ov oid wc {} rounds @ list @
      [Println (''---- Found '' @ nat_to_string (card (keys_of ov (concat rounds))) @ '' OVERLAY nodes totally'')]"
proof -
  from assms obtain oid n1 rounds overlays where
    run: "calc_overlay_short_id ov wc 0x8000000000000000 (net w) = (Ok oid, n1)"
      "searched ov oid None n1 rounds (net w')" and g: "gathered ov [] (concat rounds) overlays"
    and tr: "trace w' = trace w @ round_lines ov oid wc {} rounds @
       Println (''---- Found OVERLAY nodes in '' @ show_overlay_id ov oid @ ''('' @ i32_to_string wc @ ''):'') #
       map (\<lambda>entry. Println (overlay_line ov entry)) (hash_order ov overlays) @
       [Println (''---- Found '' @ nat_to_string (length overlays) @ '' OVERLAY nodes totally'')]"
    by (rule scan_overlay_gathers)
  from g have "length overlays = card (keys_of ov (concat rounds))"
    using distinct_card [of "map fst overlays"] by (simp add: gathered_def)
  with run tr show ?thesis by auto
qed

text \<open>
  C16: The search of an overlay has no bound of its own: with \<open>--overlay\<close> it returns exactly when the
  library's search comes to an end after finitely many rounds and every node found has a key.
\<close>

theorem overlay_search_ends_iff:
  "(\<exists>w'. scan_overlay lib ov presets True wc w = Some (Ok (), w')) =
     (\<exists>oid n1 rounds n2. calc_overlay_short_id ov wc 0x8000000000000000 (net w) = (Ok oid, n1) \<and>
        searched ov oid None n1 rounds n2 \<and>
        list_all (\<lambda>(ip, node). is_ok (overlay_node_key ov node)) (concat rounds))"
proof
  assume "\<exists>w'. scan_overlay lib ov presets True wc w = Some (Ok (), w')"
  then obtain w' where run: "scan_overlay lib ov presets True wc w = Some (Ok (), w')" ..
  then obtain oid n1 w1 overlays where
    id: "calc_overlay_short_id ov wc 0x8000000000000000 (net w) = (Ok oid, n1)"
    and loop: "io_loop (overlay_step lib ov presets True wc oid) (None, []) (w\<lparr>net := n1\<rparr>) = Some (Ok overlays, w1)"
    by (auto simp: scan_overlay_def call_def split: prod.splits result.splits option.splits)
  from overlay_loop_gathers [OF loop] id
  show "\<exists>oid n1 rounds n2. calc_overlay_short_id ov wc 0x8000000000000000 (net w) = (Ok oid, n1) \<and>
        searched ov oid None n1 rounds n2 \<and>
        list_all (\<lambda>(ip, node). is_ok (overlay_node_key ov node)) (concat rounds)" by (auto simp: gathered_def)
next
  assume "\<exists>oid n1 rounds n2. calc_overlay_short_id ov wc 0x8000000000000000 (net w) = (Ok oid, n1) \<and>
        searched ov oid None n1 rounds n2 \<and>
        list_all (\<lambda>(ip, node). is_ok (overlay_node_key ov node)) (concat rounds)"
  then obtain oid n1 rounds n2 where
    id: "calc_overlay_short_id ov wc 0x8000000000000000 (net w) = (Ok oid, n1)"
    and s: "searched ov oid None n1 rounds n2"
    and keys: "\<forall>(ip, node) \<in> set (concat rounds). is_ok (overlay_node_key ov node)"
    by (auto simp: list_all_iff)
  have "\<exists>overlays w1. io_loop (overlay_step lib ov presets True wc oid) (None, []) (w\<lparr>net := n1\<rparr>) =
    Some (Ok overlays, w1)"
    by (rule overlay_loop_ends [OF s]) (use keys in auto)
  with id show "\<exists>w'. scan_overlay lib ov presets True wc w = Some (Ok (), w')"
    by (auto simp: scan_overlay_def call_def print_overlays_run)
qed

section \<open>An example net\<close>

definition demo_peer :: "nat \<Rightarrow> (nat, unit) dht_node" where
  "demo_peer k = \<lparr>node_id = k, addr_list = (), list_version = 1, list_reinit_date = 1, list_priority = 0,
     list_expire_at = 0, node_version = 1, node_signature = [1]\<rparr>"

definition demo_scan_dht :: "nat list \<Rightarrow> (unit, unit, nat, unit, nat, unit, nat) scan_dht" where
  "demo_scan_dht known =
     \<lparr>global_config_from = (\<lambda>_. Ok ()), node_config = (\<lambda>_ _. Ok ()),
      adnl_with_config = (\<lambda>_ n. (Ok (), n)), adnl_start = (\<lambda>n. (Ok (), n)),
      dht_nodes_configs = (\<lambda>_. Ok [demo_peer 1]), dht_with_adnl_node = (\<lambda>_ n. (Ok (), n)),
      add_peer = (\<lambda>p n. (Ok (Some (node_id p)), n)),
      get_known_nodes = (\<lambda>_ n. (Ok (map demo_peer known), n)),
      find_dht_nodes = (\<lambda>_ n. (Ok True, n)), find_address = (\<lambda>k c n. ((Ok None, c), n)),
      key_from_data = (\<lambda>bs. length bs), show_key = (\<lambda>k. ''key''), show_peer = (\<lambda>p. ''peer'')\<rparr>"

definition demo_overlay :: "(unit, unit, nat, unit, nat, nat) overlay_lib" where
  "demo_overlay =
     \<lparr>zero_state_hash = (\<lambda>_. Ok []), runtime_new = (\<lambda>n. (Ok (), n)),
      overlay_with_zero_state = (\<lambda>_ _ n. (Ok (), n)), calc_overlay_short_id = (\<lambda>_ _ n. (Ok (), n)),
      find_overlay_nodes = (\<lambda>_ it n. ((Ok [(''a'', 7), (''b'', 7)], if n = 0 then Some () else None), Suc n)),
      overlay_node_key = (\<lambda>v. Ok \<lparr>key_id = v, pub_key = Ok []\<rparr>), hash_order = rev,
      ping = (\<lambda>k n. (if k = 3 then Err (Msg ''timeout'') else Ok True, n)), show_overlay_id = (\<lambda>_. ''overlay''),
      show_overlay_node = (\<lambda>_. ''node''), usize_checks = True\<rparr>"

definition demo_nodes :: "(nat, unit, nat) node_lib" where
  "demo_nodes = codecs.extend
     \<lparr>hex_decode = (\<lambda>_. Ok []), hex_encode = (\<lambda>_. []), hex_encode_upper = (\<lambda>_. []),
      base64_decode = (\<lambda>_. Ok []), base64_encode = (\<lambda>_. ''AQ=='')\<rparr>
     \<lparr>key_of_id = (\<lambda>i. Ok \<lparr>key_id = i, pub_key = Ok [1]\<rparr>), parse_address_list = (\<lambda>_. Ok (Some \<lparr>udp_ip = 1, udp_port = 2\<rparr>)),
      show_addr_list = (\<lambda>_. []), json_to_string = (\<lambda>_. Ok ''{}''), json_to_string_pretty = (\<lambda>_. Ok ''{ }'')\<rparr>"

definition scan_world :: "nat world" where
  "scan_world = \<lparr>net = 0, files = (\<lambda>_. None), stdin = [], trace = []\<rparr>"

lemma demo_scan_overlay:
  "\<exists>w'. scan_overlay (demo_scan_dht []) demo_overlay 1 True (- 1) scan_world = Some (Ok (), w')"
  by (simp add: scan_overlay_def demo_overlay_def scan_world_def call_def io_loop.simps overlay_step_def
      io_bind_def io_lift_def emit_def sub_usize_def print_overlays_def Let_def for_each_println)

theorem overlay_list_printed_witness:
  "\<exists>(w' :: nat world) rounds listed before. searched demo_overlay () None 0 rounds (net w') \<and>
     fst ` set listed = keys_of demo_overlay (concat rounds) \<and>
     trace w' = before @ Println (''---- Found OVERLAY nodes in overlay('' @ i32_to_string (- 1) @ ''):'') #
       map (\<lambda>entry. Println (overlay_line demo_overlay entry)) listed @
       [Println (''---- Found '' @ nat_to_string (length listed) @ '' OVERLAY nodes totally'')]"
proof -
  obtain w' where run: "scan_overlay (demo_scan_dht []) demo_overlay 1 True (- 1) scan_world = Some (Ok (), w')"
    using demo_scan_overlay ..
  have "mset (hash_order demo_overlay xs) = mset xs" for xs
    by (simp add: demo_overlay_def)
  from overlay_list_printed [OF run this] show ?thesis
    by (elim exE conjE) (auto simp: demo_overlay_def scan_world_def)
qed

theorem new_overlays_counted_witness:
  "\<exists>(w' :: nat world) rounds list. searched demo_overlay () None 0 rounds (net w') \<and>
     trace w' = round_lines demo_overlay () (- 1) {} rounds @ list @
       [Println (''---- Found '' @ nat_to_string (card (keys_of demo_overlay (concat rounds))) @ '' OVERLAY nodes totally'')]"
proof -
  obtain w' where run: "scan_overlay (demo_scan_dht []) demo_overlay 1 True (- 1) scan_world = Some (Ok (), w')"
    using demo_scan_overlay ..
  from new_overlays_counted [OF run] show ?thesis
    by (elim exE conjE) (auto simp: demo_overlay_def scan_world_def)
qed

section \<open>The report\<close>

text \<open>What stands behind a line of the report.\<close>

definition reported_line ::
  "('i, 'l, 'k, 'y) node_lib_scheme \<Rightarrow> ('o, 't, 'v, 'g, 'k, 'n) overlay_lib \<Rightarrow> bool
     \<Rightarrow> ('i, 'l) dht_node list \<Rightarrow> ('i, 'l) dht_node \<Rightarrow> event \<Rightarrow> bool" where
  "reported_line nl ov jsonl dht_nodes node e \<longleftrightarrow>
     (\<exists>key n n' json text. node_id node \<notin> node_id ` set dht_nodes \<and>
        key_of_id nl (node_id node) = Ok key \<and> ping ov (key_id key) n = (Ok True, n') \<and>
        node_record nl key node = Ok json \<and>
        (if jsonl then json_to_string nl json else json_to_string_pretty nl json) = Ok text \<and>
        e = Println (text @ '',''))"

lemma report_node_Ok:
  assumes "report_node nl ov jsonl dht_nodes node w = (Ok reported, w')"
  shows "if reported then \<exists>e. reported_line nl ov jsonl dht_nodes node e \<and> trace w' = trace w @ [e]
    else trace w' = trace w"
proof (cases "list_ex (\<lambda>dht_node. node_id dht_node = node_id node) dht_nodes")
  case False
  with assms obtain key alive w1 where key: "key_of_id nl (node_id node) = Ok key"
    and ping: "io_match (call (ping ov (key_id key))) io_ok (\<lambda>_. io_ok False) w = (Ok alive, w1)"
    and rest: "(if \<not> alive then io_ok False
        else
          io_bind (io_lift (node_record nl key node)) (\<lambda>json.
          io_bind (io_lift (if jsonl then json_to_string nl json else json_to_string_pretty nl json)) (\<lambda>text.
          io_bind (println (text @ '','')) (\<lambda>_.
          io_ok True)))) w1 = (Ok reported, w')"
    by (auto simp: report_node_def io_bind_Ok_iff io_lift_Ok_iff)
  from ping obtain n' where w1: "w1 = w\<lparr>net := n'\<rparr>" and alive: "alive \<longrightarrow> ping ov (key_id key) (net w) = (Ok True, n')"
    by (auto simp: io_match_def call_def io_lift_def split: prod.splits result.splits)
  show ?thesis
  proof (cases alive)
    case True
    with rest obtain json str where "node_record nl key node = Ok json"
      "(if jsonl then json_to_string nl json else json_to_string_pretty nl json) = Ok str"
      "reported" "w' = w1\<lparr>trace := trace w1 @ [Println (str @ '','')]\<rparr>"
      by (auto simp: io_bind_Ok_iff io_lift_Ok_iff emit_run)
    moreover from False have "node_id node \<notin> node_id ` set dht_nodes" by (auto simp: list_ex_iff)
    ultimately show ?thesis
      using key alive True w1 unfolding reported_line_def by auto
  qed (use rest w1 in \<open>auto simp: io_lift_def\<close>)
qed (use assms in \<open>auto simp: report_node_def io_lift_def\<close>)

lemma report_nodes_Ok:
  "report_nodes nl ov jsonl dht_nodes nodes c w = (Ok cnt, w') \<Longrightarrow>
     \<exists>listed es. subseq listed nodes \<and> list_all2 (reported_line nl ov jsonl dht_nodes) listed es \<and>
       cnt = c + length es \<and> trace w' = trace w @ es"
proof (induction nodes arbitrary: c w)
  case (Cons node nodes)
  then obtain reported w1 where one: "report_node nl ov jsonl dht_nodes node w = (Ok reported, w1)"
    and rest: "report_nodes nl ov jsonl dht_nodes nodes (if reported then c + 1 else c) w1 = (Ok cnt, w')"
    by (auto simp: ok_iff)
  from Cons.IH [OF rest] obtain listed es where ind: "subseq listed nodes"
    "list_all2 (reported_line nl ov jsonl dht_nodes) listed es"
    "cnt = (if reported then c + 1 else c) + length es" "trace w' = trace w1 @ es"
    by blast
  show ?case
  proof (cases reported)
    case True
    with report_node_Ok [OF one] obtain e where
      "reported_line nl ov jsonl dht_nodes node e" "trace w1 = trace w @ [e]" by auto
    with ind True show ?thesis
      by (intro exI [of _ "node # listed"] exI [of _ "e # es"]) simp
  next
    case False
    with report_node_Ok [OF one] ind show ?thesis
      by (intro exI [of _ listed] exI [of _ es]) auto
  qed
qed (auto simp: io_lift_def)

text \<open>
  C15: The report lists, in the order the library knows them, nodes the configuration does not
  have that answered a ping, one JSON record each, and its total is the number of records listed.
\<close>

theorem report_lists_live_nodes:
  assumes "report_scan lib nl ov jsonl dht_nodes w = (Ok (), w')"
    and "get_known_nodes lib 5000 (net w) = (Ok known, n)" and "length dht_nodes < length known"
  shows "\<exists>listed lines. subseq listed known \<and>
    list_all2 (reported_line nl ov jsonl dht_nodes) listed lines \<and>
    trace w' = trace w @ Println ''---- Found DHT nodes:'' # lines @
      [Println (''Total: '' @ nat_to_string (length lines) @ '' DHT nodes'')]"
proof -
  from assms obtain cnt w1 where
    "report_nodes nl ov jsonl dht_nodes known 0 (w\<lparr>net := n, trace := trace w @ [Println ''---- Found DHT nodes:'']\<rparr>)
      = (Ok cnt, w1)"
    and w': "w' = w1\<lparr>trace := trace w1 @ [Println (''Total: '' @ nat_to_string cnt @ '' DHT nodes'')]\<rparr>"
    by (auto simp: report_scan_def ok_iff emit_run)
  from report_nodes_Ok [OF this(1)] w' show ?thesis by auto
qed

theorem report_lists_live_nodes_witness:
  "\<exists>(w' :: nat world) listed lines. report_scan (demo_scan_dht [1, 2, 3, 4]) demo_nodes demo_overlay False [demo_peer 1] scan_world = (Ok (), w') \<and>
     subseq listed (map demo_peer [1, 2, 3, 4]) \<and>
     list_all2 (reported_line demo_nodes demo_overlay False [demo_peer 1]) listed lines"
proof -
  have "\<exists>w'. report_scan (demo_scan_dht [1, 2, 3, 4]) demo_nodes demo_overlay False [demo_peer 1] scan_world = (Ok (), w')"
    by (simp add: report_scan_def demo_scan_dht_def demo_nodes_def codecs.defs demo_overlay_def demo_peer_def
        scan_world_def call_def io_bind_def io_lift_def emit_def report_node_def io_match_def node_record_def)
  then obtain w' where run: "report_scan (demo_scan_dht [1, 2, 3, 4]) demo_nodes demo_overlay False [demo_peer 1] scan_world = (Ok (), w')" ..
  have "get_known_nodes (demo_scan_dht [1, 2, 3, 4]) 5000 (net scan_world) = (Ok (map demo_peer [1, 2, 3, 4]), 0)"
    by (simp add: demo_scan_dht_def scan_world_def)
  from report_lists_live_nodes [OF run this] run show ?thesis by auto
qed

section \<open>Where the size arithmetic runs below zero\<close>

lemma overlay_step_traced: "preserves traced (overlay_step lib ov presets search wc oid st)"
proof -
  obtain iter overlays where st: "st = (iter, overlays)" by (cases st)
  have "traced w (snd (overlay_step lib ov presets search wc oid st w))" for w
  proof -
    obtain res iter' n where find: "find_overlay_nodes ov oid iter (net w) = ((res, iter'), n)"
      by (metis surj_pair)
    have "preserves traced (io_bind (io_lift res) (\<lambda>res.
        let count = length overlays in
        io_bind (io_lift (insert_overlays (overlay_node_key ov) res overlays)) (\<lambda>overlays.
        io_bind (if search
          then io_bind (io_lift (sub_usize (usize_checks ov) (length overlays) count)) (\<lambda>new.
            println (''Found '' @ nat_to_string new @ '' new OVERLAY nodes in '' @
              show_overlay_id ov oid @ ''('' @ i32_to_string wc @ ''), searching more...''))
          else io_bind (call (get_known_nodes lib 5000)) (\<lambda>known.
            io_bind (io_lift (sub_usize (usize_checks ov) (length known) presets)) (\<lambda>new.
            println (''Found '' @ nat_to_string new @ '' new DHT nodes, searching more...'')))) (\<lambda>_.
        io_ok (if iter' = None then Inr overlays else Inl (iter', overlays))))))" (is "preserves traced ?m")
      by (auto simp: Let_def intro!: basic_traced)
    then have "traced (w\<lparr>net := n\<rparr>) (snd (?m (w\<lparr>net := n\<rparr>)))" by (simp add: preserves_def)
    then show ?thesis by (simp add: overlay_step_def st find traced_def)
  qed
  then show ?thesis by (simp add: preserves_def)
qed

lemma overlay_loop_traced:
  assumes "io_loop (overlay_step lib ov presets search wc oid) st w = Some (r, w')"
  shows "traced w w'"
proof -
  from io_loop_reaches [OF assms] obtain st1 w1 t where
    turns: "turns (overlay_step lib ov presets search wc oid) st w st1 w1"
    and last: "overlay_step lib ov presets search wc oid st1 w1 = (t, w')" by blast
  have "traced w w1"
    by (rule turns_invariant [OF turns, where I = "\<lambda>_. traced w"])
      (auto intro: traced_order.order_refl traced_order.order_trans traced_order.preservesD [OF overlay_step_traced])
  then show ?thesis
    by (rule traced_order.order_trans [OF _ traced_order.preservesD [OF overlay_step_traced last]])
qed

lemma scan_overlay_traced: "scan_overlay lib ov presets search wc w = Some (r, w') \<Longrightarrow> traced w w'"
proof -
  assume run: "scan_overlay lib ov presets search wc w = Some (r, w')"
  obtain q w1 where id: "call (calc_overlay_short_id ov wc 0x8000000000000000) w = (q, w1)"
    by (cases "call (calc_overlay_short_id ov wc 0x8000000000000000) w")
  note 1 = traced_order.preservesD [OF call_traced id]
  show ?thesis
  proof (cases q)
    case (Ok oid)
    with run id obtain q2 w2 where
      loop: "io_loop (overlay_step lib ov presets search wc oid) (None, []) w1 = Some (q2, w2)"
      by (auto simp: scan_overlay_def split: option.splits)
    have "traced w2 w'"
      using run id Ok loop
      by (cases q2) (auto simp: scan_overlay_def print_overlays_run traced_def split: if_splits)
    with 1 overlay_loop_traced [OF loop] show ?thesis using traced_order.order_trans by metis
  qed (use run id 1 in \<open>simp_all add: scan_overlay_def\<close>)
qed

lemma report_scan_traced: "preserves traced (report_scan lib nl ov jsonl dht_nodes)"
proof -
  have node: "preserves traced (report_node nl ov jsonl dht_nodes node)" for node
    unfolding report_node_def by (auto intro!: basic_traced traced_order.match_preserves)
  have "preserves traced (report_nodes nl ov jsonl dht_nodes nodes count)" for nodes count
    by (induction nodes arbitrary: count) (auto intro!: basic_traced node)
  then show ?thesis unfolding report_scan_def by (auto intro!: basic_traced)
qed

text \<open>What the rest of a scan prints comes after what the first overlay printed.\<close>

lemma dht_scan_after_first:
  assumes "scan_setup lib ov cfgfile w = (Ok (dht_nodes, presets), w1)"
    and "dht_scan lib nl ov cfgfile jsonl search use_workchain0 w = Some (r, w')"
  obtains r2 w2 where "scan_overlay lib ov presets search (- 1) w1 = Some (r2, w2)" "traced w2 w'"
proof -
  from assms obtain r2 w2 where first: "scan_overlay lib ov presets search (- 1) w1 = Some (r2, w2)"
    by (auto simp: dht_scan_def split: option.splits)
  have report: "traced w3 (snd (report_scan lib nl ov jsonl dht_nodes w3))" for w3
    using report_scan_traced [of lib nl ov jsonl dht_nodes] by (simp add: preserves_def)
  have "traced w2 w'"
  proof (cases r2)
    case (Ok u)
    show ?thesis
    proof (cases use_workchain0)
      case True
      with assms first Ok obtain r3 w3 where "scan_overlay lib ov presets search 0 w2 = Some (r3, w3)"
        by (auto simp: dht_scan_def split: option.splits)
      moreover from this scan_overlay_traced have "traced w2 w3" by blast
      ultimately show ?thesis
        using assms first Ok True report [of w3] traced_order.order_trans [of w2 w3]
        by (cases r3) (auto simp: dht_scan_def split: if_splits)
    next
      case False
      with assms first Ok report [of w2] show ?thesis
        by (auto simp: dht_scan_def traced_order.order_refl split: if_splits)
    qed
  qed (use assms first in \<open>simp_all add: dht_scan_def traced_order.order_refl\<close>)
  with that [OF first] show thesis .
qed

text \<open>
  C39: Without \<open>--overlay\<close>, once the setup and the first lookup have succeeded, the first round
  subtracts the number of configured peers from the number of nodes known: when fewer are known, as
  when the configuration lists a node twice, the scan panics there in a build with overflow checks,
  and in another build it announces a number near 2^64 of new nodes, which it has printed in
  whatever way it ends.
\<close>

theorem fewer_known_than_configured:
  assumes "scan_setup lib ov cfgfile w = (Ok (dht_nodes, presets), w1)"
    and "calc_overlay_short_id ov (- 1) 0x8000000000000000 (net w1) = (Ok oid, n1)"
    and "find_overlay_nodes ov oid None n1 = ((Ok found, iter), n2)"
    and "insert_overlays (overlay_node_key ov) found [] = Ok overlays"
    and "get_known_nodes lib 5000 n2 = (Ok known, n3)" and "length known < presets"
  shows "if usize_checks ov
    then dht_scan lib nl ov cfgfile jsonl False use_workchain0 w =
      Some (Panic ''attempt to subtract with overflow'', w1\<lparr>net := n3\<rparr>)
    else case dht_scan lib nl ov cfgfile jsonl False use_workchain0 w of
        Some (r, w') \<Rightarrow> prefix (trace w1 @ [Println (''Found '' @
          nat_to_string (2 ^ 64 + length known - presets) @ '' new DHT nodes, searching more...'')]) (trace w')
      | None \<Rightarrow> True"
proof -
  let ?w2 = "w1\<lparr>net := n3, trace := trace w1 @ [Println (''Found '' @
    nat_to_string (2 ^ 64 + length known - presets) @ '' new DHT nodes, searching more...'')]\<rparr>"
  let ?t = "Ok (if iter = None then Inr overlays else Inl (iter, overlays))"
  have step: "overlay_step lib ov presets False (- 1) oid (None, []) (w1\<lparr>net := n1\<rparr>) =
    (if usize_checks ov then (Panic ''attempt to subtract with overflow'', w1\<lparr>net := n3\<rparr>) else (?t, ?w2))"
    using assms(3-6)
    by (simp add: overlay_step_def io_bind_def io_lift_def call_def sub_usize_def Let_def emit_def)
  show ?thesis
  proof (cases "usize_checks ov")
    case True
    then have "io_loop (overlay_step lib ov presets False (- 1) oid) (None, []) (w1\<lparr>net := n1\<rparr>) =
        Some (Panic ''attempt to subtract with overflow'', w1\<lparr>net := n3\<rparr>)"
      using step by (intro io_loop_last [where r = "Panic ''attempt to subtract with overflow''"]) simp_all
    with True assms(1,2) show ?thesis
      by (simp add: dht_scan_def scan_overlay_def call_def)
  next
    case False
    have "traced ?w2 w'" if run: "dht_scan lib nl ov cfgfile jsonl False use_workchain0 w = Some (r, w')" for r w'
    proof -
      from dht_scan_after_first [OF assms(1) run] obtain r2 w3 where
        first: "scan_overlay lib ov presets False (- 1) w1 = Some (r2, w3)" and rest: "traced w3 w'" .
      from first assms(2) obtain q w4 where
        loop: "io_loop (overlay_step lib ov presets False (- 1) oid) (None, []) (w1\<lparr>net := n1\<rparr>) = Some (q, w4)"
        and w3: "w3 = w4"
        by (auto simp: scan_overlay_def call_def split: option.splits result.splits)
      have "traced ?w2 w4"
      proof (cases iter)
        case None
        with False step have "io_loop (overlay_step lib ov presets False (- 1) oid) (None, []) (w1\<lparr>net := n1\<rparr>) =
            Some (Ok overlays, ?w2)"
          by (intro io_loop_last [where r = ?t]) simp_all
        with loop show ?thesis by (simp add: traced_order.order_refl)
      next
        case (Some t)
        with False step have "io_loop (overlay_step lib ov presets False (- 1) oid) (None, []) (w1\<lparr>net := n1\<rparr>) =
            io_loop (overlay_step lib ov presets False (- 1) oid) (iter, overlays) ?w2"
          by (intro io_loop_go) simp
        with loop have "io_loop (overlay_step lib ov presets False (- 1) oid) (iter, overlays) ?w2 = Some (q, w4)"
          by simp
        then show ?thesis by (rule overlay_loop_traced)
      qed
      from this rest show ?thesis unfolding w3 by (rule traced_order.order_trans)
    qed
    with False show ?thesis by (auto simp: traced_def split: option.splits)
  qed
qed

theorem fewer_known_than_configured_witness:
  "dht_scan ((demo_scan_dht [1])\<lparr>dht_nodes_configs := (\<lambda>_. Ok [demo_peer 1, demo_peer 1])\<rparr>) demo_nodes demo_overlay
     ''global.json'' False False False (scan_world\<lparr>files := [''global.json'' \<mapsto> []]\<rparr>) =
   Some (Panic ''attempt to subtract with overflow'',
     scan_world\<lparr>files := [''global.json'' \<mapsto> []], net := 1, trace := [Println ''Scanning DHT...'']\<rparr>)"
proof -
  let ?lib = "(demo_scan_dht [1])\<lparr>dht_nodes_configs := (\<lambda>_. Ok [demo_peer 1, demo_peer 1])\<rparr>"
  let ?w = "scan_world\<lparr>files := [''global.json'' \<mapsto> []]\<rparr>"
  have "scan_setup ?lib demo_overlay ''global.json'' ?w =
      (Ok ([demo_peer 1, demo_peer 1], 2), ?w\<lparr>trace := [Println ''Scanning DHT...'']\<rparr>)"
    by (simp add: scan_setup_def demo_scan_dht_def demo_overlay_def scan_world_def demo_peer_def read_config_def
        fs_read_def call_def io_bind_def io_lift_def add_config_peer_def emit_def)
  from fewer_known_than_configured [OF this, where oid = "()" and ?n1.0 = 0 and ?n2.0 = 1 and ?n3.0 = 1 and
      iter = "Some ()" and found = "[(''a'', 7), (''b'', 7)]" and overlays = "[(7, ''b'', 7)]"
      and known = "[demo_peer 1]" and nl = demo_nodes and jsonl = False and ?use_workchain0.0 = False]
  show ?thesis
    by (simp add: demo_overlay_def scan_world_def demo_scan_dht_def)
qed

end
