(* ===== verification/Key_Properties.thy ===== *)
theory Key_Properties
  imports Key_Tools Reference_Codecs
begin

text \<open>
  What the key tools guarantee: the lines keyid prints, that keyid confirms both halves of a key
  pair keygen printed, that the spellings of one key in keygen's output agree, and that the record
  gendht prints carries every field of the signed node.
\<close>

section \<open>keyid\<close>

text \<open>A word written in small and capital letters.\<close>

definition any_case :: "string \<Rightarrow> string \<Rightarrow> bool" where
  "any_case word s \<longleftrightarrow> list_all2 (\<lambda>small c. c = small \<or> of_char c + 32 = (of_char small :: nat)) word s"

lemma lower_char_iff:
  assumes "97 \<le> (of_char small :: nat)" and "(of_char small :: nat) \<le> 122"
  shows "lower_char c = small \<longleftrightarrow> c = small \<or> of_char c + 32 = (of_char small :: nat)"
proof
  assume "lower_char c = small"
  then show "c = small \<or> of_char c + 32 = (of_char small :: nat)"
    by (auto simp: lower_char_def Let_def split: if_splits)
next
  assume "c = small \<or> of_char c + 32 = (of_char small :: nat)"
  then show "lower_char c = small"
  proof
    assume "of_char c + 32 = (of_char small :: nat)"
    moreover from this assms have "65 \<le> (of_char c :: nat)" "(of_char c :: nat) \<le> 90" by simp_all
    ultimately show ?thesis by (simp add: lower_char_def Let_def)
  qed (use assms in \<open>simp add: lower_char_def Let_def\<close>)
qed

lemma to_lowercase_iff:
  "list_all (\<lambda>c. 97 \<le> (of_char c :: nat) \<and> (of_char c :: nat) \<le> 122) word \<Longrightarrow>
     to_lowercase s = word \<longleftrightarrow> any_case word s"
  by (induction word arbitrary: s)
    (auto simp: to_lowercase_def any_case_def map_eq_Cons_conv list_all2_Cons1 lower_char_iff)

lemma key_types:
  "to_lowercase s = ''pub'' \<longleftrightarrow> any_case ''pub'' s" "to_lowercase s = ''pvt'' \<longleftrightarrow> any_case ''pvt'' s"
  by (simp_all add: to_lowercase_iff)

text \<open>The lines keyid prints for a key.\<close>

definition key_lines :: "'z key_lib_scheme \<Rightarrow> string \<Rightarrow> string \<Rightarrow> bytes \<Rightarrow> event list \<Rightarrow> bool" where
  "key_lines kl typ key bs es \<longleftrightarrow>
     (\<exists>k. (if any_case ''pub'' typ then
          k = from_public_key kl bs \<and>
          es = [Println (''Public key: '' @ key), Println (''Key id: '' @ base64_encode kl (key_id k))]
        else any_case ''pvt'' typ \<and> from_private_key kl bs = Ok k \<and>
          (\<exists>pub extended. pub_key k = Ok pub \<and>
             (if export_feature kl
              then \<exists>x. export_key kl bs = Ok x \<and> extended = [Println (''Extended private key: '' @ base64_encode kl x)]
              else extended = []) \<and>
             es = [Println (''Private key: '' @ key), Println (''Public key: '' @ base64_encode kl pub)] @
               extended @ [Println (''Key id: '' @ base64_encode kl (key_id k))])))"

lemma compute_key_Ok_iff:
  "compute_key kl typ key w = (Ok u, w') \<longleftrightarrow>
     (\<exists>bs es. base64_decode kl key = Ok bs \<and> length bs = 32 \<and> key_lines kl typ key bs es \<and>
        w' = w\<lparr>trace := trace w @ es\<rparr>)"
proof (cases "any_case ''pub'' typ")
  case True
  then show ?thesis
    by (auto simp: compute_key_def key_types key_lines_def ok_iff)
next
  case False
  then show ?thesis
    by (cases "export_feature kl"; cases "any_case ''pvt'' typ")
      (auto simp: compute_key_def key_types key_lines_def ok_iff if_Err_Ok_iff)
qed

text \<open>
  C34: keyid takes exactly the texts that decode to 32 bytes, with the type pub in any case, or with
  pvt in any case and bytes the library takes for a private key; it then prints the key, for a
  private one its public key (and its extended form in builds that export it), and the key's id.
  A text that does not decode to 32 bytes, or another type, prints nothing.
\<close>

theorem keyid_output:
  "(\<exists>es. compute_key kl typ key w = (Ok (), w\<lparr>trace := trace w @ es\<rparr>)) =
     (\<exists>bs es. base64_decode kl key = Ok bs \<and> length bs = 32 \<and> key_lines kl typ key bs es) \<and>
   (case compute_key kl typ key w of
     (Ok _, w') \<Rightarrow> \<exists>bs es. base64_decode kl key = Ok bs \<and> length bs = 32 \<and>
        key_lines kl typ key bs es \<and> w' = w\<lparr>trace := trace w @ es\<rparr>
   | (_, w') \<Rightarrow> (\<exists>bs. base64_decode kl key = Ok bs \<and> length bs = 32 \<and> any_case ''pvt'' typ) \<or> w' = w)"
proof
  show "(\<exists>es. compute_key kl typ key w = (Ok (), w\<lparr>trace := trace w @ es\<rparr>)) =
     (\<exists>bs es. base64_decode kl key = Ok bs \<and> length bs = 32 \<and> key_lines kl typ key bs es)"
    using compute_key_Ok_iff [of kl "typ" key w "()"] by metis
next
  obtain r w' where run: "compute_key kl typ key w = (r, w')" by (cases "compute_key kl typ key w")
  show "case compute_key kl typ key w of
     (Ok _, w') \<Rightarrow> \<exists>bs es. base64_decode kl key = Ok bs \<and> length bs = 32 \<and>
        key_lines kl typ key bs es \<and> w' = w\<lparr>trace := trace w @ es\<rparr>
   | (_, w') \<Rightarrow> (\<exists>bs. base64_decode kl key = Ok bs \<and> length bs = 32 \<and> any_case ''pvt'' typ) \<or> w' = w"
  proof (cases r)
    case (Ok u)
    with run compute_key_Ok_iff [of kl "typ" key w u w'] show ?thesis by simp
  qed (use run in \<open>auto simp: compute_key_def key_types io_bind_def io_lift_def emit_def array32_of_def
        split: result.splits prod.splits if_splits\<close>)
qed

text \<open>A toy signature scheme whose public key is the private key reversed.\<close>

definition demo_keys :: key_lib where
  "demo_keys = codecs.extend rfc4648
     \<lparr>from_public_key = (\<lambda>p. \<lparr>key_id = rev p, pub_key = Ok p\<rparr>),
      from_private_key = (\<lambda>s. if length s = 32 then Ok \<lparr>key_id = s, pub_key = Ok (rev s)\<rparr> else Err (Lib ''bad key'')),
      export_key = (\<lambda>s. Ok (s @ s)), export_feature = False\<rparr>"

lemma demo_keys_codecs:
  "hex_decode demo_keys = hex_read" "hex_encode demo_keys = hex_text 97"
  "hex_encode_upper demo_keys = hex_text 65"
  "base64_decode demo_keys = b64_read" "base64_encode demo_keys = b64_text"
  by (simp_all add: demo_keys_def codecs.defs rfc4648_def)

lemma demo_keys_library: "codec_library demo_keys"
  by unfold_locales
    (simp_all add: demo_keys_codecs hex_read_text length_hex_text hex_text_unquoted b64_read_text
      length_b64_text b64_text_unquoted)

section \<open>keygen\<close>

text \<open>
  C26: The spellings of a key in keygen's output agree: the secret in hex decodes to the bytes of
  the private key in base64, the public key decodes from hex and from base64 to the one made, and
  the key hash to its id.
\<close>

theorem keygen_spellings_agree:
  assumes "codec_library gl" and "keygen gl w = (Ok (), w')"
  shows "\<exists>private public n j pvt secret pub hex_secret hex_public b64_public hash.
    generate_with_json gl (net w) = (Ok (Ok private, public), n) \<and>
    trace w' = trace w @ [Println (json_display gl j)] \<and>
    json_path [''private'', ''pvt_key''] j = Some (JString pvt) \<and> json_index private ''pvt_key'' = JString pvt \<and>
    json_path [''hex'', ''secret''] j = Some (JString hex_secret) \<and>
    base64_decode gl pvt = Ok secret \<and> hex_decode gl hex_secret = Ok secret \<and>
    json_path [''public'', ''pub_key''] j = Some (JString b64_public) \<and>
    json_path [''hex'', ''public''] j = Some (JString hex_public) \<and>
    pub_key public = Ok pub \<and> base64_decode gl b64_public = Ok pub \<and> hex_decode gl hex_public = Ok pub \<and>
    json_path [''keyhash''] j = Some (JString hash) \<and> base64_decode gl hash = Ok (key_id public)"
proof -
  note hex = codec_library.axioms(1) [OF assms(1)]
  from assms(2) obtain pvt_json key n j where
    "generate_with_json gl (net w) = (Ok (Ok pvt_json, key), n)"
    and j: "key_pair_json gl pvt_json key = Ok j" and "trace w' = trace w @ [Println (json_display gl j)]"
    by (auto simp: keygen_def ok_iff)
  moreover from j obtain pub pvt secret where
    "pub_key key = Ok pub" "json_index pvt_json ''pvt_key'' = JString pvt" "base64_decode gl pvt = Ok secret"
    and "j = json_object [
       (''private'', json_object [(''type_id'', JInt (key_type gl)), (''pvt_key'', JString pvt)]),
       (''public'', json_object [
          (''type_id'', JInt (key_type gl)), (''pub_key'', JString (base64_encode gl pub))]),
       (''keyhash'', JString (base64_encode gl (key_id key))),
       (''hex'', json_object [
          (''secret'', JString (hex_encode gl secret)), (''public'', JString (hex_encode gl pub))])]"
    by (auto simp: key_pair_json_def ok_iff)
  moreover from this have "json_path [''private'', ''pvt_key''] j = Some (JString pvt)"
    "json_path [''public'', ''pub_key''] j = Some (JString (base64_encode gl pub))"
    "json_path [''keyhash''] j = Some (JString (base64_encode gl (key_id key)))"
    "json_path [''hex'', ''secret''] j = Some (JString (hex_encode gl secret))"
    "json_path [''hex'', ''public''] j = Some (JString (hex_encode gl pub))"
    by simp_all
  moreover have "hex_decode gl (hex_encode gl bs) = Ok bs" "base64_decode gl (base64_encode gl bs) = Ok bs" for bs
    by (rule hex_library.decode_lower [OF hex], rule codec_library.decode_base64 [OF assms(1)])
  ultimately show ?thesis by blast
qed

definition demo_gen :: "unit gen_lib" where
  "demo_gen = codecs.extend rfc4648
     \<lparr>generate_with_json = (\<lambda>n. (Ok (Ok (json_object [(''pvt_key'', JString (b64_text [1, 2]))]),
        \<lparr>key_id = [9], pub_key = Ok [3, 4]\<rparr>), n)),
      key_type = 1209251014, json_display = (\<lambda>j. ''{}'')\<rparr>"

lemma demo_gen_codecs:
  "hex_decode demo_gen = hex_read" "hex_encode demo_gen = hex_text 97"
  "hex_encode_upper demo_gen = hex_text 65"
  "base64_decode demo_gen = b64_read" "base64_encode demo_gen = b64_text"
  by (simp_all add: demo_gen_def codecs.defs rfc4648_def)

theorem keygen_spellings_agree_witness:
  "\<exists>(w' :: unit world) secret pvt hex_secret.
     keygen demo_gen \<lparr>net = (), files = (\<lambda>_. None), stdin = [], trace = []\<rparr> = (Ok (), w') \<and>
     base64_decode demo_gen pvt = Ok secret \<and> hex_decode demo_gen hex_secret = Ok secret"
proof -
  let ?w = "\<lparr>net = (), files = (\<lambda>_. None), stdin = [], trace = []\<rparr> :: unit world"
  have lib: "codec_library demo_gen"
    by unfold_locales
      (simp_all add: demo_gen_codecs hex_read_text length_hex_text hex_text_unquoted b64_read_text
        length_b64_text b64_text_unquoted)
  have gen: "generate_with_json demo_gen () = (Ok (Ok (json_object [(''pvt_key'', JString (b64_text [1, 2]))]),
      \<lparr>key_id = [9], pub_key = Ok [3, 4]\<rparr>), ())"
    by (simp add: demo_gen_def codecs.defs)
  have "\<exists>w'. keygen demo_gen ?w = (Ok (), w')"
    by (simp add: keygen_def call_def gen io_bind_def io_lift_def key_pair_json_def json_index_def
        as_str_unwrap_def demo_gen_codecs b64_read_text emit_def del: b64_text.simps)
  then obtain w' where run: "keygen demo_gen ?w = (Ok (), w')" ..
  from keygen_spellings_agree [OF lib run] run show ?thesis by (elim exE conjE) (intro exI conjI)
qed

section \<open>keygen, then keyid\<close>

text \<open>
  The two tools link one key library: the same codecs, and a generated pair whose private key has
  the pair's public key and whose halves have one id.
\<close>

definition one_key_library :: "('n, 'y) gen_lib_scheme \<Rightarrow> 'z key_lib_scheme \<Rightarrow> bool" where
  "one_key_library gl kl \<longleftrightarrow>
     base64_decode kl = base64_decode gl \<and> base64_encode kl = base64_encode gl \<and> \<not> export_feature kl \<and>
     (\<forall>n private public n' pvt secret. generate_with_json gl n = (Ok (Ok private, public), n') \<longrightarrow>
        json_index private ''pvt_key'' = JString pvt \<longrightarrow> base64_decode gl pvt = Ok secret \<longrightarrow>
        length secret = 32 \<and>
        (\<exists>k pub. from_private_key kl secret = Ok k \<and> key_id k = key_id public \<and> pub_key k = Ok pub \<and>
           pub_key public = Ok pub \<and> length pub = 32 \<and> key_id (from_public_key kl pub) = key_id public))"

lemma one_key_libraryD:
  assumes "one_key_library gl kl" and "generate_with_json gl n = (Ok (Ok priv, key), n')"
    and "json_index priv ''pvt_key'' = JString pvt" and "base64_decode gl pvt = Ok secret"
  obtains k pub where "length secret = 32" "from_private_key kl secret = Ok k" "key_id k = key_id key"
    "pub_key k = Ok pub" "pub_key key = Ok pub" "length pub = 32" "key_id (from_public_key kl pub) = key_id key"
proof -
  from assms(1) have "length secret = 32 \<and>
      (\<exists>k pub. from_private_key kl secret = Ok k \<and> key_id k = key_id key \<and> pub_key k = Ok pub \<and>
         pub_key key = Ok pub \<and> length pub = 32 \<and> key_id (from_public_key kl pub) = key_id key)"
    unfolding one_key_library_def
    by (elim conjE allE [where x = n] allE [where x = priv] allE [where x = key] allE [where x = n']
        allE [where x = pvt] allE [where x = secret]) (simp only: assms(2-4) simp_thms)
  with that show thesis by blast
qed

lemma compute_key_pub:
  assumes "base64_decode kl text = Ok bs" and "length bs = 32"
  shows "\<exists>v'. compute_key kl ''pub'' text v = (Ok (), v') \<and>
    last (trace v') = Println (''Key id: '' @ base64_encode kl (key_id (from_public_key kl bs)))"
proof -
  have "to_lowercase ''pub'' = ''pub''" by code_simp
  with assms show ?thesis
    by (simp add: compute_key_def array32_of_def io_bind_def io_lift_def emit_def)
qed

lemma compute_key_pvt:
  assumes "base64_decode kl text = Ok bs" and "length bs = 32" and "from_private_key kl bs = Ok k"
    and "pub_key k = Ok pub" and "\<not> export_feature kl"
  shows "\<exists>v'. compute_key kl ''pvt'' text v = (Ok (), v') \<and>
    Println (''Public key: '' @ base64_encode kl pub) \<in> set (trace v') \<and>
    last (trace v') = Println (''Key id: '' @ base64_encode kl (key_id k))"
proof -
  have "to_lowercase ''pvt'' = ''pvt''" by code_simp
  with assms show ?thesis
    by (simp add: compute_key_def array32_of_def io_bind_def io_lift_def emit_def)
qed

text \<open>
  C18: The two tools agree: given the public or the private key that keygen printed, keyid prints the
  key hash that keygen printed with it, and for the private key also the same public key.
\<close>

theorem keyid_confirms_keygen:
  assumes "codec_library gl" and "one_key_library gl kl" and "keygen gl w = (Ok (), w')"
  shows "\<exists>j public pvt hash v1 v2. trace w' = trace w @ [Println (json_display gl j)] \<and>
    json_path [''public'', ''pub_key''] j = Some (JString public) \<and>
    json_path [''private'', ''pvt_key''] j = Some (JString pvt) \<and>
    json_path [''keyhash''] j = Some (JString hash) \<and>
    compute_key kl ''pub'' public v = (Ok (), v1) \<and> last (trace v1) = Println (''Key id: '' @ hash) \<and>
    compute_key kl ''pvt'' pvt v = (Ok (), v2) \<and> last (trace v2) = Println (''Key id: '' @ hash) \<and>
    Println (''Public key: '' @ public) \<in> set (trace v2)"
proof -
  from assms(3) obtain priv key n j where
    gen: "generate_with_json gl (net w) = (Ok (Ok priv, key), n)"
    and j: "key_pair_json gl priv key = Ok j" and out: "trace w' = trace w @ [Println (json_display gl j)]"
    by (auto simp: keygen_def ok_iff)
  from j obtain pub pvt secret where parts:
    "pub_key key = Ok pub" "json_index priv ''pvt_key'' = JString pvt" "base64_decode gl pvt = Ok secret"
    and fields: "json_path [''private'', ''pvt_key''] j = Some (JString pvt)"
      "json_path [''public'', ''pub_key''] j = Some (JString (base64_encode gl pub))"
      "json_path [''keyhash''] j = Some (JString (base64_encode gl (key_id key)))"
    by (auto simp: key_pair_json_def ok_iff)
  from one_key_libraryD [OF assms(2) gen parts(2,3)] parts(1) obtain k where
    k: "from_private_key kl secret = Ok k" "key_id k = key_id key" "pub_key k = Ok pub" "length pub = 32"
      "length secret = 32" "key_id (from_public_key kl pub) = key_id key"
    by (metis result.inject(1))
  have kl: "base64_decode kl = base64_decode gl" "base64_encode kl = base64_encode gl" "\<not> export_feature kl"
    using assms(2) unfolding one_key_library_def by blast+
  have "base64_decode kl (base64_encode gl pub) = Ok pub"
    unfolding kl(1) by (rule codec_library.decode_base64 [OF assms(1)])
  from compute_key_pub [OF this k(4), of v] compute_key_pvt [OF _ k(5,1,3) kl(3), of pvt v]
  show ?thesis using parts(3) fields out k(2,6) kl by auto
qed

definition paired_gen :: "unit gen_lib" where
  "paired_gen = codecs.extend rfc4648
     \<lparr>generate_with_json = (\<lambda>n. (Ok (Ok (json_object [(''pvt_key'', JString (b64_text (replicate 32 7)))]),
        \<lparr>key_id = replicate 32 7, pub_key = Ok (replicate 32 7)\<rparr>), n)),
      key_type = 1209251014, json_display = (\<lambda>j. ''{}'')\<rparr>"

lemma paired_gen_codecs:
  "hex_decode paired_gen = hex_read" "hex_encode paired_gen = hex_text 97"
  "hex_encode_upper paired_gen = hex_text 65"
  "base64_decode paired_gen = b64_read" "base64_encode paired_gen = b64_text"
  by (simp_all add: paired_gen_def codecs.defs rfc4648_def)

theorem keyid_confirms_keygen_witness:
  "\<exists>(w' :: unit world) public pvt hash (v1 :: unit world) v2.
     keygen paired_gen \<lparr>net = (), files = (\<lambda>_. None), stdin = [], trace = []\<rparr> = (Ok (), w') \<and>
     compute_key demo_keys ''pub'' public \<lparr>net = (), files = (\<lambda>_. None), stdin = [], trace = []\<rparr> = (Ok (), v1) \<and>
     compute_key demo_keys ''pvt'' pvt \<lparr>net = (), files = (\<lambda>_. None), stdin = [], trace = []\<rparr> = (Ok (), v2) \<and>
     last (trace v1) = Println (''Key id: '' @ hash) \<and> last (trace v2) = Println (''Key id: '' @ hash)"
proof -
  let ?w = "\<lparr>net = (), files = (\<lambda>_. None), stdin = [], trace = []\<rparr> :: unit world"
  have lib: "codec_library paired_gen"
    by unfold_locales
      (simp_all add: paired_gen_codecs hex_read_text length_hex_text hex_text_unquoted b64_read_text
        length_b64_text b64_text_unquoted)
  have gen: "generate_with_json paired_gen n = (Ok (Ok (json_object [(''pvt_key'', JString (b64_text (replicate 32 7)))]),
      \<lparr>key_id = replicate 32 7, pub_key = Ok (replicate 32 7)\<rparr>), n)" for n
    by (simp add: paired_gen_def codecs.defs)
  have same: "one_key_library paired_gen demo_keys"
    by (simp add: one_key_library_def gen paired_gen_codecs demo_keys_codecs json_index_def b64_read_text)
      (simp add: demo_keys_def codecs.defs)
  have "\<exists>w'. keygen paired_gen ?w = (Ok (), w')"
    by (simp add: keygen_def call_def gen io_bind_def io_lift_def key_pair_json_def json_index_def
        as_str_unwrap_def paired_gen_codecs b64_read_text emit_def del: b64_text.simps)
  then obtain w' where run: "keygen paired_gen ?w = (Ok (), w')" ..
  from keyid_confirms_keygen [OF lib same run, of ?w] run show ?thesis by blast
qed

section \<open>gendht\<close>

text \<open>
  C33: gendht prints one line, the pretty text of the signed node's record, from which every field
  reads back: the node's public key, its signature and version, and of its address list the one
  address, the version and the dates.
\<close>

theorem gendht_record_reads_back:
  assumes "codec_library gl" and "gendht gl ip dht_key w = (Ok (), w')"
  shows "\<exists>n n' node key pub adr j text k sg.
    get_signed_node gl n = (Ok node, n') \<and> key_of_id gl (node_id node) = Ok key \<and> pub_key key = Ok pub \<and>
    json_to_string_pretty gl j = Ok text \<and> trace w' = trace w @ [Println text] \<and>
    json_path [''id'', ''key''] j = Some (JString k) \<and> base64_decode gl k = Ok pub \<and>
    json_path [''signature''] j = Some (JString sg) \<and> base64_decode gl sg = Ok (node_signature node) \<and>
    json_path [''version''] j = Some (json_i32 (node_version node)) \<and>
    parse_address_list gl (addr_list node) = Ok (Some adr) \<and>
    json_path [''addr_list'', ''addrs''] j = Some (JArray [json_object [(''@type'', JString ''adnl.address.udp''),
      (''ip'', json_i32 (udp_ip adr)), (''port'', json_i32 (udp_port adr))]]) \<and>
    json_path [''addr_list'', ''version''] j = Some (json_i32 (list_version node)) \<and>
    json_path [''addr_list'', ''reinit_date''] j = Some (json_i32 (list_reinit_date node)) \<and>
    json_path [''addr_list'', ''priority''] j = Some (json_i32 (list_priority node)) \<and>
    json_path [''addr_list'', ''expire_at''] j = Some (json_i32 (list_expire_at node))"
proof -
  from assms(2) obtain n n' node key j adr pub str where
    "get_signed_node gl n = (Ok node, n')" "key_of_id gl (node_id node) = Ok key" "pub_key key = Ok pub"
    "parse_address_list gl (addr_list node) = Ok (Some adr)"
    and j: "j = dht_node_json gl node pub adr" and "json_to_string_pretty gl j = Ok str"
    "trace w' = trace w @ [Println str]"
    by (auto simp: gendht_def io_unwrap_def ok_iff)
  moreover have "json_path [''id'', ''key''] j = Some (JString (base64_encode gl pub))"
    "json_path [''signature''] j = Some (JString (base64_encode gl (node_signature node)))"
    "json_path [''version''] j = Some (json_i32 (node_version node))"
    "json_path [''addr_list'', ''addrs''] j = Some (JArray [json_object [(''@type'', JString ''adnl.address.udp''),
      (''ip'', json_i32 (udp_ip adr)), (''port'', json_i32 (udp_port adr))]])"
    "json_path [''addr_list'', ''version''] j = Some (json_i32 (list_version node))"
    "json_path [''addr_list'', ''reinit_date''] j = Some (json_i32 (list_reinit_date node))"
    "json_path [''addr_list'', ''priority''] j = Some (json_i32 (list_priority node))"
    "json_path [''addr_list'', ''expire_at''] j = Some (json_i32 (list_expire_at node))"
    unfolding j by (rule dht_node_json_fields)+
  moreover have "base64_decode gl (base64_encode gl bs) = Ok bs" for bs
    by (rule codec_library.decode_base64 [OF assms(1)])
  ultimately show ?thesis by blast
qed

definition demo_gendht :: "(unit, unit, unit, unit, unit) gendht_lib" where
  "demo_gendht = node_lib.extend (codecs.extend rfc4648
     \<lparr>key_of_id = (\<lambda>i. Ok \<lparr>key_id = (), pub_key = Ok [1]\<rparr>),
      parse_address_list = (\<lambda>_. Ok (Some \<lparr>udp_ip = 1, udp_port = 2\<rparr>)), show_addr_list = (\<lambda>_. []),
      json_to_string = (\<lambda>_. Ok ''{}''), json_to_string_pretty = (\<lambda>_. Ok ''{ }'')\<rparr>)
     \<lparr>test_config = (\<lambda>ip tag key. ip @ key), config_from_json = (\<lambda>_. Ok ()),
      start_adnl = (\<lambda>_ n. (Ok (), n)), dht_node_of = (\<lambda>_ n. (Ok (), n)),
      get_signed_node = (\<lambda>n. (Ok \<lparr>node_id = (), addr_list = (), list_version = 1, list_reinit_date = 1,
        list_priority = 0, list_expire_at = 0, node_version = 1, node_signature = [5, 6]\<rparr>, n))\<rparr>"

lemma demo_gendht_codecs:
  "hex_decode demo_gendht = hex_read" "hex_encode demo_gendht = hex_text 97"
  "hex_encode_upper demo_gendht = hex_text 65"
  "base64_decode demo_gendht = b64_read" "base64_encode demo_gendht = b64_text"
  by (simp_all add: demo_gendht_def codecs.defs node_lib.defs rfc4648_def)

theorem gendht_record_reads_back_witness:
  "\<exists>(w' :: unit world) text.
     gendht demo_gendht ''0.0.0.0:1'' ''AQ=='' \<lparr>net = (), files = (\<lambda>_. None), stdin = [], trace = []\<rparr> = (Ok (), w') \<and>
     trace w' = [Println text]"
proof -
  let ?w = "\<lparr>net = (), files = (\<lambda>_. None), stdin = [], trace = []\<rparr> :: unit world"
  have lib: "codec_library demo_gendht"
    by unfold_locales
      (simp_all add: demo_gendht_codecs hex_read_text length_hex_text hex_text_unquoted b64_read_text
        length_b64_text b64_text_unquoted)
  have "\<exists>w'. gendht demo_gendht ''0.0.0.0:1'' ''AQ=='' ?w = (Ok (), w')"
    by (simp add: gendht_def demo_gendht_def codecs.defs node_lib.defs io_unwrap_def io_expect_def call_def
        io_bind_def io_lift_def node_record_def emit_def)
  then obtain w' where run: "gendht demo_gendht ''0.0.0.0:1'' ''AQ=='' ?w = (Ok (), w')" ..
  from gendht_record_reads_back [OF lib run] obtain str where "trace w' = trace ?w @ [Println str]"
    by (elim exE conjE)
  with run show ?thesis by auto
qed

end
