(* ===== verification/Adnl_Ping.thy ===== *)
theory Adnl_Ping
  imports Tools_World Reference_Codecs
begin

text \<open>
  bin/adnl_ping.rs: the arguments, the setup of an overlay node and the two queries it sends to a
  peer. The lemmas say what a run that succeeds has printed and which peer it queried.
\<close>

text \<open>
  \<open>'z0\<close> is the local configuration, \<open>'ip\<close> an address, \<open>'o\<close> the overlay's short id, \<open>'k\<close> a key id. The
  replies are shown by their debug text.
\<close>

record ('g, 'ac, 'lc, 'ip, 'o, 'k, 'n) ping_lib = "('g, 'ac, 'n) adnl_lib" +
  zero_state_file_hash :: "'g \<Rightarrow> bytes res"
  ip_from_string :: "string \<Rightarrow> 'ip res"
  new_runtime :: "'n \<Rightarrow> unit res \<times> 'n"
  local_config_from :: "bytes \<Rightarrow> 'lc res"
  adnl_from_json_config :: "'lc \<Rightarrow> 'ac res"
  overlay_node :: "bytes \<Rightarrow> nat \<Rightarrow> 'n \<Rightarrow> unit res \<times> 'n"
  overlay_short_id :: "i32 \<Rightarrow> u64 \<Rightarrow> 'n \<Rightarrow> 'o res \<times> 'n"
  add_local_workchain_overlay :: "'o \<Rightarrow> 'n \<Rightarrow> bool res \<times> 'n"
  key_by_tag :: "nat \<Rightarrow> 'n \<Rightarrow> 'k res \<times> 'n"
  peer_key :: "bytes \<Rightarrow> 'k"
  add_ping_peer :: "'k \<Rightarrow> 'ip \<Rightarrow> 'k \<Rightarrow> 'n \<Rightarrow> 'k option res \<times> 'n"
  get_random_peers :: "'k \<Rightarrow> 'o \<Rightarrow> 'n \<Rightarrow> string option res \<times> 'n"
  query_capabilities :: "'k \<Rightarrow> 'o \<Rightarrow> 'n \<Rightarrow> string option res \<times> 'n"
  show_id :: "'k \<Rightarrow> string"
  show_overlay :: "'o \<Rightarrow> string"

text \<open>The two replies are printed in the same way.\<close>

definition print_reply :: "string option \<Rightarrow> ('n world, unit) io" where
  "print_reply reply = (case reply of
     Some r \<Rightarrow> println (''Got response: '' @ r)
   | None \<Rightarrow> println ''No response to ping'')"

definition ping_config ::
  "('g, 'ac, 'lc, 'ip, 'o, 'k, 'n, 'z) ping_lib_scheme \<Rightarrow> string option \<Rightarrow> ('n world, 'ac) io" where
  "ping_config pl local_cfgfile = (case local_cfgfile of
     Some cfgfile \<Rightarrow>
       io_bind (read_config (local_config_from pl) ''Cannot read local config from file '' cfgfile) (\<lambda>local_cfg.
       io_lift (adnl_from_json_config pl local_cfg))
   | None \<Rightarrow> io_lift (node_config pl node_ip [2]))"

definition ping_setup ::
  "('g, 'ac, 'lc, 'ip, 'o, 'k, 'n, 'z) ping_lib_scheme \<Rightarrow> 'y codecs_scheme \<Rightarrow> string \<Rightarrow> string \<Rightarrow> string
     \<Rightarrow> string option \<Rightarrow> ('n world, 'k \<times> 'o) io" where
  "ping_setup pl cod key_text ip_addr global_cfgfile local_cfgfile =
     io_bind (read_config (global_config_from pl) ''Cannot read global config from file '' global_cfgfile) (\<lambda>global_cfg.
     io_bind (io_lift (zero_state_file_hash pl global_cfg)) (\<lambda>zero_state.
     io_bind (io_lift (ip_from_string pl ip_addr)) (\<lambda>ip.
     io_bind (call (new_runtime pl)) (\<lambda>_.
     io_bind (ping_config pl local_cfgfile) (\<lambda>local_cfg.
     io_bind (call (adnl_with_config pl local_cfg)) (\<lambda>_.
     io_bind (call (overlay_node pl zero_state 2)) (\<lambda>_.
     io_bind (call (overlay_short_id pl (- 1) 0x8000000000000000)) (\<lambda>overlay_id.
     io_bind (call (adnl_start pl)) (\<lambda>_.
     io_bind (call (add_local_workchain_overlay pl overlay_id)) (\<lambda>added.
     if \<not> added then io_err (Msg (''Cannot add overlay '' @ show_overlay pl overlay_id))
     else
       io_bind (call (key_by_tag pl 2)) (\<lambda>local_key.
       io_bind (io_lift (and_then (base64_decode cod key_text) to_array32)) (\<lambda>key_bin.
       io_bind (call (add_ping_peer pl local_key ip (peer_key pl key_bin))) (\<lambda>other_id.
       case other_id of
         Some other_id \<Rightarrow> io_ok (other_id, overlay_id)
       | None \<Rightarrow> io_err (Msg ''Cannot add peer to ADNL''))))))))))))))"

definition ping_peer ::
  "('g, 'ac, 'lc, 'ip, 'o, 'k, 'n, 'z) ping_lib_scheme \<Rightarrow> string \<Rightarrow> 'k \<Rightarrow> 'o \<Rightarrow> ('n world, unit) io" where
  "ping_peer pl ip_addr other_id overlay_id =
     io_bind (println (''Pinging '' @ show_id pl other_id @ ''/'' @ ip_addr @ '' by GetRandomPeers'')) (\<lambda>_.
     io_bind (call (get_random_peers pl other_id overlay_id)) (\<lambda>reply.
     io_bind (print_reply reply) (\<lambda>_.
     io_bind (println (''Pinging '' @ show_id pl other_id @ ''/'' @ ip_addr @ '' by GetCapabilities'')) (\<lambda>_.
     io_bind (call (query_capabilities pl other_id overlay_id)) (\<lambda>reply.
     print_reply reply)))))"

definition adnl_ping ::
  "('g, 'ac, 'lc, 'ip, 'o, 'k, 'n, 'z) ping_lib_scheme \<Rightarrow> 'y codecs_scheme \<Rightarrow> string \<Rightarrow> string \<Rightarrow> string
     \<Rightarrow> string option \<Rightarrow> ('n world, unit) io" where
  "adnl_ping pl cod key_text ip_addr global_cfgfile local_cfgfile =
     io_bind (ping_setup pl cod key_text ip_addr global_cfgfile local_cfgfile) (\<lambda>(other_id, overlay_id).
     ping_peer pl ip_addr other_id overlay_id)"

definition ping_usage :: "('n world, unit) io" where
  "ping_usage = println
     ''Usage: adnl_ping <pub-key> <ip-addr> <path-to-global-config> [--config <path-to-local-config>]''"

text \<open>The local configuration the arguments name: none, one, or a wrong use.\<close>

definition ping_local_config :: "string list \<Rightarrow> string option option" where
  "ping_local_config args =
     (if length args = 6 then
        (if args ! 4 \<noteq> ''--config'' then None else Some (Some (args ! 5)))
      else if length args = 4 then Some None
      else None)"

definition ping_main ::
  "('g, 'ac, 'lc, 'ip, 'o, 'k, 'n, 'z) ping_lib_scheme \<Rightarrow> 'y codecs_scheme \<Rightarrow> string list \<Rightarrow> ('n world, unit) io" where
  "ping_main pl cod args = (case ping_local_config args of
     None \<Rightarrow> ping_usage
   | Some local_config \<Rightarrow>
       report_error ''ADNL pinging error: ''
         (adnl_ping pl cod (args ! 1) (args ! 2) (args ! 3) local_config))"

section \<open>What a run prints\<close>

fun reply_line :: "string option \<Rightarrow> event" where
  "reply_line (Some r) = Println (''Got response: '' @ r)"
| "reply_line None = Println ''No response to ping''"

lemma print_reply_run: "print_reply reply w = (Ok (), w\<lparr>trace := trace w @ [reply_line reply]\<rparr>)"
  by (cases reply) (simp_all add: print_reply_def emit_def)

lemma ping_peer_Ok:
  assumes "ping_peer pl ip other oid w = (Ok u, w')"
  shows "\<exists>r1 r2 n1 n2 n3. get_random_peers pl other oid (net w) = (Ok r1, n1) \<and>
    query_capabilities pl other oid n2 = (Ok r2, n3) \<and>
    trace w' = trace w @
      [Println (''Pinging '' @ show_id pl other @ ''/'' @ ip @ '' by GetRandomPeers''), reply_line r1,
       Println (''Pinging '' @ show_id pl other @ ''/'' @ ip @ '' by GetCapabilities''), reply_line r2]"
  using assms by (auto simp: ping_peer_def io_bind_Ok_iff call_Ok_iff emit_run print_reply_run, blast)

lemma ping_setup_Ok:
  assumes "ping_setup pl cod pub ip g l w = (Ok (other, oid), w')"
  shows "\<exists>key_bin addr local_key n n'. base64_decode cod pub = Ok key_bin \<and> length key_bin = 32 \<and>
    ip_from_string pl ip = Ok addr \<and>
    add_ping_peer pl local_key addr (peer_key pl key_bin) n = (Ok (Some other), n') \<and> trace w' = trace w"
proof -
  have quiet: "trace w1 = trace w0" if "ping_config pl l w0 = (Ok c, w1)" for c w0 w1
    using that by (auto simp: ping_config_def read_config_def ok_iff split: option.splits)
  show ?thesis
    using assms
    by (auto simp: ping_setup_def read_config_def to_array32_def io_bind_Ok_iff io_lift_Ok_iff
        call_Ok_iff and_then_Ok_iff fs_read_Ok_iff split: if_splits option.splits dest!: quiet)
qed

text \<open>
  C35: A run of adnl_ping that succeeds decoded a 32-byte public key, added it as a peer at the
  address that was given, sent it first GetRandomPeers and then GetCapabilities, and printed for
  each query the peer it went to and the response, or that there was none.
\<close>

theorem adnl_ping_reports_two_queries:
  assumes "adnl_ping pl cod key ip global local w = (Ok (), w')"
  shows "\<exists>bs addr other oid local_key r1 r2 n1 n2 n3 n4 n5 n6. base64_decode cod key = Ok bs \<and> length bs = 32 \<and>
    ip_from_string pl ip = Ok addr \<and>
    add_ping_peer pl local_key addr (peer_key pl bs) n1 = (Ok (Some other), n2) \<and>
    get_random_peers pl other oid n3 = (Ok r1, n4) \<and> query_capabilities pl other oid n5 = (Ok r2, n6) \<and>
    trace w' = trace w @
      [Println (''Pinging '' @ show_id pl other @ ''/'' @ ip @ '' by GetRandomPeers''), reply_line r1,
       Println (''Pinging '' @ show_id pl other @ ''/'' @ ip @ '' by GetCapabilities''), reply_line r2]"
proof -
  from assms obtain other oid w1 where
    s: "ping_setup pl cod key ip global local w = (Ok (other, oid), w1)"
    and p: "ping_peer pl ip other oid w1 = (Ok (), w')"
    by (auto simp: adnl_ping_def io_bind_Ok_iff)
  from ping_setup_Ok [OF s] ping_peer_Ok [OF p] show ?thesis by metis
qed

definition demo_ping :: "(unit, unit, unit, unit, unit, nat, unit) ping_lib" where
  "demo_ping =
     \<lparr>global_config_from = (\<lambda>_. Ok ()), node_config = (\<lambda>_ _. Ok ()),
      adnl_with_config = (\<lambda>_ n. (Ok (), n)), adnl_start = (\<lambda>n. (Ok (), n)),
      zero_state_file_hash = (\<lambda>_. Ok []), ip_from_string = (\<lambda>_. Ok ()), new_runtime = (\<lambda>n. (Ok (), n)),
      local_config_from = (\<lambda>_. Ok ()), adnl_from_json_config = (\<lambda>_. Ok ()),
      overlay_node = (\<lambda>_ _ n. (Ok (), n)), overlay_short_id = (\<lambda>_ _ n. (Ok (), n)),
      add_local_workchain_overlay = (\<lambda>_ n. (Ok True, n)), key_by_tag = (\<lambda>_ n. (Ok 0, n)),
      peer_key = (\<lambda>bs. length bs), add_ping_peer = (\<lambda>_ _ k n. (Ok (Some k), n)),
      get_random_peers = (\<lambda>_ _ n. (Ok (Some ''peers''), n)), query_capabilities = (\<lambda>_ _ n. (Ok None, n)),
      show_id = (\<lambda>_. ''id''), show_overlay = (\<lambda>_. ''overlay'')\<rparr>"

theorem adnl_ping_reports_two_queries_witness:
  "\<exists>(w' :: unit world) r1 r2. adnl_ping demo_ping rfc4648 (b64_text (replicate 32 0)) ''ip'' ''global'' None
      \<lparr>net = (), files = [''global'' \<mapsto> []], stdin = [], trace = []\<rparr> = (Ok (), w') \<and>
    trace w' = [Println ''Pinging id/ip by GetRandomPeers'', reply_line r1,
      Println ''Pinging id/ip by GetCapabilities'', reply_line r2]"
proof -
  let ?w = "\<lparr>net = (), files = [''global'' \<mapsto> []], stdin = [], trace = []\<rparr> :: unit world"
  have "\<exists>w'. adnl_ping demo_ping rfc4648 (b64_text (replicate 32 0)) ''ip'' ''global'' None ?w = (Ok (), w')"
    by (simp add: adnl_ping_def ping_setup_def ping_config_def ping_peer_def demo_ping_def read_config_def
        fs_read_def call_def io_bind_def io_lift_def emit_def print_reply_def rfc4648_def b64_read_text
        to_array32_def)
  then obtain w' where run: "adnl_ping demo_ping rfc4648 (b64_text (replicate 32 0)) ''ip'' ''global'' None ?w = (Ok (), w')" ..
  from adnl_ping_reports_two_queries [OF run] obtain other r1 r2 where
    "trace w' = trace ?w @
      [Println (''Pinging '' @ show_id demo_ping other @ ''/'' @ ''ip'' @ '' by GetRandomPeers''), reply_line r1,
       Println (''Pinging '' @ show_id demo_ping other @ ''/'' @ ''ip'' @ '' by GetCapabilities''), reply_line r2]"
    by (elim exE conjE)
  with run show ?thesis by (auto simp: demo_ping_def)
qed

end
