(* ===== verification/Print_Tool.thy ===== *)
theory Print_Tool
  imports Tools_World Console_Stats
begin

text \<open>
  bin/print.rs: blocks, states, shards and accounts of a node's database (or of one bag of cells)
  as text. \<open>InternalDb\<close> and the block parsers are parameters; modelled are the choice of what is
  printed, the reading of a block id, and the JSON list of all accounts. The lemmas give the text
  of the list and the acceptance of ids.
\<close>

section \<open>The database\<close>

text \<open>
  An iteration of the libraries calls a function on one object after the other and may end in an
  error of its own; an account is shown through the accessors the tool uses, each an option the
  tool unwraps or defaults.
\<close>

record 'a iteration =
  items :: "'a list"
  iteration_end :: "unit res"

record print_balance =
  grams :: "128 word"
  other_currencies :: "(u32 \<times> string) iteration"

record print_account =
  pa_addr :: "string option"
  pa_balance :: "print_balance option"
  pa_last_paid :: "u32 option"
  pa_last_tr_time :: "u64 option"

record ('b, 'h, 'blk, 'st, 'sd, 'n) print_lib =
  block_id_from_str :: "string \<Rightarrow> 'b res"
  show_block_id :: "'b \<Rightarrow> string"
  debug_block :: "'blk \<Rightarrow> string res"
  debug_block_full :: "'blk \<Rightarrow> string res"
  debug_state :: "'st \<Rightarrow> string res"
  debug_state_full :: "'st \<Rightarrow> string res"
  block_from_bytes :: "bytes \<Rightarrow> 'blk res"
  state_from_bytes :: "bytes \<Rightarrow> 'st res"
  open_db :: "string \<Rightarrow> 'n \<Rightarrow> unit res \<times> 'n"
  find_mc_block_by_seq_no :: "u32 \<Rightarrow> 'n \<Rightarrow> 'b res \<times> 'n"
  load_block_handle :: "'b \<Rightarrow> 'n \<Rightarrow> 'h option res \<times> 'n"
  load_block_data :: "'h \<Rightarrow> 'n \<Rightarrow> 'blk res res \<times> 'n"
  load_shard_state :: "'b \<Rightarrow> 'n \<Rightarrow> 'sd res \<times> 'n"
  state_of :: "'sd \<Rightarrow> 'st res"
  shards_of :: "'sd \<Rightarrow> (bool \<times> 'b) iteration res"
  last_applied_mc_block :: string
  load_full_node_state :: "string \<Rightarrow> 'n \<Rightarrow> 'b option res \<times> 'n"
  top_blocks_all :: "'sd \<Rightarrow> 'b list res"
  read_accounts :: "'st \<Rightarrow> print_account res iteration res"
  u128_json :: "128 word \<Rightarrow> json res"
  display_json :: "json \<Rightarrow> string"

text \<open>An iteration with a callback: the items first, then the end.\<close>

definition iterate :: "('a \<Rightarrow> ('w, unit) io) \<Rightarrow> 'a iteration \<Rightarrow> ('w, unit) io" where
  "iterate f it = io_bind (for_each f (items it)) (\<lambda>_. io_lift (iteration_end it))"

section \<open>Blocks, states and shards\<close>

definition print_block ::
  "('b, 'h, 'blk, 'st, 'sd, 'n, 'z) print_lib_scheme \<Rightarrow> 'blk \<Rightarrow> bool \<Rightarrow> ('n world, unit) io" where
  "print_block pl block brief =
     io_bind (io_lift (if brief then debug_block pl block else debug_block_full pl block)) (\<lambda>text.
     println text)"

definition print_state_text ::
  "('b, 'h, 'blk, 'st, 'sd, 'n, 'z) print_lib_scheme \<Rightarrow> 'st \<Rightarrow> bool \<Rightarrow> ('n world, unit) io" where
  "print_state_text pl state brief =
     io_bind (io_lift (if brief then debug_state pl state else debug_state_full pl state)) (\<lambda>text.
     println text)"

definition print_db_block ::
  "('b, 'h, 'blk, 'st, 'sd, 'n, 'z) print_lib_scheme \<Rightarrow> 'b \<Rightarrow> bool \<Rightarrow> ('n world, unit) io" where
  "print_db_block pl block_id brief =
     io_bind (println (''loading block: '' @ show_block_id pl block_id)) (\<lambda>_.
     io_bind (call (load_block_handle pl block_id)) (\<lambda>handle.
     io_bind (io_lift (ok_or (Msg (''Cannot load block '' @ show_block_id pl block_id)) handle)) (\<lambda>handle.
     io_bind (call (load_block_data pl handle)) (\<lambda>block.
     io_bind (io_lift block) (\<lambda>block.
     print_block pl block brief)))))"

definition print_db_state ::
  "('b, 'h, 'blk, 'st, 'sd, 'n, 'z) print_lib_scheme \<Rightarrow> 'b \<Rightarrow> bool \<Rightarrow> ('n world, unit) io" where
  "print_db_state pl block_id brief =
     io_bind (println (''loading state: '' @ show_block_id pl block_id)) (\<lambda>_.
     io_bind (call (load_shard_state pl block_id)) (\<lambda>state.
     io_bind (io_lift (state_of pl state)) (\<lambda>state.
     print_state_text pl state brief)))"

definition bool_to_string :: "bool \<Rightarrow> string" where
  "bool_to_string b = (if b then ''true'' else ''false'')"

text \<open>A state without shards prints nothing.\<close>

definition print_shards ::
  "('b, 'h, 'blk, 'st, 'sd, 'n, 'z) print_lib_scheme \<Rightarrow> 'b \<Rightarrow> ('n world, unit) io" where
  "print_shards pl block_id =
     io_bind (println (''loading state: '' @ show_block_id pl block_id)) (\<lambda>_.
     io_bind (call (load_shard_state pl block_id)) (\<lambda>state.
     case shards_of pl state of
       Ok shards \<Rightarrow> iterate (\<lambda>(before_merge, id).
         println (''before_merge: '' @ bool_to_string before_merge @ '' '' @ show_block_id pl id)) shards
     | Err _ \<Rightarrow> io_ok ()
     | Panic s \<Rightarrow> io_lift (Panic s)))"

definition get_block_id ::
  "('b, 'h, 'blk, 'st, 'sd, 'n, 'z) print_lib_scheme \<Rightarrow> string \<Rightarrow> ('n world, 'b) io" where
  "get_block_id pl str = (case block_id_from_str pl str of
     Ok block_id \<Rightarrow> io_ok block_id
   | Err _ \<Rightarrow>
       io_bind (io_lift (map_err ParseInt (u32_from_str str))) (\<lambda>mc_seqno.
       call (find_mc_block_by_seq_no pl mc_seqno))
   | Panic s \<Rightarrow> io_lift (Panic s))"

section \<open>All accounts\<close>

definition unwrap :: "'a option \<Rightarrow> 'a res" where
  "unwrap x = (case x of Some a \<Rightarrow> Ok a | None \<Rightarrow> Panic ''called `Option::unwrap()` on a `None` value'')"

text \<open>\<open>is_empty\<close> of a hash map: nothing to iterate over, and nothing that could fail.\<close>

definition no_items :: "'a iteration \<Rightarrow> bool" where
  "no_items it \<longleftrightarrow> items it = [] \<and> iteration_end it = Ok ()"

text \<open>
  The JSON object of an account: its fields in the order the code evaluates them, and the other
  currencies only when there are any. What \<open>serde_json\<close> makes of a 128-bit amount is \<open>u128_json\<close>;
  the macro \<open>json!\<close> unwraps it.
\<close>

definition account_json ::
  "('b, 'h, 'blk, 'st, 'sd, 'n, 'z) print_lib_scheme \<Rightarrow> print_account \<Rightarrow> json res" where
  "account_json pl account =
     and_then (unwrap (pa_addr account)) (\<lambda>addr.
     and_then (unwrap (pa_balance account)) (\<lambda>balance.
     and_then (unwrap (pa_last_paid account)) (\<lambda>last_paid.
     and_then (expect unwrap_msg (u128_json pl (grams balance))) (\<lambda>amount.
     let acc = [
       (''id'', JString addr),
       (''last_paid'', JInt (uint last_paid)),
       (''last_trans_lt'', JInt (uint (case_option 0 (\<lambda>t. t) (pa_last_tr_time account)))),
       (''balance'', amount)] in
     if no_items (other_currencies balance) then Ok (JObject (insert_all acc Map.empty))
     else
       and_then (iteration_end (other_currencies balance)) (\<lambda>_.
       let other = JObject (insert_all
         (map (\<lambda>(k, v). (nat_to_string (unat k), JString v)) (items (other_currencies balance))) Map.empty) in
       Ok (JObject (insert_all (acc @ [(''balance_other'', other)]) Map.empty)))))))"

text \<open>One account: a separator unless it is the first, then its text without a line end.\<close>

definition print_account_json ::
  "('b, 'h, 'blk, 'st, 'sd, 'n, 'z) print_lib_scheme \<Rightarrow> print_account res \<Rightarrow> bool \<Rightarrow> ('n world, bool) io" where
  "print_account_json pl shard_account first =
     io_bind (io_lift shard_account) (\<lambda>account.
     io_bind (io_lift (account_json pl account)) (\<lambda>acc.
     io_bind (if \<not> first then println '','' else io_ok ()) (\<lambda>_.
     io_bind (emit (Print (display_json pl acc))) (\<lambda>_.
     io_ok False))))"

fun print_accounts ::
  "('b, 'h, 'blk, 'st, 'sd, 'n, 'z) print_lib_scheme \<Rightarrow> print_account res list \<Rightarrow> bool \<Rightarrow> ('n world, bool) io" where
  "print_accounts pl [] first = io_ok first"
| "print_accounts pl (acc # accs) first =
     io_bind (print_account_json pl acc first) (\<lambda>first. print_accounts pl accs first)"

fun print_block_accounts ::
  "('b, 'h, 'blk, 'st, 'sd, 'n, 'z) print_lib_scheme \<Rightarrow> 'b list \<Rightarrow> bool \<Rightarrow> ('n world, bool) io" where
  "print_block_accounts pl [] first = io_ok first"
| "print_block_accounts pl (block_id # ids) first =
     io_bind (call (load_shard_state pl block_id)) (\<lambda>state.
     io_bind (io_lift (and_then (state_of pl state) (read_accounts pl))) (\<lambda>accounts.
     io_bind (print_accounts pl (items accounts) first) (\<lambda>first.
     io_bind (io_lift (iteration_end accounts)) (\<lambda>_.
     print_block_accounts pl ids first))))"

definition print_last_accounts ::
  "('b, 'h, 'blk, 'st, 'sd, 'n, 'z) print_lib_scheme \<Rightarrow> ('n world, unit) io" where
  "print_last_accounts pl =
     io_bind (call (load_full_node_state pl (last_applied_mc_block pl))) (\<lambda>last.
     io_bind (io_lift (ok_or (Msg ''no info about last applied mc block'') last)) (\<lambda>last_mc_id.
     io_bind (println (''{'' @ [CHR 0x22] @ ''accounts'' @ [CHR 0x22] @ '':['')) (\<lambda>_.
     io_bind (call (load_shard_state pl last_mc_id)) (\<lambda>last_mc_state.
     io_bind (io_lift (top_blocks_all pl last_mc_state)) (\<lambda>top_blocks.
     io_bind (print_block_accounts pl (top_blocks @ [last_mc_id]) True) (\<lambda>_.
     println '']}''))))))"

section \<open>The program\<close>

record print_args =
  pr_boc :: "string option"
  pr_path :: string
  pr_block :: "string option"
  pr_state :: "string option"
  pr_shards :: "string option"
  pr_accounts :: bool
  pr_brief :: bool

definition print_boc ::
  "('b, 'h, 'blk, 'st, 'sd, 'n, 'z) print_lib_scheme \<Rightarrow> string \<Rightarrow> bool \<Rightarrow> ('n world, unit) io" where
  "print_boc pl path brief =
     io_bind (fs_read path) (\<lambda>bytes.
     case block_from_bytes pl bytes of
       Ok block \<Rightarrow> print_block pl block brief
     | Panic s \<Rightarrow> io_lift (Panic s)
     | Err _ \<Rightarrow>
         (case state_from_bytes pl bytes of
            Ok state \<Rightarrow> print_state_text pl state brief
          | Panic s \<Rightarrow> io_lift (Panic s)
          | Err _ \<Rightarrow> io_ok ()))"

definition when_given :: "'a option \<Rightarrow> ('a \<Rightarrow> ('w, unit) io) \<Rightarrow> ('w, unit) io" where
  "when_given x f = (case x of Some a \<Rightarrow> f a | None \<Rightarrow> io_ok ())"

definition print_main ::
  "('b, 'h, 'blk, 'st, 'sd, 'n, 'z) print_lib_scheme \<Rightarrow> print_args \<Rightarrow> ('n world, unit) io" where
  "print_main pl args = (case pr_boc args of
     Some path \<Rightarrow> print_boc pl path (pr_brief args)
   | None \<Rightarrow>
       io_bind (call (open_db pl (pr_path args))) (\<lambda>_.
       io_bind (when_given (pr_block args) (\<lambda>id.
         io_bind (get_block_id pl id) (\<lambda>block_id. print_db_block pl block_id (pr_brief args)))) (\<lambda>_.
       io_bind (when_given (pr_state args) (\<lambda>id.
         io_bind (get_block_id pl id) (\<lambda>block_id. print_db_state pl block_id (pr_brief args)))) (\<lambda>_.
       io_bind (when_given (pr_shards args) (\<lambda>id.
         io_bind (get_block_id pl id) (\<lambda>block_id. print_shards pl block_id))) (\<lambda>_.
       if pr_accounts args then print_last_accounts pl else io_ok ())))))"

end
