(* ===== verification/Print_Properties.thy ===== *)
theory Print_Properties
  imports Print_Tool
begin

text \<open>
  What bin/print.rs guarantees: the list of accounts is one JSON array whatever the shards hold,
  each account's object has the fields it should, and a block is named by its id or its number.
\<close>

section \<open>An example database\<close>

definition sample_account :: print_account where
  "sample_account = \<lparr>pa_addr = Some ''-1:00'', pa_balance = Some \<lparr>grams = 5, other_currencies = \<lparr>items = [(7, ''8'')], iteration_end = Ok ()\<rparr>\<rparr>,
     pa_last_paid = Some 3, pa_last_tr_time = None\<rparr>"

definition sample_db :: "(nat, nat, unit, unit, unit, unit) print_lib" where
  "sample_db =
     \<lparr>block_id_from_str = (\<lambda>s. Err (Lib ''not a block id'')), show_block_id = (\<lambda>_. ''block''),
      debug_block = (\<lambda>_. Ok ''{}''), debug_block_full = (\<lambda>_. Ok ''{ }''),
      debug_state = (\<lambda>_. Ok ''{}''), debug_state_full = (\<lambda>_. Ok ''{ }''),
      block_from_bytes = (\<lambda>_. Ok ()), state_from_bytes = (\<lambda>_. Ok ()), open_db = (\<lambda>_ n. (Ok (), n)),
      find_mc_block_by_seq_no = (\<lambda>k n. (Ok (unat k), n)), load_block_handle = (\<lambda>b n. (Ok (Some b), n)),
      load_block_data = (\<lambda>_ n. (Ok (Ok ()), n)), load_shard_state = (\<lambda>_ n. (Ok (), n)), state_of = Ok,
      shards_of = (\<lambda>_. Ok \<lparr>items = [], iteration_end = Ok ()\<rparr>), last_applied_mc_block = ''last'',
      load_full_node_state = (\<lambda>_ n. (Ok (Some 0), n)), top_blocks_all = (\<lambda>_. Ok [1]),
      read_accounts = (\<lambda>_. Ok \<lparr>items = [Ok sample_account], iteration_end = Ok ()\<rparr>),
      u128_json = (\<lambda>g. Ok (JInt (uint g))), display_json = (\<lambda>_. ''{}'')\<rparr>"

definition sample_world :: "unit world" where
  "sample_world = \<lparr>net = (), files = (\<lambda>_. None), stdin = [], trace = []\<rparr>"

lemma sample_account_json: "\<exists>j. account_json sample_db sample_account = Ok j"
  by (simp add: account_json_def sample_account_def sample_db_def unwrap_def expect_def Let_def)

section \<open>The list of accounts\<close>

text \<open>The text an event puts on standard output, and texts separated by commas.\<close>

fun rendered :: "event \<Rightarrow> string" where
  "rendered (Println s) = s @ [CHR 0x0A]"
| "rendered (Print s) = s"
| "rendered _ = []"

abbreviation (input) render :: "event list \<Rightarrow> string" where
  "render es \<equiv> concat (map rendered es)"

fun comma_separated :: "string list \<Rightarrow> string" where
  "comma_separated [] = []"
| "comma_separated [s] = s"
| "comma_separated (s # ss) = s @ '','' @ [CHR 0x0A] @ comma_separated ss"

text \<open>The separators before the items that are not the first.\<close>

definition with_commas :: "bool \<Rightarrow> string list \<Rightarrow> string" where
  "with_commas first ss =
     (if first then comma_separated ss else concat (map (\<lambda>s. '','' @ [CHR 0x0A] @ s) ss))"

lemma comma_separated_Cons: "comma_separated (s # ss) = s @ concat (map (\<lambda>s. '','' @ [CHR 0x0A] @ s) ss)"
  by (induction ss arbitrary: s) simp_all

lemma with_commas_append:
  "with_commas first (ss @ ts) = with_commas first ss @ with_commas (first \<and> ss = []) ts"
proof (cases ss)
  case (Cons s ss')
  then show ?thesis by (simp add: with_commas_def comma_separated_Cons del: comma_separated.simps)
qed (simp add: with_commas_def)

lemma with_commas_single: "with_commas first [s] = (if first then [] else '','' @ [CHR 0x0A]) @ s"
  by (simp add: with_commas_def)

text \<open>\<open>lists pl first js es\<close>: the events print the objects \<open>js\<close>, of accounts, with separators.\<close>

definition lists_accounts ::
  "('b, 'h, 'blk, 'st, 'sd, 'n, 'z) print_lib_scheme \<Rightarrow> bool \<Rightarrow> json list \<Rightarrow> event list \<Rightarrow> bool" where
  "lists_accounts pl first js es \<longleftrightarrow>
     render es = with_commas first (map (display_json pl) js) \<and>
     (\<forall>j\<in>set js. \<exists>account. account_json pl account = Ok j)"

lemma lists_accounts_append:
  "lists_accounts pl first js es \<Longrightarrow> lists_accounts pl (first \<and> js = []) js' es' \<Longrightarrow>
     lists_accounts pl first (js @ js') (es @ es')"
  by (auto simp: lists_accounts_def with_commas_append)

lemma print_account_json_Ok:
  assumes "print_account_json pl acc first w = (Ok first', w')"
  shows "\<exists>j es. lists_accounts pl first [j] es \<and> trace w' = trace w @ es \<and> first' = False"
proof -
  from assms obtain account j where "account_json pl account = Ok j"
    and w': "w' = w\<lparr>trace := trace w @ (if first then [] else [Println '','']) @ [Print (display_json pl j)]\<rparr>" "\<not> first'"
    by (cases first) (auto simp: print_account_json_def io_bind_Ok_iff io_lift_Ok_iff emit_run)
  then have "lists_accounts pl first [j] ((if first then [] else [Println '','']) @ [Print (display_json pl j)])"
    by (auto simp: lists_accounts_def with_commas_single)
  with w' show ?thesis by auto
qed

lemma print_accounts_Ok:
  "print_accounts pl accs first w = (Ok first', w') \<Longrightarrow>
     \<exists>js es. lists_accounts pl first js es \<and> trace w' = trace w @ es \<and> first' = (first \<and> js = [])"
proof (induction accs arbitrary: first w)
  case Nil
  then show ?case
    by (intro exI [of _ "[]"]) (auto simp: io_lift_def lists_accounts_def with_commas_def)
next
  case (Cons acc accs)
  then obtain mid w1 where one: "print_account_json pl acc first w = (Ok mid, w1)"
    and rest: "print_accounts pl accs mid w1 = (Ok first', w')"
    by (auto simp: ok_iff)
  from print_account_json_Ok [OF one] obtain j es where
    1: "lists_accounts pl first [j] es" "trace w1 = trace w @ es" "mid = False" by blast
  from Cons.IH [OF rest] obtain js es' where
    2: "lists_accounts pl mid js es'" "trace w' = trace w1 @ es'" "first' = (mid \<and> js = [])" by blast
  from 1 2 lists_accounts_append [of pl first "[j]" es js es'] show ?case
    by (intro exI [of _ "j # js"] exI [of _ "es @ es'"]) auto
qed

lemma print_block_accounts_Ok:
  "print_block_accounts pl ids first w = (Ok first', w') \<Longrightarrow>
     \<exists>js es. lists_accounts pl first js es \<and> trace w' = trace w @ es \<and> first' = (first \<and> js = [])"
proof (induction ids arbitrary: first w)
  case Nil
  then show ?case
    by (intro exI [of _ "[]"]) (auto simp: io_lift_def lists_accounts_def with_commas_def)
next
  case (Cons block_id ids)
  then obtain n accs mid w1 where
    one: "print_accounts pl accs first (w\<lparr>net := n\<rparr>) = (Ok mid, w1)"
    and rest: "print_block_accounts pl ids mid w1 = (Ok first', w')"
    by (auto simp: ok_iff)
  from print_accounts_Ok [OF one] obtain js es where
    1: "lists_accounts pl first js es" "trace w1 = trace w @ es" "mid = (first \<and> js = [])" by auto
  from Cons.IH [OF rest] obtain js' es' where
    2: "lists_accounts pl mid js' es'" "trace w' = trace w1 @ es'" "first' = (mid \<and> js' = [])" by blast
  from 1 2 lists_accounts_append [of pl first js es js' es'] show ?case
    by (intro exI [of _ "js @ js'"] exI [of _ "es @ es'"]) auto
qed

text \<open>
  C14: The list of accounts print writes is one JSON array in an object: the texts of the accounts
  of all the shards and the masterchain, separated by commas and closed, also when there are none.
\<close>

theorem accounts_list_is_json:
  assumes "print_last_accounts pl w = (Ok (), w')"
  shows "\<exists>es js. trace w' = trace w @ es \<and>
    render es = ''{'' @ [CHR 0x22] @ ''accounts'' @ [CHR 0x22] @ '':['' @ [CHR 0x0A] @
      comma_separated (map (display_json pl) js) @ '']}'' @ [CHR 0x0A] \<and>
    set js \<subseteq> {j. \<exists>account. account_json pl account = Ok j}"
proof -
  let ?open = "Println (''{'' @ [CHR 0x22] @ ''accounts'' @ [CHR 0x22] @ '':['')"
  from assms obtain n ids mid w1 where
    p: "print_block_accounts pl ids True (w\<lparr>trace := trace w @ [?open], net := n\<rparr>) = (Ok mid, w1)"
    and w': "w' = w1\<lparr>trace := trace w1 @ [Println '']}'']\<rparr>"
    by (auto simp: print_last_accounts_def io_bind_Ok_iff io_lift_Ok_iff call_Ok_iff emit_run)
  from print_block_accounts_Ok [OF p] obtain js es where
    "lists_accounts pl True js es" "trace w1 = trace w @ [?open] @ es" by auto
  with w' show ?thesis
    by (intro exI [of _ "[?open] @ es @ [Println '']}'']"] exI [of _ js])
      (auto simp: lists_accounts_def with_commas_def)
qed

theorem accounts_list_is_json_witness:
  "\<exists>w' es js. print_last_accounts sample_db sample_world = (Ok (), w') \<and> trace w' = trace sample_world @ es \<and>
     render es = ''{'' @ [CHR 0x22] @ ''accounts'' @ [CHR 0x22] @ '':['' @ [CHR 0x0A] @
       comma_separated (map (display_json sample_db) js) @ '']}'' @ [CHR 0x0A]"
proof -
  have "\<exists>w'. print_last_accounts sample_db sample_world = (Ok (), w')"
    by (simp add: print_last_accounts_def sample_db_def sample_world_def call_def io_bind_def io_lift_def emit_def
        print_account_json_def account_json_def sample_account_def unwrap_def expect_def Let_def)
  then obtain w' where run: "print_last_accounts sample_db sample_world = (Ok (), w')" ..
  from accounts_list_is_json [OF run] run show ?thesis by (elim exE conjE) (intro exI conjI)
qed

section \<open>One account\<close>

text \<open>The currencies are keyed by their decimal numerals, and no two share one.\<close>

lemma currencies_by_name:
  fixes cs :: "(u32 \<times> string) list"
  shows "map_of (rev (map (\<lambda>(k, v). (nat_to_string (unat k), JString v)) cs)) (nat_to_string (unat k)) =
    map_option JString (map_of (rev cs) k)"
proof -
  have "a = b" if "nat_to_string (unat a) = nat_to_string (unat b)" for a b :: u32
  proof -
    from that numeral_value_dec_digits have "Some (int (unat a)) = Some (int (unat b))"
      unfolding nat_to_string_def by metis
    then show ?thesis by (simp add: word_uint_eq_iff)
  qed
  then have "map_of (map (\<lambda>(k, v). (nat_to_string (unat k), JString v)) cs) (nat_to_string (unat k)) =
    map_option JString (map_of cs k)" for cs :: "(u32 \<times> string) list"
    by (induction cs) auto
  from this [of "rev cs"] show ?thesis by (simp add: rev_map)
qed

text \<open>
  C38: The object of an account has its address, times and balance, the time of the last
  transaction as 0 when it has none, and exactly when there are other currencies an object that
  holds, under the numeral of each, its amount.
\<close>

theorem account_object_fields:
  assumes "account_json pl account = Ok j"
  shows "\<exists>m balance. j = JObject m \<and> pa_balance account = Some balance \<and>
    m ''id'' = map_option JString (pa_addr account) \<and>
    m ''last_paid'' = map_option (\<lambda>t. JInt (uint t)) (pa_last_paid account) \<and>
    m ''last_trans_lt'' = Some (JInt (uint (case_option 0 (\<lambda>t. t) (pa_last_tr_time account)))) \<and>
    map_option Ok (m ''balance'') = Some (u128_json pl (grams balance)) \<and>
    (if no_items (other_currencies balance) then m ''balance_other'' = None
     else \<exists>other. m ''balance_other'' = Some (JObject other) \<and>
       (\<forall>k. other (nat_to_string (unat k)) = map_option JString (map_of (rev (items (other_currencies balance))) k)))"
proof -
  obtain addr where addr: "pa_addr account = Some addr"
    using assms by (cases "pa_addr account") (auto simp: account_json_def unwrap_def)
  moreover obtain balance where balance: "pa_balance account = Some balance"
    using assms addr by (cases "pa_balance account") (auto simp: account_json_def unwrap_def)
  moreover obtain paid where paid: "pa_last_paid account = Some paid"
    using assms addr balance by (cases "pa_last_paid account") (auto simp: account_json_def unwrap_def)
  moreover obtain amount where "u128_json pl (grams balance) = Ok amount"
    using assms addr balance paid
    by (cases "u128_json pl (grams balance)") (auto simp: account_json_def unwrap_def expect_def)
  ultimately show ?thesis
    using assms
    by (cases "no_items (other_currencies balance)"; cases "iteration_end (other_currencies balance)")
      (auto simp: account_json_def unwrap_def expect_def Let_def insert_all_map_add currencies_by_name)
qed

theorem account_object_fields_witness:
  "\<exists>m other. account_json sample_db sample_account = Ok (JObject m) \<and> m ''last_trans_lt'' = Some (JInt 0) \<and>
     m ''balance_other'' = Some (JObject other) \<and> other (nat_to_string (unat (7 :: u32))) = Some (JString ''8'')"
proof -
  obtain j where j: "account_json sample_db sample_account = Ok j"
    using sample_account_json ..
  from account_object_fields [OF j] j show ?thesis
    by (auto simp: sample_account_def no_items_def dest!: spec [of _ "7 :: u32"])
qed

section \<open>Block ids\<close>

text \<open>A block is named by a block id, and a text that is none by a sequence number below 2^32.\<close>

lemma block_id_or_seqno:
  assumes "get_block_id pl str w = (Ok block_id, w')"
  shows "block_id_from_str pl str = Ok block_id \<and> w' = w \<or>
    (\<exists>e seqno n. block_id_from_str pl str = Err e \<and> numeral_value False str = Some (uint seqno) \<and>
       find_mc_block_by_seq_no pl seqno (net w) = (Ok block_id, n) \<and> w' = w\<lparr>net := n\<rparr>)"
proof (cases "block_id_from_str pl str")
  case (Err e)
  with assms obtain seqno n where "u32_from_str str = Ok seqno"
    "find_mc_block_by_seq_no pl seqno (net w) = (Ok block_id, n)" "w' = w\<lparr>net := n\<rparr>"
    by (auto simp: get_block_id_def ok_iff)
  moreover from this(1) have "numeral_value False str = Some (uint seqno)"
    by (auto simp: u32_from_str_iff uint_word_of_int)
  ultimately show ?thesis using Err by blast
qed (use assms in \<open>auto simp: get_block_id_def io_lift_def\<close>)

end
