(* ===== verification/Zerostate.thy ===== *)
theory Zerostate
  imports Print_Tool Dht_Json
begin

text \<open>
  bin/zerostate.rs: the import of a masterchain zerostate from JSON, which makes the zerostate of
  every workchain, writes it to a file and puts its hashes into the configuration, and the writing
  and checking of the result. The lemmas follow the loop over the workchains: which files it
  writes and which hashes the workchains get.
\<close>

section \<open>The libraries\<close>

text \<open>A workchain description: the two hashes the tool sets, and the rest of it.\<close>

record 'd wc_descr =
  zerostate_root_hash :: uint256
  zerostate_file_hash :: uint256
  descr_rest :: 'd

text \<open>
  \<open>'m\<close> is a JSON map, \<open>'st\<close> a shard state, \<open>'ex\<close> a \<open>McStateExtra\<close>, \<open>'wcs\<close> the hash map of workchains,
  \<open>'c\<close> a cell, \<open>'vs\<close> a validator set, \<open>'cc\<close> a catchain configuration, \<open>'pr\<close> the storage prices, \<open>'tvc\<close> a
  smart contract's code or data. A configuration slice is shown by its key read as a number and
  by whether it holds a reference.
\<close>

record ('m, 'st, 'ex, 'wcs, 'd, 'c, 'vs, 'cc, 'pr, 'tvc, 'n) zs_lib = codecs +
  map_from_str :: "string \<Rightarrow> 'm res"
  zs_parse_state :: "'m \<Rightarrow> 'st res"
  gen_time :: "'st \<Rightarrow> u32"
  global_id :: "'st \<Rightarrow> i32"
  read_custom :: "'st \<Rightarrow> 'ex option res"
  write_custom :: "'st \<Rightarrow> 'ex \<Rightarrow> 'st res"
  config_workchains :: "'ex \<Rightarrow> 'wcs res"
  wc_entries :: "'wcs \<Rightarrow> (i32 \<times> 'd wc_descr) iteration"
  wc_set :: "'wcs \<Rightarrow> i32 \<Rightarrow> 'd wc_descr \<Rightarrow> 'wcs res"
  state_for_workchain :: "i32 \<Rightarrow> 'st res"
  set_gen_time :: "u32 \<Rightarrow> 'st \<Rightarrow> 'st"
  set_global_id :: "i32 \<Rightarrow> 'st \<Rightarrow> 'st"
  set_min_ref_mc_seqno :: "u32 \<Rightarrow> 'st \<Rightarrow> 'st"
  serialize_state :: "'st \<Rightarrow> 'c res"
  repr_hash :: "'c \<Rightarrow> uint256"
  cell_boc :: "'c \<Rightarrow> bytes res"
  calc_file_hash :: "bytes \<Rightarrow> uint256"
  lower_hex :: "uint256 \<Rightarrow> string"
  set_workchains :: "'ex \<Rightarrow> 'wcs \<Rightarrow> 'ex res"
  catchain_config :: "'ex \<Rightarrow> 'cc res"
  validator_set :: "'ex \<Rightarrow> 'vs res"
  calc_subset :: "'vs \<Rightarrow> 'cc \<Rightarrow> u32 \<Rightarrow> u32 \<Rightarrow> u32 res"
  set_validator_info :: "u32 \<Rightarrow> bool \<Rightarrow> u32 \<Rightarrow> 'ex \<Rightarrow> 'ex"
  zs_state_from_bytes :: "bytes \<Rightarrow> 'st res"
  config_slices :: "'ex \<Rightarrow> (u32 res \<times> unit res) iteration"
  storage_prices :: "'ex \<Rightarrow> 'pr res"
  prices_len :: "'pr \<Rightarrow> nat res"
  prices_get :: "'pr \<Rightarrow> u32 \<Rightarrow> unit res"
  zs_json_pretty :: "json \<Rightarrow> string res"
  state_init_from_file :: "string \<Rightarrow> 'n \<Rightarrow> ('tvc option \<times> 'tvc option) res \<times> 'n"
  update_config_smc :: "'st \<Rightarrow> 'tvc option \<Rightarrow> 'st res"
  update_elector_smc :: "'st \<Rightarrow> 'tvc option \<Rightarrow> 'tvc option \<Rightarrow> 'st res"
  zs_write_fault :: "string \<Rightarrow> fs_fault option"

section \<open>The import\<close>

text \<open>The empty state of a workchain with the masterchain's time and global id, and its cell.\<close>

definition wc_state ::
  "('m, 'st, 'ex, 'wcs, 'd, 'c, 'vs, 'cc, 'pr, 'tvc, 'n, 'z) zs_lib_scheme \<Rightarrow> 'st \<Rightarrow> i32 \<Rightarrow> 'st res" where
  "wc_state zl mc_zero_state workchain_id =
     and_then (state_for_workchain zl workchain_id) (\<lambda>state.
     let state = set_gen_time zl (gen_time zl mc_zero_state) state;
         state = set_global_id zl (global_id zl mc_zero_state) state in
     Ok (set_min_ref_mc_seqno zl 0xFFFFFFFF state))"

definition import_workchain ::
  "('m, 'st, 'ex, 'wcs, 'd, 'c, 'vs, 'cc, 'pr, 'tvc, 'n, 'z) zs_lib_scheme \<Rightarrow> 'st \<Rightarrow> i32 \<times> 'd wc_descr
     \<Rightarrow> 'wcs \<times> 'st list \<Rightarrow> ('n world, 'wcs \<times> 'st list) io" where
  "import_workchain zl mc_zero_state entry acc =
     (case entry of (workchain_id, descr) \<Rightarrow> case acc of (workchains, wc_zero_state) \<Rightarrow>
      io_bind (io_lift (wc_state zl mc_zero_state workchain_id)) (\<lambda>state.
      io_bind (io_lift (serialize_state zl state)) (\<lambda>cell.
      let descr = descr\<lparr>zerostate_root_hash := repr_hash zl cell\<rparr> in
      io_bind (io_lift (cell_boc zl cell)) (\<lambda>bytes.
      let descr = descr\<lparr>zerostate_file_hash := calc_file_hash zl bytes\<rparr> in
      io_bind (io_lift (wc_set zl workchains workchain_id descr)) (\<lambda>workchains.
      let name = lower_hex zl (zerostate_file_hash descr) @ ''.boc'' in
      io_bind (write_file (zs_write_fault zl) name bytes) (\<lambda>_.
      io_ok (workchains, wc_zero_state @ [state])))))))"

fun import_workchains ::
  "('m, 'st, 'ex, 'wcs, 'd, 'c, 'vs, 'cc, 'pr, 'tvc, 'n, 'z) zs_lib_scheme \<Rightarrow> 'st
     \<Rightarrow> (i32 \<times> 'd wc_descr) list \<Rightarrow> 'wcs \<times> 'st list \<Rightarrow> ('n world, 'wcs \<times> 'st list) io" where
  "import_workchains zl mc_zero_state [] acc = io_ok acc"
| "import_workchains zl mc_zero_state (entry # entries) acc =
     io_bind (import_workchain zl mc_zero_state entry acc) (\<lambda>acc.
     import_workchains zl mc_zero_state entries acc)"

definition import_zerostate ::
  "('m, 'st, 'ex, 'wcs, 'd, 'c, 'vs, 'cc, 'pr, 'tvc, 'n, 'z) zs_lib_scheme \<Rightarrow> string
     \<Rightarrow> ('n world, 'st) io" where
  "import_zerostate zl json =
     io_bind (io_lift (map_from_str zl json)) (\<lambda>m.
     io_bind (io_lift (zs_parse_state zl m)) (\<lambda>mc_zero_state.
     let now = gen_time zl mc_zero_state in
     io_bind (io_lift (read_custom zl mc_zero_state)) (\<lambda>custom.
     io_bind (io_lift (case custom of Some extra \<Rightarrow> Ok extra | None \<Rightarrow> Panic ''must be in mc state'')) (\<lambda>extra.
     io_bind (io_lift (config_workchains zl extra)) (\<lambda>workchains.
     io_bind (import_workchains zl mc_zero_state (items (wc_entries zl workchains)) (workchains, []))
       (\<lambda>(workchains', wc_zero_state).
     io_bind (io_lift (iteration_end (wc_entries zl workchains))) (\<lambda>_.
     io_bind (io_lift (set_workchains zl extra workchains')) (\<lambda>extra.
     io_bind (io_lift (catchain_config zl extra)) (\<lambda>ccvc.
     io_bind (io_lift (validator_set zl extra)) (\<lambda>cur_validators.
     io_bind (io_lift (calc_subset zl cur_validators ccvc 0 now)) (\<lambda>hash_short.
     io_lift (write_custom zl mc_zero_state (set_validator_info zl hash_short True 0 extra)))))))))))))"

section \<open>Writing and checking\<close>

definition check_slices :: "(u32 res \<times> unit res) iteration \<Rightarrow> ('w, unit) io" where
  "check_slices it = iterate (\<lambda>(key, param).
     io_bind (io_lift (expect ''index wasn't deserialized incorrectly'' key)) (\<lambda>_.
     io_lift (expect ''must contain reference'' param))) it"

definition check_prices ::
  "('m, 'st, 'ex, 'wcs, 'd, 'c, 'vs, 'cc, 'pr, 'tvc, 'n, 'z) zs_lib_scheme \<Rightarrow> 'pr \<Rightarrow> ('w, unit) io" where
  "check_prices zl prices =
     io_bind (io_lift (expect ''prices len wasn't read'' (prices_len zl prices))) (\<lambda>len.
     for_each (\<lambda>i. io_lift (expect (''prices description '' @ nat_to_string i @ '' wasn't read'')
       (prices_get zl prices (word_of_nat i)))) [0..<unat (word_of_nat len :: u32)])"

definition zero_state_json :: "'z codecs_scheme \<Rightarrow> uint256 \<Rightarrow> uint256 \<Rightarrow> json" where
  "zero_state_json cod root_hash file_hash =
     json_object [(''zero_state'', json_object [
       (''workchain'', JInt (- 1)),
       (''shard'', JInt (- 9223372036854775808)),
       (''seqno'', JInt 0),
       (''root_hash'', JString (base64_encode cod (uint256_as_slice root_hash))),
       (''file_hash'', JString (base64_encode cod (uint256_as_slice file_hash)))])]"

definition check_written ::
  "('m, 'st, 'ex, 'wcs, 'd, 'c, 'vs, 'cc, 'pr, 'tvc, 'n, 'z) zs_lib_scheme \<Rightarrow> bytes \<Rightarrow> ('w, unit) io" where
  "check_written zl bytes =
     io_bind (io_lift (expect ''can't deserialize state'' (zs_state_from_bytes zl bytes))) (\<lambda>mc_zero_state.
     io_bind (io_lift (expect ''extra wasn't read from state'' (read_custom zl mc_zero_state))) (\<lambda>custom.
     io_bind (io_lift (case custom of Some extra \<Rightarrow> Ok extra | None \<Rightarrow> Panic ''extra must be in state'')) (\<lambda>extra.
     io_bind (io_expect ''something wrong with config'' (check_slices (config_slices zl extra))) (\<lambda>_.
     io_bind (io_lift (expect ''prices weren't read from config'' (storage_prices zl extra))) (\<lambda>prices.
     check_prices zl prices)))))"

definition write_zero_state ::
  "('m, 'st, 'ex, 'wcs, 'd, 'c, 'vs, 'cc, 'pr, 'tvc, 'n, 'z) zs_lib_scheme \<Rightarrow> 'st \<Rightarrow> ('n world, unit) io" where
  "write_zero_state zl mc_zero_state =
     io_bind (io_lift (expect unwrap_msg (serialize_state zl mc_zero_state))) (\<lambda>cell.
     io_bind (io_lift (expect unwrap_msg (cell_boc zl cell))) (\<lambda>bytes.
     let file_hash = calc_file_hash zl bytes; name = lower_hex zl file_hash @ ''.boc'' in
     io_bind (io_expect unwrap_msg (write_file (zs_write_fault zl) name bytes)) (\<lambda>_.
     io_bind (check_written zl bytes) (\<lambda>_.
     let json = zero_state_json zl (repr_hash zl cell) file_hash in
     io_bind (io_lift (zs_json_pretty zl json)) (\<lambda>json.
     io_bind (write_file (zs_write_fault zl) ''config.json'' (as_bytes json)) (\<lambda>_.
     println json))))))"

section \<open>The program\<close>

definition tvc_from_file ::
  "('m, 'st, 'ex, 'wcs, 'd, 'c, 'vs, 'cc, 'pr, 'tvc, 'n, 'z) zs_lib_scheme \<Rightarrow> string \<Rightarrow> string
     \<Rightarrow> ('n world, 'tvc option \<times> 'tvc option) io" where
  "tvc_from_file zl kind file_name =
     io_expect (''something wrong with '' @ kind @ '' TVC file '' @ file_name)
       (call (state_init_from_file zl file_name))"

record zs_args =
  zs_input :: string
  zs_config :: "string option"
  zs_elector :: "string option"

definition zerostate_main ::
  "('m, 'st, 'ex, 'wcs, 'd, 'c, 'vs, 'cc, 'pr, 'tvc, 'n, 'z) zs_lib_scheme \<Rightarrow> zs_args \<Rightarrow> ('n world, unit) io" where
  "zerostate_main zl args =
     io_bind (io_expect unwrap_msg
       (io_bind (fs_read (zs_input args)) (\<lambda>bs. io_lift (string_from_utf8 bs)))) (\<lambda>json.
     io_bind (io_expect unwrap_msg (import_zerostate zl json)) (\<lambda>mc_zero_state.
     io_bind (case zs_config args of
         Some file_name \<Rightarrow> io_bind (tvc_from_file zl ''config'' file_name) (\<lambda>(code, data). io_ok code)
       | None \<Rightarrow> io_ok None) (\<lambda>config_code.
     io_bind (io_lift (expect unwrap_msg (update_config_smc zl mc_zero_state config_code))) (\<lambda>mc_zero_state.
     io_bind (case zs_elector args of
         Some file_name \<Rightarrow>
           io_bind (tvc_from_file zl ''elector'' file_name) (\<lambda>(code, data).
           io_lift (expect unwrap_msg (update_elector_smc zl mc_zero_state code data)))
       | None \<Rightarrow> io_ok mc_zero_state) (\<lambda>mc_zero_state.
     io_expect unwrap_msg (write_zero_state zl mc_zero_state))))))"

section \<open>What the import leaves behind\<close>

text \<open>The description a workchain gets, and the file its zerostate is in.\<close>

definition zerostate_of ::
  "('m, 'st, 'ex, 'wcs, 'd, 'c, 'vs, 'cc, 'pr, 'tvc, 'n, 'z) zs_lib_scheme \<Rightarrow> 'st \<Rightarrow> i32 \<times> 'd wc_descr
     \<Rightarrow> 'd wc_descr \<Rightarrow> bytes \<Rightarrow> bool" where
  "zerostate_of zl mc entry descr bytes \<longleftrightarrow>
     (\<exists>state cell. wc_state zl mc (fst entry) = Ok state \<and> serialize_state zl state = Ok cell \<and>
        cell_boc zl cell = Ok bytes \<and>
        descr = (snd entry)\<lparr>zerostate_root_hash := repr_hash zl cell,
          zerostate_file_hash := calc_file_hash zl bytes\<rparr>)"

definition zerostate_file ::
  "('m, 'st, 'ex, 'wcs, 'd, 'c, 'vs, 'cc, 'pr, 'tvc, 'n, 'z) zs_lib_scheme \<Rightarrow> bytes \<Rightarrow> string" where
  "zerostate_file zl bytes = lower_hex zl (calc_file_hash zl bytes) @ ''.boc''"

lemma import_workchain_Ok:
  assumes "import_workchain zl mc entry (wcs, states) w = (Ok (wcs', states'), w')"
  shows "\<exists>descr bytes. zerostate_of zl mc entry descr bytes \<and> wc_set zl wcs (fst entry) descr = Ok wcs' \<and>
    trace w' = trace w @ [WroteFile (zerostate_file zl bytes) bytes] \<and>
    files w' = (files w)(zerostate_file zl bytes \<mapsto> bytes)"
  using assms
  by (cases entry) (auto simp: import_workchain_def zerostate_of_def zerostate_file_def ok_iff Let_def)

end
