(* ===== verification/Zerostate_Properties.thy ===== *)
theory Zerostate_Properties
  imports Zerostate Reference_Codecs "HOL-Library.AList"
begin

text \<open>
  What bin/zerostate.rs guarantees: the configuration it imports names, for every workchain, the
  zerostate it wrote for it, and the file it writes for the masterchain is the one config.json
  names by its hashes.
\<close>

section \<open>The import\<close>

text \<open>
  The library's hash map of workchains, seen through a lookup: setting an entry changes this entry
  only, and an iteration meets every entry once.
\<close>

definition workchain_map_laws ::
  "('m, 'st, 'ex, 'wcs, 'd, 'c, 'vs, 'cc, 'pr, 'tvc, 'n, 'z) zs_lib_scheme
     \<Rightarrow> ('wcs \<Rightarrow> i32 \<Rightarrow> 'd wc_descr option) \<Rightarrow> bool" where
  "workchain_map_laws zl lookup \<longleftrightarrow>
     (\<forall>wcs k d wcs'. wc_set zl wcs k d = Ok wcs' \<longrightarrow> lookup wcs' = (lookup wcs)(k \<mapsto> d)) \<and>
     (\<forall>wcs. distinct (map fst (items (wc_entries zl wcs))) \<and>
        (iteration_end (wc_entries zl wcs) = Ok () \<longrightarrow> map_of (items (wc_entries zl wcs)) = lookup wcs))"

lemma import_workchains_Cons:
  assumes "workchain_map_laws zl lookup"
    and "import_workchains zl mc (entry # entries) (wcs, states) w = (Ok (wcs', states'), w')"
  obtains descr bytes wcs1 states1 w1 where
    "zerostate_of zl mc entry descr bytes" "lookup wcs1 = (lookup wcs)(fst entry \<mapsto> descr)"
    "WroteFile (zerostate_file zl bytes) bytes \<in> set (trace w1)" "set (trace w) \<subseteq> set (trace w1)"
    "import_workchains zl mc entries (wcs1, states1) w1 = (Ok (wcs', states'), w')"
proof -
  from assms(2) obtain wcs1 states1 w1 where
    one: "import_workchain zl mc entry (wcs, states) w = (Ok (wcs1, states1), w1)"
    and rest: "import_workchains zl mc entries (wcs1, states1) w1 = (Ok (wcs', states'), w')"
    by (auto simp: ok_iff)
  from import_workchain_Ok [OF one] obtain descr bytes where
    d: "zerostate_of zl mc entry descr bytes" "wc_set zl wcs (fst entry) descr = Ok wcs1"
    "trace w1 = trace w @ [WroteFile (zerostate_file zl bytes) bytes]"
    by (elim exE conjE)
  from assms(1) d(2) have "lookup wcs1 = (lookup wcs)(fst entry \<mapsto> descr)"
    by (simp add: workchain_map_laws_def)
  with that [OF d(1) _ _ _ rest] d(3) show thesis by auto
qed

lemma import_workchains_old:
  assumes "workchain_map_laws zl lookup"
  shows "import_workchains zl mc entries (wcs, states) w = (Ok (wcs', states'), w') \<Longrightarrow>
    set (trace w) \<subseteq> set (trace w') \<and> (k \<notin> fst ` set entries \<longrightarrow> lookup wcs' k = lookup wcs k)"
proof (induction entries arbitrary: wcs states w)
  case (Cons entry entries)
  obtain descr wcs1 states1 w1 where
    "lookup wcs1 = (lookup wcs)(fst entry \<mapsto> descr)" "set (trace w) \<subseteq> set (trace w1)"
    "import_workchains zl mc entries (wcs1, states1) w1 = (Ok (wcs', states'), w')"
    using import_workchains_Cons [OF assms Cons.prems] by metis
  with Cons.IH [of wcs1 states1 w1] show ?case by auto
qed (simp add: io_lift_def)

lemma import_workchains_new:
  assumes "workchain_map_laws zl lookup"
  shows "import_workchains zl mc entries (wcs, states) w = (Ok (wcs', states'), w') \<Longrightarrow>
    distinct (map fst entries) \<Longrightarrow> (k, d) \<in> set entries \<Longrightarrow>
    \<exists>descr bytes. zerostate_of zl mc (k, d) descr bytes \<and> lookup wcs' k = Some descr \<and>
      WroteFile (zerostate_file zl bytes) bytes \<in> set (trace w')"
proof (induction entries arbitrary: wcs states w)
  case (Cons entry entries)
  obtain descr bytes wcs1 states1 w1 where
    s: "zerostate_of zl mc entry descr bytes" "lookup wcs1 = (lookup wcs)(fst entry \<mapsto> descr)"
    "WroteFile (zerostate_file zl bytes) bytes \<in> set (trace w1)"
    and rest: "import_workchains zl mc entries (wcs1, states1) w1 = (Ok (wcs', states'), w')"
    using import_workchains_Cons [OF assms Cons.prems(1)] by metis
  show ?case
  proof (cases "(k, d) = entry")
    case True
    with Cons.prems(2) have "k \<notin> fst ` set entries" by (cases entry) force
    with import_workchains_old [OF assms rest, of k] s True show ?thesis by auto
  next
    case False
    with Cons.prems Cons.IH [OF rest] show ?thesis by auto
  qed
qed simp

lemma import_hashes:
  assumes "workchain_map_laws zl lookup" and "import_zerostate zl json w = (Ok st, w')"
  shows "\<exists>m mc extra wcs wcs' extra' vs cc hash_short.
    map_from_str zl json = Ok m \<and> zs_parse_state zl m = Ok mc \<and> read_custom zl mc = Ok (Some extra) \<and>
    config_workchains zl extra = Ok wcs \<and> set_workchains zl extra wcs' = Ok extra' \<and>
    dom (lookup wcs') = dom (lookup wcs) \<and>
    (\<forall>k d. lookup wcs k = Some d \<longrightarrow> (\<exists>descr bytes. zerostate_of zl mc (k, d) descr bytes \<and>
       lookup wcs' k = Some descr \<and> WroteFile (zerostate_file zl bytes) bytes \<in> set (trace w'))) \<and>
    validator_set zl extra' = Ok vs \<and> catchain_config zl extra' = Ok cc \<and>
    calc_subset zl vs cc 0 (gen_time zl mc) = Ok hash_short \<and>
    write_custom zl mc (set_validator_info zl hash_short True 0 extra') = Ok st"
proof -
  from assms(2) obtain m mc extra wcs wcs' states extra' cc vs hash_short w1 where
    facts: "map_from_str zl json = Ok m" "zs_parse_state zl m = Ok mc" "read_custom zl mc = Ok (Some extra)"
      "config_workchains zl extra = Ok wcs" "set_workchains zl extra wcs' = Ok extra'"
      "validator_set zl extra' = Ok vs" "catchain_config zl extra' = Ok cc"
      "calc_subset zl vs cc 0 (gen_time zl mc) = Ok hash_short"
      "write_custom zl mc (set_validator_info zl hash_short True 0 extra') = Ok st"
    and loop: "import_workchains zl mc (items (wc_entries zl wcs)) (wcs, []) w = (Ok (wcs', states), w')"
    and fin: "iteration_end (wc_entries zl wcs) = Ok ()"
    by (auto simp: import_zerostate_def io_bind_Ok_iff io_lift_Ok_iff Let_def split: option.splits)
  from assms(1) fin have entries: "distinct (map fst (items (wc_entries zl wcs)))"
    "map_of (items (wc_entries zl wcs)) = lookup wcs"
    by (auto simp: workchain_map_laws_def)
  have new: "\<exists>descr bytes. zerostate_of zl mc (k, d) descr bytes \<and> lookup wcs' k = Some descr \<and>
      WroteFile (zerostate_file zl bytes) bytes \<in> set (trace w')" if "lookup wcs k = Some d" for k d
  proof -
    from that entries(2) have "(k, d) \<in> set (items (wc_entries zl wcs))" by (metis map_of_SomeD)
    with import_workchains_new [OF assms(1) loop entries(1)] show ?thesis by blast
  qed
  have "lookup wcs' k = None \<longleftrightarrow> lookup wcs k = None" for k
  proof (cases "lookup wcs k")
    case None
    then have "k \<notin> fst ` set (items (wc_entries zl wcs))"
      by (simp add: map_of_eq_None_iff flip: entries(2))
    with import_workchains_old [OF assms(1) loop, of k] show ?thesis by simp
  qed (use new in auto)
  then have "dom (lookup wcs') = dom (lookup wcs)" by (auto simp: dom_def)
  with facts new show ?thesis by blast
qed

text \<open>
  C11: The imported masterchain zerostate has, for every workchain of the JSON, the hashes of the
  zerostate the tool made for it - empty, with the masterchain's time and global id - and wrote to
  the file named after its hash; no workchain is added or lost, and the validators' hash is the
  one computed from the new configuration.
\<close>

theorem import_sets_workchain_hashes:
  assumes "workchain_map_laws zl lookup" and "import_zerostate zl json w = (Ok st, w')"
  shows "\<exists>m mc extra wcs wcs' extra' vs cc hash_short.
    map_from_str zl json = Ok m \<and> zs_parse_state zl m = Ok mc \<and> read_custom zl mc = Ok (Some extra) \<and>
    config_workchains zl extra = Ok wcs \<and> set_workchains zl extra wcs' = Ok extra' \<and>
    dom (lookup wcs') = dom (lookup wcs) \<and>
    (\<forall>k d. lookup wcs k = Some d \<longrightarrow> (\<exists>descr bytes. zerostate_of zl mc (k, d) descr bytes \<and>
       lookup wcs' k = Some descr \<and> WroteFile (zerostate_file zl bytes) bytes \<in> set (trace w'))) \<and>
    validator_set zl extra' = Ok vs \<and> catchain_config zl extra' = Ok cc \<and>
    calc_subset zl vs cc 0 (gen_time zl mc) = Ok hash_short \<and>
    write_custom zl mc (set_validator_info zl hash_short True 0 extra') = Ok st"
  by (rule import_hashes [OF assms])

section \<open>The masterchain's file\<close>

text \<open>The checks of the written state change nothing.\<close>

interpretation unchanged: world_order "(=)"
  by unfold_locales auto

lemma for_each_unchanged: "(\<And>x. preserves (=) (f x)) \<Longrightarrow> preserves (=) (for_each f xs)"
  by (induction xs) (auto intro!: unchanged.bind_preserves unchanged.lift_preserves)

lemma check_written_unchanged: "preserves (=) (check_written zl bytes)"
  unfolding check_written_def check_slices_def check_prices_def iterate_def
  by (intro unchanged.bind_preserves unchanged.expect_preserves unchanged.lift_preserves for_each_unchanged
      | simp add: case_prod_beta)+

lemma written_named:
  fixes w :: "'n world"
  assumes "codec_library zl" and "write_zero_state zl mc w = (Ok (), w')"
  shows "\<exists>cell bytes text root file j.
    serialize_state zl mc = Ok cell \<and> cell_boc zl cell = Ok bytes \<and>
    files w' (zerostate_file zl bytes) = Some bytes \<and>
    files w' ''config.json'' = Some (as_bytes text) \<and> last (trace w') = Println text \<and>
    zs_json_pretty zl j = Ok text \<and>
    json_path [''zero_state'', ''root_hash''] j = Some (JString root) \<and>
    base64_decode zl root = Ok (uint256_as_slice (repr_hash zl cell)) \<and>
    json_path [''zero_state'', ''file_hash''] j = Some (JString file) \<and>
    base64_decode zl file = Ok (uint256_as_slice (calc_file_hash zl bytes)) \<and>
    (\<exists>w1 w2 :: 'n world. check_written zl bytes w1 = (Ok (), w2))"
proof -
  from assms(2) obtain cell bytes w1 str where
    c: "serialize_state zl mc = Ok cell" "cell_boc zl cell = Ok bytes"
    and check: "check_written zl bytes (w\<lparr>files := (files w)(zerostate_file zl bytes \<mapsto> bytes),
      trace := trace w @ [WroteFile (zerostate_file zl bytes) bytes]\<rparr>) = (Ok (), w1)"
    and str: "zs_json_pretty zl (zero_state_json zl (repr_hash zl cell) (calc_file_hash zl bytes)) = Ok str"
    and w': "files w' = (files w1)(''config.json'' \<mapsto> as_bytes str)" "last (trace w') = Println str"
    by (auto simp: write_zero_state_def ok_iff emit_run Let_def zerostate_file_def)
  let ?j = "zero_state_json zl (repr_hash zl cell) (calc_file_hash zl bytes)"
  have "zerostate_file zl bytes \<noteq> ''config.json''"
    by (auto simp: zerostate_file_def dest!: arg_cong [where f = "\<lambda>s. take 1 (rev s)"])
  moreover from check have "files w1 = (files w)(zerostate_file zl bytes \<mapsto> bytes)"
    using unchanged.preservesD [OF check_written_unchanged check] by auto
  ultimately have "files w' (zerostate_file zl bytes) = Some bytes" "files w' ''config.json'' = Some (as_bytes str)"
    using w'(1) by simp_all
  moreover have "json_path [''zero_state'', ''root_hash''] ?j = Some (JString (base64_encode zl (uint256_as_slice (repr_hash zl cell))))"
    "json_path [''zero_state'', ''file_hash''] ?j = Some (JString (base64_encode zl (uint256_as_slice (calc_file_hash zl bytes))))"
    by (simp_all add: zero_state_json_def)
  moreover have "base64_decode zl (base64_encode zl bs) = Ok bs" for bs
    by (rule codec_library.decode_base64 [OF assms(1)])
  ultimately show ?thesis using c check str w'(2) by blast
qed

text \<open>
  C12: When the tool succeeds, the state's bag of cells is in the file named after its hash, and
  config.json holds, as it was printed, the JSON whose two hashes decode to the hash of the cell
  and the hash of that file; the state read back from the same bytes passed the checks.
\<close>

theorem written_zerostate_is_named:
  fixes w :: "'n world"
  assumes "codec_library zl" and "write_zero_state zl mc w = (Ok (), w')"
  shows "\<exists>cell bytes text root file j.
    serialize_state zl mc = Ok cell \<and> cell_boc zl cell = Ok bytes \<and>
    files w' (zerostate_file zl bytes) = Some bytes \<and>
    files w' ''config.json'' = Some (as_bytes text) \<and> last (trace w') = Println text \<and>
    zs_json_pretty zl j = Ok text \<and>
    json_path [''zero_state'', ''root_hash''] j = Some (JString root) \<and>
    base64_decode zl root = Ok (uint256_as_slice (repr_hash zl cell)) \<and>
    json_path [''zero_state'', ''file_hash''] j = Some (JString file) \<and>
    base64_decode zl file = Ok (uint256_as_slice (calc_file_hash zl bytes)) \<and>
    (\<exists>w1 w2 :: 'n world. check_written zl bytes w1 = (Ok (), w2))"
  by (rule written_named [OF assms])

section \<open>An example\<close>

type_synonym sample_wcs = "(i32 \<times> unit wc_descr) list"

definition sample_descr :: "unit wc_descr" where
  "sample_descr = \<lparr>zerostate_root_hash = 0, zerostate_file_hash = 0, descr_rest = ()\<rparr>"

definition sample_zs ::
  "(unit, nat, sample_wcs, sample_wcs, unit, nat, unit, unit, unit, unit, unit) zs_lib" where
  "sample_zs = codecs.extend rfc4648
     \<lparr>map_from_str = (\<lambda>_. Ok ()), zs_parse_state = (\<lambda>_. Ok 7), gen_time = (\<lambda>_. 5), global_id = (\<lambda>_. 1),
      read_custom = (\<lambda>_. Ok (Some [(0, sample_descr)])), write_custom = (\<lambda>st _. Ok st),
      config_workchains = Ok, wc_entries = (\<lambda>m. \<lparr>items = AList.clearjunk m, iteration_end = Ok ()\<rparr>),
      wc_set = (\<lambda>m k d. Ok ((k, d) # m)), state_for_workchain = (\<lambda>_. Ok 1), set_gen_time = (\<lambda>_ s. s),
      set_global_id = (\<lambda>_ s. s), set_min_ref_mc_seqno = (\<lambda>_ s. s), serialize_state = Ok,
      repr_hash = of_nat, cell_boc = (\<lambda>c. Ok [of_nat c]), calc_file_hash = (\<lambda>bs. of_nat (length bs)),
      lower_hex = (\<lambda>_. ''ff''), set_workchains = (\<lambda>_ m. Ok m), catchain_config = (\<lambda>_. Ok ()),
      validator_set = (\<lambda>_. Ok ()), calc_subset = (\<lambda>_ _ _ _. Ok 9), set_validator_info = (\<lambda>_ _ _ ex. ex),
      zs_state_from_bytes = (\<lambda>_. Ok 7), config_slices = (\<lambda>_. \<lparr>items = [(Ok 1, Ok ())], iteration_end = Ok ()\<rparr>),
      storage_prices = (\<lambda>_. Ok ()), prices_len = (\<lambda>_. Ok 1), prices_get = (\<lambda>_ _. Ok ()),
      zs_json_pretty = (\<lambda>_. Ok ''{}''), state_init_from_file = (\<lambda>_ n. (Ok (None, None), n)),
      update_config_smc = (\<lambda>st _. Ok st), update_elector_smc = (\<lambda>st _ _. Ok st), zs_write_fault = (\<lambda>_. None)\<rparr>"

lemma sample_zs_codecs:
  "hex_decode sample_zs = hex_read" "hex_encode sample_zs = hex_text 97"
  "hex_encode_upper sample_zs = hex_text 65"
  "base64_decode sample_zs = b64_read" "base64_encode sample_zs = b64_text"
  by (simp_all add: sample_zs_def codecs.defs rfc4648_def)

definition zs_world :: "unit world" where
  "zs_world = \<lparr>net = (), files = (\<lambda>_. None), stdin = [], trace = []\<rparr>"

lemma sample_import: "\<exists>w'. import_zerostate sample_zs ''{}'' zs_world = (Ok 7, w')"
  by (simp add: import_zerostate_def sample_zs_def codecs.defs io_bind_def io_lift_def import_workchain_def
      wc_state_def write_file_def zs_world_def sample_descr_def Let_def)

theorem import_sets_workchain_hashes_witness:
  "\<exists>w' descr bytes (mc :: nat). import_zerostate sample_zs ''{}'' zs_world = (Ok 7, w') \<and>
     zerostate_of sample_zs mc (0, sample_descr) descr bytes \<and>
     WroteFile (zerostate_file sample_zs bytes) bytes \<in> set (trace w')"
proof -
  obtain w' where run: "import_zerostate sample_zs ''{}'' zs_world = (Ok 7, w')"
    using sample_import ..
  have laws: "workchain_map_laws sample_zs map_of"
    by (simp add: workchain_map_laws_def sample_zs_def codecs.defs distinct_clearjunk map_of_clearjunk)
  from import_sets_workchain_hashes [OF laws run] obtain m mc extra wcs where
    "read_custom sample_zs mc = Ok (Some extra)" "config_workchains sample_zs extra = Ok wcs"
    and all: "\<forall>k d. map_of wcs k = Some d \<longrightarrow> (\<exists>descr bytes. zerostate_of sample_zs mc (k, d) descr bytes \<and>
       WroteFile (zerostate_file sample_zs bytes) bytes \<in> set (trace w'))"
    by blast
  then have "wcs = [(0, sample_descr)]" by (simp add: sample_zs_def codecs.defs)
  with all have "\<exists>descr bytes. zerostate_of sample_zs mc (0, sample_descr) descr bytes \<and>
       WroteFile (zerostate_file sample_zs bytes) bytes \<in> set (trace w')" by simp
  with run show ?thesis by blast
qed

theorem written_zerostate_is_named_witness:
  "\<exists>w' bytes. write_zero_state sample_zs 7 zs_world = (Ok (), w') \<and>
     files w' (zerostate_file sample_zs bytes) = Some bytes"
proof -
  have lib: "codec_library sample_zs"
    by unfold_locales
      (simp_all add: sample_zs_codecs hex_read_text length_hex_text hex_text_unquoted b64_read_text
        length_b64_text b64_text_unquoted)
  have "\<exists>w'. write_zero_state sample_zs 7 zs_world = (Ok (), w')"
    by (simp add: write_zero_state_def sample_zs_def codecs.defs io_bind_def io_lift_def io_expect_def expect_def
        write_file_def check_written_def check_slices_def iterate_def check_prices_def emit_def Let_def zs_world_def)
  then obtain w' where run: "write_zero_state sample_zs 7 zs_world = (Ok (), w')" ..
  from written_zerostate_is_named [OF lib run] run show ?thesis by blast
qed

end
