(* ===== verification/Zerostate_Output.thy ===== *)
theory Zerostate_Output
  imports Zerostate_Properties
begin

text \<open>
  What a whole run of bin/zerostate.rs leaves on disk. Every file it writes but config.json is named
  after the hash of its contents (\<open>addressed\<close>, a \<open>world_order\<close> that its calls keep when they succeed), so that a
  later file can replace an earlier one only by contents of the same hash; and config.json is
  written after everything that can fail (\<open>marks_success\<close>).
\<close>

section \<open>Files named after their contents\<close>

definition addressed_event ::
  "('m, 'st, 'ex, 'wcs, 'd, 'c, 'vs, 'cc, 'pr, 'tvc, 'n, 'z) zs_lib_scheme \<Rightarrow> event \<Rightarrow> bool" where
  "addressed_event zl e \<longleftrightarrow>
     (case e of
        WroteFile path data \<Rightarrow> path = ''config.json'' \<or> path = zerostate_file zl data
      | CutFile path data \<Rightarrow> False
      | _ \<Rightarrow> True)"

definition addressed ::
  "('m, 'st, 'ex, 'wcs, 'd, 'c, 'vs, 'cc, 'pr, 'tvc, 'n, 'z) zs_lib_scheme \<Rightarrow> 'n world \<Rightarrow> 'n world \<Rightarrow> bool" where
  "addressed zl w w' \<longleftrightarrow>
     (\<exists>es. trace w' = trace w @ es \<and> files w' = fold file_effect es (files w) \<and> list_all (addressed_event zl) es)"

lemma addressedI:
  "trace w' = trace w @ es \<Longrightarrow> files w' = fold file_effect es (files w) \<Longrightarrow> list_all (addressed_event zl) es \<Longrightarrow>
     addressed zl w w'"
  by (auto simp: addressed_def)

lemma addressed_refl: "addressed zl w w"
  by (rule addressedI [of _ _ "[]"]) simp_all

lemma addressed_trans: "addressed zl u v \<Longrightarrow> addressed zl v w \<Longrightarrow> addressed zl u w"
  by (auto simp: addressed_def)

interpretation content_order: world_order "addressed zl"
  for zl :: "('m, 'st, 'ex, 'wcs, 'd, 'c, 'vs, 'cc, 'pr, 'tvc, 'n, 'z) zs_lib_scheme"
  by unfold_locales (auto intro: addressed_refl addressed_trans)

lemma write_file_addressed:
  "path = ''config.json'' \<or> path = zerostate_file zl data \<Longrightarrow> on_success (addressed zl) (write_file fault path data)"
  by (auto simp: on_success_def write_file_Ok_iff addressed_event_def
      intro!: addressedI [of _ _ "[WroteFile path data]"])

lemma call_addressed: "on_success (addressed zl) (call f)"
  by (auto simp: on_success_def call_Ok_iff intro!: addressedI [of _ _ "[]"])

lemma fs_read_addressed: "on_success (addressed zl) (fs_read path)"
  by (auto simp: on_success_def fs_read_Ok_iff addressed_refl)

lemma println_addressed: "on_success (addressed zl) (println s)"
  by (auto simp: on_success_def emit_def addressed_event_def intro!: addressedI [of _ _ "[Println s]"])

lemma check_written_addressed: "on_success (addressed zl) (check_written zl bytes)"
  using unchanged.preservesD [OF check_written_unchanged] by (metis on_success_def addressed_refl)

lemmas basic_addressed =
  content_order.bind_on_success content_order.lift_on_success content_order.expect_on_success call_addressed
  fs_read_addressed println_addressed check_written_addressed

lemma import_workchain_addressed: "on_success (addressed zl) (import_workchain zl mc entry acc)"
  unfolding import_workchain_def Let_def
  by (auto simp: case_prod_beta zerostate_file_def intro!: basic_addressed write_file_addressed)

lemma import_workchains_addressed: "on_success (addressed zl) (import_workchains zl mc entries acc)"
  by (induction entries arbitrary: acc) (auto intro!: basic_addressed import_workchain_addressed)

lemma import_zerostate_addressed: "on_success (addressed zl) (import_zerostate zl json)"
  unfolding import_zerostate_def Let_def
  by (auto simp: case_prod_beta intro!: basic_addressed import_workchains_addressed)

lemma write_zero_state_addressed: "on_success (addressed zl) (write_zero_state zl mc)"
  unfolding write_zero_state_def Let_def
  by (auto simp: zerostate_file_def intro!: basic_addressed write_file_addressed)

text \<open>A file that was written at some time holds in the end what the last write of its name put there.\<close>

lemma fold_file_effect_written:
  "WroteFile p d \<in> set es \<Longrightarrow> (\<And>p d. CutFile p d \<notin> set es) \<Longrightarrow> \<exists>d'. WroteFile p d' \<in> set es \<and> fold file_effect es fs p = Some d'"
proof (induction es arbitrary: fs rule: rev_induct)
  case (snoc e es)
  show ?case
  proof (cases "\<exists>d'. e = WroteFile p d'")
    case True
    then show ?thesis by auto
  next
    case False
    with snoc.prems have "WroteFile p d \<in> set es" and "\<And>p d. CutFile p d \<notin> set es" by auto
    with snoc.IH [of fs] obtain d' where "WroteFile p d' \<in> set es" "fold file_effect es fs p = Some d'" by blast
    with False snoc.prems(2) show ?thesis by (cases e) auto
  qed
qed simp

lemma zerostate_file_not_config: "zerostate_file zl bytes \<noteq> ''config.json''"
  by (auto simp: zerostate_file_def dest!: arg_cong [where f = "\<lambda>s. take 1 (rev s)"])

lemma addressed_file:
  assumes "addressed zl w w'" and "inj (lower_hex zl)" and "trace w = []"
    and "WroteFile (zerostate_file zl bytes) bytes \<in> set (trace w')"
  shows "\<exists>data. files w' (zerostate_file zl bytes) = Some data \<and> calc_file_hash zl data = calc_file_hash zl bytes"
proof -
  from assms(1,3) obtain es where es: "trace w' = es" "files w' = fold file_effect es (files w)"
    "list_all (addressed_event zl) es" by (auto simp: addressed_def)
  have "CutFile p d \<notin> set es" for p d
    using es(3) by (auto simp: list_all_iff addressed_event_def)
  with assms(4) es fold_file_effect_written [of "zerostate_file zl bytes" bytes es "files w"] obtain data where
    d: "WroteFile (zerostate_file zl bytes) data \<in> set es" "files w' (zerostate_file zl bytes) = Some data"
    by auto
  from es(3) d(1) have "addressed_event zl (WroteFile (zerostate_file zl bytes) data)"
    unfolding list_all_iff by (rule bspec)
  then have "zerostate_file zl bytes = zerostate_file zl data"
    by (simp add: addressed_event_def zerostate_file_not_config)
  with assms(2) have "calc_file_hash zl data = calc_file_hash zl bytes"
    by (simp add: zerostate_file_def inj_eq)
  with d(2) show ?thesis by blast
qed

section \<open>A whole run\<close>

text \<open>The state that is written: the imported one with the two contracts' code and data put in.\<close>

definition contracts_put_in ::
  "('m, 'st, 'ex, 'wcs, 'd, 'c, 'vs, 'cc, 'pr, 'tvc, 'n, 'z) zs_lib_scheme \<Rightarrow> zs_args \<Rightarrow> 'st \<Rightarrow> 'st \<Rightarrow> bool" where
  "contracts_put_in zl args imported final \<longleftrightarrow>
     (\<exists>code state. update_config_smc zl imported code = Ok state \<and> (zs_config args = None \<longrightarrow> code = None) \<and>
        (case zs_elector args of
           None \<Rightarrow> final = state
         | Some _ \<Rightarrow> \<exists>code' data'. update_elector_smc zl state code' data' = Ok final))"

lemma zerostate_main_Ok:
  assumes "zerostate_main zl args w = (Ok (), w')"
  obtains contents json imported w1 final w2 where
    "files w (zs_input args) = Some contents" "string_from_utf8 contents = Ok json"
    "import_zerostate zl json w = (Ok imported, w1)" "contracts_put_in zl args imported final"
    "trace w2 = trace w1" "files w2 = files w1" "write_zero_state zl final w2 = (Ok (), w')"
proof -
  from assms obtain contents json imported w1 code w3 state final w2 where
    in_: "files w (zs_input args) = Some contents" "string_from_utf8 contents = Ok json"
    and imp: "import_zerostate zl json w = (Ok imported, w1)"
    and code: "(case zs_config args of
         Some file_name \<Rightarrow> io_bind (tvc_from_file zl ''config'' file_name) (\<lambda>(code, data). io_ok code)
       | None \<Rightarrow> io_ok None) w1 = (Ok code, w3)"
    and state: "update_config_smc zl imported code = Ok state"
    and elector: "(case zs_elector args of
         Some file_name \<Rightarrow>
           io_bind (tvc_from_file zl ''elector'' file_name) (\<lambda>(code, data).
           io_lift (expect unwrap_msg (update_elector_smc zl state code data)))
       | None \<Rightarrow> io_ok state) w3 = (Ok final, w2)"
    and out: "write_zero_state zl final w2 = (Ok (), w')"
    by (auto simp: zerostate_main_def io_bind_Ok_iff io_lift_Ok_iff io_expect_Ok_iff expect_Ok_iff fs_read_Ok_iff)
  from code have 1: "trace w3 = trace w1 \<and> files w3 = files w1 \<and> (zs_config args = None \<longrightarrow> code = None)"
    by (auto simp: tvc_from_file_def io_bind_Ok_iff io_lift_Ok_iff io_expect_Ok_iff call_Ok_iff case_prod_beta
        split: option.splits)
  from elector have 2: "trace w2 = trace w3 \<and> files w2 = files w3"
    by (auto simp: tvc_from_file_def io_bind_Ok_iff io_lift_Ok_iff io_expect_Ok_iff call_Ok_iff case_prod_beta
        split: option.splits)
  from elector have "case zs_elector args of None \<Rightarrow> final = state
      | Some _ \<Rightarrow> \<exists>code' data'. update_elector_smc zl state code' data' = Ok final"
    by (auto simp: io_bind_Ok_iff io_lift_Ok_iff expect_Ok_iff case_prod_beta split: option.splits)
  with 1 state have "contracts_put_in zl args imported final"
    unfolding contracts_put_in_def by (intro exI [of _ code] exI [of _ state] conjI) simp_all
  with that [OF in_ imp _ _ _ out] 1 2 show thesis by simp
qed

text \<open>
  C5: A run of zerostate that succeeds leaves a complete set of files: for every workchain of the
  JSON a file named by the file hash that the written configuration gives it, with contents of this
  hash, and for the masterchain a file named by the hash in config.json, with contents of this
  hash; no later file of the run spoils an earlier one.
\<close>

theorem zerostate_files_complete:
  fixes w :: "'n world"
  assumes "workchain_map_laws zl lookup" and "codec_library zl" and "inj (lower_hex zl)" and "trace w = []"
    and "zerostate_main zl args w = (Ok (), w')"
  shows "\<exists>contents json m mc extra wcs wcs' extra' hash_short imported final cell bytes str name j.
    files w (zs_input args) = Some contents \<and> string_from_utf8 contents = Ok json \<and>
    map_from_str zl json = Ok m \<and> zs_parse_state zl m = Ok mc \<and> read_custom zl mc = Ok (Some extra) \<and>
    config_workchains zl extra = Ok wcs \<and> set_workchains zl extra wcs' = Ok extra' \<and>
    write_custom zl mc (set_validator_info zl hash_short True 0 extra') = Ok imported \<and>
    contracts_put_in zl args imported final \<and>
    (\<forall>k d. lookup wcs k = Some d \<longrightarrow> (\<exists>descr data. lookup wcs' k = Some descr \<and>
       files w' (lower_hex zl (zerostate_file_hash descr) @ ''.boc'') = Some data \<and>
       calc_file_hash zl data = zerostate_file_hash descr)) \<and>
    serialize_state zl final = Ok cell \<and> cell_boc zl cell = Ok bytes \<and>
    files w' (zerostate_file zl bytes) = Some bytes \<and>
    files w' ''config.json'' = Some (as_bytes str) \<and> zs_json_pretty zl j = Ok str \<and>
    json_path [''zero_state'', ''file_hash''] j = Some (JString name) \<and>
    base64_decode zl name = Ok (uint256_as_slice (calc_file_hash zl bytes))"
proof -
  from assms(5) obtain contents json imported w1 final w2 where
    input: "files w (zs_input args) = Some contents" "string_from_utf8 contents = Ok json"
    and imp: "import_zerostate zl json w = (Ok imported, w1)" and put: "contracts_put_in zl args imported final"
    and same: "trace w2 = trace w1" "files w2 = files w1" and out: "write_zero_state zl final w2 = (Ok (), w')"
    by (rule zerostate_main_Ok)
  from on_successD [OF import_zerostate_addressed imp] same have "addressed zl w w2"
    by (simp add: addressed_def)
  then have run: "addressed zl w w'"
    by (rule addressed_trans [OF _ on_successD [OF write_zero_state_addressed out]])
  have later: "set (trace w1) \<subseteq> set (trace w')"
    using on_successD [OF write_zero_state_addressed out] same by (auto simp: addressed_def)
  from import_hashes [OF assms(1) imp] obtain m mc extra wcs wcs' extra' hash_short where
    facts: "map_from_str zl json = Ok m" "zs_parse_state zl m = Ok mc" "read_custom zl mc = Ok (Some extra)"
      "config_workchains zl extra = Ok wcs" "set_workchains zl extra wcs' = Ok extra'"
      "write_custom zl mc (set_validator_info zl hash_short True 0 extra') = Ok imported"
    and wc: "\<forall>k d. lookup wcs k = Some d \<longrightarrow> (\<exists>descr bytes. zerostate_of zl mc (k, d) descr bytes \<and>
       lookup wcs' k = Some descr \<and> WroteFile (zerostate_file zl bytes) bytes \<in> set (trace w1))"
    by (elim exE conjE)
  have all: "\<exists>descr data. lookup wcs' k = Some descr \<and>
      files w' (lower_hex zl (zerostate_file_hash descr) @ ''.boc'') = Some data \<and>
      calc_file_hash zl data = zerostate_file_hash descr" if "lookup wcs k = Some d" for k d
  proof -
    from wc that obtain descr bytes where d: "zerostate_of zl mc (k, d) descr bytes" "lookup wcs' k = Some descr"
      "WroteFile (zerostate_file zl bytes) bytes \<in> set (trace w1)" by blast
    from d(1) have "zerostate_file_hash descr = calc_file_hash zl bytes"
      by (auto simp: zerostate_of_def)
    with d addressed_file [OF run assms(3,4), of bytes] later show ?thesis by (auto simp: zerostate_file_def)
  qed
  from written_named [OF assms(2) out] obtain cell bytes str name j where
    "serialize_state zl final = Ok cell" "cell_boc zl cell = Ok bytes" "files w' (zerostate_file zl bytes) = Some bytes"
    "files w' ''config.json'' = Some (as_bytes str)" "zs_json_pretty zl j = Ok str"
    "json_path [''zero_state'', ''file_hash''] j = Some (JString name)"
    "base64_decode zl name = Ok (uint256_as_slice (calc_file_hash zl bytes))"
    by (elim exE conjE)
  with input facts put all show ?thesis by blast
qed

section \<open>config.json is written last\<close>

text \<open>
  \<open>marks_success m\<close>: when config.json is written, and not cut off, during \<open>m\<close>, then \<open>m\<close> succeeds. A chain of calls that
  leave it alone may come before such a call.
\<close>

definition marked :: "'n world \<Rightarrow> bool" where
  "marked w \<longleftrightarrow> (\<exists>data. WroteFile ''config.json'' data \<in> set (trace w))"

definition unmarking :: "'n world \<Rightarrow> 'n world \<Rightarrow> bool" where
  "unmarking w w' \<longleftrightarrow> (marked w' \<longrightarrow> marked w)"

definition marks_success :: "('n world, 'a) io \<Rightarrow> bool" where
  "marks_success m \<longleftrightarrow> (\<forall>w r w'. m w = (r, w') \<longrightarrow> \<not> marked w \<longrightarrow> marked w' \<longrightarrow> (\<exists>a. r = Ok a))"

interpretation mark_order: world_order unmarking
  by unfold_locales (auto simp: unmarking_def)

lemma same_trace_unmarking: "(\<And>w. trace (snd (m w)) = trace w) \<Longrightarrow> preserves unmarking m"
  by (simp add: preserves_def unmarking_def marked_def)

lemma call_unmarking: "preserves unmarking (call f)"
  by (rule same_trace_unmarking) (simp add: call_def case_prod_beta)

lemma fs_read_unmarking: "preserves unmarking (fs_read path)"
  by (rule same_trace_unmarking) (simp add: fs_read_def split: option.splits)

lemma check_written_unmarking: "preserves unmarking (check_written zl bytes)"
  using check_written_unchanged [of zl bytes] unfolding preserves_def unmarking_def by metis

lemma write_file_unmarking: "path \<noteq> ''config.json'' \<Longrightarrow> preserves unmarking (write_file fault path data)"
  by (auto simp: preserves_def unmarking_def marked_def write_file_def split: option.splits fs_fault.splits)

lemma zerostate_write_unmarking: "preserves unmarking (write_file fault (lower_hex zl h @ ''.boc'') data)"
  by (rule write_file_unmarking) (auto dest!: arg_cong [where f = "\<lambda>s. take 1 (rev s)"])

lemmas basic_unmarking =
  mark_order.bind_preserves mark_order.lift_preserves mark_order.expect_preserves call_unmarking
  fs_read_unmarking check_written_unmarking zerostate_write_unmarking

lemma import_workchains_unmarking: "preserves unmarking (import_workchains zl mc entries acc)"
  by (induction entries arbitrary: acc)
    (auto simp: import_workchain_def Let_def case_prod_beta intro!: basic_unmarking)

lemma import_zerostate_unmarking: "preserves unmarking (import_zerostate zl json)"
  unfolding import_zerostate_def Let_def
  by (auto simp: case_prod_beta intro!: basic_unmarking import_workchains_unmarking)

lemma tvc_from_file_unmarking: "preserves unmarking (tvc_from_file zl kind file_name)"
  unfolding tvc_from_file_def by (intro basic_unmarking)

lemma marks_success_bind:
  assumes "preserves unmarking m" and "\<And>a. marks_success (f a)"
  shows "marks_success (io_bind m f)"
  unfolding marks_success_def
proof (intro allI impI)
  fix w r w' assume run: "io_bind m f w = (r, w')" and m: "\<not> marked w" "marked w'"
  obtain q w1 where one: "m w = (q, w1)" by fastforce
  with mark_order.preservesD [OF assms(1) one] m(1) have "\<not> marked w1" by (simp add: unmarking_def)
  with run one m(2) assms(2) show "\<exists>a. r = Ok a"
    by (cases q) (auto simp: io_bind_def marks_success_def)
qed

lemma marks_success_expect: "marks_success m \<Longrightarrow> marks_success (io_expect msg m)"
  by (auto simp: marks_success_def io_expect_def split: prod.splits result.splits)

lemma config_write_marks_success: "marks_success (io_bind (write_file fault path data) (\<lambda>_. println s))"
  by (auto simp: marks_success_def io_bind_def write_file_def emit_def marked_def
      split: option.splits fs_fault.splits)

lemma write_zero_state_marks_success: "marks_success (write_zero_state zl mc)"
  unfolding write_zero_state_def Let_def
  by (intro marks_success_bind config_write_marks_success basic_unmarking)

lemma zerostate_main_marks_success: "marks_success (zerostate_main zl args)"
  unfolding zerostate_main_def
  by (intro marks_success_bind marks_success_expect write_zero_state_marks_success basic_unmarking
      import_zerostate_unmarking)
    (auto simp: case_prod_beta split: option.splits intro!: basic_unmarking tvc_from_file_unmarking)

text \<open>
  C6: config.json is written in full exactly by the runs that succeed, whatever fails or panics on the way:
  who finds it in place finds the files it names too, and a state that did not pass the checks
  of \<open>check_written\<close> never gets one.
\<close>

theorem config_file_marks_success:
  assumes "trace w = []" and "zerostate_main zl args w = (r, w')"
  shows "(\<exists>data. WroteFile ''config.json'' data \<in> set (trace w')) \<longleftrightarrow> r = Ok ()"
proof
  assume "\<exists>data. WroteFile ''config.json'' data \<in> set (trace w')"
  with assms zerostate_main_marks_success [of zl args] show "r = Ok ()"
    by (auto simp: marks_success_def marked_def)
next
  assume "r = Ok ()"
  with assms(2) obtain final w2 where "write_zero_state zl final w2 = (Ok (), w')"
    by (auto elim: zerostate_main_Ok)
  then show "\<exists>data. WroteFile ''config.json'' data \<in> set (trace w')"
    by (auto simp: write_zero_state_def ok_iff emit_run Let_def)
qed

section \<open>An example\<close>

definition hex_zs :: "(unit, nat, sample_wcs, sample_wcs, unit, nat, unit, unit, unit, unit, unit) zs_lib" where
  "hex_zs = sample_zs\<lparr>lower_hex := \<lambda>h. hex_text 97 (uint256_as_slice h)\<rparr>"

definition hex_args :: zs_args where
  "hex_args = \<lparr>zs_input = ''zero.json'', zs_config = None, zs_elector = Some ''elector.tvc''\<rparr>"

definition hex_world :: "unit world" where
  "hex_world = zs_world\<lparr>files := [''zero.json'' \<mapsto> as_bytes ''{}'']\<rparr>"

lemma inj_hex_zs: "inj (lower_hex hex_zs)"
proof (rule injI)
  fix x y assume "lower_hex hex_zs x = lower_hex hex_zs y"
  then have "hex_read (hex_text 97 (uint256_as_slice x)) = hex_read (hex_text 97 (uint256_as_slice y))"
    by (simp add: hex_zs_def)
  then show "x = y" by (metis hex_read_text result.inject(1) uint256_roundtrip)
qed

lemma sample_run: "\<exists>w'. zerostate_main hex_zs hex_args hex_world = (Ok (), w')"
  by (simp add: zerostate_main_def import_zerostate_def import_workchain_def wc_state_def tvc_from_file_def
        hex_zs_def hex_args_def hex_world_def zs_world_def sample_zs_def codecs.defs fs_read_def call_def
        string_from_utf8_def as_bytes_def write_zero_state_def
        io_bind_def io_lift_def io_expect_def expect_def write_file_def check_written_def check_slices_def
        iterate_def check_prices_def emit_def sample_descr_def Let_def)

theorem zerostate_files_complete_witness:
  "\<exists>w' (bytes :: bytes) str. zerostate_main hex_zs hex_args hex_world = (Ok (), w') \<and>
     files w' (zerostate_file hex_zs bytes) = Some bytes \<and> files w' ''config.json'' = Some (as_bytes str)"
proof -
  have lib: "codec_library hex_zs"
    by unfold_locales
      (simp_all add: hex_zs_def sample_zs_codecs hex_read_text length_hex_text hex_text_unquoted b64_read_text
        length_b64_text b64_text_unquoted)
  have laws: "workchain_map_laws hex_zs map_of"
    by (simp add: workchain_map_laws_def hex_zs_def sample_zs_def codecs.defs distinct_clearjunk map_of_clearjunk)
  obtain w' where run: "zerostate_main hex_zs hex_args hex_world = (Ok (), w')"
    using sample_run ..
  from zerostate_files_complete [OF laws lib inj_hex_zs _ run] run show ?thesis
    by (auto simp: hex_world_def zs_world_def)
qed

theorem config_file_marks_success_witness:
  "\<exists>w'. zerostate_main hex_zs hex_args hex_world = (Ok (), w') \<and>
     (\<exists>data. WroteFile ''config.json'' data \<in> set (trace w'))"
proof -
  obtain w' where run: "zerostate_main hex_zs hex_args hex_world = (Ok (), w')"
    using sample_run ..
  from config_file_marks_success [OF _ run] run show ?thesis
    by (auto simp: hex_world_def zs_world_def)
qed

end
