(* ===== verification/Spec2Isabelle.thy ===== *)
theory Spec2Isabelle
  imports Election_Properties Console_Properties Main_Properties Console_Panics Console_Text Resolve_Properties
    Dhtscan_Properties Key_Properties Adnl_Ping Print_Properties Zerostate_Output
begin

text \<open>
  \<^bold>\<open>ever-node-tools: a model of the nine command-line tools under src/bin/\<close>

  The repository holds the command-line tools of a TON (Everscale) node. They share no code of
  their own: each is one file with a \<open>main\<close>, working over the node's libraries (ADNL, DHT, overlay,
  the control protocol, the block and cell library, \<open>serde_json\<close>, \<open>hex\<close>, \<open>base64\<close>, \<open>shell_words\<close>,
  \<open>clap\<close>). This development translates the tools' own code and takes every library that is not
  under src/ as a parameter: a field of a record of functions (\<open>env\<close>, \<open>cells\<close>, \<open>dht_lib\<close>,
  \<open>overlay_lib\<close>, \<open>ping_lib\<close>, \<open>key_lib\<close>, \<open>gen_lib\<close>, \<open>gendht_lib\<close>, \<open>print_lib\<close>, \<open>zs_lib\<close>), with what the
  code relies on stated as a named law where a property needs one (\<open>codec_library\<close> for hex and
  base64, \<open>one_key_library\<close> for keys, \<open>workchain_map_laws\<close> for the hash map of workchains,
  \<open>calm_env\<close>, \<open>calm_cells\<close>, \<open>calm_zerostates\<close> and
  \<open>calm_dht\<close> for libraries that do not panic). The parts of Rust's standard library the tools use are modelled.

  \<^bold>\<open>How calls are modelled.\<close> A fallible call returns \<open>result\<close>: a value (\<open>Ok\<close>), an error (\<open>Err\<close>, with
  the datatype \<open>error\<close>) or a panic (\<open>Panic\<close>), so that every \<open>?\<close>, \<open>fail!\<close>, \<open>unwrap\<close>, \<open>expect\<close>, slice out of
  range and checked overflow is a branch. A call with effects is a function on a \<open>world\<close>: the state of
  everything outside the process (\<open>net\<close>, on which the network libraries act), the files, the lines
  waiting on standard input, and the trace of visible effects in their order (queries, written files,
  printed lines, sleeps). \<open>io_bind\<close> is \<open>?\<close> in a sequence; effects made before an error stay made.
  \<open>std::fs::write\<close> (\<open>write_file\<close>) truncates before it writes: a write that fails leaves the file alone
  when it cannot be opened, and the head of the data when the write is cut off (\<open>fs_fault\<close>, event \<open>CutFile\<close>).
  Machine integers are words of their width; a Rust \<open>loop\<close> that need not end is a partial function
  into \<open>option\<close> whose value is \<open>None\<close> when it runs for ever, so no fuel is used anywhere.

  \<^bold>\<open>Shared theories.\<close>
  \<^item> Prelude: outcomes, effectful calls, the combinators and the collections the proofs are driven by
    (\<open>run\<close> evaluates, \<open>ok_iff\<close> inverts a success, \<open>calm\<close> shows that a call does not panic); the locale \<open>world_order\<close>, in which a relation between the world before and
    after is inherited by chains of calls, or by those of their calls that succeed (\<open>on_success\<close>; interpreted for
    the trace, for the files, for well-formed output, for files named after their hash, for the file
    that is written last and for equality).
  \<^item> Rust_Std: numerals and \<open>from_str\<close>, \<open>trim_matches\<close>, \<open>trim_end\<close>, UTF-8, big-endian bytes,
    subtraction with overflow checks, casts, the few \<open>f32\<close> operations; the locales \<open>text_form\<close> (printed
    and read back) and \<open>fixed_codec\<close> (laid out in a fixed number of bytes), each interpreted on the
    definitions. Float_Facts relates the \<open>f32\<close> operations to real numbers.
  \<^item> Reference_Codecs: hex and base64 as in RFC 4648, an instance of the law \<open>codec_library\<close>.
  \<^item> Loops: \<open>io_loop\<close>, the same loop as the step relation \<open>turns\<close>, and the locales \<open>loop_invariant\<close>, \<open>loop_measure\<close> and \<open>loop_forever\<close>, interpreted on
    the loop of adnl_resolve.
  \<^item> Tools_World and Dht_Json: what the small tools share.

  \<^bold>\<open>bin/console.rs.\<close> The console connects to a node and runs commands, each a query built from its
  parameters and an answer turned into text and bytes.
  \<^item> Console_World: the protocol's objects, the environment, the world. Console_Params: \<open>parse_any\<close> and
    its instances. Console_Stats: \<open>stats_to_json\<close>. Console_Commands: the \<open>commands!\<close> table.
    Console_Send and Console_Receive: the two halves of every \<open>SendReceive\<close> implementation.
  \<^item> Console_Client: \<open>process_command\<close> (one round trip) and \<open>process_recover_stake\<close>. Console_Election:
    \<open>process_election_bid\<close>, named after its blocks. Console_Main: \<open>process_config_param\<close>, the dispatch of
    a command line, the batch and interactive loops, \<open>main\<close>.
  \<^item> Console_Properties, Election_Properties and Main_Properties: parameters and spellings read back,
    a command asks once, the files and texts of the account commands; the contract of an
    election bid (\<open>bid_contract\<close>) and its refusals; the batch's reports, the interactive loop as a
    fold (\<open>session\<close>), the recovery message. Console_Demo is the concrete
    environment their witnesses run in.
  \<^item> Console_Panics: every command is a call that does not panic, which leaves the command line without
    a word. Console_Text: the type invariant of Rust's strings, well-formed UTF-8 (\<open>rust_string\<close>), from
    the answers and the command line through every receiver to what is printed.

  \<^bold>\<open>The other tools.\<close>
  \<^item> Adnl_Resolve and Resolve_Properties (bin/adnl_resolve.rs): the search loop over the record
    \<open>search\<close> of its variables; its reachable states and their invariant (\<open>search_inv\<close>), the nets on which it ends (\<open>dead_net\<close>, by the measure of
    keys not yet bad and nodes left) and on which it never does (\<open>busy_net\<close>).
  \<^item> Dhtscan and Dhtscan_Properties (bin/dhtscan.rs): arguments, the overlay loop with its hash map as
    an association list (walked in the order \<open>hash_order\<close>), the report; the rounds of the library's search (\<open>searched\<close>), whose
    keys the loop gathers, counts and lists, and with whose end it ends.
  \<^item> Adnl_Ping (bin/adnl_ping.rs); Key_Tools and Key_Properties (bin/keyid.rs, bin/keygen.rs,
    bin/gendht.rs), with keyid confirming what keygen printed; Print_Tool and Print_Properties (bin/print.rs): the JSON list of accounts;
    Zerostate and Zerostate_Properties (bin/zerostate.rs): the loop over the workchains, the written
    files and the checks; Zerostate_Output: what a whole run leaves on disk, and config.json as the
    mark of its success.

  \<^bold>\<open>What is not modelled.\<close> The declaration of command-line options to \<open>clap\<close> (the models take what it
  returns), logging (\<open>log::trace!\<close>, \<open>init_log\<close> of the submodule common, the \<open>--verbose\<close> logger), the texts
  of Rust's panics beyond their literal part, and the debug text of requests and answers in error
  messages. Printing does not fail, and whether a write to a path fails, and where it is cut off,
  does not change during a run. Strings are lists of 8-bit characters, the bytes of their UTF-8 form.

  \<^bold>\<open>What the theorems show about faults.\<close> The contract of the bid makes visible that the validator's
  ADNL address is registered with the start of the elections as its expiration
  (\<open>key_requests\<close>); \<open>interactive_is_session\<close> that the interactive loop spins at the end of its input;
  \<open>panics_exactly_on_blank_command\<close>, \<open>resolve_panics_only_on_short_id\<close> and \<open>fewer_known_than_configured\<close>
  the inputs that panic; \<open>recover_stake_message\<close> the query ids after 2038.
\<close>

end
